(* ===== verification/Prelude.thy ===== *)
theory Prelude
  imports Main "HOL-Library.Word" "HOL-Library.Monad_Syntax"
begin

text \<open>
  Shared vocabulary of the development: machine words, bytes in memory, the
  loads a program does on a byte buffer (with the out-of-bounds access as a
  value), the little-endian representation of words, decimal printing and the
  collections of hints the component theories add to.

  A buffer is a \<open>u8 list\<close>. An address in it is an offset from its start. A load
  outside the buffer is \<open>None\<close>: that is how a memory fault is visible in the
  results of the models built on these loads.
\<close>

type_synonym u8 = "8 word"
type_synonym u16 = "16 word"
type_synonym u32 = "32 word"
type_synonym u64 = "64 word"

named_theorems layout_defs "definitions of structure layouts"
named_theorems load_simps "evaluation of loads on buffers"
named_theorems wf_intros "introduction rules of well-formedness invariants"

section \<open>Loads from a byte buffer\<close>

definition load8 :: "u8 list \<Rightarrow> nat \<Rightarrow> u8 option" where
  "load8 bs off = (if off < length bs then Some (bs ! off) else None)"

text \<open>The target is little endian (the kernel Makefile passes \<open>__LITTLE_ENDIAN_BITFIELD\<close>).\<close>

definition le16 :: "u8 \<Rightarrow> u8 \<Rightarrow> u16" where
  "le16 b0 b1 = word_cat b1 b0"

definition le32 :: "u8 \<Rightarrow> u8 \<Rightarrow> u8 \<Rightarrow> u8 \<Rightarrow> u32" where
  "le32 b0 b1 b2 b3 = word_cat (le16 b2 b3) (le16 b0 b1)"

definition le64 :: "u32 \<Rightarrow> u32 \<Rightarrow> u64" where
  "le64 lo hi = word_cat hi lo"

definition load16 :: "u8 list \<Rightarrow> nat \<Rightarrow> u16 option" where
  "load16 bs off = do {
     b0 \<leftarrow> load8 bs off;
     b1 \<leftarrow> load8 bs (off + 1);
     Some (le16 b0 b1) }"

definition load32 :: "u8 list \<Rightarrow> nat \<Rightarrow> u32 option" where
  "load32 bs off = do {
     b0 \<leftarrow> load8 bs off;
     b1 \<leftarrow> load8 bs (off + 1);
     b2 \<leftarrow> load8 bs (off + 2);
     b3 \<leftarrow> load8 bs (off + 3);
     Some (le32 b0 b1 b2 b3) }"

definition load64 :: "u8 list \<Rightarrow> nat \<Rightarrow> u64 option" where
  "load64 bs off = do {
     lo \<leftarrow> load32 bs off;
     hi \<leftarrow> load32 bs (off + 4);
     Some (le64 lo hi) }"

lemma load8_in [load_simps]: "off < length bs \<Longrightarrow> load8 bs off = Some (bs ! off)"
  by (simp add: load8_def)

lemma load16_in [load_simps]:
  "off + 2 \<le> length bs \<Longrightarrow> load16 bs off = Some (le16 (bs ! off) (bs ! (off + 1)))"
  by (simp add: load16_def load8_def)

lemma load32_in [load_simps]:
  "off + 4 \<le> length bs \<Longrightarrow>
   load32 bs off = Some (le32 (bs ! off) (bs ! (off + 1)) (bs ! (off + 2)) (bs ! (off + 3)))"
  by (simp add: load32_def load8_def)

lemma load8_None_iff: "load8 bs off = None \<longleftrightarrow> length bs \<le> off"
  by (auto simp: load8_def)

lemma load16_None_iff: "load16 bs off = None \<longleftrightarrow> length bs < off + 2"
  by (auto simp: load16_def load8_def bind_eq_None_conv split: if_splits)

lemma load32_None_iff: "load32 bs off = None \<longleftrightarrow> length bs < off + 4"
  by (auto simp: load32_def load8_def bind_eq_None_conv split: if_splits)

text \<open>A load that stays inside a prefix does not see what follows it.\<close>

lemma load8_append: "off < length bs \<Longrightarrow> load8 (bs @ cs) off = load8 bs off"
  by (simp add: load8_def nth_append)

lemma load8_shift: "load8 (bs @ cs) (length bs + off) = load8 cs off"
  by (simp add: load8_def nth_append)

lemma load16_append: "off + 2 \<le> length bs \<Longrightarrow> load16 (bs @ cs) off = load16 bs off"
  by (simp add: load16_def load8_append)

lemma load32_append: "off + 4 \<le> length bs \<Longrightarrow> load32 (bs @ cs) off = load32 bs off"
  by (simp add: load32_def load8_append)

section \<open>Words as little-endian bytes\<close>

definition bytes16 :: "u16 \<Rightarrow> u8 list" where
  "bytes16 w = [ucast w, ucast (drop_bit 8 w)]"

definition bytes32 :: "u32 \<Rightarrow> u8 list" where
  "bytes32 w = bytes16 (ucast w) @ bytes16 (ucast (drop_bit 16 w))"

definition bytes64 :: "u64 \<Rightarrow> u8 list" where
  "bytes64 w = bytes32 (ucast w) @ bytes32 (ucast (drop_bit 32 w))"

lemma length_bytes [simp]:
  "length (bytes16 a) = 2" "length (bytes32 b) = 4" "length (bytes64 c) = 8"
  by (simp_all add: bytes16_def bytes32_def bytes64_def)

lemma bit_cat16: "bit (word_cat (a :: u8) (b :: u8) :: u16) n \<longleftrightarrow>
    (if n < 8 then bit b n else n < 16 \<and> bit a (n - 8))"
  by (simp add: bit_word_cat_iff)

lemma bit_cat32: "bit (word_cat (a :: u16) (b :: u16) :: u32) n \<longleftrightarrow>
    (if n < 16 then bit b n else n < 32 \<and> bit a (n - 16))"
  by (simp add: bit_word_cat_iff)

lemma bit_cat64: "bit (word_cat (a :: u32) (b :: u32) :: u64) n \<longleftrightarrow>
    (if n < 32 then bit b n else n < 64 \<and> bit a (n - 32))"
  by (simp add: bit_word_cat_iff)

lemmas bit_cat = bit_cat16 bit_cat32 bit_cat64

lemma le16_bytes: "le16 (ucast w) (ucast (drop_bit 8 w)) = w"
  by (rule bit_word_eqI)
     (auto simp: le16_def bit_cat bit_ucast_iff bit_drop_bit_eq)

lemma cat32_halves: "word_cat (ucast (drop_bit 16 w) :: u16) (ucast w :: u16) = (w :: u32)"
  by (rule bit_word_eqI) (auto simp: bit_cat bit_ucast_iff bit_drop_bit_eq)

lemma cat64_halves: "word_cat (ucast (drop_bit 32 w) :: u32) (ucast w :: u32) = (w :: u64)"
  by (rule bit_word_eqI) (auto simp: bit_cat bit_ucast_iff bit_drop_bit_eq)

lemma load16_bytes16 [load_simps]: "load16 (bytes16 w @ rest) 0 = Some w"
  by (simp add: load16_def load8_def bytes16_def le16_bytes)

lemma load32_bytes32 [load_simps]: "load32 (bytes32 w @ rest) 0 = Some w"
  by (simp add: load32_def load8_def bytes32_def bytes16_def le32_def le16_bytes cat32_halves)

lemma load8_shift_bytes32: "load8 (bytes32 w @ rest) (4 + off) = load8 rest off"
  using load8_shift [of "bytes32 w" rest off] by simp

lemma load32_bytes32_shift:
  "load32 (bytes32 w @ rest) (4 + off) = load32 rest off"
  by (simp only: load32_def add.assoc load8_shift_bytes32)

lemma load64_bytes64 [load_simps]: "load64 (bytes64 w @ rest) 0 = Some w"
proof -
  have "load32 (bytes64 w @ rest) 0 = Some (ucast w)"
    by (simp add: bytes64_def load32_bytes32)
  moreover have "load32 (bytes64 w @ rest) 4 = Some (ucast (drop_bit 32 w))"
    using load32_bytes32_shift [of "ucast w" "bytes32 (ucast (drop_bit 32 w)) @ rest" 0]
    by (simp add: bytes64_def load32_bytes32)
  ultimately show ?thesis by (simp add: load64_def le64_def cat64_halves)
qed

lemma load16_drop: "load16 (drop n bs) off = load16 bs (n + off)"
  by (auto simp: load16_def load8_def add.assoc)

lemma load8_drop: "load8 (drop n bs) off = load8 bs (n + off)"
  by (auto simp: load8_def)

lemma load32_drop: "load32 (drop n bs) off = load32 bs (n + off)"
  by (auto simp: load32_def load8_def add.assoc)

lemma load16_append_right: "load16 (xs @ ys) (length xs + off) = load16 ys off"
  using load16_drop [of "length xs" "xs @ ys" off] by simp

lemma load32_append_right: "load32 (xs @ ys) (length xs + off) = load32 ys off"
  using load32_drop [of "length xs" "xs @ ys" off] by simp

lemma load64_append_right: "load64 (xs @ ys) (length xs + off) = load64 ys off"
  by (simp add: load64_def load32_append_right add.assoc)

lemma bytes16_inj: "bytes16 a = bytes16 b \<longleftrightarrow> a = b"
  by (metis load16_bytes16 option.inject)

lemma bytes32_inj: "bytes32 a = bytes32 b \<longleftrightarrow> a = b"
  by (metis load32_bytes32 option.inject)

lemma bytes64_inj: "bytes64 a = bytes64 b \<longleftrightarrow> a = b"
  by (metis load64_bytes64 option.inject)

section \<open>Decimal numerals\<close>

text \<open>\<open>%d\<close>, \<open>%llu\<close> and \<open>inet_ntoa\<close> all print a number in decimal.\<close>

fun dec_string :: "nat \<Rightarrow> string" where
  "dec_string n =
     (if n < 10 then [char_of (48 + n)]
      else dec_string (n div 10) @ [char_of (48 + n mod 10)])"

declare dec_string.simps [simp del]

lemma dec_string_code [code]:
  "dec_string n =
     (case n < 10 of
        True \<Rightarrow> [char_of (48 + n)]
      | False \<Rightarrow> dec_string (n div 10) @ [char_of (48 + n mod 10)])"
  by (subst dec_string.simps) simp

definition is_digit :: "char \<Rightarrow> bool" where
  "is_digit c \<longleftrightarrow> 48 \<le> (of_char c :: nat) \<and> (of_char c :: nat) \<le> 57"

lemma of_char_digit: "d < 10 \<Longrightarrow> of_char (char_of (48 + d) :: char) = (48 + d :: nat)"
  by simp

lemma is_digit_of: "d < 10 \<Longrightarrow> is_digit (char_of (48 + d :: nat))"
  by (simp add: is_digit_def)

lemma dec_string_digits: "list_all is_digit (dec_string n)"
proof (induction n rule: dec_string.induct)
  case (1 n)
  have "n mod 10 < 10" by simp
  then show ?case
    using 1 by (subst dec_string.simps) (auto simp: is_digit_of)
qed

lemma dec_string_nonempty: "dec_string n \<noteq> []"
  by (subst dec_string.simps) simp

fun dec_value :: "string \<Rightarrow> nat \<Rightarrow> nat" where
  "dec_value [] acc = acc"
| "dec_value (c # cs) acc = dec_value cs (10 * acc + (of_char c - 48))"

lemma dec_value_append: "dec_value (xs @ ys) acc = dec_value ys (dec_value xs acc)"
  by (induction xs arbitrary: acc) auto

lemma dec_value_dec_string: "dec_value (dec_string n) 0 = n"
proof (induction n rule: dec_string.induct)
  case (1 n)
  have "n mod 10 < 10" by simp
  then have digit: "of_char (char_of (48 + n mod 10) :: char) = (48 + n mod 10 :: nat)"
    by (rule of_char_digit)
  show ?case
    using 1 digit by (subst dec_string.simps) (auto simp: dec_value_append)
qed

lemma dec_string_inj: "dec_string a = dec_string b \<longleftrightarrow> a = b"
  by (metis dec_value_dec_string)

section \<open>Maps\<close>

lemma finite_dom_upd: "finite (dom m) \<Longrightarrow> finite (dom (m(k \<mapsto> v)))"
  by simp

lemma fold_fun_upd_other:
  "k \<notin> f ` set xs \<Longrightarrow> fold (\<lambda>x m. m(f x := g x)) xs m k = m k"
  by (induction xs arbitrary: m) auto

end
