(* ===== verification/Net_Text.thy ===== *)
theory Net_Text
  imports Prelude
begin

text \<open>
  The text both user-space programs print and use as keys: strings put together from
  parts around a separator, taking them apart again (Go's \<open>strings.SplitN\<close>), and IPv4
  addresses in dotted decimal (\<open>inet_ntoa\<close>, Go's \<open>net.IP.String\<close>).
\<close>

section \<open>Joining and splitting\<close>

fun join :: "char \<Rightarrow> string list \<Rightarrow> string" where
  "join c [] = []"
| "join c [x] = x"
| "join c (x # y # ys) = x @ c # join c (y # ys)"

text \<open>
  \<open>strings.SplitN(s, sep, n)\<close> for a separator of one character: at most \<open>n\<close>
  substrings, the last one the unsplit rest.
\<close>

fun splitN :: "nat \<Rightarrow> char \<Rightarrow> string \<Rightarrow> string list" where
  "splitN 0 c s = []"
| "splitN (Suc 0) c s = [s]"
| "splitN (Suc (Suc n)) c s =
     (if c \<in> set s then takeWhile (\<lambda>x. x \<noteq> c) s # splitN (Suc n) c (tl (dropWhile (\<lambda>x. x \<noteq> c) s))
      else [s])"

lemma takeWhile_sep [simp]: "c \<notin> set x \<Longrightarrow> takeWhile (\<lambda>z. z \<noteq> c) (x @ c # s) = x"
  by (induction x) auto

lemma dropWhile_sep [simp]: "c \<notin> set x \<Longrightarrow> dropWhile (\<lambda>z. z \<noteq> c) (x @ c # s) = c # s"
  by (induction x) auto

lemma length_splitN: "length (splitN n c s) \<le> n"
  by (induction n c s rule: splitN.induct) auto

lemma splitN_nonempty [simp]: "0 < n \<Longrightarrow> splitN n c s \<noteq> []"
  by (induction n c s rule: splitN.induct) auto

lemma join_Cons: "xs \<noteq> [] \<Longrightarrow> join c (x # xs) = x @ c # join c xs"
  by (cases xs) auto

lemma drop_sep: "c \<in> set s \<Longrightarrow> takeWhile (\<lambda>x. x \<noteq> c) s @ c # tl (dropWhile (\<lambda>x. x \<noteq> c) s) = s"
  by (induction s) auto

lemma join_splitN: "0 < n \<Longrightarrow> join c (splitN n c s) = s"
  by (induction n c s rule: splitN.induct) (auto simp: join_Cons drop_sep)

lemma splitN_join:
  assumes "\<forall>x \<in> set (butlast xs). c \<notin> set x" and "xs \<noteq> []"
  shows "splitN (length xs) c (join c xs) = xs"
  using assms
proof (induction xs)
  case (Cons x xs)
  show ?case
  proof (cases xs)
    case (Cons y ys)
    with Cons.prems have "c \<notin> set x" by simp
    with Cons Cons.IH Cons.prems show ?thesis by (cases ys) (auto simp: join_Cons)
  qed simp
qed simp

lemma splitN_enough:
  assumes "\<forall>x \<in> set xs. c \<notin> set x" and "xs \<noteq> []" and "length xs \<le> n"
  shows "splitN n c (join c xs) = xs"
  using assms
proof (induction xs arbitrary: n)
  case (Cons x xs)
  obtain m where n: "n = Suc m" using Cons.prems by (cases n) auto
  show ?case
  proof (cases xs)
    case Nil
    then show ?thesis using Cons.prems n by (cases m) auto
  next
    case (Cons y ys)
    then obtain k where "m = Suc k" using Cons.prems n by (cases m) auto
    with Cons n Cons.IH [of m] Cons.prems show ?thesis by (auto simp: join_Cons)
  qed
qed simp

lemma join_inj:
  assumes "\<forall>x \<in> set xs. c \<notin> set x" "\<forall>y \<in> set ys. c \<notin> set y" "xs \<noteq> []" "ys \<noteq> []"
  shows "join c xs = join c ys \<longleftrightarrow> xs = ys"
proof
  let ?n = "max (length xs) (length ys)"
  assume "join c xs = join c ys"
  moreover have "splitN ?n c (join c xs) = xs" by (rule splitN_enough [OF assms(1,3)]) simp
  moreover have "splitN ?n c (join c ys) = ys" by (rule splitN_enough [OF assms(2,4)]) simp
  ultimately show "xs = ys" by metis
qed (rule arg_cong)

section \<open>Dotted decimal\<close>

definition dotted :: "u8 list \<Rightarrow> string" where
  "dotted bs = join (CHR ''.'') (map (\<lambda>b. dec_string (unat b)) bs)"

lemma dot_not_in_dec: "CHR ''.'' \<notin> set (dec_string n)"
  using dec_string_digits [of n] by (auto simp: list_all_iff is_digit_def)

lemma slash_not_in_dec: "CHR ''/'' \<notin> set (dec_string n)"
  using dec_string_digits [of n] by (auto simp: list_all_iff is_digit_def)

lemma dotted_inj:
  assumes "bs \<noteq> []" "cs \<noteq> []"
  shows "dotted bs = dotted cs \<longleftrightarrow> bs = cs"
proof -
  have inj: "inj (\<lambda>b :: u8. dec_string (unat b))"
    by (rule injI) (simp add: dec_string_inj word_unat_eq_iff)
  have "dotted bs = dotted cs \<longleftrightarrow>
      map (\<lambda>b. dec_string (unat b)) bs = map (\<lambda>b. dec_string (unat b)) cs"
    unfolding dotted_def by (rule join_inj) (simp_all add: dot_not_in_dec assms)
  with inj show ?thesis by (simp add: inj_map_eq_map)
qed

lemma set_join: "set (join c xs) \<subseteq> {c} \<union> (\<Union>x \<in> set xs. set x)"
  by (induction c xs rule: join.induct) auto

lemma dotted_no_slash: "CHR ''/'' \<notin> set (dotted bs)"
  using set_join [of "CHR ''.''" "map (\<lambda>b. dec_string (unat b)) bs"] slash_not_in_dec
  by (auto simp: dotted_def)

lemma dotted_nonempty: "bs \<noteq> [] \<Longrightarrow> dotted bs \<noteq> []"
  by (cases bs; cases "tl bs") (auto simp: dotted_def dec_string_nonempty)

text \<open>How long a numeral is, for the buffers it is printed into.\<close>

lemma length_dec_string: "n < 10 ^ k \<Longrightarrow> 0 < k \<Longrightarrow> length (dec_string n) \<le> k"
proof (induction k arbitrary: n)
  case (Suc k)
  show ?case
  proof (cases "n < 10")
    case False
    with Suc.prems have "k > 0" "n div 10 < 10 ^ k"
      by (auto intro: Nat.gr0I simp: less_mult_imp_div_less mult.commute)
    with Suc.IH [of "n div 10"] False show ?thesis by (subst dec_string.simps) simp
  qed (subst dec_string.simps, simp)
qed simp

lemma length_dec_u64: "length (dec_string (unat (w :: u64))) \<le> 20"
proof (rule length_dec_string)
  have "unat w < 2 ^ 64" using unsigned_less [of w, where ?'a = nat] by simp
  also have "(2 :: nat) ^ 64 < 10 ^ 20" by simp
  finally show "unat w < 10 ^ 20" .
qed simp

section \<open>Splitting at every separator\<close>

fun split_on :: "char \<Rightarrow> string \<Rightarrow> string list" where
  "split_on c [] = [[]]"
| "split_on c (x # xs) =
     (if x = c then [] # split_on c xs
      else (case split_on c xs of [] \<Rightarrow> [[x]] | y # ys \<Rightarrow> (x # y) # ys))"

lemma split_on_nonempty [simp]: "split_on c s \<noteq> []"
  by (induction c s rule: split_on.induct) (auto split: list.split)

lemma split_on_no_sep: "x \<in> set (split_on c s) \<Longrightarrow> c \<notin> set x"
  by (induction c s arbitrary: x rule: split_on.induct) (fastforce split: list.splits if_splits)+

lemma split_on_plain: "c \<notin> set x \<Longrightarrow> split_on c x = [x]"
  by (induction x) auto

lemma split_on_app: "c \<notin> set x \<Longrightarrow> split_on c (x @ c # s) = x # split_on c s"
  by (induction x) auto

lemma split_on_join: "\<lbrakk>\<forall>x \<in> set xs. c \<notin> set x; xs \<noteq> []\<rbrakk> \<Longrightarrow> split_on c (join c xs) = xs"
  by (induction c xs rule: join.induct) (auto simp: split_on_plain split_on_app)

end
