(* ===== verification/Endian.thy ===== *)
theory Endian
  imports Prelude
begin

unbundle bit_operations_syntax

text \<open>
  Byte order conversions of \<open>ebpf/kernel/include/linux/bpf_endian.h\<close>, for the
  little-endian target the program is built for, and for the big-endian branch of
  the header.

  The header uses two families of byte swaps. \<open>__builtin_bswapN\<close> is the compiler's
  and reverses the bytes of a word. \<open>___constant_swabN\<close>, its compile-time twin, comes
  from \<open>linux/swab.h\<close>, which is not in the repository: it is the parameter
  \<open>swab_macros\<close>, and the locale \<open>swab_header\<close> states what the header relies on, that
  each macro reverses the bytes of its argument.
\<close>

section \<open>Byte swaps\<close>

text \<open>The builtins: the bytes of the word in reverse order.\<close>

definition bswap16 :: "u16 \<Rightarrow> u16" where
  "bswap16 x = word_cat (ucast x :: u8) (ucast (drop_bit 8 x) :: u8)"

definition bswap32 :: "u32 \<Rightarrow> u32" where
  "bswap32 x = word_cat (bswap16 (ucast x)) (bswap16 (ucast (drop_bit 16 x)))"

definition bswap64 :: "u64 \<Rightarrow> u64" where
  "bswap64 x = word_cat (bswap32 (ucast x)) (bswap32 (ucast (drop_bit 32 x)))"

section \<open>The header's conversions\<close>

record swab_macros =
  swab16 :: "u16 \<Rightarrow> u16"
  swab32 :: "u32 \<Rightarrow> u32"
  swab64 :: "u64 \<Rightarrow> u64"

datatype byte_order = Little | Big

text \<open>The Boolean is \<open>__builtin_constant_p(x)\<close>.\<close>

definition bpf_htons :: "swab_macros \<Rightarrow> byte_order \<Rightarrow> bool \<Rightarrow> u16 \<Rightarrow> u16" where
  "bpf_htons sw bo constant x =
     (case bo of
        Little \<Rightarrow> if constant then swab16 sw x else bswap16 x
      | Big \<Rightarrow> x)"

definition bpf_ntohs :: "swab_macros \<Rightarrow> byte_order \<Rightarrow> bool \<Rightarrow> u16 \<Rightarrow> u16" where
  "bpf_ntohs sw bo constant x =
     (case bo of
        Little \<Rightarrow> if constant then swab16 sw x else bswap16 x
      | Big \<Rightarrow> x)"

definition bpf_htonl :: "swab_macros \<Rightarrow> byte_order \<Rightarrow> bool \<Rightarrow> u32 \<Rightarrow> u32" where
  "bpf_htonl sw bo constant x =
     (case bo of
        Little \<Rightarrow> if constant then swab32 sw x else bswap32 x
      | Big \<Rightarrow> x)"

definition bpf_ntohl :: "swab_macros \<Rightarrow> byte_order \<Rightarrow> bool \<Rightarrow> u32 \<Rightarrow> u32" where
  "bpf_ntohl sw bo constant x =
     (case bo of
        Little \<Rightarrow> if constant then swab32 sw x else bswap32 x
      | Big \<Rightarrow> x)"

definition bpf_cpu_to_be64 :: "swab_macros \<Rightarrow> byte_order \<Rightarrow> bool \<Rightarrow> u64 \<Rightarrow> u64" where
  "bpf_cpu_to_be64 sw bo constant x =
     (case bo of
        Little \<Rightarrow> if constant then swab64 sw x else bswap64 x
      | Big \<Rightarrow> x)"

definition bpf_be64_to_cpu :: "swab_macros \<Rightarrow> byte_order \<Rightarrow> bool \<Rightarrow> u64 \<Rightarrow> u64" where
  "bpf_be64_to_cpu sw bo constant x =
     (case bo of
        Little \<Rightarrow> if constant then swab64 sw x else bswap64 x
      | Big \<Rightarrow> x)"

section \<open>Facts\<close>

lemma bswap16_bit: "bit (bswap16 x) n \<longleftrightarrow> (n < 8 \<and> bit x (n + 8)) \<or> (8 \<le> n \<and> n < 16 \<and> bit x (n - 8))"
  by (auto simp: bswap16_def bit_cat bit_ucast_iff bit_drop_bit_eq add.commute)

lemma bswap16_bswap16 [simp]: "bswap16 (bswap16 x) = x"
  by (rule bit_word_eqI) (auto simp: bswap16_bit)

lemma bswap16_le16: "bswap16 (le16 b0 b1) = le16 b1 b0"
  by (rule bit_word_eqI) (auto simp: bswap16_bit le16_def bit_cat)

lemma bytes16_bswap16: "bytes16 (bswap16 x) = rev (bytes16 x)"
  by (auto simp: bytes16_def bit_eq_iff bit_ucast_iff bit_drop_bit_eq bswap16_bit add.commute)

lemma ucast_bswap32_lo: "(ucast (bswap32 x) :: u16) = bswap16 (ucast (drop_bit 16 x))"
  by (rule bit_word_eqI) (auto simp: bswap32_def bit_cat bit_ucast_iff)

lemma ucast_bswap32_hi: "(ucast (drop_bit 16 (bswap32 x)) :: u16) = bswap16 (ucast x)"
  by (rule bit_word_eqI) (auto simp: bswap32_def bit_cat bit_ucast_iff bit_drop_bit_eq)

lemma bswap32_bswap32 [simp]: "bswap32 (bswap32 x) = x"
proof -
  have "bswap32 (bswap32 x) =
      word_cat (bswap16 (ucast (bswap32 x))) (bswap16 (ucast (drop_bit 16 (bswap32 x))))"
    by (simp only: bswap32_def [of "bswap32 x"])
  then show ?thesis by (simp add: ucast_bswap32_lo ucast_bswap32_hi cat32_halves)
qed

lemma bytes32_bswap32: "bytes32 (bswap32 x) = rev (bytes32 x)"
  by (simp add: bytes32_def ucast_bswap32_lo ucast_bswap32_hi bytes16_bswap16)

lemma ucast_bswap64_lo: "(ucast (bswap64 x) :: u32) = bswap32 (ucast (drop_bit 32 x))"
  by (rule bit_word_eqI) (auto simp: bswap64_def bit_cat bit_ucast_iff)

lemma ucast_bswap64_hi: "(ucast (drop_bit 32 (bswap64 x)) :: u32) = bswap32 (ucast x)"
  by (rule bit_word_eqI) (auto simp: bswap64_def bit_cat bit_ucast_iff bit_drop_bit_eq)

lemma bswap64_bswap64 [simp]: "bswap64 (bswap64 x) = x"
proof -
  have "bswap64 (bswap64 x) =
      word_cat (bswap32 (ucast (bswap64 x))) (bswap32 (ucast (drop_bit 32 (bswap64 x))))"
    by (simp only: bswap64_def [of "bswap64 x"])
  then show ?thesis by (simp add: ucast_bswap64_lo ucast_bswap64_hi cat64_halves)
qed

lemma bytes64_bswap64: "bytes64 (bswap64 x) = rev (bytes64 x)"
  by (simp add: bytes64_def ucast_bswap64_lo ucast_bswap64_hi bytes32_bswap32)

text \<open>The shift-and-mask form of a byte swap, an instance of the macros.\<close>

definition constant_swab16 :: "u16 \<Rightarrow> u16" where
  "constant_swab16 x = push_bit 8 (x AND 0x00FF) OR drop_bit 8 (x AND 0xFF00)"

definition constant_swab32 :: "u32 \<Rightarrow> u32" where
  "constant_swab32 x =
     push_bit 24 (x AND 0x000000FF) OR push_bit 8 (x AND 0x0000FF00) OR
     drop_bit 8 (x AND 0x00FF0000) OR drop_bit 24 (x AND 0xFF000000)"

definition constant_swab64 :: "u64 \<Rightarrow> u64" where
  "constant_swab64 x =
     word_cat (constant_swab32 (ucast x)) (constant_swab32 (ucast (drop_bit 32 x)))"

lemma mask_as_byte:
  "(0x00FF :: u16) = mask 8" "(0xFF00 :: u16) = push_bit 8 (mask 8)"
  "(0x000000FF :: u32) = mask 8" "(0x0000FF00 :: u32) = push_bit 8 (mask 8)"
  "(0x00FF0000 :: u32) = push_bit 16 (mask 8)" "(0xFF000000 :: u32) = push_bit 24 (mask 8)"
  by (simp_all add: mask_eq_exp_minus_1 push_bit_eq_mult)

lemma constant_swab16_eq: "constant_swab16 x = bswap16 x"
  unfolding constant_swab16_def mask_as_byte
  by (rule bit_word_eqI)
     (auto simp: bswap16_bit bit_or_iff bit_and_iff bit_push_bit_iff bit_drop_bit_eq bit_mask_iff
       add.commute)

lemma bswap32_bit:
  "bit (bswap32 x) n \<longleftrightarrow>
     (n < 8 \<and> bit x (n + 24)) \<or> (8 \<le> n \<and> n < 16 \<and> bit x (n + 8)) \<or>
     (16 \<le> n \<and> n < 24 \<and> bit x (n - 8)) \<or> (24 \<le> n \<and> n < 32 \<and> bit x (n - 24))"
  by (auto simp: bswap32_def bit_cat bswap16_bit bit_ucast_iff bit_drop_bit_eq
      add.commute)

lemma constant_swab32_eq: "constant_swab32 x = bswap32 x"
  unfolding constant_swab32_def mask_as_byte
  by (rule bit_word_eqI)
     (auto simp: bswap32_bit bit_or_iff bit_and_iff bit_push_bit_iff bit_drop_bit_eq bit_mask_iff
       add.commute)

lemma constant_swab64_bit_eq: "constant_swab64 x = bswap64 x"
  unfolding constant_swab64_def bswap64_def
  by (simp add: constant_swab32_eq)

section \<open>The laws of the constant macros\<close>

locale swab_header =
  fixes sw :: swab_macros
  assumes swab16_bytes: "bytes16 (swab16 sw x) = rev (bytes16 x)"
    and swab32_bytes: "bytes32 (swab32 sw y) = rev (bytes32 y)"
    and swab64_bytes: "bytes64 (swab64 sw z) = rev (bytes64 z)"
begin

lemma swab_is_bswap [simp]:
  "swab16 sw x = bswap16 x" "swab32 sw y = bswap32 y" "swab64 sw z = bswap64 z"
  using swab16_bytes swab32_bytes swab64_bytes
  by (simp_all flip: bytes16_inj bytes32_inj bytes64_inj
      add: bytes16_bswap16 bytes32_bswap32 bytes64_bswap64)

lemma constant_irrelevant:
  "bpf_ntohs sw bo c x = bpf_ntohs sw bo False x" "bpf_htons sw bo c x = bpf_htons sw bo False x"
  "bpf_ntohl sw bo c y = bpf_ntohl sw bo False y" "bpf_htonl sw bo c y = bpf_htonl sw bo False y"
  "bpf_be64_to_cpu sw bo c z = bpf_be64_to_cpu sw bo False z"
  "bpf_cpu_to_be64 sw bo c z = bpf_cpu_to_be64 sw bo False z"
  by (simp_all add: bpf_ntohs_def bpf_htons_def bpf_ntohl_def bpf_htonl_def
      bpf_be64_to_cpu_def bpf_cpu_to_be64_def split: byte_order.splits)

lemma to_host_from_host:
  "bpf_ntohs sw bo c (bpf_htons sw bo c' x) = x"
  "bpf_ntohl sw bo c (bpf_htonl sw bo c' y) = y"
  "bpf_be64_to_cpu sw bo c (bpf_cpu_to_be64 sw bo c' z) = z"
  by (simp_all add: bpf_ntohs_def bpf_htons_def bpf_ntohl_def bpf_htonl_def
      bpf_be64_to_cpu_def bpf_cpu_to_be64_def split: byte_order.splits)

lemma little_endian_reverses:
  "bytes16 (bpf_ntohs sw Little c x) = rev (bytes16 x)"
  "bytes32 (bpf_ntohl sw Little c y) = rev (bytes32 y)"
  "bytes64 (bpf_be64_to_cpu sw Little c z) = rev (bytes64 z)"
  by (simp_all add: bpf_ntohs_def bpf_ntohl_def bpf_be64_to_cpu_def
      bytes16_bswap16 bytes32_bswap32 bytes64_bswap64)

end

text \<open>The usual shift-and-mask expressions obey the laws.\<close>

definition shift_swab :: swab_macros where
  "shift_swab = \<lparr>swab16 = constant_swab16, swab32 = constant_swab32, swab64 = constant_swab64\<rparr>"

interpretation shift: swab_header shift_swab
  by unfold_locales
     (simp_all add: shift_swab_def constant_swab16_eq constant_swab32_eq constant_swab64_bit_eq
       bytes16_bswap16 bytes32_bswap32 bytes64_bswap64)

end
