(* ===== verification/C_Layout.thy ===== *)
theory C_Layout
  imports Prelude
begin

text \<open>
  The memory layout of C structures for the BPF target (natural alignment,
  64-bit pointers). A structure of the program is written down once, member by
  member in the order of its declaration; sizes, alignments, offsets and the
  padding bytes the compiler inserts are computed from that declaration.
\<close>

section \<open>Types and their layout\<close>

text \<open>
  \<open>Scalar n\<close> is an integer, enum or pointer of \<open>n\<close> bytes, \<open>Bits t ms\<close> the
  bit-fields \<open>ms\<close> (with their widths) that share one storage unit of type \<open>t\<close>,
  \<open>Aligned n t\<close> a type with \<open>__attribute__((aligned(n)))\<close> and \<open>Packed\<close> a
  structure with \<open>__attribute__((packed))\<close>.
\<close>

datatype ctype =
    Scalar nat
  | Arr nat ctype
  | Bits ctype "(string \<times> nat) list"
  | Struct "(string \<times> ctype) list"
  | Union "(string \<times> ctype) list"
  | Aligned nat ctype
  | Packed "(string \<times> ctype) list"

type_synonym members = "(string \<times> ctype) list"

abbreviation c_u8 :: ctype where "c_u8 \<equiv> Scalar 1"
abbreviation c_u16 :: ctype where "c_u16 \<equiv> Scalar 2"
abbreviation c_u32 :: ctype where "c_u32 \<equiv> Scalar 4"
abbreviation c_u64 :: ctype where "c_u64 \<equiv> Scalar 8"
abbreviation c_be16 :: ctype where "c_be16 \<equiv> Scalar 2"
abbreviation c_be32 :: ctype where "c_be32 \<equiv> Scalar 4"
abbreviation c_int :: ctype where "c_int \<equiv> Scalar 4"
abbreviation c_ptr :: ctype where "c_ptr \<equiv> Scalar 8"

definition round_up :: "nat \<Rightarrow> nat \<Rightarrow> nat" where
  "round_up a n = ((n + a - 1) div a) * a"

fun align_of :: "ctype \<Rightarrow> nat"
and members_align :: "members \<Rightarrow> nat" where
  "align_of (Scalar n) = n"
| "align_of (Arr n t) = align_of t"
| "align_of (Bits t ms) = align_of t"
| "align_of (Struct ms) = members_align ms"
| "align_of (Union ms) = members_align ms"
| "align_of (Aligned n t) = max n (align_of t)"
| "align_of (Packed ms) = 1"
| "members_align [] = 1"
| "members_align ((x, t) # ms) = max (align_of t) (members_align ms)"

fun size_of :: "ctype \<Rightarrow> nat"
and members_end :: "nat \<Rightarrow> members \<Rightarrow> nat"
and members_max :: "members \<Rightarrow> nat"
and members_sum :: "members \<Rightarrow> nat" where
  "size_of (Scalar n) = n"
| "size_of (Arr n t) = n * size_of t"
| "size_of (Bits t ms) = size_of t"
| "size_of (Struct ms) = round_up (members_align ms) (members_end 0 ms)"
| "size_of (Union ms) = round_up (members_align ms) (members_max ms)"
| "size_of (Aligned n t) = round_up (max n (align_of t)) (size_of t)"
| "size_of (Packed ms) = members_sum ms"
| "members_end off [] = off"
| "members_end off ((x, t) # ms) = members_end (round_up (align_of t) off + size_of t) ms"
| "members_max [] = 0"
| "members_max ((x, t) # ms) = max (size_of t) (members_max ms)"
| "members_sum [] = 0"
| "members_sum ((x, t) # ms) = size_of t + members_sum ms"

text \<open>Where each member of a structure starts and how many bytes it takes.\<close>

fun member_slots :: "nat \<Rightarrow> members \<Rightarrow> (string \<times> nat \<times> nat) list" where
  "member_slots off [] = []"
| "member_slots off ((x, t) # ms) =
     (let o' = round_up (align_of t) off
      in (x, o', size_of t) # member_slots (o' + size_of t) ms)"

definition offset_of :: "members \<Rightarrow> string \<Rightarrow> nat option" where
  "offset_of ms x = map_option fst (map_of (member_slots 0 ms) x)"

text \<open>
  No byte of a value of the type is padding that the compiler inserted: every
  byte belongs to a declared member.
\<close>

fun no_padding :: "ctype \<Rightarrow> bool"
and members_tight :: "nat \<Rightarrow> members \<Rightarrow> bool"
and members_full :: "nat \<Rightarrow> members \<Rightarrow> bool" where
  "no_padding (Scalar n) = True"
| "no_padding (Arr n t) = no_padding t"
| "no_padding (Bits t ms) = (sum_list (map snd ms) = 8 * size_of t)"
| "no_padding (Struct ms) =
     (members_tight 0 ms \<and> members_align ms dvd members_end 0 ms)"
| "no_padding (Union ms) = members_full (size_of (Union ms)) ms"
| "no_padding (Aligned n t) = (no_padding t \<and> max n (align_of t) dvd size_of t)"
| "no_padding (Packed ms) = members_full 0 ms"
| "members_tight off [] = True"
| "members_tight off ((x, t) # ms) =
     (align_of t dvd off \<and> no_padding t \<and> members_tight (off + size_of t) ms)"
| "members_full n [] = True"
| "members_full n ((x, t) # ms) =
     (no_padding t \<and> (n = 0 \<or> size_of t = n) \<and> members_full n ms)"

section \<open>Facts about every layout\<close>

lemma round_up_ge: "0 < a \<Longrightarrow> n \<le> round_up a n"
proof -
  assume a: "0 < a"
  have "n + a - 1 = (n + a - 1) div a * a + (n + a - 1) mod a" by simp
  moreover have "(n + a - 1) mod a < a" using a by simp
  ultimately have "n + a - 1 < (n + a - 1) div a * a + a" by linarith
  then show ?thesis using a by (simp add: round_up_def)
qed

lemma round_up_dvd [simp]: "a dvd round_up a n"
  by (simp add: round_up_def)

lemma round_up_id:
  assumes "0 < a" and "a dvd n"
  shows "round_up a n = n"
proof -
  from assms(2) obtain k where k: "n = a * k" ..
  have "n + a - 1 = a * k + (a - 1)" using assms(1) k by simp
  moreover have "(a * k + (a - 1)) div a = k + (a - 1) div a"
    using assms(1) by (intro div_mult_self4) simp
  ultimately have "(n + a - 1) div a = k" using assms(1) by simp
  then show ?thesis by (simp add: round_up_def k)
qed

lemma round_up_1 [simp]: "round_up (Suc 0) n = n"
  by (simp add: round_up_def)

fun sized :: "ctype \<Rightarrow> bool"
and members_sized :: "members \<Rightarrow> bool" where
  "sized (Scalar n) = (0 < n)"
| "sized (Arr n t) = sized t"
| "sized (Bits t ms) = sized t"
| "sized (Struct ms) = members_sized ms"
| "sized (Union ms) = members_sized ms"
| "sized (Aligned n t) = sized t"
| "sized (Packed ms) = members_sized ms"
| "members_sized [] = True"
| "members_sized ((x, t) # ms) = (sized t \<and> members_sized ms)"

lemma align_pos:
  "sized t \<Longrightarrow> 0 < align_of t"
  "members_sized ms \<Longrightarrow> 0 < members_align ms"
  by (induction t and ms rule: align_of_members_align.induct) auto

lemma members_end_ge: "members_sized ms \<Longrightarrow> off \<le> members_end off ms"
proof (induction ms arbitrary: off)
  case Nil
  then show ?case by simp
next
  case (Cons m ms)
  obtain x t where m: "m = (x, t)" by (cases m)
  have "off \<le> round_up (align_of t) off"
    using Cons.prems by (simp add: m align_pos(1) round_up_ge)
  moreover have "round_up (align_of t) off + size_of t
      \<le> members_end (round_up (align_of t) off + size_of t) ms"
    using Cons.prems by (intro Cons.IH) (simp add: m)
  ultimately show ?case by (simp add: m)
qed

text \<open>Every member lies inside the structure and after the offset it was placed from.\<close>

lemma member_slots_bounds:
  "members_sized ms \<Longrightarrow> (x, o', n) \<in> set (member_slots off ms) \<Longrightarrow>
   off \<le> o' \<and> o' + n \<le> members_end off ms"
proof (induction ms arbitrary: off)
  case Nil
  then show ?case by simp
next
  case (Cons m ms)
  obtain y t where m: "m = (y, t)" by (cases m)
  let ?p = "round_up (align_of t) off"
  have p: "off \<le> ?p" using Cons.prems by (simp add: m align_pos(1) round_up_ge)
  have e: "?p + size_of t \<le> members_end (?p + size_of t) ms"
    using Cons.prems by (intro members_end_ge) (simp add: m)
  from Cons.prems consider "o' = ?p" "n = size_of t"
    | "(x, o', n) \<in> set (member_slots (?p + size_of t) ms)"
    by (auto simp: m Let_def)
  then show ?case
  proof cases
    case 1
    then show ?thesis using p e by (simp add: m)
  next
    case 2
    then show ?thesis using Cons.IH [of "?p + size_of t"] Cons.prems p by (auto simp: m)
  qed
qed

lemma offset_of_bounds:
  assumes "members_sized ms" and "offset_of ms x = Some o'"
  obtains n where "(x, o', n) \<in> set (member_slots 0 ms)" and "o' + n \<le> size_of (Struct ms)"
proof -
  from assms(2) obtain n where slot: "(x, o', n) \<in> set (member_slots 0 ms)"
    by (auto simp: offset_of_def dest: map_of_SomeD)
  have "members_end 0 ms \<le> size_of (Struct ms)"
    using assms(1) by (simp add: round_up_ge align_pos(2))
  with member_slots_bounds [OF assms(1) slot] have "o' + n \<le> size_of (Struct ms)" by simp
  with slot show thesis by (rule that)
qed

text \<open>Members never overlap: they are laid out in the order of their declaration.\<close>

lemma member_slots_disjoint:
  "members_sized ms \<Longrightarrow>
   sorted_wrt (\<lambda>(x, o1, n1) (y, o2, n2). o1 + n1 \<le> o2) (member_slots off ms)"
proof (induction ms arbitrary: off)
  case Nil
  then show ?case by simp
next
  case (Cons m ms)
  obtain y t where m: "m = (y, t)" by (cases m)
  show ?case
    using Cons member_slots_bounds [of ms] by (fastforce simp: m Let_def)
qed

lemma members_tight_end:
  "members_sized ms \<Longrightarrow> members_tight off ms \<Longrightarrow> members_end off ms = off + members_sum ms"
  by (induction ms arbitrary: off) (auto simp: round_up_id align_pos)

text \<open>A structure without padding is exactly as long as its members together.\<close>

lemma no_padding_size:
  assumes "members_sized ms" and "no_padding (Struct ms)"
  shows "size_of (Struct ms) = members_sum ms"
proof -
  have "members_end 0 ms = members_sum ms"
    using assms by (simp add: members_tight_end)
  then show ?thesis using assms by (simp add: round_up_id align_pos)
qed

end
