(* ===== verification/Net_Headers.thy ===== *)
theory Net_Headers
  imports C_Layout
begin

unbundle bit_operations_syntax

text \<open>
  The packet headers the flow reader walks: \<open>ip.h\<close>, \<open>ipv6.h\<close>, \<open>tcp.h\<close>, \<open>udp.h\<close>
  under \<open>ebpf/kernel/include\<close>, and the second copy of the IP headers in \<open>l3.h\<close>. Each
  structure is declared with its members; a member access \<open>p->m\<close> on a header at
  offset \<open>off\<close> of the packet is a load at \<open>off\<close> plus the computed offset of \<open>m\<close>.
\<close>

section \<open>Structures\<close>

definition iphdr :: members where [layout_defs]:
  "iphdr =
    [(''ihl_version'', Bits c_u8 [(''ihl'', 4), (''version'', 4)]),
     (''tos'', c_u8),
     (''tot_len'', c_be16),
     (''id'', c_be16),
     (''frag_off'', c_be16),
     (''ttl'', c_u8),
     (''protocol'', c_u8),
     (''check'', c_u16),
     (''saddr'', c_be32),
     (''daddr'', c_be32)]"

definition in6_addr :: ctype where [layout_defs]:
  "in6_addr = Struct
    [(''in6_u'', Union
       [(''u6_addr8'', Arr 16 c_u8),
        (''u6_addr16'', Arr 8 c_be16),
        (''u6_addr32'', Arr 4 c_be32)])]"

definition ipv6hdr :: members where [layout_defs]:
  "ipv6hdr =
    [(''priority_version'', Bits c_u8 [(''priority'', 4), (''version'', 4)]),
     (''flow_lbl'', Arr 3 c_u8),
     (''payload_len'', c_be16),
     (''nexthdr'', c_u8),
     (''hop_limit'', c_u8),
     (''saddr'', in6_addr),
     (''daddr'', in6_addr)]"

definition tcphdr :: members where [layout_defs]:
  "tcphdr =
    [(''source'', c_be16),
     (''dest'', c_be16),
     (''seq'', c_be32),
     (''ack_seq'', c_be32),
     (''flags'', Bits c_u16
        [(''res1'', 4), (''doff'', 4), (''fin'', 1), (''syn'', 1), (''rst'', 1),
         (''psh'', 1), (''ack'', 1), (''urg'', 1), (''ece'', 1), (''cwr'', 1)]),
     (''window'', c_be16),
     (''check'', c_u16),
     (''urg_ptr'', c_be16)]"

definition udphdr :: members where [layout_defs]:
  "udphdr =
    [(''source'', c_be16),
     (''dest'', c_be16),
     (''len'', c_be16),
     (''check'', c_u16)]"

text \<open>The copies of the two IP headers in \<open>l3.h\<close>.\<close>

definition l3_iphdr :: members where [layout_defs]:
  "l3_iphdr =
    [(''ihl_version'', Bits c_u8 [(''ihl'', 4), (''version'', 4)]),
     (''tos'', c_u8),
     (''tot_len'', c_be16),
     (''id'', c_be16),
     (''frag_off'', c_be16),
     (''ttl'', c_u8),
     (''protocol'', c_u8),
     (''check'', c_u16),
     (''saddr'', c_be32),
     (''daddr'', c_be32)]"

definition l3_ipv6hdr :: "ctype \<Rightarrow> members" where [layout_defs]:
  "l3_ipv6hdr in6 =
    [(''priority_version'', Bits c_u8 [(''priority'', 4), (''version'', 4)]),
     (''flow_lbl'', Arr 3 c_u8),
     (''payload_len'', c_be16),
     (''nexthdr'', c_u8),
     (''hop_limit'', c_u8),
     (''saddr'', in6),
     (''daddr'', in6)]"

definition sizeof :: "members \<Rightarrow> nat" where
  "sizeof ms = size_of (Struct ms)"

lemma header_sizes [simp]:
  "sizeof iphdr = 20" "sizeof ipv6hdr = 40" "sizeof tcphdr = 20" "sizeof udphdr = 8"
  by code_simp+

lemma iphdr_offsets [simp]:
  "offset_of iphdr ''ihl_version'' = Some 0"
  "offset_of iphdr ''frag_off'' = Some 6"
  "offset_of iphdr ''protocol'' = Some 9"
  "offset_of iphdr ''saddr'' = Some 12"
  "offset_of iphdr ''daddr'' = Some 16"
  by code_simp+

lemma ipv6hdr_offsets [simp]:
  "offset_of ipv6hdr ''priority_version'' = Some 0"
  "offset_of ipv6hdr ''nexthdr'' = Some 6"
  "offset_of ipv6hdr ''saddr'' = Some 8"
  "offset_of ipv6hdr ''daddr'' = Some 24"
  by code_simp+

lemma l4_offsets [simp]:
  "offset_of tcphdr ''source'' = Some 0" "offset_of tcphdr ''dest'' = Some 2"
  "offset_of udphdr ''source'' = Some 0" "offset_of udphdr ''dest'' = Some 2"
  by code_simp+

section \<open>Member accesses\<close>

definition member8 :: "members \<Rightarrow> string \<Rightarrow> u8 list \<Rightarrow> nat \<Rightarrow> u8 option" where
  "member8 ms m bs off = do { o' \<leftarrow> offset_of ms m; load8 bs (off + o') }"

definition member16 :: "members \<Rightarrow> string \<Rightarrow> u8 list \<Rightarrow> nat \<Rightarrow> u16 option" where
  "member16 ms m bs off = do { o' \<leftarrow> offset_of ms m; load16 bs (off + o') }"

definition member32 :: "members \<Rightarrow> string \<Rightarrow> u8 list \<Rightarrow> nat \<Rightarrow> u32 option" where
  "member32 ms m bs off = do { o' \<leftarrow> offset_of ms m; load32 bs (off + o') }"

definition member64 :: "members \<Rightarrow> string \<Rightarrow> u8 list \<Rightarrow> nat \<Rightarrow> u64 option" where
  "member64 ms m bs off = do { o' \<leftarrow> offset_of ms m; load64 bs (off + o') }"

type_synonym addr6 = "u32 \<times> u32 \<times> u32 \<times> u32"

text \<open>\<open>__builtin_memcpy(dst, &p->m, 16)\<close> into an array of four 32-bit words.\<close>

definition member_addr6 :: "members \<Rightarrow> string \<Rightarrow> u8 list \<Rightarrow> nat \<Rightarrow> addr6 option" where
  "member_addr6 ms m bs off = do {
     o' \<leftarrow> offset_of ms m;
     w0 \<leftarrow> load32 bs (off + o');
     w1 \<leftarrow> load32 bs (off + o' + 4);
     w2 \<leftarrow> load32 bs (off + o' + 8);
     w3 \<leftarrow> load32 bs (off + o' + 12);
     Some (w0, w1, w2, w3) }"

text \<open>Bit-fields are allocated from the least significant bit on this target.\<close>

definition bit_field :: "nat \<Rightarrow> nat \<Rightarrow> u8 \<Rightarrow> u8" where
  "bit_field pos w b = take_bit w (drop_bit pos b)"

definition ip_version :: "u8 list \<Rightarrow> nat \<Rightarrow> u8 option" where
  "ip_version bs off = map_option (bit_field 4 4) (member8 iphdr ''ihl_version'' bs off)"

definition ip_ihl :: "u8 list \<Rightarrow> nat \<Rightarrow> u8 option" where
  "ip_ihl bs off = map_option (bit_field 0 4) (member8 iphdr ''ihl_version'' bs off)"

lemma bit_field_less: "unat (bit_field pos 4 b) < 16"
proof -
  have "bit_field pos 4 b = take_bit 4 (drop_bit pos b)" by (simp add: bit_field_def)
  also have "unat \<dots> = take_bit 4 (unat (drop_bit pos b))"
    by (rule unsigned_take_bit_eq)
  also have "\<dots> < 2 ^ 4" by (rule take_bit_nat_less_exp)
  finally show ?thesis by simp
qed

text \<open>Inside the buffer every member access succeeds.\<close>

lemma member_loads:
  "offset_of ms m = Some o' \<Longrightarrow> off + o' < length bs \<Longrightarrow> member8 ms m bs off \<noteq> None"
  "offset_of ms m = Some o' \<Longrightarrow> off + o' + 2 \<le> length bs \<Longrightarrow> member16 ms m bs off \<noteq> None"
  "offset_of ms m = Some o' \<Longrightarrow> off + o' + 4 \<le> length bs \<Longrightarrow> member32 ms m bs off \<noteq> None"
  by (auto simp: member8_def member16_def member32_def load8_None_iff load16_None_iff
      load32_None_iff)

text \<open>The two copies of the IP headers describe the same bytes.\<close>

lemma l3_headers_agree: "l3_iphdr = iphdr" "l3_ipv6hdr in6_addr = ipv6hdr"
  by (simp_all add: l3_iphdr_def iphdr_def l3_ipv6hdr_def ipv6hdr_def)

lemma headers_tight:
  "no_padding (Struct iphdr)" "no_padding (Struct ipv6hdr)"
  "no_padding (Struct tcphdr)" "no_padding (Struct udphdr)"
  by code_simp+

end
