(* ===== verification/Flow.thy ===== *)
theory Flow
  imports Net_Headers
begin

text \<open>
  \<open>ebpf/kernel/include/flow.h\<close>: the keys and the counters of the flow maps, the
  normalisation of a key to one direction, and their bytes in memory.
\<close>

section \<open>Data\<close>

datatype cgroup_direction = CGROUP_INGRESS | CGROUP_EGRESS

definition IPPROTO_UDP :: u8 where "IPPROTO_UDP = 17"
definition IPPROTO_TCP :: u8 where "IPPROTO_TCP = 6"
definition IPV4_LOOPBACK :: u32 where "IPV4_LOOPBACK = 0x0100007f"

record proto_port =
  ip_proto :: u8
  padding :: "u8 \<times> u8 \<times> u8"
  sport :: u16
  dport :: u16

record inet_v4_flow =
  v4_src_ip :: u32
  v4_dst_ip :: u32
  v4_l4 :: proto_port

record flow_stats =
  out_bytes :: u64
  out_packets :: u64
  in_bytes :: u64
  in_packets :: u64

record inet_v6_flow =
  v6_src_ip :: addr6
  v6_dst_ip :: addr6
  v6_l4 :: proto_port

section \<open>Normalisation\<close>

definition normalize_v4_flow :: "inet_v4_flow \<Rightarrow> cgroup_direction \<Rightarrow> inet_v4_flow" where
  "normalize_v4_flow v4_flow dir =
     (if dir = CGROUP_INGRESS then v4_flow
      else
        let addr = v4_src_ip v4_flow;
            port = sport (v4_l4 v4_flow);
            f1 = v4_flow\<lparr>v4_src_ip := v4_dst_ip v4_flow\<rparr>;
            f2 = f1\<lparr>v4_dst_ip := addr\<rparr>;
            f3 = f2\<lparr>v4_l4 := (v4_l4 f2)\<lparr>sport := dport (v4_l4 f2)\<rparr>\<rparr>
        in f3\<lparr>v4_l4 := (v4_l4 f3)\<lparr>dport := port\<rparr>\<rparr>)"

definition assign_v6 :: "addr6 \<Rightarrow> addr6 \<Rightarrow> addr6" where
  "assign_v6 a b =
     (case b of (b0, b1, b2, b3) \<Rightarrow>
      case a of (a0, a1, a2, a3) \<Rightarrow>
        let a0 = b0; a1 = b1; a2 = b2; a3 = b3 in (a0, a1, a2, a3))"

text \<open>The local array \<open>addr\<close> is uninitialised on entry: it is the argument \<open>addr0\<close>.\<close>

definition normalize_v6_flow_from ::
    "addr6 \<Rightarrow> inet_v6_flow \<Rightarrow> cgroup_direction \<Rightarrow> inet_v6_flow" where
  "normalize_v6_flow_from addr0 v6_flow dir =
     (if dir = CGROUP_INGRESS then v6_flow
      else
        let port = sport (v6_l4 v6_flow);
            addr = assign_v6 addr0 (v6_src_ip v6_flow);
            f1 = v6_flow\<lparr>v6_src_ip := assign_v6 (v6_src_ip v6_flow) (v6_dst_ip v6_flow)\<rparr>;
            f2 = f1\<lparr>v6_dst_ip := assign_v6 (v6_dst_ip f1) addr\<rparr>;
            f3 = f2\<lparr>v6_l4 := (v6_l4 f2)\<lparr>sport := dport (v6_l4 f2)\<rparr>\<rparr>
        in f3\<lparr>v6_l4 := (v6_l4 f3)\<lparr>dport := port\<rparr>\<rparr>)"

abbreviation normalize_v6_flow :: "inet_v6_flow \<Rightarrow> cgroup_direction \<Rightarrow> inet_v6_flow" where
  "normalize_v6_flow \<equiv> normalize_v6_flow_from (0, 0, 0, 0)"

section \<open>Memory representation\<close>

definition proto_port_layout :: members where [layout_defs]:
  "proto_port_layout =
    [(''ip_proto'', c_u8), (''padding'', Arr 3 c_u8), (''sport'', c_be16), (''dport'', c_be16)]"

definition inet_v4_flow_layout :: members where [layout_defs]:
  "inet_v4_flow_layout =
    [(''src_ip'', c_be32), (''dst_ip'', c_be32), (''l4'', Struct proto_port_layout)]"

definition flow_stats_layout :: members where [layout_defs]:
  "flow_stats_layout =
    [(''out_bytes'', c_u64), (''out_packets'', c_u64), (''in_bytes'', c_u64), (''in_packets'', c_u64)]"

definition inet_v6_flow_layout :: members where [layout_defs]:
  "inet_v6_flow_layout =
    [(''src_ip'', Arr 4 c_be32), (''dst_ip'', Arr 4 c_be32), (''l4'', Struct proto_port_layout)]"

definition proto_port_bytes :: "proto_port \<Rightarrow> u8 list" where
  "proto_port_bytes l4 =
     (case padding l4 of (p0, p1, p2) \<Rightarrow>
        [ip_proto l4, p0, p1, p2] @ bytes16 (sport l4) @ bytes16 (dport l4))"

definition v4_flow_bytes :: "inet_v4_flow \<Rightarrow> u8 list" where
  "v4_flow_bytes k =
     bytes32 (v4_src_ip k) @ bytes32 (v4_dst_ip k) @ proto_port_bytes (v4_l4 k)"

definition addr6_bytes :: "addr6 \<Rightarrow> u8 list" where
  "addr6_bytes a =
     (case a of (a0, a1, a2, a3) \<Rightarrow> bytes32 a0 @ bytes32 a1 @ bytes32 a2 @ bytes32 a3)"

definition v6_flow_bytes :: "inet_v6_flow \<Rightarrow> u8 list" where
  "v6_flow_bytes k =
     addr6_bytes (v6_src_ip k) @ addr6_bytes (v6_dst_ip k) @ proto_port_bytes (v6_l4 k)"

definition flow_stats_bytes :: "flow_stats \<Rightarrow> u8 list" where
  "flow_stats_bytes v =
     bytes64 (out_bytes v) @ bytes64 (out_packets v) @ bytes64 (in_bytes v) @ bytes64 (in_packets v)"

lemma key_sizes [simp]:
  "sizeof proto_port_layout = 8" "sizeof inet_v4_flow_layout = 16"
  "sizeof inet_v6_flow_layout = 40" "sizeof flow_stats_layout = 32"
  by code_simp+

lemma length_key_bytes [simp]:
  "length (proto_port_bytes l4) = 8" "length (v4_flow_bytes k) = 16"
  "length (addr6_bytes a) = 16" "length (v6_flow_bytes k6) = 40"
  "length (flow_stats_bytes v) = 32"
  by (simp_all add: proto_port_bytes_def v4_flow_bytes_def addr6_bytes_def v6_flow_bytes_def
      flow_stats_bytes_def split: prod.split)

lemma proto_port_bytes_inj: "proto_port_bytes a = proto_port_bytes b \<longleftrightarrow> a = b"
  by (cases a; cases b)
     (auto simp: proto_port_bytes_def bytes16_inj split: prod.splits)

lemma v4_flow_bytes_inj: "v4_flow_bytes a = v4_flow_bytes b \<longleftrightarrow> a = b"
  by (cases a; cases b) (auto simp: v4_flow_bytes_def bytes32_inj proto_port_bytes_inj)

lemma load32_addr6:
  "load32 (addr6_bytes (w0, w1, w2, w3) @ rest) 0 = Some w0"
  "load32 (addr6_bytes (w0, w1, w2, w3) @ rest) 4 = Some w1"
  "load32 (addr6_bytes (w0, w1, w2, w3) @ rest) 8 = Some w2"
  "load32 (addr6_bytes (w0, w1, w2, w3) @ rest) 12 = Some w3"
  using load32_bytes32_shift [of w0 _ 0] load32_bytes32_shift [of w0 _ 4]
    load32_bytes32_shift [of w0 _ 8] load32_bytes32_shift [of w1 _ 0]
    load32_bytes32_shift [of w1 _ 4] load32_bytes32_shift [of w2 _ 0]
  by (simp_all add: addr6_bytes_def load32_bytes32)

lemma member_addr6_at:
  assumes "offset_of ms m = Some (length xs)"
  shows "member_addr6 ms m (xs @ addr6_bytes a @ rest) 0 = Some a"
  using assms load32_append_right [of xs "addr6_bytes a @ rest" 0]
    load32_append_right [of xs "addr6_bytes a @ rest" 4]
    load32_append_right [of xs "addr6_bytes a @ rest" 8]
    load32_append_right [of xs "addr6_bytes a @ rest" 12]
  by (cases a) (simp add: member_addr6_def load32_addr6)

lemma addr6_bytes_inj: "addr6_bytes a = addr6_bytes b \<longleftrightarrow> a = b"
  by (cases a; cases b) (auto simp: addr6_bytes_def bytes32_inj)

lemma v6_flow_bytes_inj: "v6_flow_bytes a = v6_flow_bytes b \<longleftrightarrow> a = b"
  by (cases a; cases b) (auto simp: v6_flow_bytes_def addr6_bytes_inj proto_port_bytes_inj)

lemma flow_stats_bytes_inj: "flow_stats_bytes a = flow_stats_bytes b \<longleftrightarrow> a = b"
  by (cases a; cases b) (auto simp: flow_stats_bytes_def bytes64_inj)

text \<open>Where the members are.\<close>

lemma key_offsets [simp]:
  "offset_of inet_v4_flow_layout ''src_ip'' = Some 0"
  "offset_of inet_v4_flow_layout ''dst_ip'' = Some 4"
  "offset_of inet_v4_flow_layout ''l4'' = Some 8"
  "offset_of proto_port_layout ''ip_proto'' = Some 0"
  "offset_of proto_port_layout ''sport'' = Some 4"
  "offset_of proto_port_layout ''dport'' = Some 6"
  "offset_of inet_v6_flow_layout ''src_ip'' = Some 0"
  "offset_of inet_v6_flow_layout ''dst_ip'' = Some 16"
  "offset_of flow_stats_layout ''out_bytes'' = Some 0"
  "offset_of flow_stats_layout ''out_packets'' = Some 8"
  "offset_of flow_stats_layout ''in_bytes'' = Some 16"
  "offset_of flow_stats_layout ''in_packets'' = Some 24"
  by code_simp+

lemma proto_port_members:
  "member8 proto_port_layout ''ip_proto'' (proto_port_bytes l4) 0 = Some (ip_proto l4)"
  "member16 proto_port_layout ''sport'' (proto_port_bytes l4) 0 = Some (sport l4)"
  "member16 proto_port_layout ''dport'' (proto_port_bytes l4) 0 = Some (dport l4)"
  by (simp_all add: member8_def member16_def proto_port_bytes_def load16_def load8_def
      bytes16_def le16_bytes split: prod.split)

lemma v4_key_members:
  "member32 inet_v4_flow_layout ''src_ip'' (v4_flow_bytes k) 0 = Some (v4_src_ip k)"
  "member32 inet_v4_flow_layout ''dst_ip'' (v4_flow_bytes k) 0 = Some (v4_dst_ip k)"
  "drop 8 (v4_flow_bytes k) = proto_port_bytes (v4_l4 k)"
  using load32_append_right [of "bytes32 (v4_src_ip k)" _ 0]
  by (simp_all add: member32_def v4_flow_bytes_def load32_bytes32)

lemma v6_key_members:
  "member_addr6 inet_v6_flow_layout ''src_ip'' (v6_flow_bytes k) 0 = Some (v6_src_ip k)"
  "member_addr6 inet_v6_flow_layout ''dst_ip'' (v6_flow_bytes k) 0 = Some (v6_dst_ip k)"
  using member_addr6_at [of inet_v6_flow_layout "''src_ip''" "[]" "v6_src_ip k"]
    member_addr6_at [of inet_v6_flow_layout "''dst_ip''" "addr6_bytes (v6_src_ip k)" "v6_dst_ip k"]
  by (simp_all add: v6_flow_bytes_def)

lemma stats_members:
  "member64 flow_stats_layout ''out_bytes'' (flow_stats_bytes v) 0 = Some (out_bytes v)"
  "member64 flow_stats_layout ''out_packets'' (flow_stats_bytes v) 0 = Some (out_packets v)"
  "member64 flow_stats_layout ''in_bytes'' (flow_stats_bytes v) 0 = Some (in_bytes v)"
  "member64 flow_stats_layout ''in_packets'' (flow_stats_bytes v) 0 = Some (in_packets v)"
  using load64_append_right [of "bytes64 (out_bytes v)" _ 0]
    load64_append_right [of "bytes64 (out_bytes v)" _ 8]
    load64_append_right [of "bytes64 (out_packets v)" _ 0]
    load64_append_right [of "bytes64 (out_bytes v)" _ 16]
    load64_append_right [of "bytes64 (out_packets v)" _ 8]
    load64_append_right [of "bytes64 (in_bytes v)" _ 0]
    load64_bytes64 [of "in_packets v" "[]"]
  by (simp_all add: member64_def flow_stats_bytes_def load64_bytes64)

section \<open>Facts about normalisation\<close>

definition swap_l4 :: "proto_port \<Rightarrow> proto_port" where
  "swap_l4 l4 = l4\<lparr>sport := dport l4, dport := sport l4\<rparr>"

definition reverse_v4 :: "inet_v4_flow \<Rightarrow> inet_v4_flow" where
  "reverse_v4 k = \<lparr>v4_src_ip = v4_dst_ip k, v4_dst_ip = v4_src_ip k, v4_l4 = swap_l4 (v4_l4 k)\<rparr>"

definition reverse_v6 :: "inet_v6_flow \<Rightarrow> inet_v6_flow" where
  "reverse_v6 k = \<lparr>v6_src_ip = v6_dst_ip k, v6_dst_ip = v6_src_ip k, v6_l4 = swap_l4 (v6_l4 k)\<rparr>"

lemma swap_l4_swap_l4 [simp]: "swap_l4 (swap_l4 l4) = l4"
  by (simp add: swap_l4_def)

lemma reverse_v4_reverse_v4 [simp]: "reverse_v4 (reverse_v4 k) = k"
  by (simp add: reverse_v4_def)

lemma reverse_v6_reverse_v6 [simp]: "reverse_v6 (reverse_v6 k) = k"
  by (simp add: reverse_v6_def)

lemma assign_v6_copies [simp]: "assign_v6 a b = b"
  by (simp add: assign_v6_def Let_def split: prod.splits)

lemma normalize_v4_ingress [simp]: "normalize_v4_flow k CGROUP_INGRESS = k"
  by (simp add: normalize_v4_flow_def)

lemma normalize_v4_egress [simp]: "normalize_v4_flow k CGROUP_EGRESS = reverse_v4 k"
  by (simp add: normalize_v4_flow_def reverse_v4_def swap_l4_def Let_def)

lemma normalize_v6_ingress [simp]: "normalize_v6_flow_from a k CGROUP_INGRESS = k"
  by (simp add: normalize_v6_flow_from_def)

lemma normalize_v6_egress [simp]: "normalize_v6_flow_from a k CGROUP_EGRESS = reverse_v6 k"
  by (simp add: normalize_v6_flow_from_def reverse_v6_def swap_l4_def Let_def)

end
