(* ===== verification/Flow_Map.thy ===== *)
theory Flow_Map
  imports Flow
begin

text \<open>
  The flow maps of \<open>ebpf/kernel/include/ebpf_maps.h\<close> and the interface through
  which the program reaches them.

  The map implementation is in the kernel, outside the repository: the model takes
  its operations as a record \<open>map_ops\<close> and reasons from the laws of the locale
  \<open>bpf_map\<close>, which are the documented behaviour of the helpers (the helper
  descriptions and the update flags in \<open>linux/bpf.h\<close>). The last section gives the
  smallest map with that documented behaviour (entries, a capacity, the three update
  flags) and interprets the locale on it; it is used for witnesses only.
\<close>

section \<open>Map definitions\<close>

record bpf_map_def =
  def_type :: nat
  def_key_size :: nat
  def_value_size :: nat
  def_max_entries :: nat
  def_map_flags :: nat
  def_inner_map_idx :: nat
  def_numa_node :: nat

definition BPF_MAP_TYPE_HASH :: nat where "BPF_MAP_TYPE_HASH = 1"

definition V4_FLOW_MAP_SIZE :: nat where "V4_FLOW_MAP_SIZE = 65535"
definition V6_FLOW_MAP_SIZE :: nat where "V6_FLOW_MAP_SIZE = 65535"

definition v4_flow_map :: bpf_map_def where
  "v4_flow_map =
    \<lparr>def_type = BPF_MAP_TYPE_HASH,
     def_key_size = sizeof inet_v4_flow_layout,
     def_value_size = sizeof flow_stats_layout,
     def_max_entries = V4_FLOW_MAP_SIZE,
     def_map_flags = 0, def_inner_map_idx = 0, def_numa_node = 0\<rparr>"

definition v6_flow_map :: bpf_map_def where
  "v6_flow_map =
    \<lparr>def_type = BPF_MAP_TYPE_HASH,
     def_key_size = sizeof inet_v6_flow_layout,
     def_value_size = sizeof flow_stats_layout,
     def_max_entries = V6_FLOW_MAP_SIZE,
     def_map_flags = 0, def_inner_map_idx = 0, def_numa_node = 0\<rparr>"

text \<open>
  \<open>BPF_ANNOTATE_KV_PAIR\<close>: the structure that tells the loader the types of a map's keys
  and values.
\<close>

definition btf_kv_pair :: "members \<Rightarrow> members \<Rightarrow> members" where
  "btf_kv_pair type_key type_val = [(''key'', Struct type_key), (''value'', Struct type_val)]"

definition v4_flow_map_btf :: members where
  "v4_flow_map_btf = btf_kv_pair inet_v4_flow_layout flow_stats_layout"

definition v6_flow_map_btf :: members where
  "v6_flow_map_btf = btf_kv_pair inet_v6_flow_layout flow_stats_layout"

text \<open>The annotated types are those the map definitions give the sizes of.\<close>

lemma kv_slots:
  "map (snd \<circ> snd) (member_slots 0 v4_flow_map_btf) = [16, 32]"
  "map (snd \<circ> snd) (member_slots 0 v6_flow_map_btf) = [40, 32]"
  by code_simp+

lemma kv_pairs_agree:
  "map (snd \<circ> snd) (member_slots 0 v4_flow_map_btf) = [def_key_size v4_flow_map, def_value_size v4_flow_map]"
  "map (snd \<circ> snd) (member_slots 0 v6_flow_map_btf) = [def_key_size v6_flow_map, def_value_size v6_flow_map]"
  unfolding kv_slots by (simp_all add: v4_flow_map_def v6_flow_map_def)

text \<open>Flags of \<open>bpf_map_update_elem\<close>.\<close>

definition BPF_ANY :: u64 where "BPF_ANY = 0"
definition BPF_NOEXIST :: u64 where "BPF_NOEXIST = 1"
definition BPF_EXIST :: u64 where "BPF_EXIST = 2"

section \<open>The helper interface\<close>

text \<open>
  \<open>lookup_elem\<close> is the value behind the pointer \<open>bpf_map_lookup_elem\<close> returns
  (\<open>None\<close> for \<open>NULL\<close>), \<open>store_elem m k v\<close> the map after \<open>v\<close> is written through
  that pointer, \<open>update_elem\<close> the helper's return code and the map it leaves.
\<close>

record ('m, 'k) map_ops =
  lookup_elem :: "'m \<Rightarrow> 'k \<Rightarrow> flow_stats option"
  update_elem :: "'m \<Rightarrow> 'k \<Rightarrow> flow_stats \<Rightarrow> u64 \<Rightarrow> int \<times> 'm"
  store_elem :: "'m \<Rightarrow> 'k \<Rightarrow> flow_stats \<Rightarrow> 'm"

locale bpf_map =
  fixes ops :: "('m, 'k) map_ops"
  assumes update_ok:
      "update_elem ops m k v BPF_ANY = (0, m') \<Longrightarrow> lookup_elem ops m' = (lookup_elem ops m)(k \<mapsto> v)"
    and update_failed:
      "update_elem ops m k v BPF_ANY = (r, m') \<Longrightarrow> r \<noteq> 0 \<Longrightarrow> lookup_elem ops m' = lookup_elem ops m"
    and store_ok:
      "lookup_elem ops m k = Some v0 \<Longrightarrow> lookup_elem ops (store_elem ops m k v) = (lookup_elem ops m)(k \<mapsto> v)"
begin

lemma lookup_update_other:
  "update_elem ops m k v BPF_ANY = (r, m') \<Longrightarrow> k' \<noteq> k \<Longrightarrow> lookup_elem ops m' k' = lookup_elem ops m k'"
  by (cases "r = 0") (auto dest: update_ok update_failed)

lemma lookup_store_twice:
  "lookup_elem ops m k = Some v0 \<Longrightarrow>
   lookup_elem ops (store_elem ops (store_elem ops m k v1) k v2) = (lookup_elem ops m)(k \<mapsto> v2)"
  by (simp add: store_ok [where ?v0.0 = v1] store_ok [of m k v0])

end

section \<open>The documented behaviour, as a bounded association list\<close>

record 'k hash_map =
  hm_entries :: "('k \<times> flow_stats) list"
  hm_capacity :: nat

definition EEXIST :: int where "EEXIST = 17"
definition ENOENT :: int where "ENOENT = 2"
definition E2BIG :: int where "E2BIG = 7"

definition hm_lookup :: "'k hash_map \<Rightarrow> 'k \<Rightarrow> flow_stats option" where
  "hm_lookup m k = map_of (hm_entries m) k"

fun put_entry :: "'k \<Rightarrow> 'v \<Rightarrow> ('k \<times> 'v) list \<Rightarrow> ('k \<times> 'v) list" where
  "put_entry k v [] = [(k, v)]"
| "put_entry k v ((k', v') # es) =
     (if k' = k then (k, v) # es else (k', v') # put_entry k v es)"

definition hm_update :: "'k hash_map \<Rightarrow> 'k \<Rightarrow> flow_stats \<Rightarrow> u64 \<Rightarrow> int \<times> 'k hash_map" where
  "hm_update m k v flags =
     (if flags = BPF_NOEXIST \<and> hm_lookup m k \<noteq> None then (- EEXIST, m)
      else if flags = BPF_EXIST \<and> hm_lookup m k = None then (- ENOENT, m)
      else if hm_lookup m k = None \<and> hm_capacity m \<le> length (hm_entries m) then (- E2BIG, m)
      else (0, m\<lparr>hm_entries := put_entry k v (hm_entries m)\<rparr>))"

definition hm_store :: "'k hash_map \<Rightarrow> 'k \<Rightarrow> flow_stats \<Rightarrow> 'k hash_map" where
  "hm_store m k v =
     (if hm_lookup m k = None then m
      else m\<lparr>hm_entries := put_entry k v (hm_entries m)\<rparr>)"

definition hash_ops :: "('k hash_map, 'k) map_ops" where
  "hash_ops = \<lparr>lookup_elem = hm_lookup, update_elem = hm_update, store_elem = hm_store\<rparr>"

definition create_map :: "bpf_map_def \<Rightarrow> 'k hash_map" where
  "create_map d = \<lparr>hm_entries = [], hm_capacity = def_max_entries d\<rparr>"

lemma map_of_put_entry: "map_of (put_entry k v es) = (map_of es)(k \<mapsto> v)"
  by (induction es) (auto simp: fun_eq_iff)

lemma length_put_entry:
  "length (put_entry k v es) = (if map_of es k = None then Suc (length es) else length es)"
  by (induction es) auto

lemma fst_put_entry: "fst ` set (put_entry k v es) = insert k (fst ` set es)"
  by (induction k v es rule: put_entry.induct) (simp_all add: insert_commute)

lemma distinct_put_entry: "distinct (map fst es) \<Longrightarrow> distinct (map fst (put_entry k v es))"
  by (induction k v es rule: put_entry.induct) (simp_all add: fst_put_entry, blast)

interpretation hash: bpf_map hash_ops
  by unfold_locales
     (auto simp: hash_ops_def hm_update_def hm_lookup_def hm_store_def map_of_put_entry
       fun_eq_iff EEXIST_def ENOENT_def E2BIG_def split: if_splits)

lemma hm_capacity_kept:
  "hm_update m k v flags = (r, m') \<Longrightarrow> length (hm_entries m) \<le> hm_capacity m \<Longrightarrow>
   hm_capacity m' = hm_capacity m \<and> length (hm_entries m') \<le> hm_capacity m'"
  by (auto simp: hm_update_def hm_lookup_def length_put_entry split: if_splits)

lemma hm_update_room:
  "length (hm_entries m) < hm_capacity m \<Longrightarrow> fst (hm_update m k v BPF_ANY) = 0"
  by (simp add: hm_update_def BPF_ANY_def BPF_NOEXIST_def BPF_EXIST_def)

end
