(* ===== verification/Map_Reader.thy ===== *)
theory Map_Reader
  imports Net_Text Endian Flow_Map
begin

text \<open>
  \<open>ebpf/user/map_reader.c\<close>: the command that prints the entries of the pinned IPv4
  flow map, two lines for each flow.

  The \<open>bpf\<close> system calls (libbpf) are parameters, a record over an unspecified world
  that every call may change, since the kernel program and the agent keep working on
  the map. The locale \<open>quiet_map\<close> states their documented behaviour while nobody else
  writes: iteration visits the keys one after the other, lookups find them. The lines
  are what \<open>std::cout\<close> receives with the operands of \<open><<\<close> taken left to right.
\<close>

section \<open>System calls and libc\<close>

text \<open>
  \<open>next_key\<close> is \<open>bpf_map_get_next_key\<close> with \<open>None\<close> for a \<open>NULL\<close> key, \<open>Some\<close> of the
  key it stores when it returns 0; \<open>lookup_value\<close> is \<open>bpf_map_lookup_elem\<close> with \<open>None\<close>
  when it fails and leaves \<open>*value\<close> alone; \<open>obj_get\<close> gives the descriptor and \<open>errno\<close>.
\<close>

record 'w syscalls =
  obj_get :: "'w \<Rightarrow> (int \<times> int) \<times> 'w"
  next_key :: "'w \<Rightarrow> inet_v4_flow option \<Rightarrow> inet_v4_flow option \<times> 'w"
  lookup_value :: "'w \<Rightarrow> inet_v4_flow \<Rightarrow> flow_stats option \<times> 'w"
  strerror :: "int \<Rightarrow> string"

definition inet_ntoa :: "u32 \<Rightarrow> string" where
  "inet_ntoa s_addr = dotted (bytes32 s_addr)"

definition ntohs :: "u16 \<Rightarrow> u16" where
  "ntohs = bswap16"

definition snprintf :: "nat \<Rightarrow> string \<Rightarrow> string" where
  "snprintf n text = take (n - 1) text"

definition print_int :: "int \<Rightarrow> string" where
  "print_int i = (if i < 0 then CHR ''-'' # dec_string (nat (- i)) else dec_string (nat i))"

section \<open>The program\<close>

definition half_line :: "u32 \<Rightarrow> u16 \<Rightarrow> u32 \<Rightarrow> u16 \<Rightarrow> string \<Rightarrow> string \<Rightarrow> string" where
  "half_line ip port ip' port' pktstr bytestr =
     inet_ntoa ip @ ''(:'' @ dec_string (unat (ntohs port)) @ '')->'' @
     inet_ntoa ip' @ ''(:'' @ dec_string (unat (ntohs port')) @ ''):::: '' @ pktstr @ bytestr"

definition report_entry :: "inet_v4_flow \<Rightarrow> flow_stats \<Rightarrow> string list" where
  "report_entry v4_key value =
     (let sip = v4_src_ip v4_key;
          dip = v4_dst_ip v4_key;
          sport = sport (v4_l4 v4_key);
          dport = dport (v4_l4 v4_key);
          pktstr = snprintf 99 (dec_string (unat (out_bytes value)) @ '' bytes '');
          bytestr = snprintf 99 (dec_string (unat (out_packets value)) @ '' packets'');
          line1 = half_line sip sport dip dport pktstr bytestr;
          pktstr = snprintf 99 (dec_string (unat (in_bytes value)) @ '' bytes '');
          bytestr = snprintf 99 (dec_string (unat (in_packets value)) @ '' packets'')
      in [line1, half_line dip dport sip sport pktstr bytestr])"

text \<open>
  The \<open>do\<close> loop: \<open>value\<close> keeps what the previous round left in it when the lookup
  fails, since the result of the call is not looked at. The loop ends when the map has
  no next key, which a map that others write to need never happen.
\<close>

partial_function (option) report_loop ::
    "'w syscalls \<Rightarrow> 'w \<Rightarrow> inet_v4_flow \<Rightarrow> flow_stats \<Rightarrow> string list \<Rightarrow> (string list \<times> 'w) option" where
  "report_loop sys w v4_next_key value out =
     (let v4_key = v4_next_key;
          (found, w1) = lookup_value sys w v4_key;
          value' = (case found of None \<Rightarrow> value | Some v \<Rightarrow> v);
          out' = out @ report_entry v4_key value'
      in case next_key sys w1 (Some v4_key) of
           (None, w2) \<Rightarrow> Some (out', w2)
         | (Some k, w2) \<Rightarrow> report_loop sys w2 k value' out')"

text \<open>Exit status, standard output, standard error and the world left behind.\<close>

definition map_reader ::
    "'w syscalls \<Rightarrow> flow_stats \<Rightarrow> 'w \<Rightarrow> (int \<times> string list \<times> string list \<times> 'w) option" where
  "map_reader sys value w =
     (case obj_get sys w of
        ((map_fd, errno), w1) \<Rightarrow>
          if map_fd < 0 then
            Some (- 1, [], [''bpf_obj_get(v4_flow_map): '' @ strerror sys errno @ ''('' @
                             print_int errno @ '')''], w1)
          else
            (case next_key sys w1 None of
               (None, w2) \<Rightarrow> Some (0, [], [], w2)
             | (Some v4_key, w2) \<Rightarrow>
                 map_option (\<lambda>(out, w3). (0, out, [], w3)) (report_loop sys w2 v4_key value [])))"

section \<open>The buffers are large enough\<close>

lemma snprintf_fits:
  "snprintf 99 (dec_string (unat (w :: u64)) @ '' bytes '') = dec_string (unat w) @ '' bytes ''"
  "snprintf 99 (dec_string (unat w) @ '' packets'') = dec_string (unat w) @ '' packets''"
  using length_dec_u64 [of w] by (simp_all add: snprintf_def)

lemma report_entry_untruncated:
  "report_entry k v =
     [half_line (v4_src_ip k) (sport (v4_l4 k)) (v4_dst_ip k) (dport (v4_l4 k))
        (dec_string (unat (out_bytes v)) @ '' bytes '') (dec_string (unat (out_packets v)) @ '' packets''),
      half_line (v4_dst_ip k) (dport (v4_l4 k)) (v4_src_ip k) (sport (v4_l4 k))
        (dec_string (unat (in_bytes v)) @ '' bytes '') (dec_string (unat (in_packets v)) @ '' packets'')]"
  by (simp only: report_entry_def Let_def snprintf_fits)

section \<open>A map nobody else writes to\<close>

definition report :: "(inet_v4_flow \<rightharpoonup> flow_stats) \<Rightarrow> inet_v4_flow list \<Rightarrow> string list" where
  "report entries ks = concat (map (\<lambda>k. report_entry k (the (entries k))) ks)"

locale quiet_map =
  fixes sys :: "'w syscalls"
    and keys :: "'w \<Rightarrow> inet_v4_flow list"
    and view :: "'w \<Rightarrow> inet_v4_flow \<rightharpoonup> flow_stats"
    and quiet :: "'w \<Rightarrow> bool"
  assumes keys_view: "quiet w \<Longrightarrow> set (keys w) = dom (view w)"
    and lookup_quiet: "quiet w \<Longrightarrow> lookup_value sys w k = (view w k, w)"
    and first_key: "quiet w \<Longrightarrow> next_key sys w None = (if keys w = [] then None else Some (hd (keys w)), w)"
    and following_key: "quiet w \<Longrightarrow> i < length (keys w) \<Longrightarrow>
      next_key sys w (Some (keys w ! i)) =
        (if Suc i < length (keys w) then Some (keys w ! Suc i) else None, w)"
begin

lemma value_found:
  assumes "quiet w" "i < length (keys w)"
  shows "view w (keys w ! i) = Some (the (view w (keys w ! i)))"
proof -
  have "keys w ! i \<in> dom (view w)" using assms keys_view nth_mem by blast
  then show ?thesis by auto
qed

lemma report_loop_from:
  assumes "quiet w" "i < length (keys w)"
  shows "report_loop sys w (keys w ! i) v0 out = Some (out @ report (view w) (drop i (keys w)), w)"
  using assms(2)
proof (induction "length (keys w) - i" arbitrary: i v0 out)
  case (Suc n)
  note here = Cons_nth_drop_Suc [OF \<open>i < length (keys w)\<close>, symmetric]
  have found: "lookup_value sys w (keys w ! i) = (Some (the (view w (keys w ! i))), w)"
    using lookup_quiet [OF assms(1)] value_found [OF assms(1) Suc.prems] by metis
  show ?case
  proof (cases "Suc i < length (keys w)")
    case True
    then have "n = length (keys w) - Suc i" using Suc.hyps by simp
    from Suc.hyps(1) [OF this True] True show ?thesis
      by (subst report_loop.simps)
         (simp add: found following_key [OF assms(1) Suc.prems] here report_def Let_def)
  next
    case False
    then show ?thesis
      by (subst report_loop.simps)
         (simp add: found following_key [OF assms(1) Suc.prems] here report_def Let_def)
  qed
qed simp

lemma map_reader_reports:
  assumes "quiet w" "obj_get sys w = ((fd, e), w)" "0 \<le> fd"
  shows "map_reader sys v0 w = Some (0, report (view w) (keys w), [], w)"
proof (cases "keys w")
  case Nil
  then show ?thesis using assms by (simp add: map_reader_def first_key report_def)
next
  case (Cons k ks)
  with assms report_loop_from [of w 0 v0 "[]"] show ?thesis
    by (simp add: map_reader_def first_key)
qed

end

section \<open>The documented behaviour, on the bounded association list\<close>

fun key_after :: "'k \<Rightarrow> 'k list \<Rightarrow> 'k option" where
  "key_after k (a # b # ks) = (if a = k then Some b else key_after k (b # ks))"
| "key_after k _ = None"

definition hash_syscalls :: "inet_v4_flow hash_map syscalls" where
  "hash_syscalls =
     \<lparr>obj_get = \<lambda>w. ((3, 0), w),
      next_key = \<lambda>w k.
        (case k of
           None \<Rightarrow> (if hm_entries w = [] then None else Some (fst (hd (hm_entries w))))
         | Some k \<Rightarrow> if hm_lookup w k = None \<and> hm_entries w \<noteq> []
                     then Some (fst (hd (hm_entries w)))
                     else key_after k (map fst (hm_entries w)), w),
      lookup_value = \<lambda>w k. (hm_lookup w k, w),
      strerror = \<lambda>e. ''error''\<rparr>"

lemma key_after_nth:
  assumes "distinct ks" "i < length ks"
  shows "key_after (ks ! i) ks = (if Suc i < length ks then Some (ks ! Suc i) else None)"
  using assms
proof (induction ks arbitrary: i)
  case (Cons a ks)
  then show ?case by (cases i; cases ks) (auto simp: nth_Cons')
qed simp

interpretation hash_quiet: quiet_map hash_syscalls "\<lambda>w. map fst (hm_entries w)" hm_lookup
    "\<lambda>w. distinct (map fst (hm_entries w))"
proof unfold_locales
  fix w :: "inet_v4_flow hash_map" and i
  assume quiet: "distinct (map fst (hm_entries w))" and i: "i < length (map fst (hm_entries w))"
  let ?k = "map fst (hm_entries w) ! i"
  have "?k \<in> set (map fst (hm_entries w))" using i by (rule nth_mem)
  then obtain v where "hm_lookup w ?k = Some v" 
    by (metis hm_lookup_def map_of_eq_None_iff not_None_eq list.set_map)
  then show "next_key hash_syscalls w (Some ?k) =
      (if Suc i < length (map fst (hm_entries w)) then Some (map fst (hm_entries w) ! Suc i) else None, w)"
    using key_after_nth [OF quiet i] by (simp add: hash_syscalls_def del: nth_map)
qed (auto simp: hash_syscalls_def hm_lookup_def dom_map_of_conv_image_fst hd_map intro: rev_image_eqI)

section \<open>Properties\<close>

text \<open>
  C32: On a map that nobody writes to, the command ends with status 0 and prints
  exactly the entries: the two lines of every flow in the map, each flow once, with the
  counters the map holds for it, nothing truncated by the 100-byte buffers, and nothing
  on standard error.
\<close>

theorem map_reader_lists_every_flow:
  assumes "quiet_map sys keys view quiet" and "quiet w"
    and "obj_get sys w = ((map_fd, errno), w)" and "0 \<le> map_fd"
  shows "map_reader sys v0 w = Some (0, report (view w) (keys w), [], w) \<and>
    set (keys w) = dom (view w) \<and>
    (\<forall>k v. report_entry k v =
      [half_line (v4_src_ip k) (sport (v4_l4 k)) (v4_dst_ip k) (dport (v4_l4 k))
         (dec_string (unat (out_bytes v)) @ '' bytes '') (dec_string (unat (out_packets v)) @ '' packets''),
       half_line (v4_dst_ip k) (dport (v4_l4 k)) (v4_src_ip k) (sport (v4_l4 k))
         (dec_string (unat (in_bytes v)) @ '' bytes '') (dec_string (unat (in_packets v)) @ '' packets'')])"
  using quiet_map.map_reader_reports [OF assms] quiet_map.keys_view [OF assms(1,2)]
    report_entry_untruncated
  by blast

definition stack_value :: flow_stats where
  "stack_value = \<lparr>out_bytes = 9, out_packets = 8, in_bytes = 7, in_packets = 6\<rparr>"

definition one_flow :: "inet_v4_flow hash_map" where
  "one_flow =
     \<lparr>hm_entries = [(\<lparr>v4_src_ip = 0x0100000a, v4_dst_ip = 0x0200000a,
                      v4_l4 = \<lparr>ip_proto = 6, padding = (0, 0, 0), sport = 0x3500, dport = 0x5000\<rparr>\<rparr>,
                    \<lparr>out_bytes = 60, out_packets = 1, in_bytes = 120, in_packets = 2\<rparr>)],
      hm_capacity = 4\<rparr>"

theorem map_reader_lists_every_flow_witness:
  "map_reader hash_syscalls stack_value one_flow =
     Some (0, [''10.0.0.1(:53)->10.0.0.2(:80):::: 60 bytes 1 packets'',
               ''10.0.0.2(:80)->10.0.0.1(:53):::: 120 bytes 2 packets''], [], one_flow)"
proof -
  have open_ok: "obj_get hash_syscalls one_flow = ((3, 0), one_flow)"
    by (simp add: hash_syscalls_def)
  have lines: "report (hm_lookup one_flow) (map fst (hm_entries one_flow)) =
      [''10.0.0.1(:53)->10.0.0.2(:80):::: 60 bytes 1 packets'',
       ''10.0.0.2(:80)->10.0.0.1(:53):::: 120 bytes 2 packets'']"
    by code_simp
  show ?thesis
    using map_reader_lists_every_flow [OF hash_quiet.quiet_map_axioms _ open_ok, of stack_value] lines
    by (simp add: one_flow_def)
qed

text \<open>
  C33: The result of the lookup in the loop is not checked. When a flow is deleted
  between the step that names it and its lookup (the agent ages flows out of the same
  map), its two lines are printed all the same, with the counters of the flow printed
  before it; the iteration then starts over and prints the first flow a second time.
\<close>

theorem map_reader_prints_stale_counters:
  assumes "obj_get sys w0 = ((map_fd, errno), w1)" and "0 \<le> map_fd"
    and "next_key sys w1 None = (Some k1, w2)"
    and "lookup_value sys w2 k1 = (Some v1, w3)"
    and "next_key sys w3 (Some k1) = (Some k2, w4)"
    and "lookup_value sys w4 k2 = (None, w5)"
    and "next_key sys w5 (Some k2) = (Some k1, w6)"
    and "lookup_value sys w6 k1 = (Some v2, w7)"
    and "next_key sys w7 (Some k1) = (None, w8)"
  shows "map_reader sys v0 w0 =
    Some (0, report_entry k1 v1 @ report_entry k2 v1 @ report_entry k1 v2, [], w8)"
  using assms
  by (simp add: map_reader_def report_loop.simps [of sys w2] report_loop.simps [of sys w4]
      report_loop.simps [of sys w6] Let_def)

definition two_flows :: "inet_v4_flow hash_map" where
  "two_flows = one_flow\<lparr>hm_entries := hm_entries one_flow @
     [(\<lparr>v4_src_ip = 0x0300000a, v4_dst_ip = 0x0400000a,
        v4_l4 = \<lparr>ip_proto = 1, padding = (0, 0, 0), sport = 0, dport = 0\<rparr>\<rparr>,
       \<lparr>out_bytes = 7, out_packets = 7, in_bytes = 7, in_packets = 7\<rparr>)]\<rparr>"

text \<open>The second flow is deleted right before it is looked up.\<close>

definition racing_syscalls :: "inet_v4_flow hash_map syscalls" where
  "racing_syscalls = hash_syscalls\<lparr>lookup_value := \<lambda>w k.
     if k = fst (hd (hm_entries w)) then (hm_lookup w k, w)
     else (None, w\<lparr>hm_entries := filter (\<lambda>e. fst e \<noteq> k) (hm_entries w)\<rparr>)\<rparr>"

theorem map_reader_prints_stale_counters_witness:
  "map_option (\<lambda>(st, out, _). take 2 (drop 2 out)) (map_reader racing_syscalls stack_value two_flows) =
     Some [''10.0.0.3(:0)->10.0.0.4(:0):::: 60 bytes 1 packets'',
           ''10.0.0.4(:0)->10.0.0.3(:0):::: 120 bytes 2 packets'']"
proof -
  let ?k1 = "fst (hm_entries two_flows ! 0)" and ?v1 = "snd (hm_entries two_flows ! 0)"
  let ?k2 = "fst (hm_entries two_flows ! 1)"
  have "obj_get racing_syscalls two_flows = ((3, 0), two_flows)"
    "next_key racing_syscalls two_flows None = (Some ?k1, two_flows)"
    "lookup_value racing_syscalls two_flows ?k1 = (Some ?v1, two_flows)"
    "next_key racing_syscalls two_flows (Some ?k1) = (Some ?k2, two_flows)"
    "lookup_value racing_syscalls two_flows ?k2 = (None, one_flow)"
    "next_key racing_syscalls one_flow (Some ?k2) = (Some ?k1, one_flow)"
    "lookup_value racing_syscalls one_flow ?k1 = (Some ?v1, one_flow)"
    "next_key racing_syscalls one_flow (Some ?k1) = (None, one_flow)"
    by (code_simp; simp)+
  note run = map_reader_prints_stale_counters [OF this(1) _ this(2-8), of stack_value]
  have "take 2 (drop 2 (report_entry ?k1 ?v1 @ report_entry ?k2 ?v1 @ report_entry ?k1 ?v1)) =
      [''10.0.0.3(:0)->10.0.0.4(:0):::: 60 bytes 1 packets'',
       ''10.0.0.4(:0)->10.0.0.3(:0):::: 120 bytes 2 packets'']"
    by code_simp
  with run show ?thesis by simp
qed

end
