(* ===== verification/Flow_Reader.thy ===== *)
theory Flow_Reader
  imports Flow_Map
begin

unbundle bit_operations_syntax

text \<open>
  \<open>ebpf/kernel/bpf_cgroup_kern.c\<close>: the program that runs on every packet entering
  or leaving a cgroup and counts it in one of the two flow maps.

  A packet is its length \<open>skb->len\<close> and the bytes between \<open>skb->data\<close> and
  \<open>skb->data_end\<close>; pointers into it are offsets. A read past \<open>data_end\<close> makes the
  result \<open>None\<close>. An early \<open>return\<close> of the C code is \<open>Return\<close>, the value that flows
  on to the next statement is \<open>Continue\<close>.
\<close>

section \<open>State and results\<close>

record sk_buff =
  skb_len :: u32
  skb_data :: "u8 list"

datatype 'a outcome = Return int | Continue 'a

lemma map_outcome_Return [simp]: "map_outcome f r = Return c \<longleftrightarrow> r = Return c"
  by (cases r) auto

lemma map_outcome_Continue: "map_outcome f r = Continue y \<longleftrightarrow> (\<exists>x. r = Continue x \<and> y = f x)"
  by (cases r) auto

record ('m4, 'm6) kernel_state =
  v4_map :: 'm4
  v6_map :: 'm6
  trace :: "(string \<times> int) list"

section \<open>Reading the headers\<close>

text \<open>
  The transport header. The C code has this block twice, once for each IP version,
  with the same statements on the two keys.
\<close>

definition read_l4 :: "u8 list \<Rightarrow> nat \<Rightarrow> proto_port \<Rightarrow> proto_port outcome option" where
  "read_l4 bs l3_offset l4 =
     (if ip_proto l4 = IPPROTO_TCP then
        if length bs < l3_offset + sizeof tcphdr then Some (Return 1)
        else do {
          s \<leftarrow> member16 tcphdr ''source'' bs l3_offset;
          d \<leftarrow> member16 tcphdr ''dest'' bs l3_offset;
          Some (Continue (l4\<lparr>sport := s, dport := d, padding := (0, 0, 0)\<rparr>)) }
      else if ip_proto l4 = IPPROTO_UDP then
        if length bs < l3_offset + sizeof udphdr then Some (Return 1)
        else do {
          s \<leftarrow> member16 udphdr ''source'' bs l3_offset;
          d \<leftarrow> member16 udphdr ''dest'' bs l3_offset;
          Some (Continue (l4\<lparr>sport := s, dport := d, padding := (0, 0, 0)\<rparr>)) }
      else Some (Continue l4))"

definition zero_l4 :: proto_port where
  "zero_l4 = \<lparr>ip_proto = 0, padding = (0, 0, 0), sport = 0, dport = 0\<rparr>"

definition read_v4_key :: "u8 list \<Rightarrow> inet_v4_flow outcome option" where
  "read_v4_key bs = do {
     let key = \<lparr>v4_src_ip = 0, v4_dst_ip = 0, v4_l4 = zero_l4\<rparr>;
     proto \<leftarrow> member8 iphdr ''protocol'' bs 0;
     saddr \<leftarrow> member32 iphdr ''saddr'' bs 0;
     daddr \<leftarrow> member32 iphdr ''daddr'' bs 0;
     ihl \<leftarrow> ip_ihl bs 0;
     let key = key\<lparr>v4_src_ip := saddr, v4_dst_ip := daddr,
                   v4_l4 := (v4_l4 key)\<lparr>ip_proto := proto\<rparr>\<rparr>;
     let l3_offset = (push_bit 2 (ucast ihl) :: u16);
     if v4_src_ip key = IPV4_LOOPBACK \<or> v4_dst_ip key = IPV4_LOOPBACK then Some (Return 1)
     else do {
       r \<leftarrow> read_l4 bs (unat l3_offset) (v4_l4 key);
       Some (map_outcome (\<lambda>l4. key\<lparr>v4_l4 := l4\<rparr>) r) } }"

definition ipv6_lo :: addr6 where
  "ipv6_lo = (0x00, 0x00, 0x00, 0x01000000)"

definition read_v6_key :: "u8 list \<Rightarrow> inet_v6_flow outcome option" where
  "read_v6_key bs =
     (if length bs < sizeof ipv6hdr then Some (Return 1)
      else do {
        let key = \<lparr>v6_src_ip = (0, 0, 0, 0), v6_dst_ip = (0, 0, 0, 0), v6_l4 = zero_l4\<rparr>;
        proto \<leftarrow> member8 ipv6hdr ''nexthdr'' bs 0;
        saddr \<leftarrow> member_addr6 ipv6hdr ''saddr'' bs 0;
        daddr \<leftarrow> member_addr6 ipv6hdr ''daddr'' bs 0;
        let key = key\<lparr>v6_src_ip := saddr, v6_dst_ip := daddr,
                      v6_l4 := (v6_l4 key)\<lparr>ip_proto := proto\<rparr>\<rparr>;
        let l3_offset = (of_nat (sizeof ipv6hdr) :: u16);
        if v6_src_ip key = ipv6_lo \<or> v6_dst_ip key = ipv6_lo then Some (Return 1)
        else do {
          r \<leftarrow> read_l4 bs (unat l3_offset) (v6_l4 key);
          Some (map_outcome (\<lambda>l4. key\<lparr>v6_l4 := l4\<rparr>) r) } })"

section \<open>Counting\<close>

definition init_cgroup_ingress_stats :: "u32 \<Rightarrow> flow_stats" where
  "init_cgroup_ingress_stats len =
     \<lparr>out_bytes = ucast len, out_packets = 1, in_bytes = 0, in_packets = 0\<rparr>"

definition init_cgroup_egress_stats :: "u32 \<Rightarrow> flow_stats" where
  "init_cgroup_egress_stats len =
     \<lparr>out_bytes = 0, out_packets = 0, in_bytes = ucast len, in_packets = 1\<rparr>"

text \<open>An atomic add through the pointer \<open>bpf_map_lookup_elem\<close> returned for \<open>k\<close>.\<close>

definition sync_fetch_and_add ::
    "('m, 'k) map_ops \<Rightarrow> 'm \<Rightarrow> 'k \<Rightarrow> (flow_stats \<Rightarrow> flow_stats) \<Rightarrow> 'm" where
  "sync_fetch_and_add ops m k add =
     (case lookup_elem ops m k of None \<Rightarrow> m | Some v \<Rightarrow> store_elem ops m k (add v))"

definition count_flow ::
    "('m, 'k) map_ops \<Rightarrow> string \<Rightarrow> u32 \<Rightarrow> cgroup_direction \<Rightarrow> 'k \<Rightarrow> 'm \<Rightarrow>
     'm \<times> (string \<times> int) list" where
  "count_flow ops fmt len dir key m =
     (case lookup_elem ops m key of
        None \<Rightarrow>
          let value = (if dir = CGROUP_INGRESS then init_cgroup_ingress_stats len
                       else init_cgroup_egress_stats len);
              (ret, m') = update_elem ops m key value BPF_ANY
          in (m', if ret \<noteq> 0 then [(fmt, ret)] else [])
      | Some value \<Rightarrow>
          (if dir = CGROUP_INGRESS then
             let m1 = sync_fetch_and_add ops m key (\<lambda>v. v\<lparr>out_bytes := out_bytes v + ucast len\<rparr>)
             in sync_fetch_and_add ops m1 key (\<lambda>v. v\<lparr>out_packets := out_packets v + 1\<rparr>)
           else
             let m1 = sync_fetch_and_add ops m key (\<lambda>v. v\<lparr>in_bytes := in_bytes v + ucast len\<rparr>)
             in sync_fetch_and_add ops m1 key (\<lambda>v. v\<lparr>in_packets := in_packets v + 1\<rparr>),
           []))"

section \<open>The program\<close>

definition v4_fmt :: string where "v4_fmt = ''Unable to update v4_flow_map:%d''"
definition v6_fmt :: string where "v6_fmt = ''Unable to update v6_flow_map:%d''"

definition bpf_flow_reader ::
    "('m4, inet_v4_flow) map_ops \<Rightarrow> ('m6, inet_v6_flow) map_ops \<Rightarrow>
     sk_buff \<Rightarrow> cgroup_direction \<Rightarrow> ('m4, 'm6) kernel_state \<Rightarrow>
     (int \<times> ('m4, 'm6) kernel_state) option" where
  "bpf_flow_reader ops4 ops6 skb dir s =
     (let bs = skb_data skb in
      if length bs < sizeof iphdr then Some (1, s)
      else do {
        version \<leftarrow> ip_version bs 0;
        if version = 4 then do {
          r \<leftarrow> read_v4_key bs;
          case r of
            Return c \<Rightarrow> Some (c, s)
          | Continue v4_key \<Rightarrow>
              let key = normalize_v4_flow v4_key dir;
                  (m', tr) = count_flow ops4 v4_fmt (skb_len skb) dir key (v4_map s)
              in Some (1, s\<lparr>v4_map := m', trace := trace s @ tr\<rparr>) }
        else do {
          r \<leftarrow> read_v6_key bs;
          case r of
            Return c \<Rightarrow> Some (c, s)
          | Continue v6_key \<Rightarrow>
              let key = normalize_v6_flow v6_key dir;
                  (m', tr) = count_flow ops6 v6_fmt (skb_len skb) dir key (v6_map s)
              in Some (1, s\<lparr>v6_map := m', trace := trace s @ tr\<rparr>) } })"

definition bpf_ingress_flow_reader where
  "bpf_ingress_flow_reader ops4 ops6 skb s = bpf_flow_reader ops4 ops6 skb CGROUP_INGRESS s"

definition bpf_egress_flow_reader where
  "bpf_egress_flow_reader ops4 ops6 skb s = bpf_flow_reader ops4 ops6 skb CGROUP_EGRESS s"

section \<open>The reader never leaves the packet and never drops it\<close>

lemma read_l4_total: "read_l4 bs off l4 \<noteq> None"
proof -
  have tcp: "length bs \<ge> off + 20 \<Longrightarrow> \<exists>v. member16 tcphdr m bs off = Some v"
    if "m = ''source'' \<or> m = ''dest''" for m
    using that member_loads(2) [of tcphdr m _ off bs] by force
  have udp: "length bs \<ge> off + 8 \<Longrightarrow> \<exists>v. member16 udphdr m bs off = Some v"
    if "m = ''source'' \<or> m = ''dest''" for m
    using that member_loads(2) [of udphdr m _ off bs] by force
  show ?thesis
    using tcp [of "''source''"] tcp [of "''dest''"] udp [of "''source''"] udp [of "''dest''"]
    by (auto simp: read_l4_def not_less)
qed

lemma read_l4_None [simp]: "read_l4 bs off l4 = None \<longleftrightarrow> False"
  using read_l4_total by simp

lemma read_l4_return: "read_l4 bs off l4 = Some (Return c) \<Longrightarrow> c = 1"
  by (auto simp: read_l4_def bind_eq_Some_conv split: if_splits)

lemma ip_version_total: "20 \<le> length bs \<Longrightarrow> ip_version bs 0 \<noteq> None"
  using member_loads(1) [of iphdr "''ihl_version''" 0 0 bs] by (cases bs) (auto simp: ip_version_def)

lemma ip_ihl_total: "20 \<le> length bs \<Longrightarrow> ip_ihl bs 0 \<noteq> None"
  using member_loads(1) [of iphdr "''ihl_version''" 0 0 bs] by (cases bs) (auto simp: ip_ihl_def)

lemma read_v4_key_total:
  assumes "20 \<le> length bs"
  shows "read_v4_key bs \<noteq> None"
proof -
  obtain p where p: "member8 iphdr ''protocol'' bs 0 = Some p"
    using member_loads(1) [of iphdr "''protocol''" 9 0 bs] assms by auto
  obtain s where s: "member32 iphdr ''saddr'' bs 0 = Some s"
    using member_loads(3) [of iphdr "''saddr''" 12 0 bs] assms by auto
  obtain d where d: "member32 iphdr ''daddr'' bs 0 = Some d"
    using member_loads(3) [of iphdr "''daddr''" 16 0 bs] assms by auto
  obtain i where i: "ip_ihl bs 0 = Some i"
    using ip_ihl_total [OF assms] by auto
  show ?thesis
    by (simp add: read_v4_key_def p s d i Let_def bind_eq_None_conv del: not_None_eq)
qed

lemma read_v4_key_return: "read_v4_key bs = Some (Return c) \<Longrightarrow> c = 1"
  by (auto simp: read_v4_key_def bind_eq_Some_conv Let_def dest: read_l4_return
      split: if_splits)

lemma member_addr6_in:
  "offset_of ms m = Some o' \<Longrightarrow> off + o' + 16 \<le> length bs \<Longrightarrow> member_addr6 ms m bs off \<noteq> None"
  by (auto simp: member_addr6_def load32_None_iff bind_eq_None_conv)

lemma read_v6_key_total: "read_v6_key bs \<noteq> None"
proof (cases "length bs < 40")
  case True
  then show ?thesis by (simp add: read_v6_key_def)
next
  case False
  obtain p where p: "member8 ipv6hdr ''nexthdr'' bs 0 = Some p"
    using member_loads(1) [of ipv6hdr "''nexthdr''" 6 0 bs] False by auto
  obtain s where s: "member_addr6 ipv6hdr ''saddr'' bs 0 = Some s"
    using member_addr6_in [of ipv6hdr "''saddr''" 8 0 bs] False by auto
  obtain d where d: "member_addr6 ipv6hdr ''daddr'' bs 0 = Some d"
    using member_addr6_in [of ipv6hdr "''daddr''" 24 0 bs] False by auto
  show ?thesis
    using False by (simp add: read_v6_key_def p s d Let_def bind_eq_None_conv del: not_None_eq)
qed

lemma read_v6_key_return: "read_v6_key bs = Some (Return c) \<Longrightarrow> c = 1"
  by (auto simp: read_v6_key_def bind_eq_Some_conv Let_def dest: read_l4_return
      split: if_splits)

section \<open>What the reader does, branch by branch\<close>

datatype flow_key = V4_key inet_v4_flow | V6_key inet_v6_flow

text \<open>The flow a packet belongs to, as its headers name it; \<open>None\<close> when the reader skips it.\<close>

definition packet_flow :: "u8 list \<Rightarrow> flow_key option" where
  "packet_flow bs =
     (if length bs < sizeof iphdr then None
      else if ip_version bs 0 = Some 4 then
        (case read_v4_key bs of Some (Continue k) \<Rightarrow> Some (V4_key k) | _ \<Rightarrow> None)
      else
        (case read_v6_key bs of Some (Continue k) \<Rightarrow> Some (V6_key k) | _ \<Rightarrow> None))"

definition normalize_flow :: "flow_key \<Rightarrow> cgroup_direction \<Rightarrow> flow_key" where
  "normalize_flow f dir =
     (case f of V4_key k \<Rightarrow> V4_key (normalize_v4_flow k dir)
      | V6_key k \<Rightarrow> V6_key (normalize_v6_flow k dir))"

definition charge_flow where
  "charge_flow ops4 ops6 len dir f s =
     (case f of
        V4_key k \<Rightarrow> (case count_flow ops4 v4_fmt len dir k (v4_map s) of
                      (m', tr) \<Rightarrow> s\<lparr>v4_map := m', trace := trace s @ tr\<rparr>)
      | V6_key k \<Rightarrow> (case count_flow ops6 v6_fmt len dir k (v6_map s) of
                      (m', tr) \<Rightarrow> s\<lparr>v6_map := m', trace := trace s @ tr\<rparr>))"

lemma reader_eq:
  "bpf_flow_reader ops4 ops6 skb dir s =
     Some (1, case packet_flow (skb_data skb) of
                None \<Rightarrow> s
              | Some f \<Rightarrow> charge_flow ops4 ops6 (skb_len skb) dir (normalize_flow f dir) s)"
proof (cases "length (skb_data skb) < 20")
  case True
  then show ?thesis by (simp add: bpf_flow_reader_def packet_flow_def)
next
  case False
  let ?bs = "skb_data skb"
  obtain v where v: "ip_version ?bs 0 = Some v"
    using ip_version_total [of ?bs] False by auto
  show ?thesis
  proof (cases "v = 4")
    case True
    obtain r where r: "read_v4_key ?bs = Some r"
      using read_v4_key_total [of ?bs] False by auto
    show ?thesis
      using False v True r read_v4_key_return [of ?bs]
      by (cases r) (auto simp: bpf_flow_reader_def packet_flow_def charge_flow_def
          normalize_flow_def Let_def split: prod.splits)
  next
    case v6: False
    obtain r where r: "read_v6_key ?bs = Some r"
      using read_v6_key_total [of ?bs] by auto
    show ?thesis
      using False v v6 r read_v6_key_return [of ?bs]
      by (cases r) (auto simp: bpf_flow_reader_def packet_flow_def charge_flow_def
          normalize_flow_def Let_def split: prod.splits)
  qed
qed

end
