(* ===== verification/Flow_Accounting.thy ===== *)
theory Flow_Accounting
  imports Flow_Reader
begin

text \<open>
  What the packet program promises: an abstract account of bytes and packets per
  flow, and the proof that \<open>bpf_flow_reader\<close> implements it on any flow maps that obey
  the helper laws. The contract is stated for one packet (counted, or reported in the
  trace), and lifted to any sequence of packets.
\<close>

section \<open>The abstract account\<close>

definition zero_stats :: flow_stats where
  "zero_stats = \<lparr>out_bytes = 0, out_packets = 0, in_bytes = 0, in_packets = 0\<rparr>"

definition add_stats :: "flow_stats \<Rightarrow> flow_stats \<Rightarrow> flow_stats" where
  "add_stats a b =
     \<lparr>out_bytes = out_bytes a + out_bytes b, out_packets = out_packets a + out_packets b,
      in_bytes = in_bytes a + in_bytes b, in_packets = in_packets a + in_packets b\<rparr>"

text \<open>What one packet contributes: "out" is source to destination of the map key.\<close>

definition packet_stats :: "cgroup_direction \<Rightarrow> u32 \<Rightarrow> flow_stats" where
  "packet_stats dir len =
     (case dir of
        CGROUP_INGRESS \<Rightarrow> \<lparr>out_bytes = ucast len, out_packets = 1, in_bytes = 0, in_packets = 0\<rparr>
      | CGROUP_EGRESS \<Rightarrow> \<lparr>out_bytes = 0, out_packets = 0, in_bytes = ucast len, in_packets = 1\<rparr>)"

type_synonym account = "flow_key \<rightharpoonup> flow_stats"

definition balance :: "account \<Rightarrow> flow_key \<Rightarrow> flow_stats" where
  "balance M f = (case M f of None \<Rightarrow> zero_stats | Some v \<Rightarrow> v)"

type_synonym packet = "sk_buff \<times> cgroup_direction"

definition packet_key :: "packet \<Rightarrow> flow_key option" where
  "packet_key p = map_option (\<lambda>f. normalize_flow f (snd p)) (packet_flow (skb_data (fst p)))"

definition account_packet :: "packet \<Rightarrow> account \<Rightarrow> account" where
  "account_packet p M =
     (case packet_key p of
        None \<Rightarrow> M
      | Some f \<Rightarrow> M(f \<mapsto> add_stats (balance M f) (packet_stats (snd p) (skb_len (fst p)))))"

text \<open>The concrete state as an account.\<close>

definition flow_view where
  "flow_view ops4 ops6 s f =
     (case f of V4_key k \<Rightarrow> lookup_elem ops4 (v4_map s) k
      | V6_key k \<Rightarrow> lookup_elem ops6 (v6_map s) k)"

fun run_reader where
  "run_reader ops4 ops6 [] s = Some s"
| "run_reader ops4 ops6 ((skb, dir) # ps) s =
     do { (c, s') \<leftarrow> bpf_flow_reader ops4 ops6 skb dir s; run_reader ops4 ops6 ps s' }"

lemma add_stats_sel [simp]:
  "out_bytes (add_stats a b) = out_bytes a + out_bytes b"
  "out_packets (add_stats a b) = out_packets a + out_packets b"
  "in_bytes (add_stats a b) = in_bytes a + in_bytes b"
  "in_packets (add_stats a b) = in_packets a + in_packets b"
  by (simp_all add: add_stats_def)

lemma zero_stats_sel [simp]:
  "out_bytes zero_stats = 0" "out_packets zero_stats = 0"
  "in_bytes zero_stats = 0" "in_packets zero_stats = 0"
  by (simp_all add: zero_stats_def)

lemma add_zero_stats [simp]: "add_stats zero_stats v = v"
  by (cases v) (simp add: add_stats_def)

lemma balance_upd [simp]: "balance (M(f \<mapsto> v)) f' = (if f' = f then v else balance M f')"
  by (simp add: balance_def)

section \<open>One packet\<close>

context bpf_map
begin

lemma fetch_add_hit:
  "lookup_elem ops m k = Some v \<Longrightarrow>
   lookup_elem ops (sync_fetch_and_add ops m k add) = (lookup_elem ops m)(k \<mapsto> add v)"
  by (simp add: sync_fetch_and_add_def store_ok)

lemma fetch_add_twice:
  "lookup_elem ops m k = Some v \<Longrightarrow>
   lookup_elem ops (sync_fetch_and_add ops (sync_fetch_and_add ops m k add1) k add2) =
     (lookup_elem ops m)(k \<mapsto> add2 (add1 v))"
  by (subst fetch_add_hit [where v = "add1 v"]) (simp_all add: fetch_add_hit)

text \<open>A packet is counted exactly, or the map refused it and one line says so.\<close>

lemma count_flow_cases:
  assumes "count_flow ops fmt len dir k m = (m', tr)"
  obtains (counted) "tr = []"
      "lookup_elem ops m' = (lookup_elem ops m)
         (k \<mapsto> add_stats (case lookup_elem ops m k of None \<Rightarrow> zero_stats | Some v \<Rightarrow> v)
                  (packet_stats dir len))"
  | (refused) r where "r \<noteq> 0" "tr = [(fmt, r)]" "lookup_elem ops m k = None"
      "lookup_elem ops m' = lookup_elem ops m"
proof (cases "lookup_elem ops m k")
  case (Some v)
  then have "tr = []" and "lookup_elem ops m' = (lookup_elem ops m)
         (k \<mapsto> add_stats (case lookup_elem ops m k of None \<Rightarrow> zero_stats | Some v \<Rightarrow> v)
                  (packet_stats dir len))"
    using assms
    by (auto simp: count_flow_def Let_def fetch_add_twice packet_stats_def add_stats_def
        split: cgroup_direction.splits if_splits)
  then show thesis by (rule counted)
next
  case None
  let ?fresh = "packet_stats dir len"
  have fresh: "?fresh = (if dir = CGROUP_INGRESS then init_cgroup_ingress_stats len
                         else init_cgroup_egress_stats len)"
    by (cases dir) (simp_all add: packet_stats_def init_cgroup_ingress_stats_def
        init_cgroup_egress_stats_def)
  obtain r m1 where upd: "update_elem ops m k ?fresh BPF_ANY = (r, m1)"
    by (cases "update_elem ops m k ?fresh BPF_ANY")
  have res: "m' = m1" "tr = (if r \<noteq> 0 then [(fmt, r)] else [])"
    using assms None upd by (auto simp: count_flow_def Let_def fresh split: if_splits)
  show thesis
  proof (cases "r = 0")
    case True
    then show thesis using res upd None by (intro counted) (auto dest: update_ok)
  next
    case False
    then show thesis using res upd None by (intro refused [of r]) (auto dest: update_failed)
  qed
qed

end

locale flow_maps = v4: bpf_map ops4 + v6: bpf_map ops6
  for ops4 :: "('m4, inet_v4_flow) map_ops" and ops6 :: "('m6, inet_v6_flow) map_ops"
begin

lemma charge_flow_cases:
  assumes "charge_flow ops4 ops6 len dir f s = s'"
  obtains (counted) "trace s' = trace s"
      "flow_view ops4 ops6 s' = (flow_view ops4 ops6 s)
         (f \<mapsto> add_stats (balance (flow_view ops4 ops6 s) f) (packet_stats dir len))"
  | (refused) fmt r where "r \<noteq> 0" "trace s' = trace s @ [(fmt, r)]"
      "flow_view ops4 ops6 s f = None" "flow_view ops4 ops6 s' = flow_view ops4 ops6 s"
proof (cases f)
  case (V4_key k)
  obtain m' tr where c: "count_flow ops4 v4_fmt len dir k (v4_map s) = (m', tr)"
    by (cases "count_flow ops4 v4_fmt len dir k (v4_map s)")
  have s': "s' = s\<lparr>v4_map := m', trace := trace s @ tr\<rparr>"
    using assms V4_key c by (simp add: charge_flow_def)
  from c show thesis
    by (cases rule: v4.count_flow_cases)
       (auto simp: s' V4_key flow_view_def balance_def fun_eq_iff split: flow_key.splits
         intro: counted refused)
next
  case (V6_key k)
  obtain m' tr where c: "count_flow ops6 v6_fmt len dir k (v6_map s) = (m', tr)"
    by (cases "count_flow ops6 v6_fmt len dir k (v6_map s)")
  have s': "s' = s\<lparr>v6_map := m', trace := trace s @ tr\<rparr>"
    using assms V6_key c by (simp add: charge_flow_def)
  from c show thesis
    by (cases rule: v6.count_flow_cases)
       (auto simp: s' V6_key flow_view_def balance_def fun_eq_iff split: flow_key.splits
         intro: counted refused)
qed

text \<open>One run of the program is one step of the account, or one trace line.\<close>

lemma reader_step:
  assumes "bpf_flow_reader ops4 ops6 skb dir s = Some (c, s')"
  shows "(trace s' = trace s \<and>
          flow_view ops4 ops6 s' = account_packet (skb, dir) (flow_view ops4 ops6 s)) \<or>
         (\<exists>f fmt r. r \<noteq> 0 \<and> trace s' = trace s @ [(fmt, r)] \<and> packet_key (skb, dir) = Some f \<and>
            flow_view ops4 ops6 s f = None \<and> flow_view ops4 ops6 s' = flow_view ops4 ops6 s)"
proof (cases "packet_flow (skb_data skb)")
  case None
  then show ?thesis
    using assms by (simp add: reader_eq account_packet_def packet_key_def)
next
  case (Some f)
  then have "charge_flow ops4 ops6 (skb_len skb) dir (normalize_flow f dir) s = s'"
    using assms by (simp add: reader_eq)
  then show ?thesis
    by (cases rule: charge_flow_cases) (auto simp: Some account_packet_def packet_key_def)
qed

lemma trace_grows:
  "run_reader ops4 ops6 ps s = Some s' \<Longrightarrow> \<exists>tr. trace s' = trace s @ tr"
proof (induction ps arbitrary: s)
  case Nil
  then show ?case by simp
next
  case (Cons p ps)
  obtain skb dir where p: "p = (skb, dir)" by (cases p)
  from Cons.prems obtain c s1 where
    1: "bpf_flow_reader ops4 ops6 skb dir s = Some (c, s1)" "run_reader ops4 ops6 ps s1 = Some s'"
    by (auto simp: p bind_eq_Some_conv)
  from reader_step [OF 1(1)] obtain tr1 where "trace s1 = trace s @ tr1" by auto
  with Cons.IH [OF 1(2)] show ?case by auto
qed

text \<open>A run that adds nothing to the trace is the account of its packets.\<close>

lemma run_reader_account:
  "run_reader ops4 ops6 ps s = Some s' \<Longrightarrow> trace s' = trace s \<Longrightarrow>
   flow_view ops4 ops6 s' = fold account_packet ps (flow_view ops4 ops6 s)"
proof (induction ps arbitrary: s)
  case Nil
  then show ?case by simp
next
  case (Cons p ps)
  obtain skb dir where p: "p = (skb, dir)" by (cases p)
  from Cons.prems obtain c s1 where
    1: "bpf_flow_reader ops4 ops6 skb dir s = Some (c, s1)" "run_reader ops4 ops6 ps s1 = Some s'"
    by (auto simp: p bind_eq_Some_conv)
  from trace_grows [OF 1(2)] obtain tr where tr: "trace s' = trace s1 @ tr" by blast
  with reader_step [OF 1(1)] Cons.prems(2) have "trace s1 = trace s" and
    view: "flow_view ops4 ops6 s1 = account_packet (skb, dir) (flow_view ops4 ops6 s)"
    by auto
  with Cons.prems(2) have "trace s' = trace s1" by simp
  with Cons.IH [OF 1(2)] view p show ?case by simp
qed

end

interpretation hash_maps: flow_maps hash_ops hash_ops
  by unfold_locales

section \<open>Sums over packet sequences\<close>

definition packets_of :: "flow_key \<Rightarrow> cgroup_direction \<Rightarrow> packet list \<Rightarrow> sk_buff list" where
  "packets_of f dir ps = map fst (filter (\<lambda>p. packet_key p = Some f \<and> snd p = dir) ps)"

definition bytes_of :: "sk_buff list \<Rightarrow> u64" where
  "bytes_of skbs = sum_list (map (\<lambda>skb. ucast (skb_len skb)) skbs)"

definition flow_total :: "packet list \<Rightarrow> flow_key \<Rightarrow> flow_stats" where
  "flow_total ps f =
    \<lparr>out_bytes = bytes_of (packets_of f CGROUP_INGRESS ps),
     out_packets = of_nat (length (packets_of f CGROUP_INGRESS ps)),
     in_bytes = bytes_of (packets_of f CGROUP_EGRESS ps),
     in_packets = of_nat (length (packets_of f CGROUP_EGRESS ps))\<rparr>"

lemma flow_total_Nil [simp]: "flow_total [] f = zero_stats"
  by (simp add: flow_total_def packets_of_def bytes_of_def zero_stats_def)

lemma flow_total_Cons:
  "flow_total (p # ps) f =
     (if packet_key p = Some f
      then add_stats (packet_stats (snd p) (skb_len (fst p))) (flow_total ps f)
      else flow_total ps f)"
  by (cases "snd p")
     (auto simp: flow_total_def packets_of_def bytes_of_def packet_stats_def add_stats_def)

lemma balance_account_packet:
  "balance (account_packet p M) f =
     (if packet_key p = Some f
      then add_stats (balance M f) (packet_stats (snd p) (skb_len (fst p))) else balance M f)"
  by (cases "packet_key p") (auto simp: account_packet_def)

lemma add_stats_assoc: "add_stats (add_stats a b) c = add_stats a (add_stats b c)"
  by (simp add: add_stats_def add.assoc)

lemma balance_fold:
  "balance (fold account_packet ps M) f = add_stats (balance M f) (flow_total ps f)"
proof (induction ps arbitrary: M)
  case Nil
  then show ?case by (simp add: add_stats_def)
next
  case (Cons p ps)
  then show ?case
    by (simp add: balance_account_packet flow_total_Cons add_stats_assoc)
qed

lemma dom_account_packet:
  "dom (account_packet p M) = dom M \<union> set_option (packet_key p)"
  by (cases "packet_key p") (auto simp: account_packet_def)

lemma dom_fold_account:
  "dom (fold account_packet ps M) = dom M \<union> {f. \<exists>p \<in> set ps. packet_key p = Some f}"
  by (induction ps arbitrary: M) (auto simp: dom_account_packet)

lemma run_reader_total: "\<exists>s'. run_reader ops4 ops6 ps s = Some s'"
  by (induction ps arbitrary: s) (auto simp: reader_eq)

end
