(* ===== verification/Go_Flow.thy ===== *)
theory Go_Flow
  imports Map_Reader Flow_Accounting
begin

text \<open>
  Flows and counters on the agent's side (\<open>pkg/statsagent/inet_v4_flow.go\<close>,
  \<open>metrics.go\<close>). The Go structures have the members of the C ones in the same order,
  so the records of the packet program are used for both; the eBPF library decodes a
  key's bytes member by member.
\<close>

section \<open>Text of a flow\<close>

text \<open>\<open>binary.Write\<close> of an integer in either byte order, and \<open>binary.LittleEndian.Uint16\<close>.\<close>

definition write_little32 :: "u32 \<Rightarrow> u8 list" where
  "write_little32 x = bytes32 x"

definition write_big16 :: "u16 \<Rightarrow> u8 list" where
  "write_big16 x = [ucast (drop_bit 8 x), ucast x]"

definition little_uint16 :: "u8 list \<Rightarrow> u16" where
  "little_uint16 bs = le16 (bs ! 0) (bs ! 1)"

text \<open>\<open>net.IP.String\<close> of a four-byte address.\<close>

definition net_ip_string :: "u8 list \<Rightarrow> string" where
  "net_ip_string p = dotted p"

definition GetSrcIp :: "inet_v4_flow \<Rightarrow> string" where
  "GetSrcIp flow = net_ip_string (write_little32 (v4_src_ip flow))"

definition GetDstIp :: "inet_v4_flow \<Rightarrow> string" where
  "GetDstIp flow = net_ip_string (write_little32 (v4_dst_ip flow))"

definition GetIpProto :: "proto_port \<Rightarrow> string" where
  "GetIpProto l4 = dec_string (unat (ip_proto l4))"

definition GetSPort :: "proto_port \<Rightarrow> string" where
  "GetSPort l4 = dec_string (unat (little_uint16 (write_big16 (sport l4))))"

definition GetDPort :: "proto_port \<Rightarrow> string" where
  "GetDPort l4 = dec_string (unat (little_uint16 (write_big16 (dport l4))))"

text \<open>
  The interface \<open>FlowKey\<close>, its implementation by the IPv4 flow, and what is written over
  any implementation.
\<close>

record 'k FlowKey =
  fk_GetSrcIp :: "'k \<Rightarrow> string"
  fk_GetDstIp :: "'k \<Rightarrow> string"
  fk_GetIpProto :: "'k \<Rightarrow> string"
  fk_GetSPort :: "'k \<Rightarrow> string"
  fk_GetDPort :: "'k \<Rightarrow> string"

definition v4_FlowKey :: "inet_v4_flow FlowKey" where
  "v4_FlowKey =
     \<lparr>fk_GetSrcIp = GetSrcIp, fk_GetDstIp = GetDstIp,
      fk_GetIpProto = (\<lambda>k. GetIpProto (v4_l4 k)), fk_GetSPort = (\<lambda>k. GetSPort (v4_l4 k)),
      fk_GetDPort = (\<lambda>k. GetDPort (v4_l4 k))\<rparr>"

lemma v4_FlowKey_ends [simp]: "fk_GetSrcIp v4_FlowKey = GetSrcIp" "fk_GetDstIp v4_FlowKey = GetDstIp"
  by (simp_all add: v4_FlowKey_def)

definition parseFlow :: "'k FlowKey \<Rightarrow> 'k \<Rightarrow> flow_stats \<Rightarrow> string list" where
  "parseFlow fk keyIn valueIn =
    [fk_GetSrcIp fk keyIn @ ''(:'' @ fk_GetSPort fk keyIn @ '')--['' @ fk_GetIpProto fk keyIn @ '']-->'' @
       fk_GetDstIp fk keyIn @ ''(:'' @ fk_GetDPort fk keyIn @ '')::::'' @
       dec_string (unat (out_bytes valueIn)) @ '' bytes, '' @
       dec_string (unat (out_packets valueIn)) @ '' packets'',
     fk_GetDstIp fk keyIn @ ''(:'' @ fk_GetDPort fk keyIn @ '')--['' @ fk_GetIpProto fk keyIn @ '']-->'' @
       fk_GetSrcIp fk keyIn @ ''(:'' @ fk_GetSPort fk keyIn @ '')::::'' @
       dec_string (unat (in_bytes valueIn)) @ '' bytes, '' @
       dec_string (unat (in_packets valueIn)) @ '' packets'']"

lemma port_bytes_swapped: "little_uint16 (write_big16 x) = bswap16 x"
  by (simp add: little_uint16_def write_big16_def le16_def bswap16_def)

lemma GetSrcIp_ntoa: "GetSrcIp k = inet_ntoa (v4_src_ip k)"
  by (simp add: GetSrcIp_def net_ip_string_def write_little32_def inet_ntoa_def)

lemma GetDstIp_ntoa: "GetDstIp k = inet_ntoa (v4_dst_ip k)"
  by (simp add: GetDstIp_def net_ip_string_def write_little32_def inet_ntoa_def)

lemma reverse_text [simp]:
  "GetSrcIp (reverse_v4 k) = GetDstIp k" "GetDstIp (reverse_v4 k) = GetSrcIp k"
  by (simp_all add: GetSrcIp_def GetDstIp_def reverse_v4_def)

lemma inet_ntoa_inj: "inet_ntoa a = inet_ntoa b \<longleftrightarrow> a = b"
proof -
  have "bytes32 a \<noteq> []" "bytes32 b \<noteq> []"
    using length_bytes(2) [of a] length_bytes(2) [of b] by force+
  then show ?thesis by (simp add: inet_ntoa_def dotted_inj bytes32_inj)
qed

lemma inet_ntoa_plain: "CHR ''/'' \<notin> set (inet_ntoa a)" "inet_ntoa a \<noteq> []"
proof -
  have "bytes32 a \<noteq> []" using length_bytes(2) [of a] by force
  then show "CHR ''/'' \<notin> set (inet_ntoa a)" "inet_ntoa a \<noteq> []"
    by (simp_all add: inet_ntoa_def dotted_no_slash dotted_nonempty)
qed

text \<open>
  What the agent needs of a flow key: both ends are written by one function, which tells
  addresses apart and never writes a slash or nothing at all, since slashes make names.
\<close>

locale flow_key =
  fixes K :: "'k FlowKey" and src :: "'k \<Rightarrow> 'a" and dst :: "'k \<Rightarrow> 'a" and text_of :: "'a \<Rightarrow> string"
  assumes src_text: "fk_GetSrcIp K f = text_of (src f)"
    and dst_text: "fk_GetDstIp K f = text_of (dst f)"
    and text_inj: "text_of a = text_of b \<longleftrightarrow> a = b"
    and no_slash: "CHR ''/'' \<notin> set (text_of a)"
    and text_nonempty: "text_of a \<noteq> []"

interpretation v4_key: flow_key v4_FlowKey v4_src_ip v4_dst_ip inet_ntoa
  by unfold_locales (simp_all add: GetSrcIp_ntoa GetDstIp_ntoa inet_ntoa_inj inet_ntoa_plain)

section \<open>Counters\<close>

definition fs_swap :: "flow_stats \<Rightarrow> flow_stats" where
  "fs_swap fs =
     (let fs1 = fs\<lparr>out_packets := in_packets fs, in_packets := out_packets fs\<rparr>
      in fs1\<lparr>out_bytes := in_bytes fs1, in_bytes := out_bytes fs1\<rparr>)"

definition addFlowStats :: "flow_stats \<Rightarrow> flow_stats \<Rightarrow> flow_stats" where
  "addFlowStats baseStats incStats =
     \<lparr>out_bytes = out_bytes baseStats + out_bytes incStats,
      out_packets = out_packets baseStats + out_packets incStats,
      in_bytes = in_bytes baseStats + in_bytes incStats,
      in_packets = in_packets baseStats + in_packets incStats\<rparr>"

definition diffFlowStats :: "flow_stats \<Rightarrow> flow_stats \<Rightarrow> flow_stats" where
  "diffFlowStats oldStats newStats =
     (if out_bytes newStats < out_bytes oldStats \<or>
         out_packets newStats < out_packets oldStats \<or>
         in_bytes newStats < in_bytes oldStats \<or>
         in_packets newStats < in_packets oldStats
      then zero_stats
      else \<lparr>out_bytes = out_bytes newStats - out_bytes oldStats,
            out_packets = out_packets newStats - out_packets oldStats,
            in_bytes = in_bytes newStats - in_bytes oldStats,
            in_packets = in_packets newStats - in_packets oldStats\<rparr>)"

lemma addFlowStats_add [simp]: "addFlowStats = add_stats"
  by (simp add: fun_eq_iff addFlowStats_def add_stats_def)

lemma fs_swap_fields [simp]:
  "out_bytes (fs_swap v) = in_bytes v" "in_bytes (fs_swap v) = out_bytes v"
  "out_packets (fs_swap v) = in_packets v" "in_packets (fs_swap v) = out_packets v"
  by (simp_all add: fs_swap_def)

lemma fs_swap_swap [simp]: "fs_swap (fs_swap v) = v"
  by (rule flow_stats.equality) simp_all

lemma fs_swap_add: "fs_swap (add_stats a b) = add_stats (fs_swap a) (fs_swap b)"
  by (simp add: add_stats_def fs_swap_def)

lemma fs_swap_zero [simp]: "fs_swap zero_stats = zero_stats"
  by (simp add: fs_swap_def zero_stats_def)

lemma diff_same [simp]: "diffFlowStats v v = zero_stats"
  by (simp add: diffFlowStats_def zero_stats_def)

definition no_less :: "flow_stats \<Rightarrow> flow_stats \<Rightarrow> bool" where
  "no_less old new \<longleftrightarrow> out_bytes old \<le> out_bytes new \<and> out_packets old \<le> out_packets new \<and>
     in_bytes old \<le> in_bytes new \<and> in_packets old \<le> in_packets new"

lemma add_diff: "no_less old new \<Longrightarrow> add_stats old (diffFlowStats old new) = new"
  by (auto simp: no_less_def diffFlowStats_def add_stats_def not_less)

lemma diff_reset: "\<not> no_less old new \<Longrightarrow> diffFlowStats old new = zero_stats"
  by (auto simp: no_less_def diffFlowStats_def not_le)

end
