(* ===== verification/Agent_State.thy ===== *)
theory Agent_State
  imports Go_Flow
begin

text \<open>
  What the agent knows of the cluster (\<open>pkg/statsagent/agent.go\<close>, \<open>pods.go\<close>,
  \<open>services.go\<close>): pods and services by name, and names by IP address, kept up to date
  by the informers' callbacks. A callback gets an arbitrary object; the unchecked type
  assertion in it is a branch of the model, \<open>None\<close> is the panic that ends the agent.
\<close>

section \<open>State\<close>

record PodInfo =
  PodIP :: string

record SvcInfo =
  ClusterIP :: string
  SvcType :: string

record StatsAgent =
  podInfo :: "string \<rightharpoonup> PodInfo"
  podIpToName :: "string \<rightharpoonup> string"
  svcInfo :: "string \<rightharpoonup> SvcInfo"
  svcIpToName :: "string \<rightharpoonup> string"

definition NewStatsAgent :: StatsAgent where
  "NewStatsAgent =
     \<lparr>podInfo = Map.empty, podIpToName = Map.empty, svcInfo = Map.empty, svcIpToName = Map.empty\<rparr>"

text \<open>The parts of the Kubernetes objects the callbacks read.\<close>

record Pod =
  p_namespace :: string
  p_name :: string
  p_ip :: string
  p_host_network :: bool

record Service =
  s_namespace :: string
  s_name :: string
  s_cluster_ip :: string
  s_type :: string

text \<open>
  What an informer hands to a callback: the object, or, when the deletion itself was
  missed, the tombstone \<open>cache.DeletedFinalStateUnknown\<close> around its last known state.
\<close>

datatype 'a obj = Object 'a | Tombstone string 'a

section \<open>Pods\<close>

definition podKey :: "Pod \<Rightarrow> string" where
  "podKey pod = p_namespace pod @ ''/'' @ p_name pod"

definition podUpdated :: "Pod obj \<Rightarrow> StatsAgent \<Rightarrow> StatsAgent option" where
  "podUpdated obj agent =
     (case obj of
        Tombstone _ _ \<Rightarrow> None
      | Object pod \<Rightarrow>
          if p_ip pod = '''' \<or> p_host_network pod then Some agent
          else Some (agent\<lparr>podInfo := (podInfo agent)(podKey pod \<mapsto> \<lparr>PodIP = p_ip pod\<rparr>),
                           podIpToName := (podIpToName agent)(p_ip pod \<mapsto> podKey pod)\<rparr>))"

definition podDeleted :: "Pod obj \<Rightarrow> StatsAgent \<Rightarrow> StatsAgent option" where
  "podDeleted obj agent =
     (case obj of
        Tombstone _ _ \<Rightarrow> None
      | Object pod \<Rightarrow>
          if p_ip pod = '''' \<or> p_host_network pod then Some agent
          else Some (agent\<lparr>podInfo := (podInfo agent)(podKey pod := None),
                           podIpToName := (podIpToName agent)(p_ip pod := None)\<rparr>))"

section \<open>Services\<close>

text \<open>
  \<open>cache.MetaNamespaceKeyFunc\<close> is the library's: the parameter \<open>keyFunc\<close>, which gives
  the key or fails. The service types are the strings of the Kubernetes API.
\<close>

definition svc_type_name :: "string \<Rightarrow> string" where
  "svc_type_name ty =
     (if ty = ''ClusterIP'' then ''clusterIp''
      else if ty = ''NodePort'' then ''nodePort''
      else if ty = ''LoadBalancer'' then ''loadBalancer''
      else if ty = ''ExternalName'' then ''externalName''
      else '''')"

definition serviceUpdated ::
    "(Service \<Rightarrow> string option) \<Rightarrow> Service obj \<Rightarrow> StatsAgent \<Rightarrow> StatsAgent option" where
  "serviceUpdated keyFunc obj agent =
     (case obj of
        Tombstone _ _ \<Rightarrow> None
      | Object svc \<Rightarrow>
          (case keyFunc svc of
             None \<Rightarrow> Some agent
           | Some key \<Rightarrow>
               if s_cluster_ip svc = ''None'' then Some agent
               else
                 let info = \<lparr>ClusterIP = s_cluster_ip svc, SvcType = svc_type_name (s_type svc)\<rparr>
                 in Some (agent\<lparr>svcInfo := (svcInfo agent)(key \<mapsto> info),
                                svcIpToName := (svcIpToName agent)(ClusterIP info \<mapsto> key)\<rparr>)))"

definition serviceDeleted ::
    "(Service \<Rightarrow> string option) \<Rightarrow> Service obj \<Rightarrow> StatsAgent \<Rightarrow> StatsAgent option" where
  "serviceDeleted keyFunc obj agent =
     (case obj of
        Tombstone _ _ \<Rightarrow> None
      | Object svc \<Rightarrow>
          (case keyFunc svc of
             None \<Rightarrow> Some agent
           | Some key \<Rightarrow>
               if s_cluster_ip svc = ''None'' then Some agent
               else Some (agent\<lparr>svcInfo := (svcInfo agent)(key := None),
                                svcIpToName := (svcIpToName agent)(s_cluster_ip svc := None)\<rparr>)))"

section \<open>Sequences of events\<close>

datatype event =
    Pod_add_or_update "Pod obj"
  | Pod_delete "Pod obj"
  | Svc_add_or_update "Service obj"
  | Svc_delete "Service obj"

fun handle :: "(Service \<Rightarrow> string option) \<Rightarrow> event \<Rightarrow> StatsAgent \<Rightarrow> StatsAgent option" where
  "handle keyFunc (Pod_add_or_update p) a = podUpdated p a"
| "handle keyFunc (Pod_delete p) a = podDeleted p a"
| "handle keyFunc (Svc_add_or_update s) a = serviceUpdated keyFunc s a"
| "handle keyFunc (Svc_delete s) a = serviceDeleted keyFunc s a"

fun run_events :: "(Service \<Rightarrow> string option) \<Rightarrow> event list \<Rightarrow> StatsAgent \<Rightarrow> StatsAgent option" where
  "run_events keyFunc [] a = Some a"
| "run_events keyFunc (e # es) a = do { a' \<leftarrow> handle keyFunc e a; run_events keyFunc es a' }"

section \<open>The cluster's pods, and the invariant\<close>

text \<open>
  The specification: the pods with an address of their own that exist after a sequence
  of pod events, by key. \<open>pods_consistent\<close> holds of a state whose two pod maps are
  inverse to each other and agree with that table.
\<close>

type_synonym pod_table = "string \<rightharpoonup> string"

fun track :: "event \<Rightarrow> pod_table \<Rightarrow> pod_table" where
  "track (Pod_add_or_update (Object p)) T =
     (if p_ip p = '''' \<or> p_host_network p then T else T(podKey p \<mapsto> p_ip p))"
| "track (Pod_delete (Object p)) T =
     (if p_ip p = '''' \<or> p_host_network p then T else T(podKey p := None))"
| "track _ T = T"

definition pods_consistent :: "pod_table \<Rightarrow> StatsAgent \<Rightarrow> bool" where
  "pods_consistent T a \<longleftrightarrow>
     (\<forall>k. map_option PodIP (podInfo a k) = T k) \<and>
     (\<forall>ip k. podIpToName a ip = Some k \<longleftrightarrow> T k = Some ip)"

text \<open>
  A well-behaved event: not a tombstone, an update neither moves a pod to another
  address nor gives it an address in use, a deletion names the address the pod has.
\<close>

fun orderly :: "pod_table \<Rightarrow> event \<Rightarrow> bool" where
  "orderly T (Pod_add_or_update (Object p)) \<longleftrightarrow>
     p_ip p = '''' \<or> p_host_network p \<or>
     ((T (podKey p) = None \<or> T (podKey p) = Some (p_ip p)) \<and>
      (\<forall>k. T k = Some (p_ip p) \<longrightarrow> k = podKey p))"
| "orderly T (Pod_delete (Object p)) \<longleftrightarrow>
     p_ip p = '''' \<or> p_host_network p \<or> T (podKey p) = Some (p_ip p)"
| "orderly T (Svc_add_or_update (Object s)) = True"
| "orderly T (Svc_delete (Object s)) = True"
| "orderly T _ = False"

fun orderly_run :: "pod_table \<Rightarrow> event list \<Rightarrow> bool" where
  "orderly_run T [] = True"
| "orderly_run T (e # es) \<longleftrightarrow> orderly T e \<and> orderly_run (track e T) es"

lemma consistent_new [wf_intros]: "pods_consistent Map.empty NewStatsAgent"
  by (simp add: pods_consistent_def NewStatsAgent_def)

lemma consistent_pods_only:
  "podInfo a' = podInfo a \<Longrightarrow> podIpToName a' = podIpToName a \<Longrightarrow>
   pods_consistent T a' = pods_consistent T a"
  by (simp add: pods_consistent_def)

lemma consistentI:
  assumes "\<And>k. map_option PodIP (podInfo a k) = T k"
    and "\<And>ip k. podIpToName a ip = Some k \<longleftrightarrow> T k = Some ip"
  shows "pods_consistent T a"
  using assms by (simp add: pods_consistent_def)

lemma consistentD:
  assumes "pods_consistent T a"
  shows "map_option PodIP (podInfo a k) = T k" "podIpToName a ip = Some k \<longleftrightarrow> T k = Some ip"
  using assms by (simp_all add: pods_consistent_def)

lemma consistent_update:
  assumes inv: "pods_consistent T a" and own: "T k = None \<or> T k = Some ip"
    and alone: "\<And>k'. T k' = Some ip \<Longrightarrow> k' = k"
  shows "pods_consistent (T(k \<mapsto> ip))
    (a\<lparr>podInfo := (podInfo a)(k \<mapsto> \<lparr>PodIP = ip\<rparr>), podIpToName := (podIpToName a)(ip \<mapsto> k)\<rparr>)"
    (is "pods_consistent _ ?a")
proof (rule consistentI)
  show "map_option PodIP (podInfo ?a k') = (T(k \<mapsto> ip)) k'" for k'
    using consistentD(1) [OF inv, of k'] by simp
  show "podIpToName ?a i = Some k' \<longleftrightarrow> (T(k \<mapsto> ip)) k' = Some i" for i k'
  proof (cases "i = ip")
    case True
    then show ?thesis using alone [of k'] by (cases "k' = k") auto
  next
    case False
    have "T k \<noteq> Some i" using own False by (metis option.distinct(1) option.inject)
    then show ?thesis using False consistentD(2) [OF inv, of i k'] by (cases "k' = k") simp_all
  qed
qed

lemma consistent_delete:
  assumes inv: "pods_consistent T a" and own: "T k = Some ip"
  shows "pods_consistent (T(k := None))
    (a\<lparr>podInfo := (podInfo a)(k := None), podIpToName := (podIpToName a)(ip := None)\<rparr>)"
    (is "pods_consistent _ ?a")
proof (rule consistentI)
  show "map_option PodIP (podInfo ?a k') = (T(k := None)) k'" for k'
    using consistentD(1) [OF inv, of k'] by simp
  have alone: "k' = k" if "T k' = Some ip" for k'
    using that own consistentD(2) [OF inv, of ip k'] consistentD(2) [OF inv, of ip k] by simp
  show "podIpToName ?a i = Some k' \<longleftrightarrow> (T(k := None)) k' = Some i" for i k'
  proof (cases "i = ip")
    case True
    then show ?thesis using alone [of k'] by (cases "k' = k") auto
  next
    case False
    have "T k \<noteq> Some i" using own False by simp
    then show ?thesis using False consistentD(2) [OF inv, of i k'] by (cases "k' = k") simp_all
  qed
qed

lemma handle_consistent [wf_intros]:
  assumes "orderly T e" and "pods_consistent T a"
  shows "\<exists>a'. handle keyFunc e a = Some a' \<and> pods_consistent (track e T) a'"
proof (cases e)
  case (Pod_add_or_update q)
  then obtain p where q: "q = Object p" using assms(1) by (cases q) auto
  show ?thesis
  proof (cases "p_ip p = '''' \<or> p_host_network p")
    case False
    then have "pods_consistent (T(podKey p \<mapsto> p_ip p))
        (a\<lparr>podInfo := (podInfo a)(podKey p \<mapsto> \<lparr>PodIP = p_ip p\<rparr>),
           podIpToName := (podIpToName a)(p_ip p \<mapsto> podKey p)\<rparr>)"
      using assms by (intro consistent_update) (simp_all add: Pod_add_or_update q)
    with False show ?thesis by (simp add: Pod_add_or_update q podUpdated_def)
  qed (use assms in \<open>auto simp: Pod_add_or_update q podUpdated_def\<close>)
next
  case (Pod_delete q)
  then obtain p where q: "q = Object p" using assms(1) by (cases q) auto
  show ?thesis
  proof (cases "p_ip p = '''' \<or> p_host_network p")
    case False
    then have "pods_consistent (T(podKey p := None))
        (a\<lparr>podInfo := (podInfo a)(podKey p := None),
           podIpToName := (podIpToName a)(p_ip p := None)\<rparr>)"
      using assms by (intro consistent_delete) (simp_all add: Pod_delete q)
    with False show ?thesis by (simp add: Pod_delete q podDeleted_def)
  qed (use assms in \<open>auto simp: Pod_delete q podDeleted_def\<close>)
next
  case (Svc_add_or_update q)
  then obtain s where q: "q = Object s" using assms(1) by (cases q) auto
  with assms(2) show ?thesis
    by (cases "keyFunc s") (simp_all add: Svc_add_or_update serviceUpdated_def Let_def pods_consistent_def)
next
  case (Svc_delete q)
  then obtain s where q: "q = Object s" using assms(1) by (cases q) auto
  with assms(2) show ?thesis
    by (cases "keyFunc s") (simp_all add: Svc_delete serviceDeleted_def pods_consistent_def)
qed

lemma run_events_consistent:
  assumes "orderly_run T es" and "pods_consistent T a"
  shows "\<exists>a'. run_events keyFunc es a = Some a' \<and> pods_consistent (fold track es T) a'"
  using assms
proof (induction es arbitrary: T a)
  case (Cons e es)
  then obtain a1 where "handle keyFunc e a = Some a1" "pods_consistent (track e T) a1"
    using handle_consistent [of T e a keyFunc] by auto
  with Cons show ?case by auto
qed simp

end
