(* ===== verification/Pod_Keys.thy ===== *)
theory Pod_Keys
  imports Agent_State
begin

unbundle bit_operations_syntax

text \<open>
  The keys of the agent's statistics (\<open>pkg/statsagent/metrics.go\<close>): a flow's addresses
  are replaced by the pods and services they belong to, and a key is taken apart again
  into the labels of a Prometheus metric.
\<close>

section \<open>Keys\<close>

record PodStatsKey =
  ep0 :: string
  ep1 :: string

definition endpoint :: "PodStatsKey \<Rightarrow> nat \<Rightarrow> string" where
  "endpoint psk i = (if i = 0 then ep0 psk else ep1 psk)"

text \<open>\<open>clear\<close> and \<open>swap\<close>; the only argument of \<open>clear\<close> in the program is 1.\<close>

definition clear_endpoint :: "nat \<Rightarrow> PodStatsKey \<Rightarrow> PodStatsKey" where
  "clear_endpoint ep psk = (if ep = 0 then psk\<lparr>ep0 := ''''\<rparr> else psk\<lparr>ep1 := ''''\<rparr>)"

definition swap_endpoints :: "PodStatsKey \<Rightarrow> PodStatsKey" where
  "swap_endpoints psk = psk\<lparr>ep0 := ep1 psk, ep1 := ep0 psk\<rparr>"

definition FROM_POD_KEY :: int where "FROM_POD_KEY = 1"
definition TO_POD_KEY :: int where "TO_POD_KEY = 2"
definition FROM_SVC_KEY :: int where "FROM_SVC_KEY = 4"
definition TO_SVC_KEY :: int where "TO_SVC_KEY = 8"

lemmas key_type_defs = FROM_POD_KEY_def TO_POD_KEY_def FROM_SVC_KEY_def TO_SVC_KEY_def

record PromMetricsKey =
  podNamespace :: "string list"
  podName :: "string list"
  svcNamespace :: "string list"
  svcScope :: "string list"
  svcName :: "string list"
  metricName :: string

definition blank_prom_key :: PromMetricsKey where
  "blank_prom_key =
     \<lparr>podNamespace = ['''', ''''], podName = ['''', ''''], svcNamespace = ['''', ''''],
      svcScope = ['''', ''''], svcName = ['''', ''''], metricName = ''''\<rparr>"

section \<open>From a flow to a key\<close>

text \<open>An absent map entry reads as the zero value: here the empty service type.\<close>

definition svc_type_of :: "StatsAgent \<Rightarrow> string \<Rightarrow> string" where
  "svc_type_of agent name = (case svcInfo agent name of None \<Rightarrow> '''' | Some info \<Rightarrow> SvcType info)"

definition getPodStatsKey :: "'k FlowKey \<Rightarrow> StatsAgent \<Rightarrow> 'k \<Rightarrow> PodStatsKey \<times> int" where
  "getPodStatsKey fk agent keyOut =
     (let key = \<lparr>ep0 = '''', ep1 = ''''\<rparr>;
          keyType = 0;
          (key, keyType) = (case podIpToName agent (fk_GetSrcIp fk keyOut) of
             None \<Rightarrow> (key, keyType)
           | Some srcName \<Rightarrow> (key\<lparr>ep0 := srcName\<rparr>, keyType OR FROM_POD_KEY));
          (key, keyType) = (case podIpToName agent (fk_GetDstIp fk keyOut) of
             None \<Rightarrow> (key, keyType)
           | Some dstName \<Rightarrow> (key\<lparr>ep1 := dstName\<rparr>, keyType OR TO_POD_KEY));
          (key, keyType) = (case svcIpToName agent (fk_GetSrcIp fk keyOut) of
             None \<Rightarrow> (key, keyType)
           | Some srcName \<Rightarrow>
               (key\<lparr>ep0 := srcName @ ''/'' @ svc_type_of agent srcName\<rparr>, keyType OR FROM_SVC_KEY));
          (key, keyType) = (case svcIpToName agent (fk_GetDstIp fk keyOut) of
             None \<Rightarrow> (key, keyType)
           | Some dstName \<Rightarrow>
               (key\<lparr>ep1 := dstName @ ''/'' @ svc_type_of agent dstName\<rparr>, keyType OR TO_SVC_KEY));
          key = (if ep0 key = '''' then key\<lparr>ep0 := fk_GetSrcIp fk keyOut\<rparr> else key);
          key = (if ep1 key = '''' then key\<lparr>ep1 := fk_GetDstIp fk keyOut\<rparr> else key)
      in (key, keyType))"

section \<open>From a key to labels\<close>

record prom_loop =
  pl_key :: PromMetricsKey
  pl_type :: int
  pl_svc :: nat
  pl_pod :: nat

definition prom_step :: "PodStatsKey \<Rightarrow> nat \<Rightarrow> prom_loop \<Rightarrow> prom_loop" where
  "prom_step key i st =
     (let splitStrings = splitN 3 (CHR ''/'') (endpoint key i);
          pk = pl_key st; sc = pl_svc st; pc = pl_pod st in
      if length splitStrings = 3 then
        st\<lparr>pl_key := pk\<lparr>svcNamespace := (svcNamespace pk)[sc := splitStrings ! 0],
                       svcName := (svcName pk)[sc := splitStrings ! 1],
                       svcScope := (svcScope pk)[sc := splitStrings ! 2]\<rparr>,
           pl_svc := sc + 1,
           pl_type := pl_type st OR (if i = 0 then FROM_SVC_KEY else TO_SVC_KEY)\<rparr>
      else if length splitStrings = 2 then
        st\<lparr>pl_key := pk\<lparr>podNamespace := (podNamespace pk)[pc := splitStrings ! 0],
                       podName := (podName pk)[pc := splitStrings ! 1]\<rparr>,
           pl_pod := pc + 1,
           pl_type := pl_type st OR (if i = 0 then FROM_POD_KEY else TO_POD_KEY)\<rparr>
      else st)"

definition metric_name :: "int \<Rightarrow> string" where
  "metric_name keyType =
     (if keyType = FROM_POD_KEY OR TO_SVC_KEY then ''pod_svc_stats''
      else if keyType = FROM_SVC_KEY OR TO_POD_KEY then ''svc_pod_stats''
      else if keyType = FROM_SVC_KEY OR TO_SVC_KEY then ''no_explicit_stats''
      else if keyType = FROM_POD_KEY OR TO_POD_KEY then ''no_explicit_stats''
      else if keyType = TO_POD_KEY \<or> keyType = FROM_POD_KEY then ''pod_stats''
      else if keyType = FROM_SVC_KEY \<or> keyType = TO_SVC_KEY then ''svc_stats''
      else '''')"

definition toPromMetricsKey :: "PodStatsKey \<Rightarrow> PromMetricsKey" where
  "toPromMetricsKey key =
     (let st = fold (prom_step key) [0..<2]
                 \<lparr>pl_key = blank_prom_key, pl_type = 0, pl_svc = 0, pl_pod = 0\<rparr>
      in (pl_key st)\<lparr>metricName := metric_name (pl_type st)\<rparr>)"

section \<open>Names\<close>

text \<open>Kubernetes names contain no slash and are not empty.\<close>

definition plain :: "string \<Rightarrow> bool" where
  "plain s \<longleftrightarrow> s \<noteq> '''' \<and> CHR ''/'' \<notin> set s"

definition pod_ref :: "string \<Rightarrow> string \<Rightarrow> string" where
  "pod_ref ns name = ns @ ''/'' @ name"

definition svc_ref :: "string \<Rightarrow> string \<Rightarrow> string \<Rightarrow> string" where
  "svc_ref ns name scope = ns @ ''/'' @ name @ ''/'' @ scope"

lemma split_pod_ref: "plain ns \<Longrightarrow> plain name \<Longrightarrow> splitN 3 (CHR ''/'') (pod_ref ns name) = [ns, name]"
  using splitN_enough [of "[ns, name]" "CHR ''/''" 3] by (simp add: pod_ref_def plain_def)

lemma split_svc_ref:
  "plain ns \<Longrightarrow> plain name \<Longrightarrow> CHR ''/'' \<notin> set scope \<Longrightarrow>
   splitN 3 (CHR ''/'') (svc_ref ns name scope) = [ns, name, scope]"
  using splitN_enough [of "[ns, name, scope]" "CHR ''/''" 3] by (simp add: svc_ref_def plain_def)

lemma split_plain: "CHR ''/'' \<notin> set s \<Longrightarrow> splitN 3 (CHR ''/'') s = [s]"
  by (simp add: numeral_3_eq_3)

lemma key_type_or:
  "FROM_POD_KEY OR TO_SVC_KEY = 9" "FROM_SVC_KEY OR TO_POD_KEY = 6" "FROM_SVC_KEY OR TO_SVC_KEY = 12"
  "FROM_POD_KEY OR TO_POD_KEY = 3"
  by (simp_all add: key_type_defs)

lemmas prom_simps =
  toPromMetricsKey_def prom_step_def upt_rec [of 0 2] upt_rec [of 1 2] endpoint_def
  blank_prom_key_def metric_name_def key_type_or

lemma prom_of_pod:
  assumes "plain ns" "plain name"
  shows "toPromMetricsKey \<lparr>ep0 = pod_ref ns name, ep1 = ''''\<rparr> =
    blank_prom_key\<lparr>podNamespace := [ns, ''''], podName := [name, ''''], metricName := ''pod_stats''\<rparr>"
  using split_pod_ref [OF assms] split_plain [of "''''"]
  by (simp add: prom_simps Let_def key_type_defs numeral_2_eq_2)

lemma prom_of_svc:
  assumes "plain ns" "plain name" "CHR ''/'' \<notin> set scope"
  shows "toPromMetricsKey \<lparr>ep0 = svc_ref ns name scope, ep1 = ''''\<rparr> =
    blank_prom_key\<lparr>svcNamespace := [ns, ''''], svcName := [name, ''''], svcScope := [scope, ''''],
      metricName := ''svc_stats''\<rparr>"
  using split_svc_ref [OF assms] split_plain [of "''''"]
  by (simp add: prom_simps Let_def key_type_defs numeral_2_eq_2)

lemma prom_of_pod_svc:
  assumes "plain ns" "plain name" "plain ns'" "plain name'" "CHR ''/'' \<notin> set scope"
  shows "toPromMetricsKey \<lparr>ep0 = pod_ref ns name, ep1 = svc_ref ns' name' scope\<rparr> =
    \<lparr>podNamespace = [ns, ''''], podName = [name, ''''], svcNamespace = [ns', ''''],
     svcScope = [scope, ''''], svcName = [name', ''''], metricName = ''pod_svc_stats''\<rparr>"
    "toPromMetricsKey \<lparr>ep0 = svc_ref ns' name' scope, ep1 = pod_ref ns name\<rparr> =
    \<lparr>podNamespace = [ns, ''''], podName = [name, ''''], svcNamespace = [ns', ''''],
     svcScope = [scope, ''''], svcName = [name', ''''], metricName = ''svc_pod_stats''\<rparr>"
  using split_pod_ref [OF assms(1,2)] split_svc_ref [OF assms(3,4,5)]
  by (simp_all add: prom_simps Let_def key_type_defs numeral_2_eq_2)

lemma swap_swap [simp]: "swap_endpoints (swap_endpoints k) = k"
  by (simp add: swap_endpoints_def)

section \<open>Any flow key\<close>

text \<open>An address that is neither a pod's nor a service's.\<close>

definition stranger :: "StatsAgent \<Rightarrow> string \<Rightarrow> bool" where
  "stranger agent ip \<longleftrightarrow> podIpToName agent ip = None \<and> svcIpToName agent ip = None"

context flow_key
begin

text \<open>The key depends on the addresses of the flow and on nothing else.\<close>

lemma same_ends: "src f = src g \<Longrightarrow> dst f = dst g \<Longrightarrow> getPodStatsKey K agent f = getPodStatsKey K agent g"
  unfolding getPodStatsKey_def src_text dst_text by (simp only:)

lemma stranger_key:
  assumes "stranger agent (text_of (src f))" and "stranger agent (text_of (dst f))"
  shows "getPodStatsKey K agent f = (\<lparr>ep0 = text_of (src f), ep1 = text_of (dst f)\<rparr>, 0)"
  using assms by (simp add: getPodStatsKey_def src_text dst_text stranger_def text_nonempty)

text \<open>Flows between addresses nobody knows have no metric, and their keys tell them apart.\<close>

lemma stranger_metric:
  assumes "stranger agent (text_of (src f))" and "stranger agent (text_of (dst f))"
  shows "metricName (toPromMetricsKey (fst (getPodStatsKey K agent f))) = ''''"
  using split_plain [OF no_slash]
  by (simp add: stranger_key [OF assms] prom_simps Let_def key_type_defs numeral_2_eq_2)

lemma strangers_apart:
  assumes "stranger agent (text_of (src f))" "stranger agent (text_of (dst f))"
    and "stranger agent (text_of (src g))" "stranger agent (text_of (dst g))"
  shows "getPodStatsKey K agent f = getPodStatsKey K agent g \<longleftrightarrow> src f = src g \<and> dst f = dst g"
  by (simp add: stranger_key [OF assms(1,2)] stranger_key [OF assms(3,4)] text_inj)

end

end
