(* ===== verification/Prom_Gauges.thy ===== *)
theory Prom_Gauges
  imports Pod_Keys
begin

text \<open>
  The Prometheus side of the agent (\<open>pkg/statsagent/podsvcpromsubsystem.go\<close> and the
  wrappers at the end of \<open>metrics.go\<close>): three subsystems of four gauges each, their
  registration, and the functions that set them. The client library is outside the
  repository; a call \<open>GetGaugeVec(m).With(labels).Set(v)\<close> is recorded as a \<open>gauge_set\<close>.
  Going through a nil pointer or a nil interface (a gauge or subsystem that was never
  registered) is the panic \<open>None\<close>, and so is \<open>With\<close> on labels the gauge does not declare.
\<close>

section \<open>Gauges and subsystems\<close>

record GaugeVec =
  gv_namespace :: string
  gv_subsystem :: string
  gv_name :: string
  gv_help :: string
  gv_labels :: "string list"

record PromSubsystem =
  Subsystem :: string
  Gauges :: "string \<rightharpoonup> GaugeVec"

type_synonym prom_subsystems = "string \<rightharpoonup> PromSubsystem"

definition PodSvcPromMetrics :: "string list" where
  "PodSvcPromMetrics =
    [''pod_to_svc_bytes'', ''pod_to_svc_packets'', ''svc_to_pod_bytes'', ''svc_to_pod_packets'']"

definition PodSvcPromHelp :: "string list" where
  "PodSvcPromHelp =
    [''pod to service bytes'', ''pod to service packets'', ''service to pod bytes'',
     ''service to pod packets'']"

definition SvcPromMetrics :: "string list" where
  "SvcPromMetrics = [''svc_tx_bytes'', ''svc_tx_packets'', ''svc_rx_bytes'', ''svc_rx_packets'']"

definition SvcPromHelp :: "string list" where
  "SvcPromHelp =
    [''service egress bytes'', ''service egress packets'', ''service ingress bytes'',
     ''service ingress packets'']"

definition PodPromMetrics :: "string list" where
  "PodPromMetrics = [''pod_tx_bytes'', ''pod_tx_packets'', ''pod_rx_bytes'', ''pod_rx_packets'']"

definition PodPromHelp :: "string list" where
  "PodPromHelp =
    [''pod egress bytes'', ''pod egress packets'', ''pod ingress bytes'', ''pod ingress packets'']"

section \<open>Registration\<close>

definition new_gauges :: "string \<Rightarrow> string list \<Rightarrow> string list \<Rightarrow> string list \<Rightarrow> GaugeVec list" where
  "new_gauges subsystem names helps labels =
     map (\<lambda>(name, help). \<lparr>gv_namespace = ''statsagent'', gv_subsystem = subsystem, gv_name = name,
            gv_help = help, gv_labels = labels\<rparr>) (zip names helps)"

definition NewPodSvcPromSubsystemEntry :: PromSubsystem where
  "NewPodSvcPromSubsystemEntry = \<lparr>Subsystem = ''pod_svc_stats'', Gauges = Map.empty\<rparr>"

definition NewSvcPromSubsystemEntry :: PromSubsystem where
  "NewSvcPromSubsystemEntry = \<lparr>Subsystem = ''svc_stats'', Gauges = Map.empty\<rparr>"

definition NewPodPromSubsystemEntry :: PromSubsystem where
  "NewPodPromSubsystemEntry = \<lparr>Subsystem = ''pod_stats'', Gauges = Map.empty\<rparr>"

definition add_gauges :: "GaugeVec list \<Rightarrow> PromSubsystem \<Rightarrow> PromSubsystem" where
  "add_gauges gs entry = fold (\<lambda>g e. e\<lparr>Gauges := (Gauges e)(gv_name g \<mapsto> g)\<rparr>) gs entry"

definition RegisterPodSvc :: "PromSubsystem \<Rightarrow> PromSubsystem" where
  "RegisterPodSvc entry =
     add_gauges (new_gauges ''pod_svc_stats'' PodSvcPromMetrics PodSvcPromHelp
       [''pod_namespace'', ''pod_name'', ''svc_namespace'', ''svc_name'', ''svc_scope'']) entry"

definition RegisterSvc :: "PromSubsystem \<Rightarrow> PromSubsystem" where
  "RegisterSvc entry =
     add_gauges (new_gauges ''svc_stats'' SvcPromMetrics SvcPromHelp
       [''svc_namespace'', ''svc_name'', ''svc_scope'']) entry"

definition RegisterPod :: "PromSubsystem \<Rightarrow> PromSubsystem" where
  "RegisterPod entry =
     add_gauges (new_gauges ''pod_stats'' PodPromMetrics PodPromHelp
       [''pod_namespace'', ''pod_name'']) entry"

definition registerPrometheusSubsystem ::
    "(PromSubsystem \<Rightarrow> PromSubsystem) \<Rightarrow> PromSubsystem \<Rightarrow> prom_subsystems \<Rightarrow> prom_subsystems" where
  "registerPrometheusSubsystem register entry subs = subs(Subsystem entry \<mapsto> register entry)"

definition registerPrometheusMetrics :: "prom_subsystems \<Rightarrow> prom_subsystems" where
  "registerPrometheusMetrics subs =
     registerPrometheusSubsystem RegisterPod NewPodPromSubsystemEntry
       (registerPrometheusSubsystem RegisterSvc NewSvcPromSubsystemEntry
         (registerPrometheusSubsystem RegisterPodSvc NewPodSvcPromSubsystemEntry subs))"

definition GetGaugeVec :: "PromSubsystem \<Rightarrow> string \<Rightarrow> GaugeVec option" where
  "GetGaugeVec entry metric = Gauges entry metric"

section \<open>Setting gauges\<close>

text \<open>
  \<open>float64(v)\<close>: the nearest number with 53 significant bits, ties to even; such a number
  is a natural number here.
\<close>

fun bit_length :: "nat \<Rightarrow> nat" where
  "bit_length n = (if n = 0 then 0 else Suc (bit_length (n div 2)))"

declare bit_length.simps [simp del]

definition float64 :: "u64 \<Rightarrow> nat" where
  "float64 v =
     (let n = unat v; e = bit_length n - 53; q = n div 2 ^ e; r = n mod 2 ^ e in
      if 2 * r > 2 ^ e \<or> (2 * r = 2 ^ e \<and> odd q) then (q + 1) * 2 ^ e else q * 2 ^ e)"

record gauge_set =
  gs_gauge :: GaugeVec
  gs_labels :: "(string \<times> string) list"
  gs_value :: nat

text \<open>
  \<open>With\<close> panics unless the labels it gets are the declared ones, each exactly once. (Their
  values come from names of Kubernetes objects, so they are always valid UTF-8.)
\<close>

definition labels_ok :: "string list \<Rightarrow> (string \<times> string) list \<Rightarrow> bool" where
  "labels_ok declared labels \<longleftrightarrow>
     distinct (map fst labels) \<and> set (map fst labels) = set declared"

definition set_gauge ::
    "prom_subsystems \<Rightarrow> string \<Rightarrow> (string \<times> string) list \<Rightarrow> string \<times> u64 \<Rightarrow> gauge_set option" where
  "set_gauge subs subsystem labels mv = do {
     entry \<leftarrow> subs subsystem;
     g \<leftarrow> GetGaugeVec entry (fst mv);
     if labels_ok (gv_labels g) labels
     then Some \<lparr>gs_gauge = g, gs_labels = labels, gs_value = float64 (snd mv)\<rparr>
     else None }"

fun set_all ::
    "prom_subsystems \<Rightarrow> string \<Rightarrow> (string \<times> string) list \<Rightarrow> (string \<times> u64) list \<Rightarrow>
     gauge_set list option" where
  "set_all subs subsystem labels [] = Some []"
| "set_all subs subsystem labels (mv # mvs) = do {
     g \<leftarrow> set_gauge subs subsystem labels mv;
     gs \<leftarrow> set_all subs subsystem labels mvs;
     Some (g # gs) }"

definition stats_values :: "flow_stats \<Rightarrow> u64 list" where
  "stats_values stats = [out_bytes stats, out_packets stats, in_bytes stats, in_packets stats]"

definition SetPodSvcGauge ::
    "prom_subsystems \<Rightarrow> PromMetricsKey \<Rightarrow> flow_stats \<Rightarrow> gauge_set list option" where
  "SetPodSvcGauge subs key stats =
     (let vals = stats_values stats;
          labels =
            [(''pod_namespace'', podNamespace key ! 0), (''pod_name'', podName key ! 0),
             (''svc_namespace'', svcNamespace key ! 0), (''svc_scope'', svcScope key ! 0),
             (''svc_name'', svcName key ! 0)] in
      if metricName key = ''svc_pod_stats'' then
        set_all subs ''pod_svc_stats'' labels
          (zip PodSvcPromMetrics [vals ! 2, vals ! 3, vals ! 0, vals ! 1])
      else if metricName key \<noteq> ''pod_svc_stats'' then Some []
      else set_all subs ''pod_svc_stats'' labels (zip PodSvcPromMetrics vals))"

definition SetSvcGauge ::
    "prom_subsystems \<Rightarrow> PromMetricsKey \<Rightarrow> flow_stats \<Rightarrow> gauge_set list option" where
  "SetSvcGauge subs key stats =
     (if metricName key \<noteq> ''svc_stats'' then Some []
      else set_all subs ''svc_stats''
        [(''svc_namespace'', svcNamespace key ! 0), (''svc_scope'', svcScope key ! 0),
         (''svc_name'', svcName key ! 0)]
        (zip SvcPromMetrics (stats_values stats)))"

definition SetPodGauge ::
    "prom_subsystems \<Rightarrow> PromMetricsKey \<Rightarrow> flow_stats \<Rightarrow> gauge_set list option" where
  "SetPodGauge subs key stats =
     (if metricName key \<noteq> ''pod_stats'' then Some []
      else set_all subs ''pod_stats''
        [(''pod_namespace'', podNamespace key ! 0), (''pod_name'', podName key ! 0)]
        (zip PodPromMetrics (stats_values stats)))"

section \<open>After registration every set finds its gauge\<close>

definition gauge_of :: "string \<Rightarrow> string list \<Rightarrow> string \<Rightarrow> string \<Rightarrow> GaugeVec" where
  "gauge_of subsystem labels name help =
     \<lparr>gv_namespace = ''statsagent'', gv_subsystem = subsystem, gv_name = name, gv_help = help,
      gv_labels = labels\<rparr>"

lemmas prom_defs =
  registerPrometheusMetrics_def registerPrometheusSubsystem_def RegisterPod_def RegisterSvc_def
  RegisterPodSvc_def NewPodPromSubsystemEntry_def NewSvcPromSubsystemEntry_def
  NewPodSvcPromSubsystemEntry_def add_gauges_def new_gauges_def PodPromMetrics_def
  PodPromHelp_def SvcPromMetrics_def SvcPromHelp_def PodSvcPromMetrics_def PodSvcPromHelp_def

text \<open>The labels a set names are the labels its gauge declares, each exactly once.\<close>

definition labels_match :: "gauge_set \<Rightarrow> bool" where
  "labels_match s \<longleftrightarrow> labels_ok (gv_labels (gs_gauge s)) (gs_labels s)"

definition gauge_ids :: "prom_subsystems \<Rightarrow> string list" where
  "gauge_ids subs = concat (map (\<lambda>(s, ms). case subs s of None \<Rightarrow> []
     | Some e \<Rightarrow> map (\<lambda>m. case Gauges e m of None \<Rightarrow> []
         | Some g \<Rightarrow> gv_namespace g @ ''_'' @ gv_subsystem g @ ''_'' @ gv_name g) ms)
     [(''pod_svc_stats'', PodSvcPromMetrics), (''svc_stats'', SvcPromMetrics),
      (''pod_stats'', PodPromMetrics)])"

lemma labels_declared [simp]:
  "labels_ok [''pod_namespace'', ''pod_name''] [(''pod_namespace'', a), (''pod_name'', b)]"
  "labels_ok [''svc_namespace'', ''svc_name'', ''svc_scope'']
     [(''svc_namespace'', a), (''svc_scope'', c), (''svc_name'', b)]"
  "labels_ok [''pod_namespace'', ''pod_name'', ''svc_namespace'', ''svc_name'', ''svc_scope'']
     [(''pod_namespace'', a), (''pod_name'', b), (''svc_namespace'', d), (''svc_scope'', c), (''svc_name'', e)]"
  by (auto simp: labels_ok_def)

lemma set_pod_gauge:
  "metricName key = ''pod_stats'' \<Longrightarrow> \<exists>gs. SetPodGauge (registerPrometheusMetrics subs) key stats = Some gs \<and>
     map (gv_name \<circ> gs_gauge) gs = PodPromMetrics \<and> map gs_value gs = map float64 (stats_values stats) \<and>
     list_all labels_match gs \<and> list_all (\<lambda>g. gs_labels g =
       [(''pod_namespace'', podNamespace key ! 0), (''pod_name'', podName key ! 0)]) gs"
  by (simp add: SetPodGauge_def set_gauge_def GetGaugeVec_def prom_defs stats_values_def labels_match_def)

lemma set_svc_gauge:
  "metricName key = ''svc_stats'' \<Longrightarrow> \<exists>gs. SetSvcGauge (registerPrometheusMetrics subs) key stats = Some gs \<and>
     map (gv_name \<circ> gs_gauge) gs = SvcPromMetrics \<and> map gs_value gs = map float64 (stats_values stats) \<and>
     list_all labels_match gs \<and> list_all (\<lambda>g. gs_labels g =
       [(''svc_namespace'', svcNamespace key ! 0), (''svc_scope'', svcScope key ! 0),
        (''svc_name'', svcName key ! 0)]) gs"
  by (auto simp: SetSvcGauge_def set_gauge_def GetGaugeVec_def prom_defs stats_values_def labels_match_def)

end
