(* ===== verification/Runs.thy ===== *)
theory Runs
  imports Prelude
begin

text \<open>
  Systems of actions: what a call or a step can come to, and runs of actions one after
  the other. The locales state once what is proved about runs from facts about single
  steps; the agent's system interprets them for each of its invariants.
\<close>

text \<open>
  A call either waits for ever for something that is not to come, or ends with a panic,
  or finishes.
\<close>

datatype 'a call = Blocked | Panic | Finished 'a

fun run_all :: "('a \<Rightarrow> 's \<Rightarrow> 's call) \<Rightarrow> 'a list \<Rightarrow> 's \<Rightarrow> 's call" where
  "run_all step [] s = Finished s"
| "run_all step (a # as) s =
     (case step a s of
        Blocked \<Rightarrow> Blocked
      | Panic \<Rightarrow> Panic
      | Finished s' \<Rightarrow> run_all step as s')"

lemma run_all_append:
  "run_all step (as @ bs) s =
     (case run_all step as s of Blocked \<Rightarrow> Blocked | Panic \<Rightarrow> Panic
      | Finished s' \<Rightarrow> run_all step bs s')"
  by (induction as arbitrary: s) (auto split: call.split)

lemma run_all_ConsE:
  assumes "run_all step (a # as) s = Finished s'"
  obtains s1 where "step a s = Finished s1" and "run_all step as s1 = Finished s'"
  using assms by (auto split: call.splits)

text \<open>Where a run panics.\<close>

lemma run_all_panics:
  "run_all step as s = Panic \<longleftrightarrow>
     (\<exists>bs a cs s1. as = bs @ a # cs \<and> run_all step bs s = Finished s1 \<and> step a s1 = Panic)"
proof (induction as arbitrary: s)
  case (Cons a as)
  have "(\<exists>bs b cs s1. a # as = bs @ b # cs \<and> run_all step bs s = Finished s1 \<and> step b s1 = Panic) \<longleftrightarrow>
      step a s = Panic \<or> (\<exists>s'. step a s = Finished s' \<and>
        (\<exists>bs b cs s1. as = bs @ b # cs \<and> run_all step bs s' = Finished s1 \<and> step b s1 = Panic))"
    (is "?l \<longleftrightarrow> ?r")
  proof
    assume ?l
    then obtain bs b cs s1 where "a # as = bs @ b # cs" "run_all step bs s = Finished s1" "step b s1 = Panic"
      by blast
    then show ?r by (cases bs) (auto split: call.splits)
  next
    assume ?r
    then show ?l
    proof (elim disjE exE conjE)
      assume "step a s = Panic"
      then show ?l by (intro exI [of _ "[]"] exI [of _ a] exI [of _ as] exI [of _ s]) simp
    next
      fix s' bs b cs s1
      assume "step a s = Finished s'" "as = bs @ b # cs" "run_all step bs s' = Finished s1" "step b s1 = Panic"
      then show ?l by (intro exI [of _ "a # bs"] exI [of _ b] exI [of _ cs] exI [of _ s1]) simp
    qed
  qed
  with Cons.IH show ?case by (simp split: call.split)
qed simp

text \<open>A run of allowed actions is a run of the system that can do nothing else.\<close>

definition only :: "('a \<Rightarrow> bool) \<Rightarrow> ('a \<Rightarrow> 's \<Rightarrow> 's call) \<Rightarrow> 'a \<Rightarrow> 's \<Rightarrow> 's call" where
  "only allowed step a s = (if allowed a then step a s else Blocked)"

lemma run_only: "list_all allowed as \<Longrightarrow> run_all (only allowed step) as s = run_all step as s"
  by (induction as arbitrary: s) (auto simp: only_def split: call.split)

text \<open>A property every step keeps is kept by runs; with it, steps that cannot panic give runs that cannot.\<close>

locale kept =
  fixes step :: "'a \<Rightarrow> 's \<Rightarrow> 's call" and inv :: "'s \<Rightarrow> bool"
  assumes step_keeps: "step a s = Finished s' \<Longrightarrow> inv s \<Longrightarrow> inv s'"
begin

lemma run_keeps: "run_all step as s = Finished s' \<Longrightarrow> inv s \<Longrightarrow> inv s'"
proof (induction as arbitrary: s)
  case (Cons a as)
  from Cons.prems(1) obtain s1 where "step a s = Finished s1" "run_all step as s1 = Finished s'"
    by (rule run_all_ConsE)
  with Cons.IH Cons.prems(2) step_keeps show ?case by blast
qed simp

text \<open>What cannot happen in such a state does not happen in a run.\<close>

lemma run_avoids:
  "run_all step as s = Finished s' \<Longrightarrow> inv s \<Longrightarrow> (\<And>t. inv t \<Longrightarrow> step a t = Blocked) \<Longrightarrow> a \<notin> set as"
proof (induction as arbitrary: s)
  case (Cons b as)
  from Cons.prems(1) obtain s1 where one: "step b s = Finished s1" and rest: "run_all step as s1 = Finished s'"
    by (rule run_all_ConsE)
  have "a \<notin> set as" using Cons.IH [OF rest step_keeps [OF one Cons.prems(2)] Cons.prems(3)] .
  moreover have "b \<noteq> a" using one Cons.prems(3) [OF Cons.prems(2)] by auto
  ultimately show ?case by simp
qed simp

end

locale safe = kept +
  fixes bad :: "'a \<Rightarrow> bool"
  assumes step_safe: "inv s \<Longrightarrow> \<not> bad a \<Longrightarrow> step a s \<noteq> Panic"
begin

lemma run_safe: "inv s \<Longrightarrow> \<not> list_ex bad as \<Longrightarrow> run_all step as s \<noteq> Panic"
proof (induction as arbitrary: s)
  case (Cons a as)
  then have "step a s \<noteq> Panic" by (intro step_safe) simp_all
  then show ?case using Cons step_keeps by (cases "step a s") simp_all
qed simp

end

text \<open>A mark that some actions set, that no other touches and none takes back.\<close>

locale marked = kept +
  fixes mark :: "'a \<Rightarrow> bool" and flag :: "'s \<Rightarrow> bool"
  assumes step_marks: "step a s = Finished s' \<Longrightarrow> inv s \<Longrightarrow> flag s' \<longleftrightarrow> flag s \<or> mark a"
begin

lemma run_marks: "run_all step as s = Finished s' \<Longrightarrow> inv s \<Longrightarrow> flag s' \<longleftrightarrow> flag s \<or> list_ex mark as"
proof (induction as arbitrary: s)
  case (Cons a as)
  from Cons.prems(1) obtain s1 where one: "step a s = Finished s1" and rest: "run_all step as s1 = Finished s'"
    by (rule run_all_ConsE)
  from Cons.IH [OF rest step_keeps [OF one Cons.prems(2)]] step_marks [OF one Cons.prems(2)]
  show ?case by simp
qed simp

end

text \<open>
  A quantity the run pays for: each costly action takes one from it and none gives any.
\<close>

locale budget = kept +
  fixes left :: "'s \<Rightarrow> nat" and cost :: "'a \<Rightarrow> bool"
  assumes step_pays: "step a s = Finished s' \<Longrightarrow> inv s \<Longrightarrow> left s' + of_bool (cost a) \<le> left s"
begin

lemma run_pays: "run_all step as s = Finished s' \<Longrightarrow> inv s \<Longrightarrow> left s' + length (filter cost as) \<le> left s"
proof (induction as arbitrary: s)
  case (Cons a as)
  from Cons.prems(1) obtain s1 where one: "step a s = Finished s1" and rest: "run_all step as s1 = Finished s'"
    by (rule run_all_ConsE)
  have "left s' + length (filter cost as) \<le> left s1"
    using Cons.IH [OF rest] step_keeps [OF one Cons.prems(2)] .
  with step_pays [OF one Cons.prems(2)] show ?case by auto
qed simp

end

text \<open>
  A functional refinement: the steps of one system, seen through \<open>abs\<close>, are those of another
  on the same actions.
\<close>

locale simulated = kept +
  fixes abs :: "'s \<Rightarrow> 't" and spec :: "'a \<Rightarrow> 't \<Rightarrow> 't"
  assumes step_simulates: "step a s = Finished s' \<Longrightarrow> inv s \<Longrightarrow> abs s' = spec a (abs s)"
begin

lemma run_simulates: "run_all step as s = Finished s' \<Longrightarrow> inv s \<Longrightarrow> abs s' = fold spec as (abs s)"
proof (induction as arbitrary: s)
  case (Cons a as)
  from Cons.prems(1) obtain s1 where one: "step a s = Finished s1" and rest: "run_all step as s1 = Finished s'"
    by (rule run_all_ConsE)
  from Cons.IH [OF rest step_keeps [OF one Cons.prems(2)]] step_simulates [OF one Cons.prems(2)]
  show ?case by simp
qed simp

end

end
