(* ===== verification/V4_Metrics.thy ===== *)
theory V4_Metrics
  imports Prom_Gauges Runs
begin

unbundle bit_operations_syntax

text \<open>
  The IPv4 metrics of the agent (\<open>pkg/statsagent/inet_v4_flow.go\<close>): \<open>mergeStats\<close> adds a
  flow's counters to the pods and services at its ends, \<open>UpdateStats\<close> reads the kernel
  map, finds what changed, ages what did not, and leaves the deletions to a goroutine
  that runs later.

  The Go maps hold pointers. In \<open>baseMap\<close> this is visible, since \<open>UpdateStats\<close> keeps a
  pointer to an entry across an assignment through the map: its entries live in a heap.
  The statistics maps never share an entry, so they hold their entries directly. The
  maps are association lists, a \<open>range\<close> loop visits them in the order of the list (Go's
  order is unspecified; each step of the loops touches one entry only). Times are
  numbers, one for each \<open>time.Now()\<close>.
\<close>

section \<open>Entries\<close>

record FlowStatsEntry =
  Stats :: flow_stats
  Aging_counter :: u8
  TimeStamp :: nat

definition zero_entry :: FlowStatsEntry where
  "zero_entry = \<lparr>Stats = zero_stats, Aging_counter = 0, TimeStamp = 0\<rparr>"

definition entry_add :: "flow_stats \<Rightarrow> nat \<Rightarrow> FlowStatsEntry \<Rightarrow> FlowStatsEntry" where
  "entry_add stats t fs =
     fs\<lparr>Stats := addFlowStats (Stats fs) stats, Aging_counter := 0, TimeStamp := t\<rparr>"

text \<open>\<open>FlowStatsEntry.swap\<close>, which nothing calls: the exchange is done on the counters.\<close>

definition entry_swap :: "FlowStatsEntry \<Rightarrow> FlowStatsEntry" where
  "entry_swap fs = fs\<lparr>Stats := fs_swap (Stats fs)\<rparr>"

type_synonym stats_map = "(PodStatsKey \<times> FlowStatsEntry) list"

record stats_maps =
  podStatsMap :: stats_map
  svcStatsMap :: stats_map
  knownStatsMap :: stats_map
  gauge_log :: "gauge_set list"

section \<open>Merging\<close>

text \<open>Create the entry if the map has none, add to it, and return the new map.\<close>

definition add_to :: "PodStatsKey \<Rightarrow> flow_stats \<Rightarrow> nat \<Rightarrow> stats_map \<Rightarrow> stats_map" where
  "add_to key stats t m =
     (let m1 = (if map_of m key = None then put_entry key zero_entry m else m)
      in put_entry key (entry_add stats t (the (map_of m1 key))) m1)"

definition merge_pod ::
    "prom_subsystems \<Rightarrow> PodStatsKey \<Rightarrow> flow_stats \<Rightarrow> nat \<Rightarrow> stats_maps \<Rightarrow> stats_maps option" where
  "merge_pod subs key stats t ms = do {
     let m = add_to key stats t (podStatsMap ms);
     gs \<leftarrow> SetPodGauge subs (toPromMetricsKey key) (Stats (the (map_of m key)));
     Some (ms\<lparr>podStatsMap := m, gauge_log := gauge_log ms @ gs\<rparr>) }"

definition merge_svc ::
    "prom_subsystems \<Rightarrow> PodStatsKey \<Rightarrow> flow_stats \<Rightarrow> nat \<Rightarrow> stats_maps \<Rightarrow> stats_maps option" where
  "merge_svc subs key stats t ms = do {
     let m = add_to key stats t (svcStatsMap ms);
     gs \<leftarrow> SetSvcGauge subs (toPromMetricsKey key) (Stats (the (map_of m key)));
     Some (ms\<lparr>svcStatsMap := m, gauge_log := gauge_log ms @ gs\<rparr>) }"

definition merge_known ::
    "prom_subsystems \<Rightarrow> PodStatsKey \<Rightarrow> flow_stats \<Rightarrow> nat \<Rightarrow> stats_maps \<Rightarrow> stats_maps option" where
  "merge_known subs key stats t ms = do {
     let m = add_to key stats t (knownStatsMap ms);
     gs \<leftarrow> SetPodSvcGauge subs (toPromMetricsKey key) (Stats (the (map_of m key)));
     Some (ms\<lparr>knownStatsMap := m, gauge_log := gauge_log ms @ gs\<rparr>) }"

definition mergeStats ::
    "prom_subsystems \<Rightarrow> int \<Rightarrow> PodStatsKey \<Rightarrow> flow_stats \<Rightarrow> nat \<Rightarrow> stats_maps \<Rightarrow>
     stats_maps option" where
  "mergeStats subs keyType podStatsKey stats t ms =
     (let copiedStats = stats in
      if keyType = FROM_POD_KEY then
        merge_pod subs (clear_endpoint 1 podStatsKey) copiedStats t ms
      else if keyType = TO_POD_KEY then
        let key = clear_endpoint 1 (swap_endpoints podStatsKey); copiedStats = fs_swap copiedStats
        in merge_pod subs key copiedStats t ms
      else if keyType = FROM_SVC_KEY then
        merge_svc subs (clear_endpoint 1 podStatsKey) copiedStats t ms
      else if keyType = TO_SVC_KEY then
        let key = clear_endpoint 1 (swap_endpoints podStatsKey); copiedStats = fs_swap copiedStats
        in merge_svc subs key copiedStats t ms
      else if keyType = FROM_POD_KEY OR TO_POD_KEY then do {
        ms \<leftarrow> merge_pod subs (clear_endpoint 1 podStatsKey) copiedStats t ms;
        let dst = clear_endpoint 1 (swap_endpoints podStatsKey);
        let copiedStats = fs_swap copiedStats;
        merge_pod subs dst copiedStats t ms }
      else if keyType = FROM_SVC_KEY OR TO_SVC_KEY then do {
        ms \<leftarrow> merge_svc subs (clear_endpoint 1 podStatsKey) copiedStats t ms;
        let dst = clear_endpoint 1 (swap_endpoints podStatsKey);
        let copiedStats = fs_swap copiedStats;
        merge_svc subs dst copiedStats t ms }
      else if keyType = FROM_POD_KEY OR TO_SVC_KEY then do {
        ms \<leftarrow> merge_pod subs (clear_endpoint 1 podStatsKey) copiedStats t ms;
        let dst = clear_endpoint 1 (swap_endpoints podStatsKey);
        let copiedStats = fs_swap copiedStats;
        ms \<leftarrow> merge_svc subs dst copiedStats t ms;
        merge_known subs podStatsKey copiedStats t ms }
      else if keyType = FROM_SVC_KEY OR TO_POD_KEY then do {
        ms \<leftarrow> merge_svc subs (clear_endpoint 1 podStatsKey) copiedStats t ms;
        let dst = clear_endpoint 1 (swap_endpoints podStatsKey);
        let copiedStats = fs_swap copiedStats;
        ms \<leftarrow> merge_pod subs dst copiedStats t ms;
        merge_known subs podStatsKey copiedStats t ms }
      else Some ms)"

section \<open>Scanning the kernel map\<close>

text \<open>The keys one scan leaves for the goroutine to delete.\<close>

record delete_task =
  toDeleteList :: "inet_v4_flow list"
  toDeleteKnownStatsList :: "PodStatsKey list"
  toDeletePodStatsList :: "PodStatsKey list"
  toDeleteSvcStatsList :: "PodStatsKey list"

record metrics_entry =
  baseMap :: "(inet_v4_flow \<times> nat) list"
  heap :: "nat \<Rightarrow> FlowStatsEntry"
  next_addr :: nat
  stats_of :: stats_maps
  mutex_held :: bool
  tasks :: "delete_task list"

definition no_maps :: stats_maps where
  "no_maps = \<lparr>podStatsMap = [], svcStatsMap = [], knownStatsMap = [], gauge_log = []\<rparr>"

definition NewInetV4FlowMetricsEntry :: metrics_entry where
  "NewInetV4FlowMetricsEntry =
     \<lparr>baseMap = [], heap = (\<lambda>_. zero_entry), next_addr = 0, stats_of = no_maps,
      mutex_held = False, tasks = []\<rparr>"

text \<open>One round of \<open>for mIter.Next(&keyOut, &valueOut)\<close>.\<close>

definition scan_step ::
    "StatsAgent \<Rightarrow> prom_subsystems \<Rightarrow> nat \<Rightarrow> inet_v4_flow \<times> flow_stats \<Rightarrow>
     metrics_entry \<times> inet_v4_flow list \<Rightarrow> (metrics_entry \<times> inet_v4_flow list) option" where
  "scan_step agent subs t kv st =
     (let (keyOut, valueOut) = kv; (m, toDelete) = st in
      case map_of (baseMap m) keyOut of
        None \<Rightarrow>
          let a = next_addr m;
              e = \<lparr>Stats = valueOut, Aging_counter = 0, TimeStamp = t\<rparr>;
              m = m\<lparr>baseMap := put_entry keyOut a (baseMap m), heap := (heap m)(a := e),
                    next_addr := Suc a\<rparr>;
              (podStatsKey, keyType) = getPodStatsKey v4_FlowKey agent keyOut
          in do {
            ms \<leftarrow> mergeStats subs keyType podStatsKey valueOut t (stats_of m);
            Some (m\<lparr>stats_of := ms\<rparr>, toDelete) }
      | Some currStats \<Rightarrow>
          if Stats (heap m currStats) = valueOut then
            let e = heap m currStats;
                m = m\<lparr>heap := (heap m)(currStats := e\<lparr>Aging_counter := Aging_counter e + 1\<rparr>)\<rparr>
            in if 3 \<le> Aging_counter (heap m currStats)
               then Some (m, toDelete @ [keyOut])
               else Some (m, toDelete)
          else
            let e = heap m currStats;
                m = m\<lparr>heap := (heap m)(currStats :=
                  e\<lparr>Stats := valueOut, Aging_counter := 0, TimeStamp := t\<rparr>)\<rparr>;
                (podStatsKey, keyType) = getPodStatsKey v4_FlowKey agent keyOut;
                diffStats = diffFlowStats (Stats (heap m currStats)) valueOut
            in do {
              ms \<leftarrow> mergeStats subs keyType podStatsKey diffStats t (stats_of m);
              Some (m\<lparr>stats_of := ms\<rparr>, toDelete) })"

fun scan ::
    "StatsAgent \<Rightarrow> prom_subsystems \<Rightarrow> nat \<Rightarrow> (inet_v4_flow \<times> flow_stats) list \<Rightarrow>
     metrics_entry \<times> inet_v4_flow list \<Rightarrow> (metrics_entry \<times> inet_v4_flow list) option" where
  "scan agent subs t [] st = Some st"
| "scan agent subs t (kv # kvs) st = do {
     st' \<leftarrow> scan_step agent subs t kv st;
     scan agent subs t kvs st' }"

text \<open>The loops over the statistics maps after the scan.\<close>

definition age_entry :: "nat \<Rightarrow> FlowStatsEntry \<Rightarrow> FlowStatsEntry" where
  "age_entry t v = (if TimeStamp v \<noteq> t then v\<lparr>Aging_counter := Aging_counter v + 1\<rparr> else v)"

definition age_map :: "nat \<Rightarrow> stats_map \<Rightarrow> stats_map" where
  "age_map t m = map (\<lambda>(k, v). (k, age_entry t v)) m"

definition expired :: "nat \<Rightarrow> stats_map \<Rightarrow> PodStatsKey list" where
  "expired t m =
     map fst (filter (\<lambda>(k, v). TimeStamp v \<noteq> t \<and> 3 \<le> Aging_counter (age_entry t v)) m)"

text \<open>What comes after the last entry: the ageing, the lists for the goroutine, the unlock.\<close>

definition finish_scan :: "nat \<Rightarrow> metrics_entry \<Rightarrow> inet_v4_flow list \<Rightarrow> metrics_entry" where
  "finish_scan t m toDelete =
     (let ms = stats_of m;
          task = \<lparr>toDeleteList = toDelete,
                  toDeleteKnownStatsList = expired t (knownStatsMap ms),
                  toDeletePodStatsList = expired t (podStatsMap ms),
                  toDeleteSvcStatsList = expired t (svcStatsMap ms)\<rparr>;
          ms = ms\<lparr>knownStatsMap := age_map t (knownStatsMap ms),
                 podStatsMap := age_map t (podStatsMap ms),
                 svcStatsMap := age_map t (svcStatsMap ms)\<rparr>
      in m\<lparr>stats_of := ms, mutex_held := False, tasks := tasks m @ [task]\<rparr>)"

text \<open>
  \<open>loaded\<close> is what \<open>LoadPinnedMap\<close> and the iterator give: \<open>None\<close> for the error, else
  the entries in the order the iterator yields them.
\<close>

definition UpdateStats ::
    "StatsAgent \<Rightarrow> prom_subsystems \<Rightarrow> nat \<Rightarrow> (inet_v4_flow \<times> flow_stats) list option \<Rightarrow>
     metrics_entry \<Rightarrow> metrics_entry call" where
  "UpdateStats agent subs t loaded m =
     (if mutex_held m then Blocked
      else
        let m = m\<lparr>mutex_held := True\<rparr> in
        case loaded of
          None \<Rightarrow> Finished m
        | Some entries \<Rightarrow>
            (case scan agent subs t entries (m, []) of
               None \<Rightarrow> Panic
             | Some (m, toDelete) \<Rightarrow> Finished (finish_scan t m toDelete)))"

section \<open>The deletion goroutine\<close>

definition del_keys :: "'k list \<Rightarrow> ('k \<times> 'v) list \<Rightarrow> ('k \<times> 'v) list" where
  "del_keys ks m = filter (\<lambda>(k, v). k \<notin> set ks) m"

text \<open>
  \<open>loaded\<close> says whether \<open>LoadPinnedMap\<close> succeeds, \<open>deletable\<close> for which keys \<open>m2.Delete\<close>
  does. The second component of the result is the keys deleted from the kernel map.
\<close>

definition run_task ::
    "bool \<Rightarrow> (inet_v4_flow \<Rightarrow> bool) \<Rightarrow> delete_task \<Rightarrow> metrics_entry \<Rightarrow>
     (metrics_entry \<times> inet_v4_flow list) call" where
  "run_task loaded deletable task m =
     (if mutex_held m then Blocked
      else if \<not> loaded then Finished (m, [])
      else
        let ms = stats_of m;
            ms = ms\<lparr>knownStatsMap := del_keys (toDeleteKnownStatsList task) (knownStatsMap ms)\<rparr>;
            ms = ms\<lparr>podStatsMap := del_keys (toDeletePodStatsList task) (podStatsMap ms)\<rparr>;
            ms = ms\<lparr>svcStatsMap := del_keys (toDeleteSvcStatsList task) (svcStatsMap ms)\<rparr>
        in Finished (m\<lparr>baseMap := del_keys (toDeleteList task) (baseMap m), stats_of := ms\<rparr>,
                     filter deletable (toDeleteList task)))"

section \<open>Printing the pods\<close>

definition stats_line :: "PodStatsKey \<Rightarrow> FlowStatsEntry \<Rightarrow> string" where
  "stats_line k v =
     ep0 k @ ''<->'' @ ep1 k @ '' Out:'' @ dec_string (unat (out_bytes (Stats v))) @ '' bytes '' @
     dec_string (unat (out_packets (Stats v))) @ '' packets In: '' @
     dec_string (unat (in_bytes (Stats v))) @ '' bytes '' @
     dec_string (unat (in_packets (Stats v))) @ '' packets, aging_count:'' @
     dec_string (unat (Aging_counter v))"

text \<open>The metric is unchanged, the mutex is unlocked on return; the result is what is printed.\<close>

definition GetStats :: "metrics_entry \<Rightarrow> (metrics_entry \<times> string list) call" where
  "GetStats m =
     (if mutex_held m then Blocked
      else Finished (m, map (\<lambda>(k, v). stats_line k v) (podStatsMap (stats_of m))))"


end
