(* ===== verification/Metrics_Facts.thy ===== *)
theory Metrics_Facts
  imports V4_Metrics
begin

text \<open>
  Facts about the agent's metrics: what \<open>mergeStats\<close> charges to whom, the base map as a
  map from flows to entries (the heap abstracted away), and that nothing panics once the
  gauges are registered.
\<close>

section \<open>What an aggregate holds\<close>

definition agg :: "stats_map \<Rightarrow> PodStatsKey \<Rightarrow> flow_stats" where
  "agg m k = (case map_of m k of None \<Rightarrow> zero_stats | Some e \<Rightarrow> Stats e)"

lemma add_zero_both [simp]: "add_stats zero_stats v = v" "add_stats v zero_stats = v"
  by (simp_all add: add_stats_def zero_stats_def)

lemma map_of_add_to:
  "map_of (add_to key v t m) =
     (map_of m)(key \<mapsto> entry_add v t (case map_of m key of None \<Rightarrow> zero_entry | Some e \<Rightarrow> e))"
  by (auto simp: add_to_def Let_def map_of_put_entry fun_eq_iff split: option.splits)

lemma agg_add_to: "agg (add_to key v t m) k = (if k = key then add_stats (agg m k) v else agg m k)"
  by (auto simp: agg_def map_of_add_to entry_add_def zero_entry_def split: option.splits)

lemma agg_added: "Stats (the (map_of (add_to key v t m) key)) = add_stats (agg m key) v"
  using agg_add_to [of key v t m key] by (simp add: agg_def map_of_add_to)

lemma map_of_age_map: "map_of (age_map t m) k = map_option (age_entry t) (map_of m k)"
  by (simp add: age_map_def map_of_map)

lemma agg_age_map [simp]: "agg (age_map t m) = agg m"
  by (auto simp: fun_eq_iff agg_def map_of_age_map age_entry_def split: option.splits)

section \<open>What a flow charges\<close>

text \<open>
  The specification of \<open>mergeStats\<close>: the aggregates a flow is added to, with what is
  added, for each of the three maps.
\<close>

type_synonym charges = "(PodStatsKey \<times> flow_stats) list"

definition src_key :: "PodStatsKey \<Rightarrow> PodStatsKey" where
  "src_key k = \<lparr>ep0 = ep0 k, ep1 = ''''\<rparr>"

definition dst_key :: "PodStatsKey \<Rightarrow> PodStatsKey" where
  "dst_key k = \<lparr>ep0 = ep1 k, ep1 = ''''\<rparr>"

lemma clear_is_src [simp]:
  "clear_endpoint 1 k = src_key k" "clear_endpoint (Suc 0) k = src_key k"
  "src_key (swap_endpoints k) = dst_key k"
  by (simp_all add: clear_endpoint_def swap_endpoints_def src_key_def dst_key_def)

definition pod_charges :: "int \<Rightarrow> PodStatsKey \<Rightarrow> flow_stats \<Rightarrow> charges" where
  "pod_charges kt k v =
     (if kt = 1 \<or> kt = 9 then [(src_key k, v)]
      else if kt = 2 \<or> kt = 6 then [(dst_key k, fs_swap v)]
      else if kt = 3 then [(src_key k, v), (dst_key k, fs_swap v)]
      else [])"

definition svc_charges :: "int \<Rightarrow> PodStatsKey \<Rightarrow> flow_stats \<Rightarrow> charges" where
  "svc_charges kt k v =
     (if kt = 4 \<or> kt = 6 then [(src_key k, v)]
      else if kt = 8 \<or> kt = 9 then [(dst_key k, fs_swap v)]
      else if kt = 12 then [(src_key k, v), (dst_key k, fs_swap v)]
      else [])"

definition known_charges :: "int \<Rightarrow> PodStatsKey \<Rightarrow> flow_stats \<Rightarrow> charges" where
  "known_charges kt k v = (if kt = 9 \<or> kt = 6 then [(k, fs_swap v)] else [])"

fun charged :: "charges \<Rightarrow> PodStatsKey \<Rightarrow> flow_stats \<Rightarrow> flow_stats" where
  "charged [] k s = s"
| "charged ((k', v) # cs) k s = charged cs k (if k = k' then add_stats s v else s)"

lemma charged_zero:
  "charged (pod_charges kt k zero_stats) key s = s"
  "charged (svc_charges kt k zero_stats) key s = s"
  "charged (known_charges kt k zero_stats) key s = s"
  by (auto simp: pod_charges_def svc_charges_def known_charges_def)

section \<open>Merging meets the specification\<close>

lemma gauge_total:
  "\<exists>gs. SetPodGauge (registerPrometheusMetrics subs) k v = Some gs \<and> list_all labels_match gs"
  "\<exists>gs. SetSvcGauge (registerPrometheusMetrics subs) k v = Some gs \<and> list_all labels_match gs"
  "\<exists>gs. SetPodSvcGauge (registerPrometheusMetrics subs) k v = Some gs \<and> list_all labels_match gs"
proof -
  show "\<exists>gs. SetPodGauge (registerPrometheusMetrics subs) k v = Some gs \<and> list_all labels_match gs"
    using set_pod_gauge [of k subs v]
    by (cases "metricName k = ''pod_stats''") (auto simp: SetPodGauge_def)
  show "\<exists>gs. SetSvcGauge (registerPrometheusMetrics subs) k v = Some gs \<and> list_all labels_match gs"
    using set_svc_gauge [of k subs v]
    by (cases "metricName k = ''svc_stats''") (auto simp: SetSvcGauge_def)
  show "\<exists>gs. SetPodSvcGauge (registerPrometheusMetrics subs) k v = Some gs \<and> list_all labels_match gs"
    by (auto simp: SetPodSvcGauge_def set_gauge_def GetGaugeVec_def prom_defs stats_values_def
        labels_match_def Let_def)
qed

definition log_ok :: "stats_maps \<Rightarrow> bool" where
  "log_ok ms \<longleftrightarrow> list_all labels_match (gauge_log ms)"

lemma merge_pod_total:
  "\<exists>ms'. merge_pod (registerPrometheusMetrics subs) k v t ms = Some ms' \<and> (log_ok ms \<longrightarrow> log_ok ms')"
  using gauge_total(1) [of subs "toPromMetricsKey k"
      "Stats (the (map_of (add_to k v t (podStatsMap ms)) k))"]
  by (auto simp: merge_pod_def Let_def log_ok_def)

lemma merge_svc_total:
  "\<exists>ms'. merge_svc (registerPrometheusMetrics subs) k v t ms = Some ms' \<and> (log_ok ms \<longrightarrow> log_ok ms')"
  using gauge_total(2) [of subs "toPromMetricsKey k"
      "Stats (the (map_of (add_to k v t (svcStatsMap ms)) k))"]
  by (auto simp: merge_svc_def Let_def log_ok_def)

lemma merge_known_total:
  "\<exists>ms'. merge_known (registerPrometheusMetrics subs) k v t ms = Some ms' \<and> (log_ok ms \<longrightarrow> log_ok ms')"
  using gauge_total(3) [of subs "toPromMetricsKey k"
      "Stats (the (map_of (add_to k v t (knownStatsMap ms)) k))"]
  by (auto simp: merge_known_def Let_def log_ok_def)

lemma merge_parts:
  "merge_pod subs k v t ms = Some ms' \<Longrightarrow> podStatsMap ms' = add_to k v t (podStatsMap ms) \<and>
     svcStatsMap ms' = svcStatsMap ms \<and> knownStatsMap ms' = knownStatsMap ms"
  "merge_svc subs k v t ms = Some ms' \<Longrightarrow> podStatsMap ms' = podStatsMap ms \<and>
     svcStatsMap ms' = add_to k v t (svcStatsMap ms) \<and> knownStatsMap ms' = knownStatsMap ms"
  "merge_known subs k v t ms = Some ms' \<Longrightarrow> podStatsMap ms' = podStatsMap ms \<and>
     svcStatsMap ms' = svcStatsMap ms \<and> knownStatsMap ms' = add_to k v t (knownStatsMap ms)"
  by (auto simp: merge_pod_def merge_svc_def merge_known_def Let_def split: bind_splits)

lemmas merge_unfold = mergeStats_def key_type_or key_type_defs Let_def

text \<open>
  The three maps after a merge, entry by entry, and from that what each aggregate holds.
\<close>

fun add_all :: "nat \<Rightarrow> charges \<Rightarrow> stats_map \<Rightarrow> stats_map" where
  "add_all t [] m = m"
| "add_all t ((k, v) # cs) m = add_all t cs (add_to k v t m)"

definition posted_to ::
    "int \<Rightarrow> PodStatsKey \<Rightarrow> flow_stats \<Rightarrow> nat \<Rightarrow> stats_maps \<Rightarrow> stats_maps \<Rightarrow> bool" where
  "posted_to kt key v t ms ms' \<longleftrightarrow>
     podStatsMap ms' = add_all t (pod_charges kt key v) (podStatsMap ms) \<and>
     svcStatsMap ms' = add_all t (svc_charges kt key v) (svcStatsMap ms) \<and>
     knownStatsMap ms' = add_all t (known_charges kt key v) (knownStatsMap ms)"

lemmas posted_simps = posted_to_def pod_charges_def svc_charges_def known_charges_def

lemma mergeStats_posts:
  assumes "mergeStats subs kt key v t ms = Some ms'"
  shows "posted_to kt key v t ms ms'"
proof (cases "kt \<in> {1, 2, 3, 4, 6, 8, 9, 12}")
  case True
  then consider "kt = 1" | "kt = 2" | "kt = 3" | "kt = 4" | "kt = 6" | "kt = 8" | "kt = 9" | "kt = 12"
    by blast
  then show ?thesis
    using assms
    by cases
       (clarsimp simp: merge_unfold bind_eq_Some_conv, (drule merge_parts)+, simp add: posted_simps)+
next
  case False
  then show ?thesis using assms by (simp add: merge_unfold posted_simps)
qed

lemma agg_add_all: "agg (add_all t cs m) k = charged cs k (agg m k)"
  by (induction t cs m rule: add_all.induct) (simp_all add: agg_add_to)

text \<open>
  What is the same for the three statistics maps: a merge adds the charges of its kind,
  and ageing changes every entry in place. The rest of the theory on aggregates is shown
  once, for any such map.
\<close>

locale statistic =
  fixes sel :: "stats_maps \<Rightarrow> stats_map" and charges_of :: "int \<Rightarrow> PodStatsKey \<Rightarrow> flow_stats \<Rightarrow> charges"
  assumes merge_adds: "posted_to kt key v t ms ms' \<Longrightarrow> sel ms' = add_all t (charges_of kt key v) (sel ms)"
    and ageing_in_place: "sel (stats_of (finish_scan t m td)) = age_map t (sel (stats_of m))"
    and nothing_for_zero: "charged (charges_of kt key zero_stats) k x = x"
begin

lemma agg_finish [simp]: "agg (sel (stats_of (finish_scan t m td))) = agg (sel (stats_of m))"
  by (simp add: ageing_in_place)

lemma merge_charges:
  "mergeStats subs kt key v t ms = Some ms' \<Longrightarrow> agg (sel ms') k = charged (charges_of kt key v) k (agg (sel ms) k)"
  by (simp add: merge_adds [OF mergeStats_posts] agg_add_all)

end

lemma finish_scan_maps:
  "podStatsMap (stats_of (finish_scan t m td)) = age_map t (podStatsMap (stats_of m))"
  "svcStatsMap (stats_of (finish_scan t m td)) = age_map t (svcStatsMap (stats_of m))"
  "knownStatsMap (stats_of (finish_scan t m td)) = age_map t (knownStatsMap (stats_of m))"
  by (simp_all add: finish_scan_def Let_def)

interpretation pods: statistic podStatsMap pod_charges
  by unfold_locales (simp_all add: posted_to_def finish_scan_maps charged_zero)

interpretation svcs: statistic svcStatsMap svc_charges
  by unfold_locales (simp_all add: posted_to_def finish_scan_maps charged_zero)

interpretation pairs: statistic knownStatsMap known_charges
  by unfold_locales (simp_all add: posted_to_def finish_scan_maps charged_zero)

text \<open>No map holds a key twice.\<close>

definition keys_once :: "stats_maps \<Rightarrow> bool" where
  "keys_once ms \<longleftrightarrow> distinct (map fst (podStatsMap ms)) \<and> distinct (map fst (svcStatsMap ms)) \<and>
     distinct (map fst (knownStatsMap ms))"

lemma distinct_add_all: "distinct (map fst m) \<Longrightarrow> distinct (map fst (add_all t cs m))"
  by (induction t cs m rule: add_all.induct) (simp_all add: add_to_def Let_def distinct_put_entry)

lemma posted_keys_once: "posted_to kt key v t ms ms' \<Longrightarrow> keys_once ms \<Longrightarrow> keys_once ms'"
  by (simp add: posted_to_def keys_once_def distinct_add_all)

lemma mergeStats_total:
  "\<exists>ms'. mergeStats (registerPrometheusMetrics subs) kt key v t ms = Some ms' \<and>
     (log_ok ms \<longrightarrow> log_ok ms')"
proof -
  let ?R = "registerPrometheusMetrics subs"
  have pod: "\<exists>ms'. merge_pod ?R k v t ms = Some ms' \<and> (log_ok ms \<longrightarrow> log_ok ms')" for k v ms
    by (rule merge_pod_total)
  have svc: "\<exists>ms'. merge_svc ?R k v t ms = Some ms' \<and> (log_ok ms \<longrightarrow> log_ok ms')" for k v ms
    by (rule merge_svc_total)
  have known: "\<exists>ms'. merge_known ?R k v t ms = Some ms' \<and> (log_ok ms \<longrightarrow> log_ok ms')" for k v ms
    by (rule merge_known_total)
  have seq: "\<exists>ms'. (f ms \<bind> g) = Some ms' \<and> (log_ok ms \<longrightarrow> log_ok ms')"
    if "\<exists>ms1. f ms = Some ms1 \<and> (log_ok ms \<longrightarrow> log_ok ms1)"
      and "\<And>ms1. \<exists>ms'. g ms1 = Some ms' \<and> (log_ok ms1 \<longrightarrow> log_ok ms')"
    for f g and ms :: stats_maps
    using that by fastforce
  show ?thesis
    unfolding mergeStats_def Let_def
    by (auto intro!: seq pod svc known)
qed

section \<open>The base map without its heap\<close>

definition base :: "metrics_entry \<Rightarrow> inet_v4_flow \<rightharpoonup> FlowStatsEntry" where
  "base m k = map_option (heap m) (map_of (baseMap m) k)"

text \<open>Addresses in the base map are allocated and no two keys share one.\<close>

definition metrics_wf :: "metrics_entry \<Rightarrow> bool" where
  "metrics_wf m \<longleftrightarrow> distinct (map fst (baseMap m)) \<and> distinct (map snd (baseMap m)) \<and>
     (\<forall>a \<in> snd ` set (baseMap m). a < next_addr m)"

lemma new_metrics_wf [wf_intros]: "metrics_wf NewInetV4FlowMetricsEntry"
  by (simp add: metrics_wf_def NewInetV4FlowMetricsEntry_def)

lemma put_fresh: "map_of es k = None \<Longrightarrow> put_entry k v es = es @ [(k, v)]"
  by (induction es) (auto split: if_splits)

lemma wf_alloc:
  assumes "metrics_wf m" and "map_of (baseMap m) k = None"
  shows "metrics_wf (m\<lparr>baseMap := put_entry k (next_addr m) (baseMap m), heap := h,
    next_addr := Suc (next_addr m)\<rparr>)"
  using assms
  by (auto simp: metrics_wf_def put_fresh map_of_eq_None_iff less_Suc_eq image_iff)

lemma wf_other:
  assumes "metrics_wf m" and "map_of (baseMap m) k = Some a" and "map_of (baseMap m) k' = Some b"
  shows "a = b \<longleftrightarrow> k = k'"
proof -
  have "(k, a) \<in> set (baseMap m)" "(k', b) \<in> set (baseMap m)"
    using assms(2,3) by (auto dest: map_of_SomeD)
  moreover have "inj_on snd (set (baseMap m))" "inj_on fst (set (baseMap m))"
    using assms(1) by (simp_all add: metrics_wf_def distinct_map)
  ultimately show ?thesis
    by (metis fst_conv inj_on_contraD snd_conv)
qed

lemma base_alloc:
  assumes "metrics_wf m" and "map_of (baseMap m) k = None"
  shows "base (m\<lparr>baseMap := put_entry k (next_addr m) (baseMap m),
      heap := (heap m)(next_addr m := e), next_addr := Suc (next_addr m)\<rparr>) = (base m)(k \<mapsto> e)"
proof
  fix k'
  have "a \<noteq> next_addr m" if "map_of (baseMap m) k' = Some a" for a
    using that assms(1) by (force simp: metrics_wf_def dest!: map_of_SomeD)
  then show "base (m\<lparr>baseMap := put_entry k (next_addr m) (baseMap m),
      heap := (heap m)(next_addr m := e), next_addr := Suc (next_addr m)\<rparr>) k' = ((base m)(k \<mapsto> e)) k'"
    using assms(2) by (cases "map_of (baseMap m) k'") (auto simp: base_def map_of_put_entry)
qed

lemma base_store:
  assumes "metrics_wf m" and "map_of (baseMap m) k = Some a"
  shows "base (m\<lparr>heap := (heap m)(a := e)\<rparr>) = (base m)(k \<mapsto> e)"
proof
  fix k'
  show "base (m\<lparr>heap := (heap m)(a := e)\<rparr>) k' = ((base m)(k \<mapsto> e)) k'"
    using assms wf_other [OF assms] by (cases "map_of (baseMap m) k'") (auto simp: base_def)
qed

lemma wf_store: "metrics_wf m \<Longrightarrow> metrics_wf (m\<lparr>heap := h\<rparr>)"
  by (simp add: metrics_wf_def)

lemma wf_stats [simp]: "metrics_wf (m\<lparr>stats_of := ms\<rparr>) = metrics_wf m"
  by (simp add: metrics_wf_def)

lemma wf_mutex [simp]: "metrics_wf (m\<lparr>mutex_held := b\<rparr>) = metrics_wf m"
  by (simp add: metrics_wf_def)

lemma base_stats [simp]: "base (m\<lparr>stats_of := ms\<rparr>) = base m"
  by (simp add: base_def fun_eq_iff)

section \<open>One round of the scan\<close>

text \<open>What a round does to the base map, and what it charges, as a specification.\<close>

definition next_entry :: "nat \<Rightarrow> flow_stats \<Rightarrow> FlowStatsEntry option \<Rightarrow> FlowStatsEntry" where
  "next_entry t v old =
     (case old of
        Some e \<Rightarrow> if Stats e = v then e\<lparr>Aging_counter := Aging_counter e + 1\<rparr>
                  else \<lparr>Stats = v, Aging_counter = 0, TimeStamp = t\<rparr>
      | None \<Rightarrow> \<lparr>Stats = v, Aging_counter = 0, TimeStamp = t\<rparr>)"

definition idle_out :: "flow_stats \<Rightarrow> FlowStatsEntry option \<Rightarrow> bool" where
  "idle_out v old = (case old of None \<Rightarrow> False
     | Some e \<Rightarrow> Stats e = v \<and> 3 \<le> Aging_counter e + 1)"

text \<open>What a round merges: nothing for a flow that stood still.\<close>

definition charge_of :: "flow_stats \<Rightarrow> FlowStatsEntry option \<Rightarrow> flow_stats option" where
  "charge_of v old = (case old of None \<Rightarrow> Some v
     | Some e \<Rightarrow> if Stats e = v then None else Some zero_stats)"

lemma scan_step_effect:
  assumes "scan_step agent subs t (k, v) (m, td) = Some (m', td')" and "metrics_wf m"
  shows "metrics_wf m'" and "base m' = (base m)(k \<mapsto> next_entry t v (base m k))"
    and "td' = td @ (if idle_out v (base m k) then [k] else [])"
    and "mutex_held m' = mutex_held m" and "tasks m' = tasks m"
proof -
  have "metrics_wf m' \<and> base m' = (base m)(k \<mapsto> next_entry t v (base m k)) \<and>
    td' = td @ (if idle_out v (base m k) then [k] else []) \<and>
    mutex_held m' = mutex_held m \<and> tasks m' = tasks m"
  proof (cases "map_of (baseMap m) k")
    case None
    then have "base m k = None" by (simp add: base_def)
    with None assms show ?thesis
      by (auto simp: scan_step_def Let_def next_entry_def idle_out_def wf_alloc base_alloc
          split: prod.splits bind_splits)
  next
    case (Some a)
    then have k: "base m k = Some (heap m a)" by (simp add: base_def)
    show ?thesis
    proof (cases "Stats (heap m a) = v")
      case True
      with Some k assms base_store [OF assms(2) Some] show ?thesis
        by (auto simp: scan_step_def Let_def next_entry_def idle_out_def wf_store
            split: if_splits)
    next
      case False
      with Some k assms base_store [OF assms(2) Some] show ?thesis
        by (auto simp: scan_step_def Let_def next_entry_def idle_out_def wf_store
            split: prod.splits bind_splits)
    qed
  qed
  then show "metrics_wf m'" "base m' = (base m)(k \<mapsto> next_entry t v (base m k))"
    "td' = td @ (if idle_out v (base m k) then [k] else [])"
    "mutex_held m' = mutex_held m" "tasks m' = tasks m" by simp_all
qed

lemma scan_step_posts:
  assumes "scan_step agent subs t (k, v) (m, td) = Some (m', td')"
  shows "case charge_of v (base m k) of None \<Rightarrow> stats_of m' = stats_of m
    | Some w \<Rightarrow> posted_to (snd (getPodStatsKey v4_FlowKey agent k))
        (fst (getPodStatsKey v4_FlowKey agent k)) w t (stats_of m) (stats_of m')"
proof -
  obtain pk kt where key: "getPodStatsKey v4_FlowKey agent k = (pk, kt)" by fastforce
  show ?thesis
  proof (cases "map_of (baseMap m) k")
    case None
    with assms key show ?thesis
      by (auto simp: scan_step_def Let_def base_def charge_of_def dest: mergeStats_posts split: bind_splits)
  next
    case (Some a)
    with assms key show ?thesis
      by (cases "Stats (heap m a) = v")
         (auto simp: scan_step_def Let_def base_def charge_of_def dest: mergeStats_posts
           split: bind_splits if_splits)
  qed
qed

lemma scan_step_keys_once:
  "scan_step agent subs t (k, v) (m, td) = Some (m', td') \<Longrightarrow> keys_once (stats_of m) \<Longrightarrow>
   keys_once (stats_of m')"
  using scan_step_posts [of agent subs t k v m td m' td']
  by (auto dest: posted_keys_once split: option.splits)

lemma scan_step_total:
  assumes "log_ok (stats_of m)"
  shows "\<exists>m' td'. scan_step agent (registerPrometheusMetrics subs) t kv (m, td) = Some (m', td') \<and>
    log_ok (stats_of m')"
proof -
  obtain k v where kv: "kv = (k, v)" by fastforce
  obtain pk kt where key: "getPodStatsKey v4_FlowKey agent k = (pk, kt)" by fastforce
  have merge: "\<exists>ms'. mergeStats (registerPrometheusMetrics subs) kt pk w t (stats_of m) = Some ms' \<and> log_ok ms'"
    for w using mergeStats_total [of subs kt pk w t "stats_of m"] assms by blast
  show ?thesis
  proof (cases "map_of (baseMap m) k")
    case None
    with merge [of v] show ?thesis by (auto simp: scan_step_def kv key Let_def)
  next
    case (Some a)
    with merge [of zero_stats] assms show ?thesis
      by (cases "Stats (heap m a) = v") (auto simp: scan_step_def kv key Let_def)
  qed
qed

section \<open>The whole scan\<close>

lemma scan_total:
  assumes "log_ok (stats_of m)"
  shows "\<exists>m' td'. scan agent (registerPrometheusMetrics subs) t kvs (m, td) = Some (m', td') \<and>
    log_ok (stats_of m')"
  using assms
proof (induction kvs arbitrary: m td)
  case (Cons kv kvs)
  then obtain m1 td1 where "scan_step agent (registerPrometheusMetrics subs) t kv (m, td) = Some (m1, td1)"
    "log_ok (stats_of m1)"
    using scan_step_total [of m agent subs t kv td] by auto
  with Cons.IH [of m1 td1] show ?case by auto
qed simp

lemma scan_effect:
  assumes "scan agent subs t kvs (m, td) = Some (m', td')" and "metrics_wf m"
    and "distinct (map fst kvs)"
  shows "metrics_wf m' \<and> mutex_held m' = mutex_held m \<and> tasks m' = tasks m \<and>
    base m' = (\<lambda>k. case map_of kvs k of None \<Rightarrow> base m k | Some v \<Rightarrow> Some (next_entry t v (base m k))) \<and>
    td' = td @ map fst (filter (\<lambda>(k, v). idle_out v (base m k)) kvs)"
  using assms
proof (induction kvs arbitrary: m td)
  case (Cons kv kvs)
  obtain k v where kv: "kv = (k, v)" by fastforce
  from Cons.prems obtain m1 td1 where step: "scan_step agent subs t (k, v) (m, td) = Some (m1, td1)"
    and rest: "scan agent subs t kvs (m1, td1) = Some (m', td')"
    by (auto simp: kv split: bind_splits)
  note one = scan_step_effect [OF step Cons.prems(2)]
  have fresh: "k \<notin> fst ` set kvs" using Cons.prems(3) by (simp add: kv)
  then have same: "base m1 k' = base m k'" if "k' \<in> fst ` set kvs" for k'
    using that one(2) by auto
  have idle: "filter (\<lambda>(k, v). idle_out v (base m1 k)) kvs = filter (\<lambda>(k, v). idle_out v (base m k)) kvs"
    by (rule filter_cong) (auto simp: same rev_image_eqI)
  have "map_of kvs k = None" using fresh by (simp add: map_of_eq_None_iff)
  with Cons.IH [OF rest one(1)] Cons.prems(3) one idle show ?case
    by (auto simp: kv fun_eq_iff split: option.splits)
qed simp

fun all_charges ::
    "StatsAgent \<Rightarrow> (int \<Rightarrow> PodStatsKey \<Rightarrow> flow_stats \<Rightarrow> charges) \<Rightarrow> (inet_v4_flow \<times> flow_stats) list \<Rightarrow> charges" where
  "all_charges agent f [] = []"
| "all_charges agent f ((k, v) # kvs) =
     f (snd (getPodStatsKey v4_FlowKey agent k)) (fst (getPodStatsKey v4_FlowKey agent k)) v @ all_charges agent f kvs"

lemma charged_append: "charged (xs @ ys) k s = charged ys k (charged xs k s)"
  by (induction xs k s rule: charged.induct) auto

context statistic
begin

text \<open>
  The aggregates after a round: a new flow charges its counters, a known one charges
  nothing, because the old counters it is compared with were overwritten before.
\<close>

lemma round_charges:
  assumes "scan_step agent subs t (k, v) (m, td) = Some (m', td')"
  shows "agg (sel (stats_of m')) key =
    (if base m k = None then charged (all_charges agent charges_of [(k, v)]) key (agg (sel (stats_of m)) key)
     else agg (sel (stats_of m)) key)"
  using scan_step_posts [OF assms]
  by (auto simp: charge_of_def agg_add_all nothing_for_zero dest!: merge_adds
      split: option.splits if_splits)

text \<open>A scan charges the flows it sees for the first time, each with its counters.\<close>

lemma scan_charges:
  "scan agent subs t kvs (m, td) = Some (m', td') \<Longrightarrow> metrics_wf m \<Longrightarrow> distinct (map fst kvs) \<Longrightarrow>
   agg (sel (stats_of m')) key =
     charged (all_charges agent charges_of (filter (\<lambda>(k, v). base m k = None) kvs)) key
       (agg (sel (stats_of m)) key)"
proof (induction kvs arbitrary: m td)
  case (Cons kv kvs)
  obtain k v where kv: "kv = (k, v)" by fastforce
  from Cons.prems obtain m1 td1 where step: "scan_step agent subs t (k, v) (m, td) = Some (m1, td1)"
    and rest: "scan agent subs t kvs (m1, td1) = Some (m', td')"
    by (auto simp: kv split: bind_splits)
  note one = scan_step_effect [OF step Cons.prems(2)]
  have "base m1 k' = base m k'" if "k' \<in> fst ` set kvs" for k'
    using that one(2) Cons.prems(3) by (auto simp: kv)
  then have "filter (\<lambda>(k, v). base m1 k = None) kvs = filter (\<lambda>(k, v). base m k = None) kvs"
    by (intro filter_cong) (auto simp: rev_image_eqI)
  with Cons.IH [OF rest one(1)] Cons.prems(3) round_charges [OF step, of key] show ?case
    by (simp add: kv charged_append)
qed simp

end

end
