(* ===== verification/Metric_Updates.thy ===== *)
theory Metric_Updates
  imports Metrics_Facts
begin

text \<open>
  A whole call of \<open>UpdateStats\<close>: that it finishes, what it charges, and what it does to
  the base map and to the list of deletions that are due.
\<close>

lemma finish_scan_sel [simp]:
  "baseMap (finish_scan t m td) = baseMap m" "heap (finish_scan t m td) = heap m"
  "next_addr (finish_scan t m td) = next_addr m" "\<not> mutex_held (finish_scan t m td)"
  "gauge_log (stats_of (finish_scan t m td)) = gauge_log (stats_of m)"
  "tasks (finish_scan t m td) = tasks m @ [\<lparr>toDeleteList = td,
     toDeleteKnownStatsList = expired t (knownStatsMap (stats_of m)),
     toDeletePodStatsList = expired t (podStatsMap (stats_of m)),
     toDeleteSvcStatsList = expired t (svcStatsMap (stats_of m))\<rparr>]"
  by (simp_all add: finish_scan_def Let_def)

declare finish_scan_maps [simp]

lemma base_mutex [simp]: "base (m\<lparr>mutex_held := b\<rparr>) = base m"
  by (simp add: base_def fun_eq_iff)

lemma base_tasks [simp]: "base (m\<lparr>tasks := ts\<rparr>) = base m"
  by (simp add: base_def fun_eq_iff)

lemma finish_scan_keeps [simp]:
  "base (finish_scan t m td) = base m" "metrics_wf (finish_scan t m td) = metrics_wf m"
  "log_ok (stats_of (finish_scan t m td)) = log_ok (stats_of m)"
  by (simp_all add: base_def metrics_wf_def log_ok_def fun_eq_iff)

lemma UpdateStats_loaded:
  assumes "UpdateStats agent subs t (Some entries) m = Finished m'"
  obtains m1 td where "\<not> mutex_held m"
    and "scan agent subs t entries (m\<lparr>mutex_held := True\<rparr>, []) = Some (m1, td)"
    and "m' = finish_scan t m1 td"
  using assms by (auto simp: UpdateStats_def Let_def split: if_splits option.splits)

lemma finished_of_not_panic:
  "\<not> mutex_held m \<Longrightarrow> log_ok (stats_of m) \<Longrightarrow>
   \<exists>m'. UpdateStats agent (registerPrometheusMetrics subs) t (Some entries) m = Finished m' \<and>
     log_ok (stats_of m') \<and> \<not> mutex_held m'"
  using scan_total [of "m\<lparr>mutex_held := True\<rparr>" agent subs t entries "[]"]
  by (fastforce simp: UpdateStats_def Let_def)

context statistic
begin

lemma update_charges:
  assumes "UpdateStats agent subs t (Some entries) m = Finished m'"
    and "metrics_wf m" and "distinct (map fst entries)"
  shows "agg (sel (stats_of m')) key =
    charged (all_charges agent charges_of (filter (\<lambda>(k, v). base m k = None) entries)) key
      (agg (sel (stats_of m)) key)"
proof -
  from assms(1) obtain m1 td where run: "scan agent subs t entries (m\<lparr>mutex_held := True\<rparr>, []) = Some (m1, td)"
    and m': "m' = finish_scan t m1 td"
    by (rule UpdateStats_loaded)
  show ?thesis using scan_charges [OF run _ assms(3), of key] assms(2) by (simp add: m')
qed

end

lemma UpdateStats_base:
  assumes "UpdateStats agent subs t (Some entries) m = Finished m'"
    and "metrics_wf m" and "distinct (map fst entries)"
  shows "metrics_wf m'" and "\<not> mutex_held m'"
    and "base m' = (\<lambda>k. case map_of entries k of None \<Rightarrow> base m k
           | Some v \<Rightarrow> Some (next_entry t v (base m k)))"
    and "\<exists>task. tasks m' = tasks m @ [task] \<and>
           toDeleteList task = map fst (filter (\<lambda>(k, v). idle_out v (base m k)) entries)"
proof -
  from assms(1) obtain m1 td where run: "scan agent subs t entries (m\<lparr>mutex_held := True\<rparr>, []) = Some (m1, td)"
    and m': "baseMap m' = baseMap m1" "heap m' = heap m1" "next_addr m' = next_addr m1"
      "\<not> mutex_held m'" "\<exists>task. tasks m' = tasks m1 @ [task] \<and> toDeleteList task = td"
    by (rule UpdateStats_loaded) auto
  have wf: "metrics_wf (m\<lparr>mutex_held := True\<rparr>)" and b: "base (m\<lparr>mutex_held := True\<rparr>) = base m"
    using assms(2) by (auto simp: base_def metrics_wf_def)
  have b': "base m' = base m1" by (intro ext) (simp only: base_def m'(1,2))
  note eff = scan_effect [OF run wf assms(3), unfolded b]
  show "metrics_wf m'" using eff m'(1,3) by (simp add: metrics_wf_def)
  show "\<not> mutex_held m'" by (rule m'(4))
  show "base m' = (\<lambda>k. case map_of entries k of None \<Rightarrow> base m k
      | Some v \<Rightarrow> Some (next_entry t v (base m k)))"
    unfolding b' using eff by blast
  show "\<exists>task. tasks m' = tasks m @ [task] \<and>
      toDeleteList task = map fst (filter (\<lambda>(k, v). idle_out v (base m k)) entries)"
    using eff m'(5) by auto
qed

end
