(* ===== verification/Agent_System.thy ===== *)
theory Agent_System
  imports Metric_Updates
begin

text \<open>
  The running agent: the informers' callbacks, the metric goroutine of \<open>runMetric\<close>
  (\<open>pkg/statsagent/metrics.go\<close>) and the goroutines that delete what has expired, in any
  order. An action is one of the things that can happen next; \<open>agent_step\<close> says whether it
  can happen, what it does, and whether it ends the process. A scan is not one action but
  many: taking the mutex and opening the map, one round for each entry of the map, and
  the end; an informer can change the picture of the cluster between any two of them.
\<close>

section \<open>State and actions\<close>

type_synonym i64 = "64 word"

text \<open>
  Where the metric goroutine is: at the \<open>select\<close>, at the lock of \<open>UpdateStats\<close>, or in the
  loop over the map, with the time of the scan and the keys found to be idle.
\<close>

datatype position = Selecting | Waiting | Scanning nat "inet_v4_flow list"

text \<open>
  \<open>stop_closed\<close> and \<open>tick_pending\<close> are the two channels of the \<open>select\<close>: the ticker's
  channel has room for one tick, which a stopped ticker leaves there.
\<close>

record agent_system =
  cluster :: StatsAgent
  metric :: metrics_entry
  stop_closed :: bool
  ticker_running :: bool
  tick_pending :: bool
  position_of :: position

text \<open>
  \<open>Scan_lock\<close> is the lock and \<open>LoadPinnedMap\<close>: \<open>None\<close> for its error, else the value of
  \<open>time.Now()\<close>. \<open>Scan_next\<close> is a round of the loop with the entry the iterator yields,
  \<open>Scan_end\<close> what follows the last one. \<open>Serve_error\<close> is \<open>ListenAndServe\<close> returning, which
  it does with an error only (\<open>status.go\<close>). \<open>Collision\<close> is a callback that writes the tables
  of pods and services in the middle of a round that reads them: \<open>getPodStatsKey\<close> does not
  take the mutex the callbacks hold, and Go's runtime ends the process when it notices.
  When it does not notice, the two come out in one order or the other, as actions of their own.
\<close>

datatype action =
    Informer event
  | Fire
  | Close
  | Stop_case
  | Tick_case
  | Scan_lock "nat option"
  | Scan_next "inet_v4_flow \<times> flow_stats"
  | Scan_end
  | Delete nat bool "inet_v4_flow \<Rightarrow> bool"
  | Serve_error
  | Collision event "inet_v4_flow \<times> flow_stats"

text \<open>The callbacks that come to an assignment or a \<open>delete\<close> on the tables.\<close>

fun writes_tables :: "(Service \<Rightarrow> string option) \<Rightarrow> event \<Rightarrow> bool" where
  "writes_tables keyFunc (Pod_add_or_update (Object p)) \<longleftrightarrow> p_ip p \<noteq> '''' \<and> \<not> p_host_network p"
| "writes_tables keyFunc (Pod_delete (Object p)) \<longleftrightarrow> p_ip p \<noteq> '''' \<and> \<not> p_host_network p"
| "writes_tables keyFunc (Svc_add_or_update (Object v)) \<longleftrightarrow> keyFunc v \<noteq> None \<and> s_cluster_ip v \<noteq> ''None''"
| "writes_tables keyFunc (Svc_delete (Object v)) \<longleftrightarrow> keyFunc v \<noteq> None \<and> s_cluster_ip v \<noteq> ''None''"
| "writes_tables keyFunc _ \<longleftrightarrow> False"

text \<open>The rounds that call \<open>getPodStatsKey\<close>: the flow is new or its counters have moved.\<close>

definition reads_tables :: "inet_v4_flow \<times> flow_stats \<Rightarrow> metrics_entry \<Rightarrow> bool" where
  "reads_tables kv m \<longleftrightarrow>
     (case map_of (baseMap m) (fst kv) of None \<Rightarrow> True | Some a \<Rightarrow> Stats (heap m a) \<noteq> snd kv)"

text \<open>
  \<open>time.NewTicker\<close> panics unless the duration is positive; the product with
  \<open>time.Second\<close> is one of 64-bit integers.
\<close>

definition ticker_ok :: "i64 \<Rightarrow> bool" where
  "ticker_ok interval \<longleftrightarrow> 0 <s interval * 1000000000"

definition runMetric :: "i64 \<Rightarrow> StatsAgent \<Rightarrow> agent_system option" where
  "runMetric interval agent =
     (if ticker_ok interval
      then Some \<lparr>cluster = agent, metric = NewInetV4FlowMetricsEntry, stop_closed = False,
                 ticker_running = True, tick_pending = False, position_of = Selecting\<rparr>
      else None)"

section \<open>Steps\<close>

text \<open>
  The start of \<open>UpdateStats\<close>: the lock and \<open>LoadPinnedMap\<close>. A scan that cannot load the map
  returns with the mutex locked; else the loop begins, with the time and an empty list.
\<close>

definition begin_scan :: "nat option \<Rightarrow> metrics_entry \<Rightarrow> (metrics_entry \<times> position) call" where
  "begin_scan loaded m =
     (if mutex_held m then Blocked
      else
        let m = m\<lparr>mutex_held := True\<rparr> in
        case loaded of
          None \<Rightarrow> Finished (m, Selecting)
        | Some t \<Rightarrow> Finished (m, Scanning t []))"

text \<open>
  The \<open>break\<close> of the stop case leaves the \<open>select\<close> and not the loop, so after either case
  the goroutine is back at the \<open>select\<close>.
\<close>

fun agent_step ::
    "(Service \<Rightarrow> string option) \<Rightarrow> prom_subsystems \<Rightarrow> action \<Rightarrow> agent_system \<Rightarrow> agent_system call" where
  "agent_step keyFunc subs (Informer e) s =
     (case handle keyFunc e (cluster s) of
        None \<Rightarrow> Panic
      | Some a \<Rightarrow> Finished (s\<lparr>cluster := a\<rparr>))"
| "agent_step keyFunc subs Fire s =
     (if ticker_running s then Finished (s\<lparr>tick_pending := True\<rparr>) else Blocked)"
| "agent_step keyFunc subs Close s = Finished (s\<lparr>stop_closed := True\<rparr>)"
| "agent_step keyFunc subs Stop_case s =
     (if stop_closed s \<and> position_of s = Selecting
      then Finished (s\<lparr>ticker_running := False\<rparr>) else Blocked)"
| "agent_step keyFunc subs Tick_case s =
     (if tick_pending s \<and> position_of s = Selecting
      then Finished (s\<lparr>tick_pending := False, position_of := Waiting\<rparr>) else Blocked)"
| "agent_step keyFunc subs (Scan_lock loaded) s =
     (if position_of s = Waiting then
        (case begin_scan loaded (metric s) of
           Blocked \<Rightarrow> Blocked
         | Panic \<Rightarrow> Panic
         | Finished (m, p) \<Rightarrow> Finished (s\<lparr>metric := m, position_of := p\<rparr>))
      else Blocked)"
| "agent_step keyFunc subs (Scan_next kv) s =
     (case position_of s of
        Scanning t toDelete \<Rightarrow>
          (case scan_step (cluster s) subs t kv (metric s, toDelete) of
             None \<Rightarrow> Panic
           | Some (m, toDelete) \<Rightarrow> Finished (s\<lparr>metric := m, position_of := Scanning t toDelete\<rparr>))
      | _ \<Rightarrow> Blocked)"
| "agent_step keyFunc subs Scan_end s =
     (case position_of s of
        Scanning t toDelete \<Rightarrow>
          Finished (s\<lparr>metric := finish_scan t (metric s) toDelete, position_of := Selecting\<rparr>)
      | _ \<Rightarrow> Blocked)"
| "agent_step keyFunc subs (Delete i loaded deletable) s =
     (if i < length (tasks (metric s)) then
        (case run_task loaded deletable (tasks (metric s) ! i) (metric s) of
           Blocked \<Rightarrow> Blocked
         | Panic \<Rightarrow> Panic
         | Finished (m, ks) \<Rightarrow>
             Finished (s\<lparr>metric := m\<lparr>tasks := take i (tasks m) @ drop (Suc i) (tasks m)\<rparr>\<rparr>))
      else Blocked)"
| "agent_step keyFunc subs Serve_error s = Panic"
| "agent_step keyFunc subs (Collision e kv) s =
     (case position_of s of
        Scanning t toDelete \<Rightarrow>
          if writes_tables keyFunc e \<and> reads_tables kv (metric s) then Panic else Blocked
      | _ \<Rightarrow> Blocked)"

abbreviation agent_run ::
    "(Service \<Rightarrow> string option) \<Rightarrow> prom_subsystems \<Rightarrow> action list \<Rightarrow> agent_system \<Rightarrow> agent_system call" where
  "agent_run keyFunc subs \<equiv> run_all (agent_step keyFunc subs)"

text \<open>The same as a relation, for the states a system can reach.\<close>

inductive reaches ::
    "(Service \<Rightarrow> string option) \<Rightarrow> prom_subsystems \<Rightarrow> agent_system \<Rightarrow> agent_system \<Rightarrow> bool"
  for keyFunc :: "Service \<Rightarrow> string option" and subs :: prom_subsystems where
  start: "reaches keyFunc subs s s"
| step: "reaches keyFunc subs s s1 \<Longrightarrow> agent_step keyFunc subs a s1 = Finished s2 \<Longrightarrow>
    reaches keyFunc subs s s2"

inductive_cases reachesE: "reaches keyFunc subs s s'"

lemma reaches_run: "reaches kf subs s s' \<longleftrightarrow> (\<exists>as. agent_run kf subs as s = Finished s')"
proof
  assume "reaches kf subs s s'"
  then show "\<exists>as. agent_run kf subs as s = Finished s'"
  proof (induction rule: reaches.induct)
    case (start s)
    show ?case by (rule exI [of _ "[]"]) simp
  next
    case (step s s1 a s2)
    then obtain as where "agent_run kf subs as s = Finished s1" by blast
    with step.hyps(2) have "agent_run kf subs (as @ [a]) s = Finished s2"
      by (simp add: run_all_append)
    then show ?case by blast
  qed
next
  have "agent_run kf subs as s = Finished s' \<Longrightarrow> reaches kf subs s s'" for as
    by (induction as arbitrary: s' rule: rev_induct)
       (auto simp: run_all_append intro: reaches.intros split: call.splits)
  then show "\<exists>as. agent_run kf subs as s = Finished s' \<Longrightarrow> reaches kf subs s s'" by blast
qed

lemma begin_scan_eq [simp]:
  "begin_scan loaded m =
     (if mutex_held m then Blocked
      else Finished (m\<lparr>mutex_held := True\<rparr>, case loaded of None \<Rightarrow> Selecting | Some t \<Rightarrow> Scanning t []))"
  by (simp add: begin_scan_def Let_def split: option.split)

text \<open>What the steps on the metric were, once they have finished.\<close>

lemma lock_step:
  assumes "agent_step kf subs (Scan_lock loaded) s = Finished s'"
  shows "position_of s = Waiting \<and> \<not> mutex_held (metric s) \<and>
    s' = s\<lparr>metric := (metric s)\<lparr>mutex_held := True\<rparr>,
      position_of := (case loaded of None \<Rightarrow> Selecting | Some t \<Rightarrow> Scanning t [])\<rparr>"
  using assms by (auto split: if_splits)

lemma next_stepE:
  assumes "agent_step kf subs (Scan_next kv) s = Finished s'"
  obtains t td m td' where "position_of s = Scanning t td"
    and "scan_step (cluster s) subs t kv (metric s, td) = Some (m, td')"
    and "s' = s\<lparr>metric := m, position_of := Scanning t td'\<rparr>"
  using assms by (auto split: position.splits option.splits)

lemma end_stepE:
  assumes "agent_step kf subs Scan_end s = Finished s'"
  obtains t td where "position_of s = Scanning t td"
    and "s' = s\<lparr>metric := finish_scan t (metric s) td, position_of := Selecting\<rparr>"
  using assms by (auto split: position.splits)

lemma delete_stepE:
  assumes "agent_step kf subs (Delete i loaded deletable) s = Finished s'"
  obtains m ks where "i < length (tasks (metric s))"
    and "run_task loaded deletable (tasks (metric s) ! i) (metric s) = Finished (m, ks)"
    and "s' = s\<lparr>metric := m\<lparr>tasks := take i (tasks m) @ drop (Suc i) (tasks m)\<rparr>\<rparr>"
  using assms by (auto split: if_splits call.splits)

lemma collision_ends: "agent_step kf subs (Collision e kv) s \<noteq> Finished s'"
  by (cases "position_of s") simp_all

section \<open>A scan nothing interrupts\<close>

text \<open>Its actions one after the other are a call of \<open>UpdateStats\<close>.\<close>

definition scan_actions :: "nat \<Rightarrow> (inet_v4_flow \<times> flow_stats) list option \<Rightarrow> action list" where
  "scan_actions t loaded =
     (case loaded of
        None \<Rightarrow> [Scan_lock None]
      | Some entries \<Rightarrow> Scan_lock (Some t) # map Scan_next entries @ [Scan_end])"

lemma run_rounds:
  "agent_run kf subs (map Scan_next kvs @ [Scan_end]) (s\<lparr>metric := m, position_of := Scanning t td\<rparr>) =
     (case scan (cluster s) subs t kvs (m, td) of
        None \<Rightarrow> Panic
      | Some (m', td') \<Rightarrow> Finished (s\<lparr>metric := finish_scan t m' td', position_of := Selecting\<rparr>))"
proof (induction kvs arbitrary: m td)
  case (Cons kv kvs)
  show ?case
  proof (cases "scan_step (cluster s) subs t kv (m, td)")
    case (Some st)
    then show ?thesis using Cons.IH by (cases st) simp
  qed simp
qed simp

lemma run_scan_actions:
  assumes "position_of s = Waiting"
  shows "agent_run kf subs (scan_actions t loaded) s =
    (case UpdateStats (cluster s) subs t loaded (metric s) of
       Blocked \<Rightarrow> Blocked
     | Panic \<Rightarrow> Panic
     | Finished m \<Rightarrow> Finished (s\<lparr>metric := m, position_of := Selecting\<rparr>))"
proof (cases loaded)
  case None
  with assms show ?thesis by (simp add: scan_actions_def UpdateStats_def)
next
  case (Some entries)
  show ?thesis
  proof (cases "mutex_held (metric s)")
    case True
    with Some show ?thesis by (simp add: scan_actions_def UpdateStats_def)
  next
    case False
    with Some assms run_rounds [where s = s and m = "(metric s)\<lparr>mutex_held := True\<rparr>" and td = "[]"]
    show ?thesis
      by (simp add: scan_actions_def UpdateStats_def Let_def split: option.splits)
  qed
qed

section \<open>What every step keeps\<close>

fun scanning :: "position \<Rightarrow> bool" where
  "scanning (Scanning t td) = True"
| "scanning _ = False"

lemma scanningE: "scanning p \<Longrightarrow> (\<And>t td. p = Scanning t td \<Longrightarrow> Q) \<Longrightarrow> Q"
  by (cases p) auto

text \<open>
  The mutex of the metric is held during a scan; held without one, it was left so by a
  scan that could not load the map.
\<close>

definition system_ok :: "agent_system \<Rightarrow> bool" where
  "system_ok s \<longleftrightarrow> metrics_wf (metric s) \<and> log_ok (stats_of (metric s)) \<and>
     keys_once (stats_of (metric s)) \<and> (scanning (position_of s) \<longrightarrow> mutex_held (metric s))"

definition stuck :: "agent_system \<Rightarrow> bool" where
  "stuck s \<longleftrightarrow> mutex_held (metric s) \<and> \<not> scanning (position_of s)"

lemma del_keys_distinct: "distinct (map f m) \<Longrightarrow> distinct (map f (del_keys ks m))"
  by (simp add: del_keys_def distinct_map inj_on_def)

lemma del_keys_Nil [simp]: "del_keys [] m = m"
  by (simp add: del_keys_def)

lemma map_of_del_keys: "map_of (del_keys ks m) = map_of m |` (- set ks)"
  by (induction m) (auto simp: del_keys_def restrict_map_def fun_eq_iff)

lemma base_del: "base (m\<lparr>baseMap := del_keys ks (baseMap m)\<rparr>) = base m |` (- set ks)"
  by (auto simp: base_def fun_eq_iff map_of_del_keys restrict_map_def)

lemma finish_scan_keys_once [simp]: "keys_once (stats_of (finish_scan t m td)) = keys_once (stats_of m)"
  by (simp add: keys_once_def age_map_def comp_def case_prod_beta)

lemma task_wf:
  assumes "run_task loaded deletable task m = Finished (m', ks)" and "metrics_wf m"
  shows "metrics_wf m' \<and> \<not> mutex_held m' \<and> \<not> mutex_held m \<and>
    gauge_log (stats_of m') = gauge_log (stats_of m) \<and> tasks m' = tasks m \<and>
    (keys_once (stats_of m) \<longrightarrow> keys_once (stats_of m'))"
proof -
  have "metrics_wf (m\<lparr>baseMap := del_keys gone (baseMap m), stats_of := ms\<rparr>)" for gone ms
    using assms(2) by (auto simp: metrics_wf_def del_keys_distinct) (force simp: del_keys_def)
  with assms show ?thesis
    by (auto simp: run_task_def Let_def keys_once_def del_keys_distinct split: if_splits)
qed

text \<open>
  The actions a run may not contain when it is not to panic, those that fail to begin a scan,
  and those that begin one.
\<close>

fun tombstone :: "action \<Rightarrow> bool" where
  "tombstone (Informer (Pod_add_or_update (Tombstone _ _))) = True"
| "tombstone (Informer (Pod_delete (Tombstone _ _))) = True"
| "tombstone (Informer (Svc_add_or_update (Tombstone _ _))) = True"
| "tombstone (Informer (Svc_delete (Tombstone _ _))) = True"
| "tombstone _ = False"

fun fatal :: "action \<Rightarrow> bool" where
  "fatal Serve_error = True"
| "fatal (Collision _ _) = True"
| "fatal a = tombstone a"

fun failed_scan :: "action \<Rightarrow> bool" where
  "failed_scan (Scan_lock None) = True"
| "failed_scan _ = False"

fun is_scan :: "action \<Rightarrow> bool" where
  "is_scan (Scan_lock _) = True"
| "is_scan _ = False"

lemma handle_panics: "handle kf e a = None \<longleftrightarrow> tombstone (Informer e)"
  by (cases "Informer e" rule: tombstone.cases)
     (auto simp: podUpdated_def podDeleted_def serviceUpdated_def serviceDeleted_def Let_def
        split: obj.splits option.splits)

lemma step_ok:
  assumes "agent_step kf (registerPrometheusMetrics subs) a s = Finished s'" and "system_ok s"
  shows "system_ok s'" and "stuck s' \<longleftrightarrow> stuck s \<or> failed_scan a"
proof -
  note prems = assms [unfolded system_ok_def]
  have "system_ok s' \<and> (stuck s' \<longleftrightarrow> stuck s \<or> failed_scan a)"
  proof (cases a)
    case (Scan_lock loaded)
    with lock_step [OF assms(1) [unfolded Scan_lock]] prems(2) show ?thesis
      by (cases loaded) (auto simp: system_ok_def stuck_def)
  next
    case (Scan_next kv)
    obtain k v where kv: "kv = (k, v)" by fastforce
    from assms(1) [unfolded Scan_next kv] obtain t td m td' where s: "position_of s = Scanning t td"
      and run: "scan_step (cluster s) (registerPrometheusMetrics subs) t (k, v) (metric s, td) = Some (m, td')"
      and s': "s' = s\<lparr>metric := m, position_of := Scanning t td'\<rparr>"
      by (rule next_stepE)
    have "log_ok (stats_of m)"
      using scan_step_total [of "metric s" "cluster s" subs t "(k, v)" td] run prems(2) by simp
    with scan_step_effect [OF run] scan_step_keys_once [OF run] s s' prems(2) Scan_next show ?thesis
      by (simp add: system_ok_def stuck_def)
  next
    case Scan_end
    from assms(1) [unfolded Scan_end] show ?thesis
      by (rule end_stepE) (use prems(2) Scan_end in \<open>simp add: system_ok_def stuck_def\<close>)
  next
    case (Delete i loaded deletable)
    from assms(1) [unfolded Delete] obtain m ks
      where run: "run_task loaded deletable (tasks (metric s) ! i) (metric s) = Finished (m, ks)"
        and s': "s' = s\<lparr>metric := m\<lparr>tasks := take i (tasks m) @ drop (Suc i) (tasks m)\<rparr>\<rparr>"
      by (rule delete_stepE)
    have "metrics_wf (m\<lparr>tasks := ts\<rparr>) = metrics_wf m" for ts by (simp add: metrics_wf_def)
    with task_wf [OF run] prems(2) s' Delete show ?thesis
      by (auto simp: system_ok_def stuck_def log_ok_def)
  qed (use assms in \<open>auto simp: system_ok_def stuck_def split: option.splits if_splits position.splits\<close>)
  then show "system_ok s'" "stuck s' \<longleftrightarrow> stuck s \<or> failed_scan a" by simp_all
qed

text \<open>What ends the process, exactly.\<close>

fun ends_process :: "(Service \<Rightarrow> string option) \<Rightarrow> action \<Rightarrow> agent_system \<Rightarrow> bool" where
  "ends_process kf Serve_error s = True"
| "ends_process kf (Collision e kv) s =
     (scanning (position_of s) \<and> writes_tables kf e \<and> reads_tables kv (metric s))"
| "ends_process kf a s = tombstone a"

lemma step_panics:
  assumes "system_ok s"
  shows "agent_step kf (registerPrometheusMetrics subs) a s = Panic \<longleftrightarrow> ends_process kf a s"
proof (cases a)
  case (Informer e)
  with handle_panics [of kf e "cluster s"] show ?thesis by (auto split: option.split)
next
  case (Scan_next kv)
  have "scan_step (cluster s) (registerPrometheusMetrics subs) t kv (metric s, td) \<noteq> None" for t td
    using scan_step_total [of "metric s" "cluster s" subs t kv td] assms by (auto simp: system_ok_def)
  with Scan_next show ?thesis by (cases "position_of s") (simp_all split: option.split)
next
  case (Delete i loaded deletable)
  then show ?thesis by (simp add: run_task_def Let_def)
next
  case (Collision e kv)
  then show ?thesis by (cases "position_of s") simp_all
qed (simp_all split: position.split)

lemma ends_fatal: "ends_process kf a s \<Longrightarrow> fatal a"
  by (cases a) simp_all

interpretation running: safe "agent_step kf (registerPrometheusMetrics subs)" system_ok fatal
  for kf subs
  by unfold_locales (erule step_ok(1), assumption, use step_panics ends_fatal in blast)

interpretation locking: marked "agent_step kf (registerPrometheusMetrics subs)" system_ok failed_scan stuck
  for kf subs
  by unfold_locales (erule step_ok(2))

lemma runMetric_ok: "runMetric interval agent = Some s \<Longrightarrow>
    system_ok s \<and> \<not> stuck s \<and> cluster s = agent \<and> ticker_running s \<and> position_of s = Selecting"
  by (auto simp: runMetric_def system_ok_def stuck_def metrics_wf_def NewInetV4FlowMetricsEntry_def
      log_ok_def keys_once_def no_maps_def split: if_splits)

section \<open>A mutex nobody will unlock\<close>

text \<open>Nothing touches the metric any more, and a goroutine that waits for the mutex goes on waiting.\<close>

definition frozen :: "metrics_entry \<Rightarrow> agent_system \<Rightarrow> bool" where
  "frozen m s \<longleftrightarrow> stuck s \<and> metric s = m"

interpretation freezing: kept "agent_step kf subs" "frozen m" for kf subs m
proof
  fix a s s'
  assume "agent_step kf subs a s = Finished s'" and "frozen m s"
  then show "frozen m s'"
    by (cases a) (auto simp: frozen_def stuck_def run_task_def split: option.splits if_splits position.splits)
qed

section \<open>After the stop\<close>

text \<open>The scans that can still begin once the ticker is stopped.\<close>

definition updates_left :: "agent_system \<Rightarrow> nat" where
  "updates_left s = of_bool (tick_pending s) + of_bool (position_of s = Waiting)"

interpretation stopping: budget "agent_step kf subs" "\<lambda>s. \<not> ticker_running s" updates_left is_scan
  for kf subs
proof
  fix a s s'
  assume "agent_step kf subs a s = Finished s'" and "\<not> ticker_running s"
  then show "\<not> ticker_running s'" "updates_left s' + of_bool (is_scan a) \<le> updates_left s"
    by (cases a; auto simp: updates_left_def split: option.splits if_splits call.splits position.splits)+
qed

interpretation closing: kept "agent_step kf subs" stop_closed for kf subs
proof
  fix a s s'
  assume "agent_step kf subs a s = Finished s'" and "stop_closed s"
  then show "stop_closed s'" by (cases a) (auto split: option.splits if_splits call.splits position.splits)
qed

end
