(* ===== verification/Startup.thy ===== *)
theory Startup
  imports Agent_System "HOL-Library.Sublist"
begin

text \<open>
  How the agent starts and what it serves: the configuration (\<open>pkg/statsagent/agent.go\<close>),
  the environment that loads the packet program and connects to Kubernetes
  (\<open>environment.go\<close>), \<open>main.go\<close>, and the status server (\<open>status.go\<close>).
\<close>

section \<open>Paths\<close>

text \<open>
  \<open>filepath.Rel\<close> of Go's library, for an absolute base, on the elements of the cleaned
  paths. An absolute path has no element \<open>..\<close> once it is clean.
\<close>

fun clean_elems :: "string list \<Rightarrow> string list \<Rightarrow> string list" where
  "clean_elems acc [] = rev acc"
| "clean_elems acc (e # es) =
     (if e = '''' \<or> e = ''.'' then clean_elems acc es
      else if e = ''..'' then clean_elems (tl acc) es
      else clean_elems (e # acc) es)"

definition rooted :: "string \<Rightarrow> bool" where
  "rooted p \<longleftrightarrow> p \<noteq> '''' \<and> hd p = CHR ''/''"

definition path_elems :: "string \<Rightarrow> string list" where
  "path_elems p = clean_elems [] (split_on (CHR ''/'') p)"

definition Rel :: "string \<Rightarrow> string \<Rightarrow> string option" where
  "Rel basepath targpath =
     (let bs = path_elems basepath; ts = path_elems targpath; n = length (longest_common_prefix bs ts) in
      if \<not> rooted targpath then None
      else if bs = ts then Some ''.''
      else Some (join (CHR ''/'') (replicate (length bs - n) ''..'' @ drop n ts)))"

text \<open>
  \<open>mapDir, _ := filepath.Rel(base, dir)\<close> followed by the concatenation with the mount
  point in the container. The error is dropped, the result is then the empty string.
\<close>

definition container_path :: "string \<Rightarrow> string \<Rightarrow> string \<Rightarrow> string" where
  "container_path mount basepath dir = mount @ (case Rel basepath dir of None \<Rightarrow> '''' | Some p \<Rightarrow> p)"

section \<open>Configuration\<close>

record StatsAgentConfig =
  LogLevel :: string
  NodeName :: string
  EbpfMapDir :: string
  CgroupRoot :: string
  StatsInterval :: i64
  StatusPort :: i64

definition InitFlags :: StatsAgentConfig where
  "InitFlags =
     \<lparr>LogLevel = ''debug'', NodeName = '''', EbpfMapDir = ''/sys/fs/bpf/pinned_maps'',
      CgroupRoot = ''/sys/fs/cgroup/unified/kubepods.slice'', StatsInterval = 120,
      StatusPort = 8010\<rparr>"

section \<open>The environment\<close>

text \<open>
  The variables the script \<open>load_attach_bpf_cgroup.sh\<close> is started with, for each time it is,
  and how a run of it can come out: \<open>cmd.Run\<close> waits for its end and returns an error or
  none. Only a script that ends without error has loaded the packet program.
\<close>

type_synonym script_env = "(string \<times> string) list"

datatype script_end = Script_done | Script_failed | Script_hangs

text \<open>
  How \<open>cache.WaitForCacheSync\<close> can come out: the cache of pods is filled, or never is (the
  stop channel it also watches is \<open>wait.NeverStop\<close>), or a callback of one of the informers,
  which already run, panics before it is.
\<close>

datatype sync_end = Synced | Never_synced | Callback_panicked

text \<open>
  What the machine and the libraries answer: the values \<open>flag.Parse\<close> stores (\<open>None\<close> when it
  rejects the command line and exits), whether logrus knows a level, the environment
  variables, the script, whether the in-cluster configuration and the client can be had,
  the synchronisation, whether a port can be listened on. \<open>metric_goroutine_first\<close> is who
  wins when the goroutine of \<open>runMetric\<close> and \<open>main\<close> are both about to end the process.
\<close>

record machine =
  parse_flags :: "StatsAgentConfig \<Rightarrow> StatsAgentConfig option"
  level_known :: "string \<Rightarrow> bool"
  getenv :: "string \<Rightarrow> string"
  script :: "script_env \<Rightarrow> script_end"
  in_cluster :: bool
  client_made :: bool
  cache_sync :: sync_end
  port_free :: "i64 \<Rightarrow> bool"
  metric_goroutine_first :: bool

datatype start_error =
  Bad_log_level | No_node_name | No_cluster_config | No_client | Bad_callback | Bad_interval | Port_taken

text \<open>\<open>None\<close> when the call never returns.\<close>

definition NewK8sEnvironment ::
    "machine \<Rightarrow> StatsAgentConfig \<Rightarrow> script_env list \<times> (start_error + StatsAgentConfig) option" where
  "NewK8sEnvironment mc config =
     (let config = (if NodeName config = ''''
                    then config\<lparr>NodeName := getenv mc ''KUBERNETES_NODE_NAME''\<rparr> else config) in
      if NodeName config = '''' then ([], Some (Inl No_node_name))
      else
        let envCgroupRoot = getenv mc ''CGROUP_ROOT'';
            config = (if envCgroupRoot \<noteq> '''' then config\<lparr>CgroupRoot := envCgroupRoot\<rparr> else config);
            mapDir = container_path ''/ebpf/'' ''/sys/fs/bpf'' (EbpfMapDir config);
            config = config\<lparr>EbpfMapDir := mapDir\<rparr>;
            cgroupRoot = container_path ''/cgroup/'' ''/sys/fs/cgroup'' (CgroupRoot config);
            env = [(''EBPF_MAP_DIR'', mapDir), (''CGROUP_MOUNT'', cgroupRoot)]
        in if script mc env = Script_hangs then ([env], None)
           else if \<not> in_cluster mc then ([env], Some (Inl No_cluster_config))
           else if \<not> client_made mc then ([env], Some (Inl No_client))
           else ([env], Some (Inr config)))"

section \<open>The main program\<close>

text \<open>
  \<open>Serving\<close> is the agent with its status server listening (what can end it later is an
  action of the running system); \<open>Exited\<close> the normal end of the process, which comes when
  \<open>main\<close> returns, \<open>Usage\<close> the exit of \<open>flag.Parse\<close>, \<open>Hanging\<close> a start that does not end.
\<close>

datatype ending =
    Usage
  | Panicked start_error
  | Hanging
  | Exited
  | Serving StatsAgentConfig prom_subsystems agent_system

text \<open>\<open>RunStatus\<close> returns, or panics with the first error of \<open>ListenAndServe\<close>, or listens.\<close>

datatype status_end = Disabled | Cannot_listen | Listening

definition RunStatus :: "machine \<Rightarrow> StatsAgentConfig \<Rightarrow> status_end" where
  "RunStatus mc config =
     (if StatusPort config \<le>s 0 then Disabled
      else if port_free mc (StatusPort config) then Listening
      else Cannot_listen)"

text \<open>
  \<open>Init\<close>, \<open>PrepareRun\<close>, \<open>RunMetrics\<close> and \<open>RunStatus\<close>: one metric is registered,
  \<open>v4PodStats\<close>. A bad interval panics in the goroutine of \<open>runMetric\<close> while \<open>main\<close> goes on to
  \<open>RunStatus\<close>: whoever ends the process first decides how it ends, and a \<open>main\<close> that listens
  lets the goroutine win. What callbacks do while \<open>main\<close> waits for the cache is, in the
  model, the first of what they do in the running system: nothing reads the tables before.
\<close>

definition run_agent :: "machine \<Rightarrow> StatsAgentConfig \<Rightarrow> ending" where
  "run_agent mc config =
     (let agent = NewStatsAgent; subs = registerPrometheusMetrics Map.empty in
      case cache_sync mc of
        Never_synced \<Rightarrow> Hanging
      | Callback_panicked \<Rightarrow> Panicked Bad_callback
      | Synced \<Rightarrow>
          (case runMetric (StatsInterval config) agent of
             None \<Rightarrow>
               if metric_goroutine_first mc then Panicked Bad_interval
               else (case RunStatus mc config of
                       Disabled \<Rightarrow> Exited
                     | Cannot_listen \<Rightarrow> Panicked Port_taken
                     | Listening \<Rightarrow> Panicked Bad_interval)
           | Some s \<Rightarrow>
               (case RunStatus mc config of
                  Disabled \<Rightarrow> Exited
                | Cannot_listen \<Rightarrow> Panicked Port_taken
                | Listening \<Rightarrow> Serving config subs s)))"

definition main_program :: "machine \<Rightarrow> script_env list \<times> ending" where
  "main_program mc =
     (case parse_flags mc InitFlags of
        None \<Rightarrow> ([], Usage)
      | Some conf \<Rightarrow>
          if \<not> level_known mc (LogLevel conf) then ([], Panicked Bad_log_level)
          else
            (case NewK8sEnvironment mc conf of
               (runs, None) \<Rightarrow> (runs, Hanging)
             | (runs, Some (Inl err)) \<Rightarrow> (runs, Panicked err)
             | (runs, Some (Inr conf)) \<Rightarrow> (runs, run_agent mc conf)))"

text \<open>The path at which \<open>UpdateStats\<close> looks for the kernel map.\<close>

definition map_path :: "StatsAgentConfig \<Rightarrow> string" where
  "map_path config = EbpfMapDir config @ ''/'' @ ''v4_flow_map''"

section \<open>The status page\<close>

text \<open>
  The reply of \<open>/status\<close>, a line of JSON. The field has the option \<open>omitempty\<close>, so a
  count of zero leaves an empty object.
\<close>

definition status_reply :: "StatsAgent \<Rightarrow> string" where
  "status_reply agent =
     (let PodCount = card (dom (podInfo agent)) in
      (if PodCount = 0 then ''{}'' else ''{\"pod-count\":'' @ dec_string PodCount @ ''}'')
        @ [CHR 0x0A])"

section \<open>Facts about paths\<close>

definition plain_elem :: "string \<Rightarrow> bool" where
  "plain_elem e \<longleftrightarrow> e \<noteq> '''' \<and> e \<noteq> ''.'' \<and> e \<noteq> ''..'' \<and> CHR ''/'' \<notin> set e"

lemma clean_plain: "list_all plain_elem es \<Longrightarrow> clean_elems acc es = rev acc @ es"
  by (induction acc es rule: clean_elems.induct) (auto simp: plain_elem_def)

lemma clean_ups: "clean_elems acc (replicate k ''..'' @ es) = clean_elems (drop k acc) es"
  by (induction k arbitrary: acc) (auto simp: drop_Suc)

lemma clean_is_plain:
  "list_all plain_elem acc \<Longrightarrow> \<forall>e \<in> set es. CHR ''/'' \<notin> set e \<Longrightarrow> list_all plain_elem (clean_elems acc es)"
proof (induction acc es rule: clean_elems.induct)
  case (2 acc e es)
  have "list_all plain_elem (tl acc)" using "2.prems"(1) by (cases acc) auto
  moreover have "plain_elem e" if "e \<noteq> ''''" "e \<noteq> ''.''" "e \<noteq> ''..''"
    using that "2.prems"(2) by (simp add: plain_elem_def)
  ultimately show ?case using 2 by simp
qed (simp add: list_all_rev)

lemma path_elems_plain: "list_all plain_elem (path_elems p)"
  unfolding path_elems_def using split_on_no_sep by (intro clean_is_plain) auto

lemma base_elems:
  "path_elems ''/sys/fs/bpf'' = [''sys'', ''fs'', ''bpf'']"
  "path_elems ''/sys/fs/cgroup'' = [''sys'', ''fs'', ''cgroup'']"
  by (simp_all add: path_elems_def)

text \<open>The path in the container, element by element.\<close>

lemma lcp_same: "longest_common_prefix xs xs = xs"
  by (induction xs) auto

lemma container_elems:
  fixes b dir m :: string
  assumes "rooted dir" and "plain_elem m"
  defines "bs \<equiv> path_elems b" and "ts \<equiv> path_elems dir"
  defines "n \<equiv> length (longest_common_prefix bs ts)"
  shows "path_elems (container_path (CHR ''/'' # m @ ''/'') b dir) =
    (if n = length bs then m # drop n ts else drop n ts)"
proof -
  let ?es = "if bs = ts then [''.''] else replicate (length bs - n) ''..'' @ drop n ts"
  have plain: "list_all plain_elem ts" unfolding ts_def by (rule path_elems_plain)
  then have drop_plain: "list_all plain_elem (drop n ts)"
    by (auto simp: list_all_iff dest: in_set_dropD)
  have pre: "longest_common_prefix bs ts = take n bs" "longest_common_prefix bs ts = take n ts"
    unfolding n_def using longest_common_prefix_prefix1 longest_common_prefix_prefix2
    by (metis append_eq_conv_conj prefix_def)+
  have len: "n \<le> length bs" "n \<le> length ts" using pre by (metis n_def length_take min.cobounded1)+
  have "Rel b dir = Some (join (CHR ''/'') ?es)"
    using assms(1) by (simp add: Rel_def bs_def ts_def n_def Let_def)
  then have path: "container_path (CHR ''/'' # m @ ''/'') b dir = CHR ''/'' # m @ CHR ''/'' # join (CHR ''/'') ?es"
    by (simp add: container_path_def)
  have ne: "?es \<noteq> []"
  proof
    assume "?es = []"
    then have "bs \<noteq> ts" "length bs \<le> n" "length ts \<le> n" by (auto split: if_splits)
    then have "bs = take n bs" "ts = take n ts" by simp_all
    with pre \<open>bs \<noteq> ts\<close> show False by argo
  qed
  have "CHR ''/'' \<notin> set x" if "x \<in> set (drop n ts)" for x
    using that drop_plain unfolding list_all_iff plain_elem_def by blast
  then have "\<forall>x \<in> set ?es. CHR ''/'' \<notin> set x" by (cases "bs = ts") auto
  then have "split_on (CHR ''/'') (container_path (CHR ''/'' # m @ ''/'') b dir) = '''' # m # ?es"
    using assms(2) split_on_join [OF _ ne] by (simp add: path split_on_app plain_elem_def)
  then have el: "path_elems (container_path (CHR ''/'' # m @ ''/'') b dir) = clean_elems [m] ?es"
    using assms(2) by (simp add: path_elems_def plain_elem_def)
  show ?thesis
  proof (cases "bs = ts")
    case True
    then have "n = length bs" by (simp add: n_def lcp_same)
    with True el show ?thesis by simp
  next
    case False
    have "drop (length bs - n) [m] = (if n = length bs then [m] else [])"
      using len(1) by (cases "length bs - n") auto
    with False el drop_plain show ?thesis by (simp add: clean_ups clean_plain)
  qed
qed

end
