(* ===== verification/Ledger.thy ===== *)
theory Ledger
  imports Agent_System
begin

text \<open>
  What the running agent promises, without pointers, lists and gauges: a ledger of partial
  maps, with one step for each action. Every run of the agent is a run of the ledger
  (interpretation \<open>booking\<close>), whatever informers, scans and deletions interleave.
\<close>

section \<open>The ledger\<close>

type_synonym entries = "PodStatsKey \<rightharpoonup> FlowStatsEntry"

record due =
  due_flows :: "inet_v4_flow set"
  due_pods :: "PodStatsKey set"
  due_svcs :: "PodStatsKey set"
  due_pairs :: "PodStatsKey set"

text \<open>\<open>l_round\<close> is the scan in progress, with its time and the flows it found idle.\<close>

record ledger =
  l_cluster :: StatsAgent
  l_flows :: "inet_v4_flow \<rightharpoonup> FlowStatsEntry"
  l_pods :: entries
  l_svcs :: entries
  l_pairs :: entries
  l_round :: "(nat \<times> inet_v4_flow set) option"
  l_due :: "due list"

definition empty_ledger :: ledger where
  "empty_ledger = \<lparr>l_cluster = NewStatsAgent, l_flows = Map.empty, l_pods = Map.empty,
     l_svcs = Map.empty, l_pairs = Map.empty, l_round = None, l_due = []\<rparr>"

fun posted :: "nat \<Rightarrow> charges \<Rightarrow> entries \<Rightarrow> entries" where
  "posted t [] M = M"
| "posted t ((k, v) # cs) M =
     posted t cs (M(k \<mapsto> entry_add v t (case M k of None \<Rightarrow> zero_entry | Some e \<Rightarrow> e)))"

definition aged :: "nat \<Rightarrow> entries \<Rightarrow> entries" where
  "aged t M = map_option (age_entry t) \<circ> M"

definition outdated :: "nat \<Rightarrow> entries \<Rightarrow> PodStatsKey set" where
  "outdated t M = {k. \<exists>e. M k = Some e \<and> TimeStamp e \<noteq> t \<and> 3 \<le> Aging_counter (age_entry t e)}"

text \<open>Charge a flow to the three maps, by the picture of the cluster at this moment.\<close>

definition charge :: "inet_v4_flow \<Rightarrow> nat \<Rightarrow> flow_stats \<Rightarrow> ledger \<Rightarrow> ledger" where
  "charge k t w l =
     (let (key, kt) = getPodStatsKey v4_FlowKey (l_cluster l) k in
      l\<lparr>l_pods := posted t (pod_charges kt key w) (l_pods l),
        l_svcs := posted t (svc_charges kt key w) (l_svcs l),
        l_pairs := posted t (known_charges kt key w) (l_pairs l)\<rparr>)"

definition see_flow :: "inet_v4_flow \<Rightarrow> flow_stats \<Rightarrow> nat \<Rightarrow> inet_v4_flow set \<Rightarrow> ledger \<Rightarrow> ledger" where
  "see_flow k v t idle l =
     (let old = l_flows l k;
          l = (case charge_of v old of None \<Rightarrow> l | Some w \<Rightarrow> charge k t w l)
      in l\<lparr>l_flows := (l_flows l)(k \<mapsto> next_entry t v old),
           l_round := Some (t, idle \<union> (if idle_out v old then {k} else {}))\<rparr>)"

definition close_round :: "nat \<Rightarrow> inet_v4_flow set \<Rightarrow> ledger \<Rightarrow> ledger" where
  "close_round t idle l =
     l\<lparr>l_pods := aged t (l_pods l), l_svcs := aged t (l_svcs l), l_pairs := aged t (l_pairs l),
       l_round := None,
       l_due := l_due l @ [\<lparr>due_flows = idle, due_pods = outdated t (l_pods l),
         due_svcs = outdated t (l_svcs l), due_pairs = outdated t (l_pairs l)\<rparr>]\<rparr>"

definition drop_due :: "due \<Rightarrow> ledger \<Rightarrow> ledger" where
  "drop_due d l =
     l\<lparr>l_flows := l_flows l |` (- due_flows d), l_pods := l_pods l |` (- due_pods d),
       l_svcs := l_svcs l |` (- due_svcs d), l_pairs := l_pairs l |` (- due_pairs d)\<rparr>"

fun ledger_step :: "(Service \<Rightarrow> string option) \<Rightarrow> action \<Rightarrow> ledger \<Rightarrow> ledger" where
  "ledger_step kf (Informer e) l =
     (case handle kf e (l_cluster l) of None \<Rightarrow> l | Some a \<Rightarrow> l\<lparr>l_cluster := a\<rparr>)"
| "ledger_step kf (Scan_lock (Some t)) l = l\<lparr>l_round := Some (t, {})\<rparr>"
| "ledger_step kf (Scan_next (k, v)) l =
     (case l_round l of None \<Rightarrow> l | Some (t, idle) \<Rightarrow> see_flow k v t idle l)"
| "ledger_step kf Scan_end l =
     (case l_round l of None \<Rightarrow> l | Some (t, idle) \<Rightarrow> close_round t idle l)"
| "ledger_step kf (Delete i loaded deletable) l =
     (if loaded then drop_due (l_due l ! i) l else l)
       \<lparr>l_due := take i (l_due l) @ drop (Suc i) (l_due l)\<rparr>"
| "ledger_step kf _ l = l"

section \<open>The agent as a ledger\<close>

definition due_of :: "delete_task \<Rightarrow> due" where
  "due_of task = \<lparr>due_flows = set (toDeleteList task), due_pods = set (toDeletePodStatsList task),
     due_svcs = set (toDeleteSvcStatsList task), due_pairs = set (toDeleteKnownStatsList task)\<rparr>"

definition round_of :: "position \<Rightarrow> (nat \<times> inet_v4_flow set) option" where
  "round_of p = (case p of Scanning t td \<Rightarrow> Some (t, set td) | _ \<Rightarrow> None)"

definition ledger_of :: "agent_system \<Rightarrow> ledger" where
  "ledger_of s =
     \<lparr>l_cluster = cluster s, l_flows = base (metric s),
      l_pods = map_of (podStatsMap (stats_of (metric s))),
      l_svcs = map_of (svcStatsMap (stats_of (metric s))),
      l_pairs = map_of (knownStatsMap (stats_of (metric s))),
      l_round = round_of (position_of s), l_due = map due_of (tasks (metric s))\<rparr>"

lemmas ledger_simps = ledger_of_def round_of_def due_of_def

lemma map_of_add_all: "map_of (add_all t cs m) = posted t cs (map_of m)"
  by (induction t cs m rule: add_all.induct) (simp_all add: map_of_add_to fun_upd_def)

lemma map_of_aged: "map_of (age_map t m) = aged t (map_of m)"
  by (simp add: fun_eq_iff map_of_age_map aged_def)

lemma set_expired: "distinct (map fst m) \<Longrightarrow> set (expired t m) = outdated t (map_of m)"
  by (force simp: expired_def outdated_def)

section \<open>Steps\<close>

lemma next_books:
  assumes "agent_step kf subs (Scan_next (k, v)) s = Finished s'" and "system_ok s"
  shows "ledger_of s' = ledger_step kf (Scan_next (k, v)) (ledger_of s)"
proof -
  from assms(1) obtain t td m td' where s: "position_of s = Scanning t td"
    and run: "scan_step (cluster s) subs t (k, v) (metric s, td) = Some (m, td')"
    and s': "s' = s\<lparr>metric := m, position_of := Scanning t td'\<rparr>"
    by (rule next_stepE)
  have wf: "metrics_wf (metric s)" using assms(2) by (simp add: system_ok_def)
  note eff = scan_step_effect [OF run wf]
  show ?thesis
    using scan_step_posts [OF run]
    by (cases "charge_of v (base (metric s) k)")
       (auto simp: s s' eff ledger_simps see_flow_def charge_def Let_def posted_to_def map_of_add_all
         split: prod.splits)
qed

lemma end_books:
  assumes "agent_step kf subs Scan_end s = Finished s'" and "system_ok s"
  shows "ledger_of s' = ledger_step kf Scan_end (ledger_of s)"
proof -
  from assms(1) obtain t td where s: "position_of s = Scanning t td"
    and s': "s' = s\<lparr>metric := finish_scan t (metric s) td, position_of := Selecting\<rparr>"
    by (rule end_stepE)
  have "keys_once (stats_of (metric s))" using assms(2) by (simp add: system_ok_def)
  then show ?thesis
    by (simp add: s s' ledger_simps close_round_def map_of_aged set_expired keys_once_def)
qed

lemma delete_books:
  assumes "agent_step kf subs (Delete i loaded deletable) s = Finished s'"
  shows "ledger_of s' = ledger_step kf (Delete i loaded deletable) (ledger_of s)"
proof -
  from assms obtain m ks where i: "i < length (tasks (metric s))"
    and run: "run_task loaded deletable (tasks (metric s) ! i) (metric s) = Finished (m, ks)"
    and s': "s' = s\<lparr>metric := m\<lparr>tasks := take i (tasks m) @ drop (Suc i) (tasks m)\<rparr>\<rparr>"
    by (rule delete_stepE)
  from run show ?thesis
    by (auto simp: s' i ledger_simps run_task_def Let_def drop_due_def map_of_del_keys base_del
        take_map drop_map split: if_splits)
qed

lemma step_books:
  assumes "agent_step kf subs a s = Finished s'" and "system_ok s"
  shows "ledger_of s' = ledger_step kf a (ledger_of s)"
proof (cases a)
  case (Scan_lock loaded)
  with lock_step [OF assms(1) [unfolded Scan_lock]] show ?thesis
    by (cases loaded) (simp_all add: ledger_simps)
next
  case (Scan_next kv)
  with next_books assms show ?thesis by (cases kv) simp
next
  case Scan_end
  with end_books assms show ?thesis by simp
next
  case (Delete i loaded deletable)
  with delete_books assms(1) show ?thesis by simp
next
  case (Collision e kv)
  with assms(1) show ?thesis by (simp only: collision_ends)
qed (use assms in \<open>auto simp: ledger_simps split: option.splits if_splits\<close>)

interpretation booking: simulated "agent_step kf (registerPrometheusMetrics subs)" system_ok
    ledger_of "ledger_step kf" for kf subs
  by unfold_locales (rule step_books)

section \<open>What a run charges\<close>

text \<open>
  The charges of a run in which nothing is deleted: each flow at the round that sees it
  first, with the counters of that round, by the picture of the cluster at that moment.
\<close>

fun bill ::
    "(Service \<Rightarrow> string option) \<Rightarrow> (int \<Rightarrow> PodStatsKey \<Rightarrow> flow_stats \<Rightarrow> charges) \<Rightarrow> StatsAgent \<Rightarrow>
     inet_v4_flow set \<Rightarrow> action list \<Rightarrow> charges" where
  "bill kf f agent seen [] = []"
| "bill kf f agent seen (Informer e # as) =
     bill kf f (case handle kf e agent of None \<Rightarrow> agent | Some a \<Rightarrow> a) seen as"
| "bill kf f agent seen (Scan_next (k, v) # as) =
     (if k \<in> seen then [] else all_charges agent f [(k, v)]) @ bill kf f agent (insert k seen) as"
| "bill kf f agent seen (_ # as) = bill kf f agent seen as"

fun deletes :: "action \<Rightarrow> bool" where
  "deletes (Delete i loaded deletable) = loaded"
| "deletes _ = False"

lemma quiet_delete:
  assumes "agent_step kf subs (Delete i False deletable) s = Finished s'"
  shows "cluster s' = cluster s \<and> base (metric s') = base (metric s) \<and>
    stats_of (metric s') = stats_of (metric s)"
  using assms by (rule delete_stepE) (auto simp: run_task_def split: if_splits)

context statistic
begin

lemma step_bill:
  assumes "agent_step kf subs a s = Finished s'" and "system_ok s" and "\<not> deletes a"
  shows "charged (bill kf charges_of (cluster s') (dom (base (metric s'))) as) key
      (agg (sel (stats_of (metric s'))) key) =
    charged (bill kf charges_of (cluster s) (dom (base (metric s))) (a # as)) key
      (agg (sel (stats_of (metric s))) key)"
proof (cases a)
  case (Scan_lock loaded)
  with lock_step [OF assms(1) [unfolded Scan_lock]] show ?thesis by simp
next
  case (Scan_next kv)
  obtain k v where kv: "kv = (k, v)" by fastforce
  from assms(1) [unfolded Scan_next kv] obtain t td m td' where "position_of s = Scanning t td"
    and run: "scan_step (cluster s) subs t (k, v) (metric s, td) = Some (m, td')"
    and s': "s' = s\<lparr>metric := m, position_of := Scanning t td'\<rparr>"
    by (rule next_stepE)
  have "metrics_wf (metric s)" using assms(2) by (simp add: system_ok_def)
  with scan_step_effect(2) [OF run] round_charges [OF run, of key] show ?thesis
    by (auto simp: Scan_next kv s' charged_append insert_absorb)
next
  case Scan_end
  from assms(1) [unfolded Scan_end] show ?thesis by (rule end_stepE) (simp add: Scan_end)
next
  case (Delete i loaded deletable)
  with assms(3) have a: "a = Delete i False deletable" by simp
  from quiet_delete [OF assms(1) [unfolded a]] show ?thesis by (simp add: a)
qed (use assms in \<open>auto split: option.splits if_splits position.splits\<close>)

lemma run_bill:
  "agent_run kf (registerPrometheusMetrics subs) as s = Finished s' \<Longrightarrow> system_ok s \<Longrightarrow>
   \<not> list_ex deletes as \<Longrightarrow>
   agg (sel (stats_of (metric s'))) key =
     charged (bill kf charges_of (cluster s) (dom (base (metric s))) as) key
       (agg (sel (stats_of (metric s))) key)"
proof (induction as arbitrary: s)
  case (Cons a as)
  from Cons.prems(1) obtain s1 where one: "agent_step kf (registerPrometheusMetrics subs) a s = Finished s1"
    and rest: "agent_run kf (registerPrometheusMetrics subs) as s1 = Finished s'"
    by (rule run_all_ConsE)
  have "system_ok s1" by (rule running.step_keeps [OF one Cons.prems(2)])
  then show ?case
    using Cons.IH [OF rest] step_bill [OF one Cons.prems(2), of as key] Cons.prems(3) by simp
qed simp

end

end
