(* ===== verification/Gauges_Shown.thy ===== *)
theory Gauges_Shown
  imports Agent_System
begin

text \<open>
  What Prometheus is shown: the value of a gauge is the last one it was set to, and the
  gauges of the pods and of the services always show the statistics the agent holds for
  them, in every run.
\<close>

section \<open>Reading a gauge\<close>

definition readings :: "gauge_set list \<Rightarrow> ((string \<times> (string \<times> string) list) \<times> nat) list" where
  "readings log = map (\<lambda>s. ((gv_name (gs_gauge s), gs_labels s), gs_value s)) log"

definition gauge_value :: "gauge_set list \<Rightarrow> string \<Rightarrow> (string \<times> string) list \<Rightarrow> nat option" where
  "gauge_value log name labels = map_of (rev (readings log)) (name, labels)"

text \<open>What each of the three setters writes.\<close>

definition named_values ::
    "string list \<Rightarrow> (string \<times> string) list \<Rightarrow> u64 list \<Rightarrow> ((string \<times> (string \<times> string) list) \<times> nat) list" where
  "named_values names labels vs = map (\<lambda>(n, v). ((n, labels), float64 v)) (zip names vs)"

lemmas setter_defs = set_gauge_def GetGaugeVec_def prom_defs stats_values_def blank_prom_key_def
  readings_def named_values_def

lemma named_other:
  "n \<notin> set names \<or> ls \<noteq> labels \<Longrightarrow> map_of (rev (named_values names labels vs)) (n, ls) = None"
  by (auto simp: named_values_def map_of_eq_None_iff dest: set_zip_leftD)

lemma named_own:
  assumes "distinct names" and "length vs = length names" and "i < length names"
  shows "map_of (rev (named_values names labels vs)) (names ! i, labels) = Some (float64 (vs ! i))"
proof (rule map_of_is_SomeI)
  have "map fst (named_values names labels vs) = map (\<lambda>n. (n, labels)) names"
    using assms(2) by (intro nth_equalityI) (simp_all add: named_values_def case_prod_beta)
  then show "distinct (map fst (rev (named_values names labels vs)))"
    using assms(1) by (simp add: rev_map [symmetric] distinct_map inj_on_def)
  have "(names ! i, vs ! i) \<in> set (zip names vs)" using assms(2,3) by (force simp: set_zip)
  then show "((names ! i, labels), float64 (vs ! i)) \<in> set (rev (named_values names labels vs))"
    by (force simp: named_values_def)
qed

lemma gauge_value_other:
  assumes "readings log' = readings log @ named_values names labels vs" and "n \<notin> set names \<or> ls \<noteq> labels"
  shows "gauge_value log' n ls = gauge_value log n ls"
  using named_other [OF assms(2)] by (simp add: gauge_value_def assms(1) map_add_def)

lemma gauge_value_own:
  assumes "readings log' = readings log @ named_values names labels vs"
    and "distinct names" and "length vs = length names"
  shows "map (\<lambda>n. gauge_value log' n labels) names = map (\<lambda>v. Some (float64 v)) vs"
  using named_own [OF assms(2,3)]
  by (intro nth_equalityI) (simp_all add: gauge_value_def assms(1,3) map_add_def)

section \<open>Which series a statistic has\<close>

definition pod_series :: "PodStatsKey \<Rightarrow> (string \<times> string) list option" where
  "pod_series key =
     (let pk = toPromMetricsKey key in
      if ep1 key = '''' \<and> metricName pk = ''pod_stats''
      then Some [(''pod_namespace'', podNamespace pk ! 0), (''pod_name'', podName pk ! 0)] else None)"

definition svc_series :: "PodStatsKey \<Rightarrow> (string \<times> string) list option" where
  "svc_series key =
     (let pk = toPromMetricsKey key in
      if ep1 key = '''' \<and> metricName pk = ''svc_stats''
      then Some [(''svc_namespace'', svcNamespace pk ! 0), (''svc_scope'', svcScope pk ! 0),
                 (''svc_name'', svcName pk ! 0)] else None)"

text \<open>A key with one end is read back from its labels.\<close>

lemma one_end_series:
  assumes "ep1 key = ''''"
  shows "pod_series key = (case splitN 3 (CHR ''/'') (ep0 key) of
      [ns, name] \<Rightarrow> Some [(''pod_namespace'', ns), (''pod_name'', name)] | _ \<Rightarrow> None)"
    and "svc_series key = (case splitN 3 (CHR ''/'') (ep0 key) of
      [ns, name, scope] \<Rightarrow> Some [(''svc_namespace'', ns), (''svc_scope'', scope), (''svc_name'', name)] | _ \<Rightarrow> None)"
proof -
  have "length (splitN 3 (CHR ''/'') (ep0 key)) \<le> 3" by (rule length_splitN)
  then show "pod_series key = (case splitN 3 (CHR ''/'') (ep0 key) of
      [ns, name] \<Rightarrow> Some [(''pod_namespace'', ns), (''pod_name'', name)] | _ \<Rightarrow> None)"
    "svc_series key = (case splitN 3 (CHR ''/'') (ep0 key) of
      [ns, name, scope] \<Rightarrow> Some [(''svc_namespace'', ns), (''svc_scope'', scope), (''svc_name'', name)] | _ \<Rightarrow> None)"
    using split_plain [of "''''"] assms
    by (auto simp: pod_series_def svc_series_def prom_simps Let_def key_type_defs numeral_2_eq_2
        numeral_3_eq_3 split: list.splits)
qed

lemma split_inj: "splitN 3 c a = splitN 3 c b \<Longrightarrow> a = b"
  by (metis join_splitN zero_less_numeral)

lemma pod_series_inj:
  assumes "pod_series k = Some ls" and "pod_series k' = Some ls"
  shows "k = k'"
proof -
  from assms have ends: "ep1 k = ''''" "ep1 k' = ''''"
    by (auto simp: pod_series_def Let_def split: if_splits)
  have "splitN 3 (CHR ''/'') (ep0 k) = splitN 3 (CHR ''/'') (ep0 k')"
    using assms unfolding one_end_series(1) [OF ends(1)] one_end_series(1) [OF ends(2)]
    by (auto split: list.splits)
  then show ?thesis using split_inj ends by (cases k; cases k') auto
qed

lemma svc_series_inj:
  assumes "svc_series k = Some ls" and "svc_series k' = Some ls"
  shows "k = k'"
proof -
  from assms have ends: "ep1 k = ''''" "ep1 k' = ''''"
    by (auto simp: svc_series_def Let_def split: if_splits)
  have "splitN 3 (CHR ''/'') (ep0 k) = splitN 3 (CHR ''/'') (ep0 k')"
    using assms unfolding one_end_series(2) [OF ends(1)] one_end_series(2) [OF ends(2)]
    by (auto split: list.splits)
  then show ?thesis using split_inj ends by (cases k; cases k') auto
qed

section \<open>Statistics that are shown\<close>

definition shows_all ::
    "(stats_maps \<Rightarrow> stats_map) \<Rightarrow> string list \<Rightarrow> (PodStatsKey \<Rightarrow> (string \<times> string) list option) \<Rightarrow>
     stats_maps \<Rightarrow> bool" where
  "shows_all sel names series ms \<longleftrightarrow> (\<forall>key ls. map_of (sel ms) key \<noteq> None \<longrightarrow> series key = Some ls \<longrightarrow>
     map (\<lambda>n. gauge_value (gauge_log ms) n ls) names = map (\<lambda>v. Some (float64 v)) (stats_values (agg (sel ms) key)))"

locale series =
  fixes sel :: "stats_maps \<Rightarrow> stats_map" and names :: "string list"
    and series_of :: "PodStatsKey \<Rightarrow> (string \<times> string) list option"
  assumes names_once: "distinct names" and four_names: "length names = 4"
    and series_inj: "series_of k = Some ls \<Longrightarrow> series_of k' = Some ls \<Longrightarrow> k = k'"
begin

lemma own_merge:
  assumes "shows_all sel names series_of ms" and "sel ms' = add_to k v t (sel ms)"
    and "readings (gauge_log ms') = readings (gauge_log ms) @ (case series_of k of None \<Rightarrow> []
      | Some ls \<Rightarrow> named_values names ls (stats_values (agg (sel ms') k)))"
  shows "shows_all sel names series_of ms'"
  unfolding shows_all_def
proof (intro allI impI)
  fix key ls
  assume key: "map_of (sel ms') key \<noteq> None" "series_of key = Some ls"
  show "map (\<lambda>n. gauge_value (gauge_log ms') n ls) names = map (\<lambda>v. Some (float64 v)) (stats_values (agg (sel ms') key))"
  proof (cases "key = k")
    case True
    then show ?thesis
      using gauge_value_own [OF _ names_once] assms(3) key(2) by (simp add: four_names stats_values_def)
  next
    case False
    then have "map_of (sel ms) key \<noteq> None" "agg (sel ms') key = agg (sel ms) key"
      using key(1) by (simp_all add: assms(2) map_of_add_to agg_add_to)
    moreover have "gauge_value (gauge_log ms') n ls = gauge_value (gauge_log ms) n ls" for n
    proof (cases "series_of k")
      case None
      then show ?thesis using assms(3) by (simp add: gauge_value_def)
    next
      case (Some ls')
      then have "ls \<noteq> ls'" using series_inj key(2) False by blast
      with Some gauge_value_other [of "gauge_log ms'" "gauge_log ms"] assms(3) show ?thesis by simp
    qed
    ultimately show ?thesis using assms(1) key(2) by (simp add: shows_all_def)
  qed
qed

lemma other_merge:
  assumes "shows_all sel names series_of ms" and "sel ms' = sel ms"
    and "readings (gauge_log ms') = readings (gauge_log ms) @ (if b then named_values names' labels vs else [])"
    and "set names \<inter> set names' = {}"
  shows "shows_all sel names series_of ms'"
proof -
  have "gauge_value (gauge_log ms') n ls = gauge_value (gauge_log ms) n ls" if "n \<in> set names" for n ls
    using gauge_value_other [of "gauge_log ms'" "gauge_log ms" names' labels vs n ls] assms(3,4) that
    by (cases b) (auto simp: gauge_value_def)
  with assms(1,2) show ?thesis by (simp add: shows_all_def cong: map_cong)
qed

lemma no_merge:
  assumes "shows_all sel names series_of ms" and "gauge_log ms' = gauge_log ms"
    and "\<And>key. map_of (sel ms') key \<noteq> None \<Longrightarrow>
      map_of (sel ms) key \<noteq> None \<and> agg (sel ms') key = agg (sel ms) key"
  shows "shows_all sel names series_of ms'"
  using assms by (simp add: shows_all_def)

end

interpretation pod_gauges: series podStatsMap PodPromMetrics pod_series
  by unfold_locales (simp_all add: PodPromMetrics_def, rule pod_series_inj)

interpretation svc_gauges: series svcStatsMap SvcPromMetrics svc_series
  by unfold_locales (simp_all add: SvcPromMetrics_def, rule svc_series_inj)

section \<open>Every merge shows what it adds\<close>

definition gauges_shown :: "stats_maps \<Rightarrow> bool" where
  "gauges_shown ms \<longleftrightarrow> shows_all podStatsMap PodPromMetrics pod_series ms \<and>
     shows_all svcStatsMap SvcPromMetrics svc_series ms"

lemma merge_pod_readings:
  assumes "merge_pod (registerPrometheusMetrics subs) k v t ms = Some ms'" and "ep1 k = ''''"
  shows "readings (gauge_log ms') = readings (gauge_log ms) @ (case pod_series k of None \<Rightarrow> []
    | Some ls \<Rightarrow> named_values PodPromMetrics ls (stats_values (agg (podStatsMap ms') k)))"
  using assms
  by (auto simp: merge_pod_def Let_def SetPodGauge_def pod_series_def agg_def map_of_add_to
      setter_defs split: bind_splits if_splits)

lemma merge_svc_readings:
  assumes "merge_svc (registerPrometheusMetrics subs) k v t ms = Some ms'" and "ep1 k = ''''"
  shows "readings (gauge_log ms') = readings (gauge_log ms) @ (case svc_series k of None \<Rightarrow> []
    | Some ls \<Rightarrow> named_values SvcPromMetrics ls (stats_values (agg (svcStatsMap ms') k)))"
  using assms
  by (auto simp: merge_svc_def Let_def SetSvcGauge_def svc_series_def agg_def map_of_add_to
      setter_defs split: bind_splits if_splits)

lemma merge_known_readings:
  assumes "merge_known (registerPrometheusMetrics subs) k v t ms = Some ms'"
  obtains b labels vs where "readings (gauge_log ms') = readings (gauge_log ms) @
    (if b then named_values PodSvcPromMetrics labels vs else [])"
proof -
  let ?pk = "toPromMetricsKey k"
  let ?labels = "[(''pod_namespace'', podNamespace ?pk ! 0), (''pod_name'', podName ?pk ! 0),
             (''svc_namespace'', svcNamespace ?pk ! 0), (''svc_scope'', svcScope ?pk ! 0),
             (''svc_name'', svcName ?pk ! 0)]"
  let ?vs = "stats_values (agg (knownStatsMap ms') k)"
  consider "metricName ?pk = ''svc_pod_stats''" | "metricName ?pk = ''pod_svc_stats''"
    | "metricName ?pk \<noteq> ''svc_pod_stats''" "metricName ?pk \<noteq> ''pod_svc_stats''" by blast
  then show thesis
  proof cases
    case 1
    then show ?thesis
      using assms by (intro that [of True ?labels "[?vs ! 2, ?vs ! 3, ?vs ! 0, ?vs ! 1]"])
        (auto simp: merge_known_def Let_def SetPodSvcGauge_def agg_def map_of_add_to setter_defs split: bind_splits)
  next
    case 2
    then show ?thesis
      using assms by (intro that [of True ?labels ?vs])
        (auto simp: merge_known_def Let_def SetPodSvcGauge_def agg_def map_of_add_to setter_defs split: bind_splits)
  next
    case 3
    then show ?thesis
      using assms by (intro that [of False ?labels ?vs])
        (auto simp: merge_known_def Let_def SetPodSvcGauge_def split: bind_splits)
  qed
qed


lemma names_apart:
  "set PodPromMetrics \<inter> set SvcPromMetrics = {}" "set SvcPromMetrics \<inter> set PodPromMetrics = {}"
  "set PodPromMetrics \<inter> set PodSvcPromMetrics = {}" "set SvcPromMetrics \<inter> set PodSvcPromMetrics = {}"
  by (simp_all add: PodPromMetrics_def SvcPromMetrics_def PodSvcPromMetrics_def)

lemma case_series:
  "(case x of None \<Rightarrow> [] | Some ls \<Rightarrow> named_values names ls vs) =
     (if x \<noteq> None then named_values names (the x) vs else [])"
  by (cases x) simp_all

lemma merge_pod_shown:
  assumes "merge_pod (registerPrometheusMetrics subs) k v t ms = Some ms'" and "ep1 k = ''''" and "gauges_shown ms"
  shows "gauges_shown ms'"
  using assms(3) merge_parts(1) [OF assms(1)] merge_pod_readings [OF assms(1,2)]
    svc_gauges.other_merge [OF _ _ merge_pod_readings [OF assms(1,2), unfolded case_series] names_apart(2)]
  by (auto simp: gauges_shown_def intro: pod_gauges.own_merge)

lemma merge_svc_shown:
  assumes "merge_svc (registerPrometheusMetrics subs) k v t ms = Some ms'" and "ep1 k = ''''" and "gauges_shown ms"
  shows "gauges_shown ms'"
  using assms(3) merge_parts(2) [OF assms(1)] merge_svc_readings [OF assms(1,2)]
    pod_gauges.other_merge [OF _ _ merge_svc_readings [OF assms(1,2), unfolded case_series] names_apart(1)]
  by (auto simp: gauges_shown_def intro: svc_gauges.own_merge)

lemma merge_known_shown:
  assumes "merge_known (registerPrometheusMetrics subs) k v t ms = Some ms'" and "gauges_shown ms"
  shows "gauges_shown ms'"
proof -
  obtain b labels vs where "readings (gauge_log ms') = readings (gauge_log ms) @
      (if b then named_values PodSvcPromMetrics labels vs else [])"
    using merge_known_readings [OF assms(1)] by blast
  from pod_gauges.other_merge [OF _ _ this names_apart(3)] svc_gauges.other_merge [OF _ _ this names_apart(4)]
  show ?thesis using assms(2) merge_parts(3) [OF assms(1)] by (simp add: gauges_shown_def)
qed

lemma one_end [simp]: "ep1 (src_key k) = ''''" "ep1 (dst_key k) = ''''"
  by (simp_all add: src_key_def dst_key_def)

lemmas merges_shown = merge_pod_shown [OF _ one_end(1)] merge_pod_shown [OF _ one_end(2)]
  merge_svc_shown [OF _ one_end(1)] merge_svc_shown [OF _ one_end(2)] merge_known_shown

lemma mergeStats_shown:
  assumes "mergeStats (registerPrometheusMetrics subs) kt key v t ms = Some ms'" and "gauges_shown ms"
  shows "gauges_shown ms'"
  using assms
  by (auto simp: mergeStats_def Let_def bind_eq_Some_conv dest: merges_shown split: if_splits)

lemma scan_step_shown:
  assumes "scan_step agent (registerPrometheusMetrics subs) t (k, v) (m, td) = Some (m', td')"
    and "gauges_shown (stats_of m)"
  shows "gauges_shown (stats_of m')"
  using assms
  by (auto simp: scan_step_def Let_def bind_eq_Some_conv dest: mergeStats_shown
      split: option.splits if_splits prod.splits)

lemma finish_scan_shown:
  assumes "gauges_shown (stats_of m)"
  shows "gauges_shown (stats_of (finish_scan t m td))"
  using assms
    pod_gauges.no_merge [of "stats_of m" "stats_of (finish_scan t m td)"]
    svc_gauges.no_merge [of "stats_of m" "stats_of (finish_scan t m td)"]
  by (simp add: gauges_shown_def map_of_age_map)

lemma agg_del_keys: "map_of (del_keys ks m) k \<noteq> None \<Longrightarrow> map_of m k \<noteq> None \<and> agg (del_keys ks m) k = agg m k"
  by (auto simp: agg_def map_of_del_keys restrict_map_def split: if_splits)

lemma run_task_shown:
  assumes "run_task loaded deletable task m = Finished (m', ks)" and "gauges_shown (stats_of m)"
  shows "gauges_shown (stats_of m')"
proof -
  from assms(1) have "stats_of m' = stats_of m \<or>
      gauge_log (stats_of m') = gauge_log (stats_of m) \<and>
      podStatsMap (stats_of m') = del_keys (toDeletePodStatsList task) (podStatsMap (stats_of m)) \<and>
      svcStatsMap (stats_of m') = del_keys (toDeleteSvcStatsList task) (svcStatsMap (stats_of m))"
    by (auto simp: run_task_def Let_def split: if_splits)
  then show ?thesis
    using assms(2) pod_gauges.no_merge [of "stats_of m" "stats_of m'"]
      svc_gauges.no_merge [of "stats_of m" "stats_of m'"] agg_del_keys
    by (auto simp: gauges_shown_def)
qed

section \<open>Every run shows what it counts\<close>

interpretation showing: kept "agent_step kf (registerPrometheusMetrics subs)"
    "\<lambda>s. gauges_shown (stats_of (metric s))" for kf subs
proof
  fix a s s'
  assume step: "agent_step kf (registerPrometheusMetrics subs) a s = Finished s'"
    and shown: "gauges_shown (stats_of (metric s))"
  show "gauges_shown (stats_of (metric s'))"
  proof (cases a)
    case (Scan_lock loaded)
    with lock_step [OF step [unfolded Scan_lock]] shown show ?thesis by simp
  next
    case (Scan_next kv)
    obtain k v where kv: "kv = (k, v)" by fastforce
    from step [unfolded Scan_next kv] show ?thesis
      by (rule next_stepE) (use shown in \<open>auto dest: scan_step_shown\<close>)
  next
    case Scan_end
    from step [unfolded Scan_end] show ?thesis
      by (rule end_stepE) (simp add: finish_scan_shown shown)
  next
    case (Delete i loaded deletable)
    from step [unfolded Delete] show ?thesis
      by (rule delete_stepE) (use shown in \<open>auto dest: run_task_shown\<close>)
  qed (use step shown in \<open>auto split: option.splits if_splits position.splits\<close>)
qed


end
