(* ===== verification/Agent_Properties.thy ===== *)
theory Agent_Properties
  imports Gauges_Shown
begin

text \<open>
  The properties of the agent: its picture of the cluster, the keys and labels made from
  it, the statistics, and the life of the metric. The first section holds the small
  cluster and the flows the witnesses run on.
\<close>

section \<open>A sample cluster\<close>

definition web :: Pod where
  "web = \<lparr>p_namespace = ''shop'', p_name = ''web'', p_ip = ''10.0.0.1'', p_host_network = False\<rparr>"

definition db :: Pod where
  "db = \<lparr>p_namespace = ''shop'', p_name = ''db'', p_ip = ''10.0.0.2'', p_host_network = False\<rparr>"

definition cart :: Service where
  "cart = \<lparr>s_namespace = ''shop'', s_name = ''cart'', s_cluster_ip = ''10.0.0.9'', s_type = ''ClusterIP''\<rparr>"

definition key_func :: "Service \<Rightarrow> string option" where
  "key_func s = Some (s_namespace s @ ''/'' @ s_name s)"

definition sample_events :: "event list" where
  "sample_events =
    [Pod_add_or_update (Object web), Pod_add_or_update (Object db), Svc_add_or_update (Object cart)]"

definition sample_agent :: StatsAgent where
  "sample_agent = the (run_events key_func sample_events NewStatsAgent)"

definition flow_between :: "u32 \<Rightarrow> u32 \<Rightarrow> inet_v4_flow" where
  "flow_between src dst = \<lparr>v4_src_ip = src, v4_dst_ip = dst,
     v4_l4 = \<lparr>ip_proto = 6, padding = (0, 0, 0), sport = 0x901f, dport = 0x5000\<rparr>\<rparr>"

definition web_to_db :: inet_v4_flow where "web_to_db = flow_between 0x0100000a 0x0200000a"
definition web_to_cart :: inet_v4_flow where "web_to_cart = flow_between 0x0100000a 0x0900000a"

definition first_count :: flow_stats where
  "first_count = \<lparr>out_bytes = 100, out_packets = 2, in_bytes = 30, in_packets = 1\<rparr>"

definition second_count :: flow_stats where
  "second_count = \<lparr>out_bytes = 500, out_packets = 9, in_bytes = 70, in_packets = 4\<rparr>"

definition prom :: prom_subsystems where
  "prom = registerPrometheusMetrics Map.empty"

text \<open>The metric after one scan from the start.\<close>

definition after_scan :: "nat \<Rightarrow> (inet_v4_flow \<times> flow_stats) list \<Rightarrow> metrics_entry \<Rightarrow> metrics_entry" where
  "after_scan t entries m =
     (case UpdateStats sample_agent prom t (Some entries) m of Finished m' \<Rightarrow> m' | _ \<Rightarrow> m)"

section \<open>Flows and counters\<close>

text \<open>
  C36: The agent and the map reader show a flow the same way: addresses as \<open>inet_ntoa\<close>
  prints them, ports in host order, and two flows with different addresses never have
  the same address text, so a lookup by text is a lookup by address.
\<close>

theorem flow_text_agrees_with_reader:
  "GetSrcIp k = inet_ntoa (v4_src_ip k) \<and> GetDstIp k = inet_ntoa (v4_dst_ip k) \<and>
   GetSPort (v4_l4 k) = dec_string (unat (ntohs (sport (v4_l4 k)))) \<and>
   GetDPort (v4_l4 k) = dec_string (unat (ntohs (dport (v4_l4 k)))) \<and>
   (GetSrcIp k = GetSrcIp k' \<longleftrightarrow> v4_src_ip k = v4_src_ip k') \<and>
   (GetSrcIp k = GetDstIp k' \<longleftrightarrow> v4_src_ip k = v4_dst_ip k')"
  by (simp add: GetSrcIp_ntoa GetDstIp_ntoa inet_ntoa_inj GetSPort_def GetDPort_def
      port_bytes_swapped ntohs_def)

text \<open>
  Adding the difference of two readings to the older one gives the newer one, as
  long as no counter went back; when any counter went back, nothing is added for any of
  the four. Exchanging the directions of a flow twice changes nothing and commutes with
  addition.
\<close>

theorem difference_restores_reading:
  "addFlowStats old (diffFlowStats old new) = (if no_less old new then new else old) \<and>
   fs_swap (fs_swap v) = v \<and>
   fs_swap (addFlowStats a b) = addFlowStats (fs_swap a) (fs_swap b)"
  by (simp add: add_diff diff_reset fs_swap_add)

section \<open>The picture of the cluster\<close>

text \<open>
  C26: While events are orderly (no pod changes its address or takes one in use, a
  deletion names the pod's address, no tombstones), the agent's pod tables are exactly
  the pods that exist: looking up a name gives its address, looking up an address gives
  the pod that has it, and no address of a deleted pod is left behind.
\<close>

theorem pod_tables_exact:
  assumes "orderly_run Map.empty es"
  shows "\<exists>a. run_events keyFunc es NewStatsAgent = Some a \<and>
    (\<forall>k. map_option PodIP (podInfo a k) = fold track es Map.empty k) \<and>
    (\<forall>ip k. podIpToName a ip = Some k \<longleftrightarrow> fold track es Map.empty k = Some ip)"
  using run_events_consistent [OF assms consistent_new, of keyFunc]
  by (auto simp: pods_consistent_def)

lemma sample_agent_run: "run_events key_func sample_events NewStatsAgent = Some sample_agent"
  by (simp add: sample_agent_def sample_events_def podUpdated_def serviceUpdated_def key_func_def
      Let_def web_def db_def cart_def)

theorem pod_tables_exact_witness:
  "podIpToName sample_agent ''10.0.0.2'' = Some ''shop/db''"
proof -
  have "orderly_run Map.empty sample_events"
    by (simp add: sample_events_def web_def db_def cart_def podKey_def)
  moreover have "fold track sample_events Map.empty ''shop/db'' = Some ''10.0.0.2''"
    by (simp add: sample_events_def web_def db_def cart_def podKey_def)
  ultimately show ?thesis
    using pod_tables_exact [of sample_events key_func] sample_agent_run by auto
qed

text \<open>
  C35: A pod that gets a new address leaves its old one in the table for good: after the
  update, and even after the pod is deleted, flows of the old address are still counted
  for the pod.
\<close>

theorem old_address_stays:
  assumes "p_ip p \<noteq> ''''" and "\<not> p_host_network p" and "ip' \<noteq> ''''" and "ip' \<noteq> p_ip p"
  shows "\<exists>a. run_events keyFunc
      [Pod_add_or_update (Object p), Pod_add_or_update (Object (p\<lparr>p_ip := ip'\<rparr>)),
       Pod_delete (Object (p\<lparr>p_ip := ip'\<rparr>))] a0 = Some a \<and>
    podInfo a (podKey p) = None \<and> podIpToName a (p_ip p) = Some (podKey p)"
  using assms by (simp add: podUpdated_def podDeleted_def podKey_def)

theorem old_address_stays_witness:
  "\<exists>a. run_events key_func
      [Pod_add_or_update (Object web), Pod_add_or_update (Object (web\<lparr>p_ip := ''10.0.0.7''\<rparr>)),
       Pod_delete (Object (web\<lparr>p_ip := ''10.0.0.7''\<rparr>))] NewStatsAgent = Some a \<and>
    podIpToName a ''10.0.0.1'' = Some ''shop/web''"
  using old_address_stays [of web "''10.0.0.7''" key_func NewStatsAgent]
  by (auto simp: web_def podKey_def)

section \<open>Keys and labels\<close>

text \<open>
  C27: A flow from a pod to a service is classified as such, and the names survive the
  way through the key: the Prometheus key carries the namespace and name of the pod and
  the namespace, name and type of the service, and the metric of that direction.
\<close>

theorem pod_to_service_classified:
  assumes "podIpToName agent (GetSrcIp k) = Some (pod_ref ns name)"
    and "svcIpToName agent (GetSrcIp k) = None" and "podIpToName agent (GetDstIp k) = None"
    and "svcIpToName agent (GetDstIp k) = Some (pod_ref ns' name')"
    and "svcInfo agent (pod_ref ns' name') = Some \<lparr>ClusterIP = ip, SvcType = svc_type_name ty\<rparr>"
    and "plain ns" "plain name" "plain ns'" "plain name'"
  shows "getPodStatsKey v4_FlowKey agent k =
      (\<lparr>ep0 = pod_ref ns name, ep1 = svc_ref ns' name' (svc_type_name ty)\<rparr>, FROM_POD_KEY OR TO_SVC_KEY) \<and>
    toPromMetricsKey (fst (getPodStatsKey v4_FlowKey agent k)) =
      \<lparr>podNamespace = [ns, ''''], podName = [name, ''''], svcNamespace = [ns', ''''],
       svcScope = [svc_type_name ty, ''''], svcName = [name', ''''], metricName = ''pod_svc_stats''\<rparr>"
proof -
  have "getPodStatsKey v4_FlowKey agent k =
      (\<lparr>ep0 = pod_ref ns name, ep1 = svc_ref ns' name' (svc_type_name ty)\<rparr>, FROM_POD_KEY OR TO_SVC_KEY)"
    using assms(1-5)
    by (simp add: getPodStatsKey_def svc_type_of_def key_type_defs pod_ref_def svc_ref_def)
  moreover have "CHR ''/'' \<notin> set (svc_type_name ty)" by (simp add: svc_type_name_def)
  ultimately show ?thesis using prom_of_pod_svc(1) [OF assms(6-9)] by simp
qed

lemma sample_agent_eq:
  "podIpToName sample_agent = [''10.0.0.1'' \<mapsto> ''shop/web'', ''10.0.0.2'' \<mapsto> ''shop/db'']"
  "svcIpToName sample_agent = [''10.0.0.9'' \<mapsto> ''shop/cart'']"
  "svcInfo sample_agent = [''shop/cart'' \<mapsto> \<lparr>ClusterIP = ''10.0.0.9'', SvcType = ''clusterIp''\<rparr>]"
  by (simp_all add: sample_agent_def sample_events_def podUpdated_def serviceUpdated_def
      key_func_def Let_def web_def db_def cart_def podKey_def svc_type_name_def NewStatsAgent_def)

lemma sample_flow_text:
  "GetSrcIp web_to_cart = ''10.0.0.1''" "GetDstIp web_to_cart = ''10.0.0.9''"
  "GetSrcIp web_to_db = ''10.0.0.1''" "GetDstIp web_to_db = ''10.0.0.2''"
  by code_simp+

theorem pod_to_service_classified_witness:
  "getPodStatsKey v4_FlowKey sample_agent web_to_cart = (\<lparr>ep0 = ''shop/web'', ep1 = ''shop/cart/clusterIp''\<rparr>, 9)"
  using pod_to_service_classified [of sample_agent web_to_cart "''shop''" "''web''" "''shop''"
      "''cart''" "''10.0.0.9''" "''ClusterIP''"]
  by (simp add: sample_agent_eq sample_flow_text pod_ref_def svc_ref_def plain_def svc_type_name_def
      key_type_or)

section \<open>Statistics\<close>

text \<open>
  One merge adds a flow's counters to the right aggregates and to no other: the
  source pod or service gets them as they are, the destination pod or service with the
  directions exchanged, so that "out" is always what the endpoint of the aggregate
  sends; flows of addresses the agent does not know change nothing.
\<close>

theorem merge_charges_both_ends:
  assumes "mergeStats subs kt key v t ms = Some ms'"
  shows "agg (podStatsMap ms') k = charged (pod_charges kt key v) k (agg (podStatsMap ms) k) \<and>
    agg (svcStatsMap ms') k = charged (svc_charges kt key v) k (agg (svcStatsMap ms) k) \<and>
    agg (knownStatsMap ms') k = charged (known_charges kt key v) k (agg (knownStatsMap ms) k)"
  by (simp only: pods.merge_charges [OF assms] svcs.merge_charges [OF assms] pairs.merge_charges [OF assms])

theorem merge_charges_both_ends_witness:
  "\<exists>ms. mergeStats prom 3 \<lparr>ep0 = ''shop/web'', ep1 = ''shop/db''\<rparr> first_count 1 no_maps = Some ms \<and>
     agg (podStatsMap ms) \<lparr>ep0 = ''shop/db'', ep1 = ''''\<rparr> =
       \<lparr>out_bytes = 30, out_packets = 1, in_bytes = 100, in_packets = 2\<rparr>"
proof -
  obtain ms where run: "mergeStats prom 3 \<lparr>ep0 = ''shop/web'', ep1 = ''shop/db''\<rparr> first_count 1 no_maps = Some ms"
    unfolding prom_def using mergeStats_total by blast
  from merge_charges_both_ends [OF run, of "\<lparr>ep0 = ''shop/db'', ep1 = ''''\<rparr>"] run show ?thesis
    by (simp add: pod_charges_def src_key_def dst_key_def no_maps_def agg_def first_count_def fs_swap_def)
qed

text \<open>
  Once the gauges are registered, an update never panics, whatever the cluster and
  the kernel map hold, and every gauge it sets exists and is given exactly the labels
  it was declared with.
\<close>

theorem updates_never_panic:
  assumes "list_all labels_match (gauge_log (stats_of m))"
  shows "UpdateStats agent (registerPrometheusMetrics subs) t loaded m \<noteq> Panic \<and>
    (\<forall>m'. UpdateStats agent (registerPrometheusMetrics subs) t loaded m = Finished m' \<longrightarrow>
       list_all labels_match (gauge_log (stats_of m')))"
proof (cases loaded)
  case None
  with assms show ?thesis by (auto simp: UpdateStats_def Let_def)
next
  case (Some entries)
  obtain m1 td where "scan agent (registerPrometheusMetrics subs) t entries (m\<lparr>mutex_held := True\<rparr>, []) = Some (m1, td)"
    "log_ok (stats_of m1)"
    using scan_total [of "m\<lparr>mutex_held := True\<rparr>" agent subs t entries "[]"] assms
    by (auto simp: log_ok_def)
  with Some show ?thesis by (auto simp: UpdateStats_def Let_def log_ok_def split: if_splits)
qed

theorem updates_never_panic_witness:
  "UpdateStats sample_agent prom 1 (Some [(web_to_db, first_count)]) NewInetV4FlowMetricsEntry \<noteq> Panic"
  using updates_never_panic [of NewInetV4FlowMetricsEntry sample_agent Map.empty 1]
  by (simp add: prom_def NewInetV4FlowMetricsEntry_def no_maps_def)

text \<open>
  C10: An update charges exactly the flows it sees for the first time, each with the
  counters the kernel map holds for it, and nothing else: pods, services and pod-service
  pairs grow by the sum over the new flows.
\<close>

theorem first_sight_is_exact:
  assumes "UpdateStats agent subs t (Some entries) m = Finished m'"
    and "metrics_wf m" and "distinct (map fst entries)"
  defines "new \<equiv> filter (\<lambda>(k, v). base m k = None) entries"
  shows "agg (podStatsMap (stats_of m')) key =
      charged (all_charges agent pod_charges new) key (agg (podStatsMap (stats_of m)) key) \<and>
    agg (svcStatsMap (stats_of m')) key =
      charged (all_charges agent svc_charges new) key (agg (svcStatsMap (stats_of m)) key) \<and>
    agg (knownStatsMap (stats_of m')) key =
      charged (all_charges agent known_charges new) key (agg (knownStatsMap (stats_of m)) key)"
  unfolding new_def
  by (simp only: pods.update_charges [OF assms(1-3)] svcs.update_charges [OF assms(1-3)]
      pairs.update_charges [OF assms(1-3)])

lemma first_update:
  "\<exists>m'. UpdateStats sample_agent prom 1 (Some [(web_to_db, first_count)]) NewInetV4FlowMetricsEntry =
     Finished m'"
  using finished_of_not_panic [of NewInetV4FlowMetricsEntry sample_agent Map.empty 1]
  by (auto simp: prom_def NewInetV4FlowMetricsEntry_def no_maps_def log_ok_def)

lemma web_to_db_key: "getPodStatsKey v4_FlowKey sample_agent web_to_db = (\<lparr>ep0 = ''shop/web'', ep1 = ''shop/db''\<rparr>, 3)"
  by (simp add: getPodStatsKey_def sample_agent_eq sample_flow_text key_type_defs)

lemma start_state:
  "base NewInetV4FlowMetricsEntry k = None" "agg (podStatsMap (stats_of NewInetV4FlowMetricsEntry)) key = zero_stats"
  by (simp_all add: base_def NewInetV4FlowMetricsEntry_def no_maps_def agg_def)

theorem first_sight_is_exact_witness:
  "\<exists>m'. UpdateStats sample_agent prom 1 (Some [(web_to_db, first_count)]) NewInetV4FlowMetricsEntry = Finished m' \<and>
     agg (podStatsMap (stats_of m')) \<lparr>ep0 = ''shop/web'', ep1 = ''''\<rparr> = first_count"
proof -
  obtain m' where run: "UpdateStats sample_agent prom 1 (Some [(web_to_db, first_count)])
      NewInetV4FlowMetricsEntry = Finished m'"
    using first_update by blast
  have "agg (podStatsMap (stats_of m')) \<lparr>ep0 = ''shop/web'', ep1 = ''''\<rparr> = first_count"
    using first_sight_is_exact [OF run new_metrics_wf, of "\<lparr>ep0 = ''shop/web'', ep1 = ''''\<rparr>"]
    by (simp add: start_state web_to_db_key pod_charges_def src_key_def dst_key_def)
  with run show ?thesis by blast
qed

text \<open>
  C11: After a flow has been seen once, its traffic is never added again. When every
  entry of the kernel map belongs to a flow the agent has seen, an update leaves all
  aggregates as they are, however much the counters have grown: the pointer that should
  hold the old counters points to the entry that has just been overwritten with the new
  ones, so the difference is always zero.
\<close>

theorem known_flows_never_grow:
  assumes "UpdateStats agent subs t (Some entries) m = Finished m'"
    and "metrics_wf m" and "distinct (map fst entries)"
    and "list_all (\<lambda>(k, v). base m k \<noteq> None) entries"
  shows "agg (podStatsMap (stats_of m')) = agg (podStatsMap (stats_of m)) \<and>
    agg (svcStatsMap (stats_of m')) = agg (svcStatsMap (stats_of m)) \<and>
    agg (knownStatsMap (stats_of m')) = agg (knownStatsMap (stats_of m))"
proof -
  have "filter (\<lambda>(k, v). base m k = None) entries = []"
    using assms(4) by (auto simp: list_all_iff filter_empty_conv)
  then show ?thesis
    by (simp add: fun_eq_iff pods.update_charges [OF assms(1-3)] svcs.update_charges [OF assms(1-3)]
        pairs.update_charges [OF assms(1-3)])
qed

theorem known_flows_never_grow_witness:
  "\<exists>m1 m2. UpdateStats sample_agent prom 1 (Some [(web_to_db, first_count)]) NewInetV4FlowMetricsEntry = Finished m1 \<and>
     UpdateStats sample_agent prom 2 (Some [(web_to_db, second_count)]) m1 = Finished m2 \<and>
     agg (podStatsMap (stats_of m2)) \<lparr>ep0 = ''shop/web'', ep1 = ''''\<rparr> = first_count"
proof -
  obtain m1 where first: "UpdateStats sample_agent prom 1 (Some [(web_to_db, first_count)])
      NewInetV4FlowMetricsEntry = Finished m1" "log_ok (stats_of m1)" "\<not> mutex_held m1"
    using finished_of_not_panic [of NewInetV4FlowMetricsEntry sample_agent Map.empty 1]
    by (auto simp: prom_def NewInetV4FlowMetricsEntry_def no_maps_def log_ok_def)
  have count: "agg (podStatsMap (stats_of m1)) \<lparr>ep0 = ''shop/web'', ep1 = ''''\<rparr> = first_count"
    using pods.update_charges [OF first(1) new_metrics_wf, of "\<lparr>ep0 = ''shop/web'', ep1 = ''''\<rparr>"]
    by (simp add: start_state web_to_db_key pod_charges_def src_key_def dst_key_def)
  note seen = UpdateStats_base [OF first(1) new_metrics_wf]
  obtain m2 where second: "UpdateStats sample_agent prom 2 (Some [(web_to_db, second_count)]) m1 = Finished m2"
    using finished_of_not_panic [OF first(3,2), of sample_agent Map.empty 2] by (auto simp: prom_def)
  have "base m1 web_to_db \<noteq> None" using seen(3) by simp
  then have "agg (podStatsMap (stats_of m2)) = agg (podStatsMap (stats_of m1))"
    using known_flows_never_grow [OF second seen(1)] by simp
  with first(1) second count show ?thesis by metis
qed

text \<open>
  C12: After an update the agent's base map holds, for every flow in the kernel map, the
  counters the kernel map has for it; a flow whose counters moved starts ageing anew,
  one whose counters did not is one round older. Flows that were not in the kernel map
  keep their entry. A flow is marked for deletion exactly when its counters have stayed
  the same until its age reaches three.
\<close>

theorem base_map_follows_kernel:
  assumes "UpdateStats agent subs t (Some entries) m = Finished m'"
    and "metrics_wf m" and "distinct (map fst entries)"
  shows "metrics_wf m' \<and>
    base m' = (\<lambda>k. case map_of entries k of None \<Rightarrow> base m k
      | Some v \<Rightarrow> Some (case base m k of
            None \<Rightarrow> \<lparr>Stats = v, Aging_counter = 0, TimeStamp = t\<rparr>
          | Some e \<Rightarrow> if Stats e = v then e\<lparr>Aging_counter := Aging_counter e + 1\<rparr>
                      else \<lparr>Stats = v, Aging_counter = 0, TimeStamp = t\<rparr>)) \<and>
    (\<exists>task. tasks m' = tasks m @ [task] \<and>
       toDeleteList task = map fst (filter (\<lambda>(k, v). case base m k of None \<Rightarrow> False
          | Some e \<Rightarrow> Stats e = v \<and> 3 \<le> Aging_counter e + 1) entries))"
  using UpdateStats_base [OF assms] unfolding next_entry_def idle_out_def by blast

theorem base_map_follows_kernel_witness:
  "\<exists>m1. UpdateStats sample_agent prom 1 (Some [(web_to_db, first_count)]) NewInetV4FlowMetricsEntry = Finished m1 \<and>
     base m1 web_to_db = Some \<lparr>Stats = first_count, Aging_counter = 0, TimeStamp = 1\<rparr>"
proof -
  obtain m1 where run: "UpdateStats sample_agent prom 1 (Some [(web_to_db, first_count)])
      NewInetV4FlowMetricsEntry = Finished m1"
    using first_update by blast
  from base_map_follows_kernel [OF run new_metrics_wf] run show ?thesis by (simp add: start_state)
qed

lemma update_possible:
  assumes "\<not> mutex_held m" and "log_ok (stats_of m)"
  obtains m' where "UpdateStats sample_agent prom t (Some entries) m = Finished m'"
    and "log_ok (stats_of m')" and "\<not> mutex_held m'"
  using finished_of_not_panic [OF assms, of sample_agent Map.empty t entries] by (auto simp: prom_def)

lemma start_ok: "\<not> mutex_held NewInetV4FlowMetricsEntry" "log_ok (stats_of NewInetV4FlowMetricsEntry)"
  by (simp_all add: NewInetV4FlowMetricsEntry_def no_maps_def log_ok_def)

section \<open>Gauges\<close>

definition pod_labels :: "string \<Rightarrow> string \<Rightarrow> (string \<times> string) list" where
  "pod_labels ns name = [(''pod_namespace'', ns), (''pod_name'', name)]"

definition svc_labels :: "string \<Rightarrow> string \<Rightarrow> string \<Rightarrow> (string \<times> string) list" where
  "svc_labels ns name scope = [(''svc_namespace'', ns), (''svc_scope'', scope), (''svc_name'', name)]"

definition pod_svc_labels ::
    "string \<Rightarrow> string \<Rightarrow> string \<Rightarrow> string \<Rightarrow> string \<Rightarrow> (string \<times> string) list" where
  "pod_svc_labels ns name ns' name' scope =
     [(''pod_namespace'', ns), (''pod_name'', name), (''svc_namespace'', ns'),
      (''svc_scope'', scope), (''svc_name'', name')]"

text \<open>What each of the three setters writes.\<close>

lemma pod_gauge_readings:
  assumes "merge_pod (registerPrometheusMetrics subs) \<lparr>ep0 = pod_ref ns name, ep1 = ''''\<rparr> v t ms = Some ms'"
    and "plain ns" "plain name"
  shows "readings (gauge_log ms') = readings (gauge_log ms) @ named_values PodPromMetrics (pod_labels ns name)
      (stats_values (add_stats (agg (podStatsMap ms) \<lparr>ep0 = pod_ref ns name, ep1 = ''''\<rparr>) v))"
    and "svcStatsMap ms' = svcStatsMap ms" and "knownStatsMap ms' = knownStatsMap ms"
  using assms(1)
  by (auto simp: merge_pod_def Let_def agg_added prom_of_pod [OF assms(2,3)] SetPodGauge_def
      pod_labels_def setter_defs split: bind_splits)

lemma svc_gauge_readings:
  assumes "merge_svc (registerPrometheusMetrics subs) \<lparr>ep0 = svc_ref ns name scope, ep1 = ''''\<rparr> v t ms = Some ms'"
    and "plain ns" "plain name" "CHR ''/'' \<notin> set scope"
  shows "readings (gauge_log ms') = readings (gauge_log ms) @ named_values SvcPromMetrics
      [(''svc_namespace'', ns), (''svc_scope'', scope), (''svc_name'', name)]
      (stats_values (add_stats (agg (svcStatsMap ms) \<lparr>ep0 = svc_ref ns name scope, ep1 = ''''\<rparr>) v))"
    and "podStatsMap ms' = podStatsMap ms" and "knownStatsMap ms' = knownStatsMap ms"
  using assms(1)
  by (auto simp: merge_svc_def Let_def agg_added prom_of_svc [OF assms(2-4)] SetSvcGauge_def
      setter_defs split: bind_splits)

lemma known_gauge_readings:
  assumes "merge_known (registerPrometheusMetrics subs)
      \<lparr>ep0 = pod_ref ns name, ep1 = svc_ref ns' name' scope\<rparr> v t ms = Some ms'"
    and "plain ns" "plain name" "plain ns'" "plain name'" "CHR ''/'' \<notin> set scope"
  shows "readings (gauge_log ms') = readings (gauge_log ms) @
      named_values PodSvcPromMetrics (pod_svc_labels ns name ns' name' scope)
      (stats_values (add_stats (agg (knownStatsMap ms) \<lparr>ep0 = pod_ref ns name, ep1 = svc_ref ns' name' scope\<rparr>) v))"
  using assms(1)
  by (auto simp: merge_known_def Let_def agg_added prom_of_pod_svc(1) [OF assms(2-6)] SetPodSvcGauge_def
      pod_svc_labels_def setter_defs split: bind_splits)

text \<open>
  C28: The two directions of the pod-service gauges are exchanged. For the first flow
  from a pod to a service, the gauge of what the pod sends shows the bytes from source
  to destination, while the gauge of the bytes from that pod to that service shows the
  bytes of the other direction, and the service-to-pod gauge those from the pod.
\<close>

theorem pod_service_gauges_exchanged:
  assumes "mergeStats (registerPrometheusMetrics subs) (FROM_POD_KEY OR TO_SVC_KEY)
      \<lparr>ep0 = pod_ref ns name, ep1 = svc_ref ns' name' scope\<rparr> v t ms = Some ms'"
    and "agg (podStatsMap ms) \<lparr>ep0 = pod_ref ns name, ep1 = ''''\<rparr> = zero_stats"
    and "agg (knownStatsMap ms) \<lparr>ep0 = pod_ref ns name, ep1 = svc_ref ns' name' scope\<rparr> = zero_stats"
    and "plain ns" "plain name" "plain ns'" "plain name'" "CHR ''/'' \<notin> set scope"
  shows "gauge_value (gauge_log ms') ''pod_tx_bytes'' (pod_labels ns name) = Some (float64 (out_bytes v)) \<and>
    gauge_value (gauge_log ms') ''pod_to_svc_bytes'' (pod_svc_labels ns name ns' name' scope) =
      Some (float64 (in_bytes v)) \<and>
    gauge_value (gauge_log ms') ''svc_to_pod_bytes'' (pod_svc_labels ns name ns' name' scope) =
      Some (float64 (out_bytes v))"
proof -
  obtain m1 m2
    where pod: "merge_pod (registerPrometheusMetrics subs) \<lparr>ep0 = pod_ref ns name, ep1 = ''''\<rparr> v t ms = Some m1"
      and svc: "merge_svc (registerPrometheusMetrics subs)
        \<lparr>ep0 = svc_ref ns' name' scope, ep1 = ''''\<rparr> (fs_swap v) t m1 = Some m2"
      and known: "merge_known (registerPrometheusMetrics subs)
        \<lparr>ep0 = pod_ref ns name, ep1 = svc_ref ns' name' scope\<rparr> (fs_swap v) t m2 = Some ms'"
    using assms(1) by (auto simp: merge_unfold src_key_def dst_key_def swap_endpoints_def split: bind_splits)
  note p = pod_gauge_readings [OF pod assms(4,5)]
  note s = svc_gauge_readings [OF svc assms(6-8)]
  note k = known_gauge_readings [OF known assms(4-8)]
  show ?thesis
    using assms(2,3)
    by (simp add: gauge_value_def k s p named_values_def PodPromMetrics_def SvcPromMetrics_def
        PodSvcPromMetrics_def stats_values_def fs_swap_def)
qed

theorem pod_service_gauges_exchanged_witness:
  "\<exists>ms'. mergeStats prom (FROM_POD_KEY OR TO_SVC_KEY)
      \<lparr>ep0 = pod_ref ''shop'' ''web'', ep1 = svc_ref ''shop'' ''cart'' ''clusterIp''\<rparr> first_count 1 no_maps =
        Some ms' \<and>
    gauge_value (gauge_log ms') ''pod_to_svc_bytes''
      (pod_svc_labels ''shop'' ''web'' ''shop'' ''cart'' ''clusterIp'') = Some (float64 30)"
proof -
  let ?k = "\<lparr>ep0 = pod_ref ''shop'' ''web'', ep1 = svc_ref ''shop'' ''cart'' ''clusterIp''\<rparr>"
  obtain ms' where m: "mergeStats prom (FROM_POD_KEY OR TO_SVC_KEY) ?k first_count 1 no_maps = Some ms'"
    using mergeStats_total [of Map.empty "FROM_POD_KEY OR TO_SVC_KEY" ?k first_count 1 no_maps]
    unfolding prom_def by blast
  have "gauge_value (gauge_log ms') ''pod_to_svc_bytes''
      (pod_svc_labels ''shop'' ''web'' ''shop'' ''cart'' ''clusterIp'') = Some (float64 (in_bytes first_count))"
    by (rule conjunct1 [OF conjunct2 [OF pod_service_gauges_exchanged [OF m [unfolded prom_def]]]])
       (simp_all add: no_maps_def agg_def plain_def)
  with m show ?thesis by (simp add: first_count_def)
qed

lemma pair_gauge_readings:
  assumes "merge_known (registerPrometheusMetrics subs)
      \<lparr>ep0 = svc_ref ns' name' scope, ep1 = pod_ref ns name\<rparr> v t ms = Some ms'"
    and "plain ns" "plain name" "plain ns'" "plain name'" "CHR ''/'' \<notin> set scope"
  shows "readings (gauge_log ms') = readings (gauge_log ms) @
      named_values PodSvcPromMetrics (pod_svc_labels ns name ns' name' scope)
      (stats_values (fs_swap (add_stats (agg (knownStatsMap ms) \<lparr>ep0 = svc_ref ns' name' scope, ep1 = pod_ref ns name\<rparr>) v)))"
  using assms(1)
  by (auto simp: merge_known_def Let_def agg_added prom_of_pod_svc(2) [OF assms(2-6)] SetPodSvcGauge_def
      pod_svc_labels_def setter_defs split: bind_splits)

text \<open>
  C29: The statistics of a pod and a service are kept twice, once for each order of the two
  ends, and both write the same gauges. After a flow from the pod to the service and one
  from the service to the pod, the agent holds both counts, but the gauges show the second
  alone, as if the first had not been.
\<close>

theorem pair_gauges_overwritten:
  assumes "mergeStats (registerPrometheusMetrics subs) (FROM_POD_KEY OR TO_SVC_KEY)
      \<lparr>ep0 = pod_ref ns name, ep1 = svc_ref ns' name' scope\<rparr> v t ms = Some m1"
    and "mergeStats (registerPrometheusMetrics subs) (FROM_SVC_KEY OR TO_POD_KEY)
      \<lparr>ep0 = svc_ref ns' name' scope, ep1 = pod_ref ns name\<rparr> w t m1 = Some m2"
    and "agg (knownStatsMap ms) \<lparr>ep0 = pod_ref ns name, ep1 = svc_ref ns' name' scope\<rparr> = zero_stats"
    and "agg (knownStatsMap ms) \<lparr>ep0 = svc_ref ns' name' scope, ep1 = pod_ref ns name\<rparr> = zero_stats"
    and "pod_ref ns name \<noteq> svc_ref ns' name' scope"
    and "plain ns" "plain name" "plain ns'" "plain name'" "CHR ''/'' \<notin> set scope"
  shows "agg (knownStatsMap m2) \<lparr>ep0 = pod_ref ns name, ep1 = svc_ref ns' name' scope\<rparr> = fs_swap v \<and>
    agg (knownStatsMap m2) \<lparr>ep0 = svc_ref ns' name' scope, ep1 = pod_ref ns name\<rparr> = fs_swap w \<and>
    map (\<lambda>n. gauge_value (gauge_log m2) n (pod_svc_labels ns name ns' name' scope)) PodSvcPromMetrics =
      map (\<lambda>x. Some (float64 x)) (stats_values w)"
proof -
  obtain n2 where parts: "knownStatsMap n2 = knownStatsMap m1"
      and known: "merge_known (registerPrometheusMetrics subs)
        \<lparr>ep0 = svc_ref ns' name' scope, ep1 = pod_ref ns name\<rparr> (fs_swap w) t n2 = Some m2"
    using assms(2) by (auto simp: merge_unfold bind_eq_Some_conv dest!: merge_parts(1,2))
  have a: "agg (knownStatsMap m1) k = charged (known_charges 9 \<lparr>ep0 = pod_ref ns name, ep1 = svc_ref ns' name' scope\<rparr> v)
      k (agg (knownStatsMap ms) k)" for k
    using pairs.merge_charges [OF assms(1)] by (simp add: key_type_or)
  have b: "agg (knownStatsMap m2) k = charged (known_charges 6 \<lparr>ep0 = svc_ref ns' name' scope, ep1 = pod_ref ns name\<rparr> w)
      k (agg (knownStatsMap m1) k)" for k
    using pairs.merge_charges [OF assms(2)] by (simp add: key_type_or)
  have old: "agg (knownStatsMap n2) \<lparr>ep0 = svc_ref ns' name' scope, ep1 = pod_ref ns name\<rparr> = zero_stats"
    using assms(3-5) by (simp add: parts a known_charges_def)
  have "map (\<lambda>n. gauge_value (gauge_log m2) n (pod_svc_labels ns name ns' name' scope)) PodSvcPromMetrics =
      map (\<lambda>x. Some (float64 x)) (stats_values w)"
    using gauge_value_own [OF pair_gauge_readings [OF known assms(6-10)]]
    by (simp add: old PodSvcPromMetrics_def stats_values_def)
  then show ?thesis using assms(3-5) by (simp add: a b known_charges_def)
qed

theorem pair_gauges_overwritten_witness:
  "\<exists>m1 m2. mergeStats prom (FROM_POD_KEY OR TO_SVC_KEY)
      \<lparr>ep0 = pod_ref ''shop'' ''web'', ep1 = svc_ref ''shop'' ''cart'' ''clusterIp''\<rparr> first_count 1 no_maps = Some m1 \<and>
    mergeStats prom (FROM_SVC_KEY OR TO_POD_KEY)
      \<lparr>ep0 = svc_ref ''shop'' ''cart'' ''clusterIp'', ep1 = pod_ref ''shop'' ''web''\<rparr> second_count 1 m1 = Some m2 \<and>
    map (\<lambda>n. gauge_value (gauge_log m2) n (pod_svc_labels ''shop'' ''web'' ''shop'' ''cart'' ''clusterIp''))
      PodSvcPromMetrics = map (\<lambda>x. Some (float64 x)) (stats_values second_count)"
proof -
  obtain m1 where m1: "mergeStats prom (FROM_POD_KEY OR TO_SVC_KEY)
      \<lparr>ep0 = pod_ref ''shop'' ''web'', ep1 = svc_ref ''shop'' ''cart'' ''clusterIp''\<rparr> first_count 1 no_maps = Some m1"
    unfolding prom_def using mergeStats_total by blast
  obtain m2 where m2: "mergeStats prom (FROM_SVC_KEY OR TO_POD_KEY)
      \<lparr>ep0 = svc_ref ''shop'' ''cart'' ''clusterIp'', ep1 = pod_ref ''shop'' ''web''\<rparr> second_count 1 m1 = Some m2"
    unfolding prom_def using mergeStats_total by blast
  have "map (\<lambda>n. gauge_value (gauge_log m2) n (pod_svc_labels ''shop'' ''web'' ''shop'' ''cart'' ''clusterIp''))
      PodSvcPromMetrics = map (\<lambda>x. Some (float64 x)) (stats_values second_count)"
    by (rule conjunct2 [OF conjunct2 [OF pair_gauges_overwritten [OF m1 [unfolded prom_def] m2 [unfolded prom_def]]]])
       (simp_all add: no_maps_def agg_def plain_def pod_ref_def svc_ref_def)
  with m1 m2 show ?thesis by blast
qed

end
