(* ===== verification/Packet_Format.thy ===== *)
theory Packet_Format
  imports Flow_Accounting
begin

text \<open>
  IPv4 and IPv6 packets as bytes, written from their headers' fields, and the proof
  that the reader recovers from those bytes exactly the flow the fields name. The
  builders lay a packet out from the wire format on their own, without the structure
  declarations the reader's loads go through.
\<close>

section \<open>Packets as bytes\<close>

record ipv4_fields =
  f_tos :: u8
  f_tot_len :: u16
  f_id :: u16
  f_frag_off :: u16
  f_ttl :: u8
  f_protocol :: u8
  f_check :: u16
  f_saddr :: u32
  f_daddr :: u32

text \<open>\<open>n\<close> is the number of option words; the header length field is \<open>5 + n\<close>.\<close>

definition ipv4_header_bytes :: "ipv4_fields \<Rightarrow> nat \<Rightarrow> u8 list" where
  "ipv4_header_bytes h n =
     [of_nat (64 + (5 + n)), f_tos h] @ bytes16 (f_tot_len h) @ bytes16 (f_id h) @
     bytes16 (f_frag_off h) @ [f_ttl h, f_protocol h] @ bytes16 (f_check h) @
     bytes32 (f_saddr h) @ bytes32 (f_daddr h)"

definition ipv4_packet :: "ipv4_fields \<Rightarrow> u8 list \<Rightarrow> u8 list \<Rightarrow> u8 list" where
  "ipv4_packet h opts payload =
     ipv4_header_bytes h (length opts div 4) @ opts @ payload"

record ipv6_fields =
  f6_class_flow :: "u8 \<times> u8 \<times> u8 \<times> u8"
  f6_payload_len :: u16
  f6_nexthdr :: u8
  f6_hop_limit :: u8
  f6_saddr :: addr6
  f6_daddr :: addr6

text \<open>The first byte holds the version in its high nibble; \<open>c\<close> supplies the low one.\<close>

definition version6_byte :: "u8 \<Rightarrow> u8" where
  "version6_byte c = of_nat (96 + unat c mod 16)"

definition ipv6_packet :: "ipv6_fields \<Rightarrow> u8 list \<Rightarrow> u8 list" where
  "ipv6_packet h payload =
     (case f6_class_flow h of (c, l0, l1, l2) \<Rightarrow>
        [version6_byte c, l0, l1, l2]) @
     bytes16 (f6_payload_len h) @ [f6_nexthdr h, f6_hop_limit h] @
     addr6_bytes (f6_saddr h) @ addr6_bytes (f6_daddr h) @ payload"

text \<open>The transport header starts with the two ports; how much of it must be there.\<close>

definition l4_header_min :: "u8 \<Rightarrow> nat" where
  "l4_header_min proto = (if proto = 6 then 20 else if proto = 17 then 8 else 0)"

definition has_ports :: "u8 \<Rightarrow> bool" where
  "has_ports proto \<longleftrightarrow> proto = 6 \<or> proto = 17"

section \<open>Reading them back\<close>

lemma small_nibble_cases: "(n::nat) \<le> 10 \<Longrightarrow> n \<in> {10, 9, 8, 7, 6, 5, 4, 3, 2, 1, 0}"
  by (simp, arith)

lemma version_nibble4: "n \<le> 10 \<Longrightarrow> bit_field 4 4 (of_nat (64 + (5 + n)) :: u8) = 4"
  by (drule small_nibble_cases) (auto simp: bit_field_def)

lemma ihl_nibble4:
  "n \<le> 10 \<Longrightarrow> unat (push_bit 2 (ucast (bit_field 0 4 (of_nat (64 + (5 + n)) :: u8))) :: u16)
     = 20 + 4 * n"
  by (drule small_nibble_cases) (auto simp: bit_field_def)

lemma length_ipv4_header [simp]: "length (ipv4_header_bytes h n) = 20"
  by (simp add: ipv4_header_bytes_def)

lemma ipv4_header_loads:
  "ip_version (ipv4_header_bytes h n @ rest) 0 = Some (bit_field 4 4 (of_nat (64 + (5 + n))))"
  "ip_ihl (ipv4_header_bytes h n @ rest) 0 = Some (bit_field 0 4 (of_nat (64 + (5 + n))))"
  "member8 iphdr ''protocol'' (ipv4_header_bytes h n @ rest) 0 = Some (f_protocol h)"
  "member32 iphdr ''saddr'' (ipv4_header_bytes h n @ rest) 0 = Some (f_saddr h)"
  "member32 iphdr ''daddr'' (ipv4_header_bytes h n @ rest) 0 = Some (f_daddr h)"
  by (simp_all add: ip_version_def ip_ihl_def member8_def member32_def load8_def load32_def
      ipv4_header_bytes_def bytes16_def bytes32_def le32_def le16_bytes cat32_halves)

lemma read_l4_at:
  assumes "off = length xs"
  shows "read_l4 (xs @ ys) off l4 = read_l4 ys 0 l4"
  using load16_append_right [of xs ys 0] load16_append_right [of xs ys 2] assms
  by (simp add: read_l4_def member16_def)

lemma read_l4_ports:
  assumes "l4_header_min (ip_proto l4) \<le> 4 + length rest" and "padding l4 = (0, 0, 0)"
    and "sport l4 = 0" and "dport l4 = 0"
  shows "read_l4 (bytes16 s @ bytes16 d @ rest) 0 l4 =
     Some (Continue (if has_ports (ip_proto l4) then l4\<lparr>sport := s, dport := d\<rparr> else l4))"
proof -
  have "load16 (bytes16 s @ bytes16 d @ rest) 0 = Some s" by (rule load16_bytes16)
  moreover have "load16 (bytes16 s @ bytes16 d @ rest) 2 = Some d"
    using load16_append_right [of "bytes16 s" "bytes16 d @ rest" 0] by (simp add: load16_bytes16)
  ultimately show ?thesis
    using assms
    by (auto simp: read_l4_def member16_def IPPROTO_TCP_def IPPROTO_UDP_def has_ports_def
        l4_header_min_def)
qed

definition ports_l4 :: "u8 \<Rightarrow> u16 \<Rightarrow> u16 \<Rightarrow> proto_port" where
  "ports_l4 proto s d =
     \<lparr>ip_proto = proto, padding = (0, 0, 0),
      sport = (if has_ports proto then s else 0), dport = (if has_ports proto then d else 0)\<rparr>"

lemma read_l4_zero_ports:
  assumes "l4_header_min proto \<le> 4 + length rest"
  shows "read_l4 (bytes16 s @ bytes16 d @ rest) 0 (zero_l4\<lparr>ip_proto := proto\<rparr>) =
     Some (Continue (ports_l4 proto s d))"
  using read_l4_ports [of "zero_l4\<lparr>ip_proto := proto\<rparr>" rest s d] assms
  by (simp add: zero_l4_def ports_l4_def)

lemma packet_flow_ipv4:
  assumes opts: "length opts = 4 * n" "n \<le> 10"
    and not_lo: "f_saddr h \<noteq> IPV4_LOOPBACK" "f_daddr h \<noteq> IPV4_LOOPBACK"
    and l4: "l4_header_min (f_protocol h) \<le> 4 + length rest"
  shows "packet_flow (ipv4_packet h opts (bytes16 s @ bytes16 d @ rest)) =
    Some (V4_key \<lparr>v4_src_ip = f_saddr h, v4_dst_ip = f_daddr h,
                   v4_l4 = ports_l4 (f_protocol h) s d\<rparr>)"
proof -
  let ?l4 = "bytes16 s @ bytes16 d @ rest"
  let ?bs = "ipv4_header_bytes h n @ opts @ ?l4"
  have n: "length opts div 4 = n" using opts by simp
  have "read_l4 ?bs (20 + 4 * n) (zero_l4\<lparr>ip_proto := f_protocol h\<rparr>) =
      read_l4 ?l4 0 (zero_l4\<lparr>ip_proto := f_protocol h\<rparr>)"
    using read_l4_at [of "20 + 4 * n" "ipv4_header_bytes h n @ opts" ?l4] opts by simp
  then have l4r: "read_l4 ?bs (20 + 4 * n) (zero_l4\<lparr>ip_proto := f_protocol h\<rparr>) =
      Some (Continue (ports_l4 (f_protocol h) s d))"
    using read_l4_zero_ports [OF l4] by simp
  have key: "read_v4_key ?bs = Some (Continue \<lparr>v4_src_ip = f_saddr h, v4_dst_ip = f_daddr h,
                   v4_l4 = ports_l4 (f_protocol h) s d\<rparr>)"
    using not_lo l4r opts(2)
    by (simp only: read_v4_key_def ipv4_header_loads Let_def bind.simps ihl_nibble4) simp
  have version: "ip_version ?bs 0 = Some 4"
    using version_nibble4 [OF opts(2)] by (simp only: ipv4_header_loads)
  show ?thesis
    by (simp add: packet_flow_def ipv4_packet_def n version key)
qed

lemma version_nibble6_cases:
  "(n::nat) < 16 \<Longrightarrow> bit_field 4 4 (of_nat (96 + n) :: u8) = 6"
proof -
  assume "n < 16"
  then have "n \<in> set [0..<16]" by simp
  then show ?thesis by (auto simp: bit_field_def upt_rec)
qed

lemma version_nibble6: "bit_field 4 4 (version6_byte c) = 6"
  unfolding version6_byte_def by (rule version_nibble6_cases) simp

definition ipv6_prefix :: "ipv6_fields \<Rightarrow> u8 list" where
  "ipv6_prefix h =
     (case f6_class_flow h of (c, l0, l1, l2) \<Rightarrow> [version6_byte c, l0, l1, l2]) @
     bytes16 (f6_payload_len h) @ [f6_nexthdr h, f6_hop_limit h]"

lemma ipv6_packet_prefix:
  "ipv6_packet h payload =
     ipv6_prefix h @ addr6_bytes (f6_saddr h) @ addr6_bytes (f6_daddr h) @ payload"
  by (simp add: ipv6_packet_def ipv6_prefix_def)

lemma length_ipv6_prefix: "length (ipv6_prefix h) = 8"
  by (simp add: ipv6_prefix_def split: prod.splits)

lemma ipv6_loads:
  "ip_version (ipv6_packet h payload) 0 = Some 6"
  "member8 ipv6hdr ''nexthdr'' (ipv6_packet h payload) 0 = Some (f6_nexthdr h)"
  "member_addr6 ipv6hdr ''saddr'' (ipv6_packet h payload) 0 = Some (f6_saddr h)"
  "member_addr6 ipv6hdr ''daddr'' (ipv6_packet h payload) 0 = Some (f6_daddr h)"
proof -
  show "ip_version (ipv6_packet h payload) 0 = Some 6"
    by (simp add: ip_version_def member8_def load8_def ipv6_packet_def version_nibble6
        split: prod.split)
  show "member8 ipv6hdr ''nexthdr'' (ipv6_packet h payload) 0 = Some (f6_nexthdr h)"
    by (simp add: member8_def load8_def ipv6_packet_def bytes16_def split: prod.split)
  show "member_addr6 ipv6hdr ''saddr'' (ipv6_packet h payload) 0 = Some (f6_saddr h)"
    unfolding ipv6_packet_prefix
    by (rule member_addr6_at) (simp add: length_ipv6_prefix)
  show "member_addr6 ipv6hdr ''daddr'' (ipv6_packet h payload) 0 = Some (f6_daddr h)"
    using member_addr6_at [of ipv6hdr "''daddr''" "ipv6_prefix h @ addr6_bytes (f6_saddr h)"
        "f6_daddr h" payload]
    by (simp add: ipv6_packet_prefix length_ipv6_prefix)
qed

lemma packet_flow_ipv6:
  assumes not_lo: "f6_saddr h \<noteq> ipv6_lo" "f6_daddr h \<noteq> ipv6_lo"
    and l4: "l4_header_min (f6_nexthdr h) \<le> 4 + length rest"
  shows "packet_flow (ipv6_packet h (bytes16 s @ bytes16 d @ rest)) =
    Some (V6_key \<lparr>v6_src_ip = f6_saddr h, v6_dst_ip = f6_daddr h,
                   v6_l4 = ports_l4 (f6_nexthdr h) s d\<rparr>)"
proof -
  let ?l4 = "bytes16 s @ bytes16 d @ rest"
  let ?bs = "ipv6_packet h ?l4"
  obtain hdr where hdr: "?bs = hdr @ ?l4" "length hdr = 40"
  proof
    show "?bs = take 40 ?bs @ ?l4"
      by (cases "f6_class_flow h") (simp add: ipv6_packet_def)
    show "length (take 40 ?bs) = 40"
      by (cases "f6_class_flow h") (simp add: ipv6_packet_def)
  qed
  have l4r: "read_l4 ?bs 40 (zero_l4\<lparr>ip_proto := f6_nexthdr h\<rparr>) =
      Some (Continue (ports_l4 (f6_nexthdr h) s d))"
    using read_l4_at [of 40 hdr ?l4] read_l4_zero_ports [OF l4] hdr by simp
  have len: "\<not> length ?bs < 40" by (simp add: hdr)
  have key: "read_v6_key ?bs = Some (Continue \<lparr>v6_src_ip = f6_saddr h, v6_dst_ip = f6_daddr h,
                   v6_l4 = ports_l4 (f6_nexthdr h) s d\<rparr>)"
    using not_lo l4r len by (simp add: read_v6_key_def ipv6_loads Let_def)
  show ?thesis
    using len by (simp add: packet_flow_def ipv6_loads key)
qed

end
