(* ===== verification/Flow_Races.thy ===== *)
theory Flow_Races
  imports Flow_Accounting
begin

text \<open>
  Packets of one flow are handled on several CPUs at once. The program takes no lock:
  its shared accesses are the lookup, the insertion of a fresh entry, and two atomic
  adds (\<open>bpf_cgroup_kern.c\<close>, from the lookup to the end of the function). Here each
  CPU is at one of these accesses and a step of the system is one access of one CPU,
  in any order.
\<close>

section \<open>CPUs and their steps\<close>

datatype pc = At_lookup | At_update | At_bytes | At_packets | Done

record 'k cpu =
  cpu_key :: 'k
  cpu_dir :: cgroup_direction
  cpu_len :: u32
  cpu_pc :: pc
  cpu_ret :: "int option"

definition add_bytes :: "cgroup_direction \<Rightarrow> u32 \<Rightarrow> flow_stats \<Rightarrow> flow_stats" where
  "add_bytes dir len v =
     (if dir = CGROUP_INGRESS then v\<lparr>out_bytes := out_bytes v + ucast len\<rparr>
      else v\<lparr>in_bytes := in_bytes v + ucast len\<rparr>)"

definition add_packet :: "cgroup_direction \<Rightarrow> flow_stats \<Rightarrow> flow_stats" where
  "add_packet dir v =
     (if dir = CGROUP_INGRESS then v\<lparr>out_packets := out_packets v + 1\<rparr>
      else v\<lparr>in_packets := in_packets v + 1\<rparr>)"

type_synonym 'k shared = "'k \<rightharpoonup> flow_stats"

text \<open>
  \<open>update_ok\<close> is \<open>bpf_map_update_elem\<close> with \<open>BPF_ANY\<close>: it does not ask whether another
  CPU has inserted the key since the lookup. \<open>update_err\<close> is the same call when the map
  refuses the entry. \<open>cpu_ret\<close> is the variable \<open>ret\<close>, the code the call returns: zero
  exactly when the entry is in the map.
\<close>

inductive cpu_step :: "'k shared \<Rightarrow> 'k cpu \<Rightarrow> 'k shared \<Rightarrow> 'k cpu \<Rightarrow> bool" where
  lookup_hit: "cpu_pc c = At_lookup \<Longrightarrow> M (cpu_key c) = Some v \<Longrightarrow>
     cpu_step M c M (c\<lparr>cpu_pc := At_bytes\<rparr>)"
| lookup_miss: "cpu_pc c = At_lookup \<Longrightarrow> M (cpu_key c) = None \<Longrightarrow>
     cpu_step M c M (c\<lparr>cpu_pc := At_update\<rparr>)"
| update_ok: "cpu_pc c = At_update \<Longrightarrow>
     cpu_step M c (M(cpu_key c \<mapsto> packet_stats (cpu_dir c) (cpu_len c)))
       (c\<lparr>cpu_pc := Done, cpu_ret := Some 0\<rparr>)"
| update_err: "cpu_pc c = At_update \<Longrightarrow> r \<noteq> 0 \<Longrightarrow>
     cpu_step M c M (c\<lparr>cpu_pc := Done, cpu_ret := Some r\<rparr>)"
| fetch_add_bytes: "cpu_pc c = At_bytes \<Longrightarrow> M (cpu_key c) = Some v \<Longrightarrow>
     cpu_step M c (M(cpu_key c \<mapsto> add_bytes (cpu_dir c) (cpu_len c) v)) (c\<lparr>cpu_pc := At_packets\<rparr>)"
| fetch_add_packets: "cpu_pc c = At_packets \<Longrightarrow> M (cpu_key c) = Some v \<Longrightarrow>
     cpu_step M c (M(cpu_key c \<mapsto> add_packet (cpu_dir c) v)) (c\<lparr>cpu_pc := Done\<rparr>)"

type_synonym 'k sys = "'k shared \<times> 'k cpu list"

inductive sys_step :: "'k sys \<Rightarrow> 'k sys \<Rightarrow> bool" where
  cpu: "cpu_step M c M' c' \<Longrightarrow> sys_step (M, xs @ c # ys) (M', xs @ c' # ys)"

inductive_cases cpu_stepE: "cpu_step M c M' c'"
inductive_cases sys_stepE: "sys_step (M, cs) t"

abbreviation sys_steps :: "'k sys \<Rightarrow> 'k sys \<Rightarrow> bool" where
  "sys_steps \<equiv> sys_step\<^sup>*\<^sup>*"

definition start_cpu :: "'k \<Rightarrow> cgroup_direction \<Rightarrow> u32 \<Rightarrow> 'k cpu" where
  "start_cpu k dir len =
     \<lparr>cpu_key = k, cpu_dir = dir, cpu_len = len, cpu_pc = At_lookup, cpu_ret = None\<rparr>"

definition end_cpu :: "'k \<Rightarrow> cgroup_direction \<Rightarrow> u32 \<Rightarrow> int option \<Rightarrow> 'k cpu" where
  "end_cpu k dir len ret =
     \<lparr>cpu_key = k, cpu_dir = dir, cpu_len = len, cpu_pc = Done, cpu_ret = ret\<rparr>"

text \<open>The line \<open>bpf_trace_printk\<close> prints for a return code.\<close>

definition reported :: "string \<Rightarrow> int option \<Rightarrow> (string \<times> int) list" where
  "reported fmt ret = (case ret of None \<Rightarrow> [] | Some r \<Rightarrow> if r \<noteq> 0 then [(fmt, r)] else [])"

definition all_start :: "'k cpu list \<Rightarrow> bool" where
  "all_start cs \<longleftrightarrow> (\<forall>c \<in> set cs. cpu_pc c = At_lookup)"

definition all_done :: "'k cpu list \<Rightarrow> bool" where
  "all_done cs \<longleftrightarrow> (\<forall>c \<in> set cs. cpu_pc c = Done)"

section \<open>What a CPU still has to add\<close>

definition pending :: "'k cpu \<Rightarrow> flow_stats" where
  "pending c =
     (case cpu_pc c of
        Done \<Rightarrow> zero_stats
      | At_packets \<Rightarrow> add_packet (cpu_dir c) zero_stats
      | _ \<Rightarrow> packet_stats (cpu_dir c) (cpu_len c))"

fun pending_sum :: "'k \<Rightarrow> 'k cpu list \<Rightarrow> flow_stats" where
  "pending_sum k [] = zero_stats"
| "pending_sum k (c # cs) =
     (if cpu_key c = k then add_stats (pending c) (pending_sum k cs) else pending_sum k cs)"

lemma add_stats_comm: "add_stats a b = add_stats b a"
  by (simp add: add_stats_def add.commute)

lemma add_stats_left_comm: "add_stats a (add_stats b c) = add_stats b (add_stats a c)"
  by (simp add: add_stats_def add.left_commute)

lemmas add_stats_ac = add_stats_assoc add_stats_comm add_stats_left_comm

lemma add_stats_zero [simp]: "add_stats v zero_stats = v"
  by (cases v) (simp add: add_stats_def)

lemma pending_sum_mid:
  "pending_sum k (xs @ c # ys) =
     add_stats (if cpu_key c = k then pending c else zero_stats) (pending_sum k (xs @ ys))"
  by (induction xs) (auto simp: add_stats_ac)

lemma add_packet_stats: "add_packet dir v = add_stats v (add_packet dir zero_stats)"
  by (cases dir; cases v) (simp_all add: add_packet_def add_stats_def)

lemma add_bytes_packet:
  "add_packet dir (add_bytes dir len v) = add_stats v (packet_stats dir len)"
  by (cases dir) (simp_all add: add_bytes_def add_packet_def packet_stats_def add_stats_def)

lemma pending_sum_done: "all_done cs \<Longrightarrow> pending_sum k cs = zero_stats"
  by (induction cs) (auto simp: all_done_def pending_def)

section \<open>Present entries are counted exactly under every schedule\<close>

definition keys_present :: "'k shared \<Rightarrow> 'k cpu list \<Rightarrow> bool" where
  "keys_present M cs \<longleftrightarrow> (\<forall>c \<in> set cs. M (cpu_key c) \<noteq> None \<and> cpu_pc c \<noteq> At_update)"

definition expected :: "'k sys \<Rightarrow> 'k \<Rightarrow> flow_stats option" where
  "expected S k = map_option (\<lambda>v. add_stats v (pending_sum k (snd S))) (fst S k)"

lemma cpu_step_frame:
  "cpu_step M c M' c' \<Longrightarrow> cpu_key c' = cpu_key c \<and> cpu_dir c' = cpu_dir c \<and>
     cpu_len c' = cpu_len c \<and> dom M \<subseteq> dom M' \<and> (\<forall>k. k \<noteq> cpu_key c \<longrightarrow> M' k = M k)"
  by (erule cpu_stepE) auto

lemma cpu_step_expected:
  assumes "cpu_step M c M' c'" and "cpu_pc c \<noteq> At_update" and "M (cpu_key c) \<noteq> None"
  shows "map_option (\<lambda>v. add_stats v (pending c')) (M' (cpu_key c)) =
         map_option (\<lambda>v. add_stats v (pending c)) (M (cpu_key c))"
  using assms
  by (auto elim!: cpu_stepE simp: pending_def add_bytes_packet add_packet_stats [symmetric])

lemma cpu_step_present:
  assumes "cpu_step M c M' c'" and "M (cpu_key c) \<noteq> None" and "cpu_pc c \<noteq> At_update"
  shows "cpu_pc c' \<noteq> At_update"
  using assms by (auto elim!: cpu_stepE)

lemma sys_step_present:
  assumes "sys_step (M, cs) (M', cs')" and "keys_present M cs"
  shows "keys_present M' cs'" "expected (M', cs') = expected (M, cs)"
proof -
  from assms(1) obtain xs c ys c' where
    cs: "cs = xs @ c # ys" "cs' = xs @ c' # ys" and step: "cpu_step M c M' c'"
    by (auto elim!: sys_stepE)
  note frame = cpu_step_frame [OF step]
  have here: "M (cpu_key c) \<noteq> None" "cpu_pc c \<noteq> At_update"
    using assms(2) by (auto simp: keys_present_def cs)
  show "keys_present M' cs'"
    using assms(2) frame cpu_step_present [OF step here] by (auto simp: keys_present_def cs)
  show "expected (M', cs') = expected (M, cs)"
  proof
    fix k
    show "expected (M', cs') k = expected (M, cs) k"
    proof (cases "k = cpu_key c")
      case True
      have "map_option (\<lambda>v. add_stats (add_stats v (pending c')) (pending_sum k (xs @ ys))) (M' k) =
            map_option (\<lambda>v. add_stats (add_stats v (pending c)) (pending_sum k (xs @ ys))) (M k)"
        using cpu_step_expected [OF step here(2,1)] True
        by (cases "M' k"; cases "M k") auto
      then show ?thesis
        using True frame by (simp add: expected_def cs pending_sum_mid add_stats_assoc)
    next
      case False
      then show ?thesis using frame by (simp add: expected_def cs pending_sum_mid)
    qed
  qed
qed

lemma sys_steps_present:
  assumes "sys_steps S T" and "keys_present (fst S) (snd S)"
  shows "keys_present (fst T) (snd T) \<and> expected T = expected S"
  using assms
proof (induction rule: rtranclp_induct)
  case base
  then show ?case by simp
next
  case (step T U)
  then show ?case using sys_step_present [of "fst T" "snd T" "fst U" "snd U"] by simp
qed

section \<open>No schedule counts a packet twice\<close>

definition packets_in :: "flow_stats \<Rightarrow> nat" where
  "packets_in v = unat (out_packets v) + unat (in_packets v)"

definition added :: "'k \<Rightarrow> 'k cpu list \<Rightarrow> nat" where
  "added k cs = length (filter (\<lambda>c. cpu_key c = k \<and> cpu_pc c = Done) cs)"

definition packets_at :: "'k shared \<Rightarrow> 'k \<Rightarrow> nat" where
  "packets_at M k = (case M k of None \<Rightarrow> 0 | Some v \<Rightarrow> packets_in v)"

lemma added_mid: "added k (xs @ c # ys) =
    added k (xs @ ys) + (if cpu_key c = k \<and> cpu_pc c = Done then 1 else 0)"
  by (simp add: added_def)

lemma unat_inc: "unat (w + 1 :: u64) \<le> Suc (unat w)"
  using unat_plus_simple [of w 1] unat_word_ariths(1) [of w 1] by (simp add: mod_le_divisor)

lemma packets_in_add_packet: "packets_in (add_packet dir v) \<le> Suc (packets_in v)"
  using unat_inc [of "out_packets v"] unat_inc [of "in_packets v"]
  by (auto simp: packets_in_def add_packet_def)

lemma packets_in_add_bytes [simp]: "packets_in (add_bytes dir len v) = packets_in v"
  by (simp add: packets_in_def add_bytes_def)

lemma packets_in_packet [simp]: "packets_in (packet_stats dir len) = 1"
  by (cases dir) (simp_all add: packets_in_def packet_stats_def)

lemma sys_step_packets:
  assumes "sys_step (M, cs) (M', cs')" and "packets_at M k \<le> n + added k cs"
  shows "packets_at M' k \<le> n + added k cs'"
proof -
  from assms(1) obtain xs c ys c' where
    cs: "cs = xs @ c # ys" "cs' = xs @ c' # ys" and step: "cpu_step M c M' c'"
    by (auto elim!: sys_stepE)
  show ?thesis
  proof (cases "k = cpu_key c")
    case True
    show ?thesis
      using step assms(2) packets_in_add_packet True
      by (cases rule: cpu_step.cases)
         (fastforce simp: cs added_mid packets_at_def intro: le_trans)+
  next
    case False
    then show ?thesis
      using cpu_step_frame [OF step] assms(2) by (simp add: cs added_mid packets_at_def)
  qed
qed

lemma sys_steps_packets:
  assumes "sys_steps S T" and "packets_at (fst S) k \<le> n + added k (snd S)"
  shows "packets_at (fst T) k \<le> n + added k (snd T)"
  using assms
proof (induction rule: rtranclp_induct)
  case base
  then show ?case by simp
next
  case (step T U)
  then show ?case using sys_step_packets [of "fst T" "snd T" "fst U" "snd U"] by simp
qed

section \<open>One CPU on its own runs the program's code\<close>

text \<open>
  The steps are the shared accesses of \<open>count_flow\<close>: run alone, a CPU takes the map
  from the contents before the call to the contents after it, and to no others.
\<close>

lemma sys_step_single: "cpu_step M c M' c' \<Longrightarrow> sys_step (M, [c]) (M', [c'])"
  using sys_step.cpu [of M c M' c' "[]" "[]"] by simp

lemma single_hit:
  assumes "M k = Some v"
  shows "sys_steps (M, [start_cpu k dir len])
    (M(k \<mapsto> add_stats v (packet_stats dir len)), [end_cpu k dir len None])"
proof -
  let ?c = "start_cpu k dir len"
  let ?M1 = "M(k \<mapsto> add_bytes dir len v)"
  have "sys_step (M, [?c]) (M, [?c\<lparr>cpu_pc := At_bytes\<rparr>])"
    using assms by (intro sys_step_single lookup_hit [where v = v]) (simp_all add: start_cpu_def)
  moreover have "sys_step (M, [?c\<lparr>cpu_pc := At_bytes\<rparr>]) (?M1, [?c\<lparr>cpu_pc := At_packets\<rparr>])"
    using sys_step_single [OF fetch_add_bytes [of "?c\<lparr>cpu_pc := At_bytes\<rparr>" M v]] assms
    by (simp add: start_cpu_def)
  moreover have "sys_step (?M1, [?c\<lparr>cpu_pc := At_packets\<rparr>])
      (M(k \<mapsto> add_stats v (packet_stats dir len)), [end_cpu k dir len None])"
    using sys_step_single [OF fetch_add_packets [of "?c\<lparr>cpu_pc := At_packets\<rparr>" ?M1
          "add_bytes dir len v"]]
    by (simp add: start_cpu_def end_cpu_def add_bytes_packet)
  ultimately show ?thesis by (meson rtranclp.rtrancl_into_rtrancl rtranclp.rtrancl_refl)
qed

lemma single_miss:
  assumes "M k = None"
    and "M' = (if r = 0 then M(k \<mapsto> packet_stats dir len) else M)"
  shows "sys_steps (M, [start_cpu k dir len]) (M', [end_cpu k dir len (Some r)])"
proof -
  let ?c = "start_cpu k dir len"
  have "sys_step (M, [?c]) (M, [?c\<lparr>cpu_pc := At_update\<rparr>])"
    using assms by (intro sys_step_single lookup_miss) (simp_all add: start_cpu_def)
  moreover have "sys_step (M, [?c\<lparr>cpu_pc := At_update\<rparr>]) (M', [end_cpu k dir len (Some r)])"
    using sys_step_single [OF update_ok [of "?c\<lparr>cpu_pc := At_update\<rparr>" M]]
      sys_step_single [OF update_err [of "?c\<lparr>cpu_pc := At_update\<rparr>" r M]] assms(2)
    by (auto simp: start_cpu_def end_cpu_def)
  ultimately show ?thesis by (meson rtranclp.rtrancl_into_rtrancl rtranclp.rtrancl_refl)
qed

text \<open>Everything one CPU can come to on its own.\<close>

definition lone :: "'k shared \<Rightarrow> 'k \<Rightarrow> cgroup_direction \<Rightarrow> u32 \<Rightarrow> 'k sys \<Rightarrow> bool" where
  "lone M k dir len S \<longleftrightarrow>
     S = (M, [start_cpu k dir len]) \<or>
     (case M k of
        None \<Rightarrow>
          S = (M, [(start_cpu k dir len)\<lparr>cpu_pc := At_update\<rparr>]) \<or>
          (\<exists>r. S = (if r = 0 then M(k \<mapsto> packet_stats dir len) else M, [end_cpu k dir len (Some r)]))
      | Some v \<Rightarrow>
          S = (M, [(start_cpu k dir len)\<lparr>cpu_pc := At_bytes\<rparr>]) \<or>
          S = (M(k \<mapsto> add_bytes dir len v), [(start_cpu k dir len)\<lparr>cpu_pc := At_packets\<rparr>]) \<or>
          S = (M(k \<mapsto> add_stats v (packet_stats dir len)), [end_cpu k dir len None]))"

lemma lone_step:
  assumes "sys_step S T" and "lone M k dir len S"
  shows "lone M k dir len T"
proof -
  from assms(2) obtain M1 c where S: "S = (M1, [c])" by (auto simp: lone_def split: option.splits)
  with assms(1) obtain M2 c' where T: "T = (M2, [c'])" and step: "cpu_step M1 c M2 c'"
    by (auto elim!: sys_stepE simp: Cons_eq_append_conv)
  have idle: False if "cpu_pc c = Done" using step that by cases simp_all
  show ?thesis
  proof (cases "M k")
    case None
    from assms(2) consider "M1 = M" "c = start_cpu k dir len"
      | "M1 = M" "c = (start_cpu k dir len)\<lparr>cpu_pc := At_update\<rparr>" | "cpu_pc c = Done"
      by (auto simp: lone_def S None end_cpu_def)
    then show ?thesis
    proof cases
      case 1
      from step show ?thesis by cases (simp_all add: lone_def T 1 None start_cpu_def)
    next
      case 2
      from step show ?thesis
      proof cases
        case update_ok
        then have "T = (if (0::int) = 0 then M(k \<mapsto> packet_stats dir len) else M, [end_cpu k dir len (Some 0)])"
          by (simp add: T 2 start_cpu_def end_cpu_def)
        then show ?thesis unfolding lone_def None by (simp only: option.case) blast
      next
        case (update_err r)
        then have "T = (if r = 0 then M(k \<mapsto> packet_stats dir len) else M, [end_cpu k dir len (Some r)])"
          by (simp add: T 2 start_cpu_def end_cpu_def)
        then show ?thesis unfolding lone_def None by (simp only: option.case) blast
      qed (simp_all add: 2 start_cpu_def)
    qed (use idle in blast)
  next
    case (Some v)
    from assms(2) consider "M1 = M" "c = start_cpu k dir len"
      | "M1 = M" "c = (start_cpu k dir len)\<lparr>cpu_pc := At_bytes\<rparr>"
      | "M1 = M(k \<mapsto> add_bytes dir len v)" "c = (start_cpu k dir len)\<lparr>cpu_pc := At_packets\<rparr>"
      | "cpu_pc c = Done"
      by (auto simp: lone_def S Some end_cpu_def)
    then show ?thesis
    proof cases
      case 1
      from step show ?thesis by cases (simp_all add: lone_def T 1 Some start_cpu_def)
    next
      case 2
      from step show ?thesis by cases (simp_all add: lone_def T 2 Some start_cpu_def)
    next
      case 3
      from step show ?thesis
        by cases (auto simp: lone_def T 3 Some start_cpu_def end_cpu_def add_bytes_packet)
    qed (use idle in blast)
  qed
qed

lemma lone_runs: "sys_steps (M, [start_cpu k dir len]) S \<Longrightarrow> lone M k dir len S"
proof (induction rule: rtranclp_induct)
  case base
  show ?case by (simp add: lone_def)
next
  case (step S T)
  show ?case by (rule lone_step [OF step.hyps(2) step.IH])
qed

lemma lone_end:
  "sys_steps (M, [start_cpu k dir len]) (M', [end_cpu k dir len ret]) \<longleftrightarrow>
     (case M k of
        None \<Rightarrow> \<exists>r. ret = Some r \<and> M' = (if r = 0 then M(k \<mapsto> packet_stats dir len) else M)
      | Some v \<Rightarrow> ret = None \<and> M' = M(k \<mapsto> add_stats v (packet_stats dir len)))" (is "?l \<longleftrightarrow> ?r")
proof
  assume ?l
  from lone_runs [OF this] show ?r
    by (auto simp: lone_def start_cpu_def end_cpu_def split: option.splits)
next
  assume ?r
  then show ?l by (auto intro!: single_hit single_miss split: option.splits)
qed

context bpf_map
begin

lemma count_flow_one_cpu:
  assumes "count_flow ops fmt len dir k m = (m', tr)"
  shows "(\<exists>ret. sys_steps (lookup_elem ops m, [start_cpu k dir len]) (M, [end_cpu k dir len ret]) \<and>
      reported fmt ret = tr) \<longleftrightarrow> M = lookup_elem ops m'"
  using assms
proof (cases rule: count_flow_cases)
  case counted
  then show ?thesis
    by (cases "lookup_elem ops m k") (auto simp: lone_end reported_def split: if_splits)
next
  case (refused r)
  then show ?thesis by (auto simp: lone_end reported_def split: if_splits)
qed

end

section \<open>Two first packets at once\<close>

text \<open>
  Both CPUs look the new flow up before either has inserted it; the second insertion
  replaces the first. The schedule below ends with one packet in the entry.
\<close>

lemma race_run:
  fixes k :: 'k
  assumes "M k = None"
  shows "sys_steps (M, [start_cpu k d1 n1, start_cpu k d2 n2])
    (M(k \<mapsto> packet_stats d2 n2), [end_cpu k d1 n1 (Some 0), end_cpu k d2 n2 (Some 0)])"
proof -
  let ?a = "start_cpu k d1 n1" and ?b = "start_cpu k d2 n2"
  let ?a1 = "?a\<lparr>cpu_pc := At_update\<rparr>" and ?b1 = "?b\<lparr>cpu_pc := At_update\<rparr>"
  let ?a2 = "end_cpu k d1 n1 (Some 0)" and ?b2 = "end_cpu k d2 n2 (Some 0)"
  let ?M1 = "M(k \<mapsto> packet_stats d1 n1)"
  have 1: "sys_step (M, [?a, ?b]) (M, [?a1, ?b])"
    using sys_step.cpu [OF lookup_miss [of ?a M], of "[]" "[?b]"] assms
    by (simp add: start_cpu_def)
  have 2: "sys_step (M, [?a1, ?b]) (M, [?a1, ?b1])"
    using sys_step.cpu [OF lookup_miss [of ?b M], of "[?a1]" "[]"] assms
    by (simp add: start_cpu_def)
  have 3: "sys_step (M, [?a1, ?b1]) (?M1, [?a2, ?b1])"
    using sys_step.cpu [OF update_ok [of ?a1 M], of "[]" "[?b1]"] by (simp add: start_cpu_def end_cpu_def)
  have 4: "sys_step (?M1, [?a2, ?b1]) (M(k \<mapsto> packet_stats d2 n2), [?a2, ?b2])"
    using sys_step.cpu [OF update_ok [of ?b1 ?M1], of "[?a2]" "[]"] by (simp add: start_cpu_def end_cpu_def)
  from 1 2 3 4 show ?thesis by (meson rtranclp.rtrancl_into_rtrancl rtranclp.rtrancl_refl)
qed

end
