(* ===== verification/Kernel_Properties.thy ===== *)
theory Kernel_Properties
  imports Packet_Format Flow_Races Endian
begin

text \<open>
  The properties of the packet program and its data: safety and exactness of the
  accounting, the wire format, the memory layout the two sides of the maps share, and
  what concurrency does to the counts. The first section holds the concrete packets
  and maps the witnesses run the program on.
\<close>

section \<open>Sample inputs\<close>

text \<open>A 60-byte TCP segment 10.0.0.1:8080 to 10.0.0.2:80, its reply, and empty maps.\<close>

definition sample_request :: sk_buff where
  "sample_request = \<lparr>skb_len = 60, skb_data =
     [0x45, 0, 0, 40, 0, 1, 0, 0, 64, 6, 0, 0, 10, 0, 0, 1, 10, 0, 0, 2,
      0x1f, 0x90, 0, 80, 0, 0, 0, 0, 0, 0, 0, 0, 0x50, 2, 0, 0, 0, 0, 0, 0]\<rparr>"

definition sample_reply :: sk_buff where
  "sample_reply = \<lparr>skb_len = 1500, skb_data =
     [0x45, 0, 0, 40, 0, 1, 0, 0, 64, 6, 0, 0, 10, 0, 0, 2, 10, 0, 0, 1,
      0, 80, 0x1f, 0x90, 0, 0, 0, 0, 0, 0, 0, 0, 0x50, 2, 0, 0, 0, 0, 0, 0]\<rparr>"

definition sample_key :: inet_v4_flow where
  "sample_key = \<lparr>v4_src_ip = 0x0100000a, v4_dst_ip = 0x0200000a,
     v4_l4 = \<lparr>ip_proto = 6, padding = (0, 0, 0), sport = 0x901f, dport = 0x5000\<rparr>\<rparr>"

definition empty_state ::
    "nat \<Rightarrow> (inet_v4_flow hash_map, inet_v6_flow hash_map) kernel_state" where
  "empty_state n =
     \<lparr>v4_map = \<lparr>hm_entries = [], hm_capacity = n\<rparr>,
      v6_map = \<lparr>hm_entries = [], hm_capacity = n\<rparr>, trace = []\<rparr>"

definition state_after ::
    "packet list \<Rightarrow> nat \<Rightarrow> (inet_v4_flow hash_map, inet_v6_flow hash_map) kernel_state" where
  "state_after ps n = the (run_reader hash_ops hash_ops ps (empty_state n))"

lemma run_state_after:
  "run_reader hash_ops hash_ops ps (empty_state n) = Some (state_after ps n)"
  using run_reader_total [of hash_ops hash_ops ps "empty_state n"] by (auto simp: state_after_def)

lemma step_state_after:
  "bpf_flow_reader hash_ops hash_ops skb dir (empty_state n) = Some (1, state_after [(skb, dir)] n)"
  by (simp add: state_after_def reader_eq)

lemma sample_request_flow: "packet_flow (skb_data sample_request) = Some (V4_key sample_key)"
  by code_simp

lemma sample_reply_flow:
  "packet_flow (skb_data sample_reply) = Some (V4_key (reverse_v4 sample_key))"
  by code_simp

lemma sample_trace:
  "trace (state_after [(sample_request, CGROUP_INGRESS), (sample_reply, CGROUP_EGRESS)] 4) = []"
  by code_simp

lemma sample_full_trace:
  "trace (state_after [(sample_request, CGROUP_INGRESS)] 0) = [(v4_fmt, - E2BIG)]"
  by code_simp

section \<open>The packet program\<close>

text \<open>
  C1: On every packet, whatever its bytes and whatever the maps do, both programs
  finish without reading past the end of the packet and return 1, so no packet is
  ever dropped.
\<close>

theorem reader_never_faults_never_drops:
  "(\<exists>s'. bpf_ingress_flow_reader ops4 ops6 skb s = Some (1, s')) \<and>
   (\<exists>s'. bpf_egress_flow_reader ops4 ops6 skb s = Some (1, s'))"
  by (simp add: bpf_ingress_flow_reader_def bpf_egress_flow_reader_def reader_eq)

text \<open>
  C2: A packet is accounted exactly or reported. With any flow maps that obey the
  helper laws, one run of the program either adds the packet's length and one packet to
  the entry of its normalised flow (creating it when absent) and touches no other flow
  and no trace line, or the map refused a new entry, all flows are as before and exactly
  one line with the error code is traced. A packet the reader skips changes nothing.
\<close>

theorem reader_accounts_or_reports:
  assumes "flow_maps ops4 ops6"
    and "bpf_flow_reader ops4 ops6 skb dir s = Some (c, s')"
  shows "(trace s' = trace s \<and>
          flow_view ops4 ops6 s' = account_packet (skb, dir) (flow_view ops4 ops6 s)) \<or>
         (\<exists>f fmt r. r \<noteq> 0 \<and> trace s' = trace s @ [(fmt, r)] \<and> packet_key (skb, dir) = Some f \<and>
            flow_view ops4 ops6 s f = None \<and> flow_view ops4 ops6 s' = flow_view ops4 ops6 s)"
  by (rule flow_maps.reader_step [OF assms])

theorem reader_accounts_or_reports_witness:
  "flow_view hash_ops hash_ops (state_after [(sample_request, CGROUP_INGRESS)] 0) =
     flow_view hash_ops hash_ops (empty_state 0)"
proof -
  have "trace (empty_state 0) = []" by (simp add: empty_state_def)
  then show ?thesis
    using reader_accounts_or_reports [OF hash_maps.flow_maps_axioms
        step_state_after [of sample_request CGROUP_INGRESS 0]] sample_full_trace
    by auto
qed

text \<open>
  C3: Over any sequence of packets that leaves no trace line, the maps hold exactly the
  sums: for every flow, out_bytes and out_packets grow by the lengths and the number of
  its ingress packets, in_bytes and in_packets by those of its egress packets (as 64-bit
  counters, wrapping), and an entry exists exactly for the flows that had one or had a
  packet.
\<close>

theorem reader_counts_are_sums:
  assumes "flow_maps ops4 ops6"
    and "run_reader ops4 ops6 ps s = Some s'" and "trace s' = trace s"
  shows "balance (flow_view ops4 ops6 s') f =
           add_stats (balance (flow_view ops4 ops6 s) f) (flow_total ps f) \<and>
         dom (flow_view ops4 ops6 s') =
           dom (flow_view ops4 ops6 s) \<union> {f. \<exists>p \<in> set ps. packet_key p = Some f}"
  using flow_maps.run_reader_account [OF assms] by (simp_all add: balance_fold dom_fold_account)

theorem reader_counts_are_sums_witness:
  "balance (flow_view hash_ops hash_ops
      (state_after [(sample_request, CGROUP_INGRESS), (sample_reply, CGROUP_EGRESS)] 4))
      (V4_key sample_key) =
     \<lparr>out_bytes = 60, out_packets = 1, in_bytes = 1500, in_packets = 1\<rparr>"
proof -
  let ?ps = "[(sample_request, CGROUP_INGRESS), (sample_reply, CGROUP_EGRESS)]"
  have quiet: "trace (state_after ?ps 4) = trace (empty_state 4)"
    by (simp add: sample_trace empty_state_def)
  have before: "balance (flow_view hash_ops hash_ops (empty_state 4)) (V4_key sample_key) = zero_stats"
    by (simp add: balance_def flow_view_def empty_state_def hash_ops_def hm_lookup_def)
  have "flow_total ?ps (V4_key sample_key) =
      \<lparr>out_bytes = 60, out_packets = 1, in_bytes = 1500, in_packets = 1\<rparr>"
    by code_simp
  then show ?thesis
    using reader_counts_are_sums [OF hash_maps.flow_maps_axioms run_state_after quiet,
        of "V4_key sample_key"] before
    by simp
qed

definition reverse_flow :: "flow_key \<Rightarrow> flow_key" where
  "reverse_flow f = (case f of V4_key k \<Rightarrow> V4_key (reverse_v4 k) | V6_key k \<Rightarrow> V6_key (reverse_v6 k))"

text \<open>
  C17: The two directions of a conversation share one entry: a packet seen on ingress
  and the reply packet, with addresses and ports exchanged, seen on egress are charged
  to the same key, the first in the "out" and the second in the "in" counters.
\<close>

theorem reply_shares_entry:
  assumes "packet_flow (skb_data a) = Some f"
    and "packet_flow (skb_data b) = Some (reverse_flow f)"
  shows "packet_key (a, CGROUP_INGRESS) = Some f \<and> packet_key (b, CGROUP_EGRESS) = Some f \<and>
     account_packet (b, CGROUP_EGRESS) (account_packet (a, CGROUP_INGRESS) Map.empty) =
       [f \<mapsto> \<lparr>out_bytes = ucast (skb_len a), out_packets = 1,
              in_bytes = ucast (skb_len b), in_packets = 1\<rparr>]"
proof -
  have keys: "packet_key (a, CGROUP_INGRESS) = Some f" "packet_key (b, CGROUP_EGRESS) = Some f"
    using assms
    by (auto simp: packet_key_def normalize_flow_def reverse_flow_def split: flow_key.splits)
  then show ?thesis
    by (simp add: account_packet_def balance_def packet_stats_def add_stats_def zero_stats_def)
qed

theorem reply_shares_entry_witness:
  "packet_key (sample_reply, CGROUP_EGRESS) = Some (V4_key sample_key)"
  using reply_shares_entry [of sample_request "V4_key sample_key" sample_reply]
    sample_request_flow sample_reply_flow
  by (simp add: reverse_flow_def)

text \<open>
  C18: Reading an IPv4 packet recovers the fields it was written from: for a header with
  any number of option words and a transport header that is complete for TCP or UDP,
  the reader's key is source, destination, protocol and (for TCP and UDP) the two ports,
  in wire byte order; for every other protocol the ports are zero.
\<close>

theorem ipv4_packet_read_back:
  assumes "length opts = 4 * n" "n \<le> 10"
    and "f_saddr h \<noteq> IPV4_LOOPBACK" "f_daddr h \<noteq> IPV4_LOOPBACK"
    and "l4_header_min (f_protocol h) \<le> 4 + length rest"
  shows "read_v4_key (ipv4_packet h opts (bytes16 s @ bytes16 d @ rest)) =
    Some (Continue \<lparr>v4_src_ip = f_saddr h, v4_dst_ip = f_daddr h,
                     v4_l4 = ports_l4 (f_protocol h) s d\<rparr>)"
  using packet_flow_ipv4 [OF assms, of s d]
  by (auto simp: packet_flow_def split: if_splits option.splits outcome.splits)

definition sample_header :: "u8 \<Rightarrow> ipv4_fields" where
  "sample_header proto =
     \<lparr>f_tos = 0, f_tot_len = 0x2800, f_id = 0x0100, f_frag_off = 0, f_ttl = 64,
      f_protocol = proto, f_check = 0, f_saddr = 0x0100000a, f_daddr = 0x0200000a\<rparr>"

theorem ipv4_packet_read_back_witness:
  "read_v4_key (ipv4_packet (sample_header 17) [1, 1, 1, 0] (bytes16 0x3500 @ bytes16 0x901f @ [0, 8, 0, 0])) =
    Some (Continue \<lparr>v4_src_ip = 0x0100000a, v4_dst_ip = 0x0200000a,
      v4_l4 = \<lparr>ip_proto = 17, padding = (0, 0, 0), sport = 0x3500, dport = 0x901f\<rparr>\<rparr>)"
  using ipv4_packet_read_back [of "[1, 1, 1, 0]" 1 "sample_header 17" "[0, 8, 0, 0]" "0x3500" "0x901f"]
  by (simp add: sample_header_def IPV4_LOOPBACK_def l4_header_min_def ports_l4_def has_ports_def)

text \<open>
  C19: The same for IPv6: next header, the two addresses word by word, and the ports
  right after the 40-byte header, whatever traffic class and flow label.
\<close>

theorem ipv6_packet_read_back:
  assumes "f6_saddr h \<noteq> ipv6_lo" "f6_daddr h \<noteq> ipv6_lo"
    and "l4_header_min (f6_nexthdr h) \<le> 4 + length rest"
  shows "packet_flow (ipv6_packet h (bytes16 s @ bytes16 d @ rest)) =
    Some (V6_key \<lparr>v6_src_ip = f6_saddr h, v6_dst_ip = f6_daddr h,
                   v6_l4 = ports_l4 (f6_nexthdr h) s d\<rparr>)"
  by (rule packet_flow_ipv6 [OF assms])

theorem ipv6_packet_read_back_witness:
  "packet_flow (ipv6_packet \<lparr>f6_class_flow = (0, 0, 0, 0), f6_payload_len = 0x0800,
       f6_nexthdr = 17, f6_hop_limit = 64, f6_saddr = (0x80fe, 0, 0, 0x01000000),
       f6_daddr = (0x80fe, 0, 0, 0x02000000)\<rparr> (bytes16 0x3500 @ bytes16 0x901f @ [0, 8, 0, 0])) =
    Some (V6_key \<lparr>v6_src_ip = (0x80fe, 0, 0, 0x01000000), v6_dst_ip = (0x80fe, 0, 0, 0x02000000),
      v6_l4 = \<lparr>ip_proto = 17, padding = (0, 0, 0), sport = 0x3500, dport = 0x901f\<rparr>\<rparr>)"
  by (subst ipv6_packet_read_back)
     (simp_all add: ipv6_lo_def l4_header_min_def ports_l4_def has_ports_def)

text \<open>
  Loopback traffic is invisible: a complete IPv4 packet whose source or destination
  is 127.0.0.1 (in memory order) leaves the maps and the trace as they were, whatever
  its options and payload.
\<close>

theorem loopback_is_skipped:
  assumes "length opts = 4 * n" "n \<le> 10"
    and "f_saddr h = IPV4_LOOPBACK \<or> f_daddr h = IPV4_LOOPBACK"
  shows "bpf_flow_reader ops4 ops6 \<lparr>skb_len = len, skb_data = ipv4_packet h opts payload\<rparr> dir s =
    Some (1, s)"
proof -
  let ?bs = "ipv4_header_bytes h (length opts div 4) @ opts @ payload"
  have n: "length opts div 4 = n" using assms(1) by simp
  have "read_v4_key ?bs = Some (Return 1)"
    using assms(3) by (simp add: read_v4_key_def ipv4_header_loads Let_def)
  moreover have "ip_version ?bs 0 = Some 4"
    using version_nibble4 [OF assms(2)] by (simp only: ipv4_header_loads n)
  ultimately have "packet_flow (ipv4_packet h opts payload) = None"
    by (simp add: packet_flow_def ipv4_packet_def)
  then show ?thesis by (simp add: reader_eq)
qed

theorem loopback_is_skipped_witness:
  "bpf_flow_reader hash_ops hash_ops
     \<lparr>skb_len = 84, skb_data = ipv4_packet ((sample_header 1)\<lparr>f_saddr := 0x0100007f\<rparr>) [] [8, 0]\<rparr>
     CGROUP_INGRESS (empty_state 4) = Some (1, empty_state 4)"
  by (rule loopback_is_skipped [where n = 0]) (simp_all add: IPV4_LOOPBACK_def)









section \<open>Keys and counters in memory\<close>

text \<open>
  The map keys and values are plain data: the structures have no padding the
  compiler inserts, their sizes are multiples of 4 and are the key and value sizes of
  the map definitions, the bytes of a value have exactly that size, and two keys (two
  values) are equal exactly when their bytes are, so comparing keys by memory, as a hash
  map does, compares flows.
\<close>

theorem keys_are_plain_bytes:
  "no_padding (Struct inet_v4_flow_layout) \<and> no_padding (Struct inet_v6_flow_layout) \<and>
   no_padding (Struct flow_stats_layout) \<and>
   4 dvd def_key_size v4_flow_map \<and> 4 dvd def_key_size v6_flow_map \<and>
   length (v4_flow_bytes a) = def_key_size v4_flow_map \<and>
   length (v6_flow_bytes c) = def_key_size v6_flow_map \<and>
   length (flow_stats_bytes u) = def_value_size v4_flow_map \<and>
   def_value_size v6_flow_map = def_value_size v4_flow_map \<and>
   (v4_flow_bytes a = v4_flow_bytes b \<longleftrightarrow> a = b) \<and>
   (v6_flow_bytes c = v6_flow_bytes d \<longleftrightarrow> c = d) \<and>
   (flow_stats_bytes u = flow_stats_bytes w \<longleftrightarrow> u = w)"
proof -
  have "no_padding (Struct inet_v4_flow_layout)" "no_padding (Struct inet_v6_flow_layout)"
    "no_padding (Struct flow_stats_layout)"
    by code_simp+
  then show ?thesis
    by (simp add: v4_flow_map_def v6_flow_map_def v4_flow_bytes_inj v6_flow_bytes_inj
        flow_stats_bytes_inj)
qed

text \<open>
  The bytes of a key and of a value are laid out as the C declarations say: loading
  each member at its computed offset gives the member back (the transport part at the
  offset of \<open>l4\<close> plus its own offsets).
\<close>

theorem key_members_at_offsets:
  "member32 inet_v4_flow_layout ''src_ip'' (v4_flow_bytes k) 0 = Some (v4_src_ip k) \<and>
   member32 inet_v4_flow_layout ''dst_ip'' (v4_flow_bytes k) 0 = Some (v4_dst_ip k) \<and>
   member8 proto_port_layout ''ip_proto'' (drop (the (offset_of inet_v4_flow_layout ''l4'')) (v4_flow_bytes k)) 0
     = Some (ip_proto (v4_l4 k)) \<and>
   member16 proto_port_layout ''sport'' (drop (the (offset_of inet_v4_flow_layout ''l4'')) (v4_flow_bytes k)) 0
     = Some (sport (v4_l4 k)) \<and>
   member16 proto_port_layout ''dport'' (drop (the (offset_of inet_v4_flow_layout ''l4'')) (v4_flow_bytes k)) 0
     = Some (dport (v4_l4 k)) \<and>
   member_addr6 inet_v6_flow_layout ''src_ip'' (v6_flow_bytes k6) 0 = Some (v6_src_ip k6) \<and>
   member_addr6 inet_v6_flow_layout ''dst_ip'' (v6_flow_bytes k6) 0 = Some (v6_dst_ip k6) \<and>
   member64 flow_stats_layout ''out_bytes'' (flow_stats_bytes v) 0 = Some (out_bytes v) \<and>
   member64 flow_stats_layout ''out_packets'' (flow_stats_bytes v) 0 = Some (out_packets v) \<and>
   member64 flow_stats_layout ''in_bytes'' (flow_stats_bytes v) 0 = Some (in_bytes v) \<and>
   member64 flow_stats_layout ''in_packets'' (flow_stats_bytes v) 0 = Some (in_packets v)"
  by (simp add: v4_key_members v6_key_members stats_members proto_port_members)

text \<open>
  The byte order conversions of the program's header, 16, 32 and 64 bits wide,
  are inverse to each other in both byte orders, whether or not the argument is a
  compile-time constant, the constant forms agree with the builtins, and on this
  target the conversion reverses the bytes of the word.
\<close>

theorem byte_order_conversions:
  assumes "swab_header sw"
  shows "bpf_ntohs sw bo c (bpf_htons sw bo c' x) = x \<and> bpf_ntohl sw bo c (bpf_htonl sw bo c' y) = y \<and>
    bpf_be64_to_cpu sw bo c (bpf_cpu_to_be64 sw bo c' z) = z \<and>
    bpf_ntohs sw bo True x = bpf_ntohs sw bo False x \<and>
    bpf_ntohl sw bo True y = bpf_ntohl sw bo False y \<and>
    bpf_be64_to_cpu sw bo True z = bpf_be64_to_cpu sw bo False z \<and>
    bytes16 (bpf_ntohs sw Little c x) = rev (bytes16 x) \<and>
    bytes32 (bpf_ntohl sw Little c y) = rev (bytes32 y) \<and>
    bytes64 (bpf_be64_to_cpu sw Little c z) = rev (bytes64 z)"
  by (intro conjI)
     (rule swab_header.to_host_from_host [OF assms] swab_header.constant_irrelevant [OF assms]
       swab_header.little_endian_reverses [OF assms])+

theorem byte_order_conversions_witness:
  "bytes16 (bpf_ntohs shift_swab Little True 0x1f90) = [0x1f, 0x90] \<and>
   bpf_be64_to_cpu shift_swab Big True (bpf_cpu_to_be64 shift_swab Big False 7) = 7"
proof -
  have "rev (bytes16 0x1f90) = [0x1f, 0x90]" by code_simp
  moreover have "bytes16 (bpf_ntohs shift_swab Little True 0x1f90) = rev (bytes16 0x1f90)"
    using byte_order_conversions [OF shift.swab_header_axioms, of Little True False "0x1f90" 0 0]
    by (elim conjE)
  moreover have "bpf_be64_to_cpu shift_swab Big True (bpf_cpu_to_be64 shift_swab Big False 7) = 7"
    using byte_order_conversions [OF shift.swab_header_axioms, of Big True False 0 0 7]
    by (elim conjE)
  ultimately show ?thesis by metis
qed

section \<open>Concurrency\<close>

text \<open>
  C20: Once the flows have entries, the counts are exact under every interleaving: if
  every CPU starts at its lookup with its flow present and all have finished, each flow's
  counters are their initial values plus the contributions of all its packets, in
  whatever order the lookups and atomic adds of the CPUs were mixed.
\<close>

theorem present_flows_counted_exactly:
  assumes "sys_steps (M, cs) (M', cs')" and "all_start cs" and "all_done cs'"
    and "\<forall>c \<in> set cs. M (cpu_key c) \<noteq> None"
  shows "M' k = map_option (\<lambda>v. add_stats v (pending_sum k cs)) (M k)"
proof -
  have "keys_present M cs"
    using assms(2,4) by (auto simp: keys_present_def all_start_def)
  then have "expected (M', cs') = expected (M, cs)"
    using sys_steps_present [OF assms(1)] by simp
  then have "expected (M', cs') k = expected (M, cs) k" by simp
  then show ?thesis
    using pending_sum_done [OF assms(3)] by (simp add: expected_def option.map_ident)
qed

text \<open>
  C22: No interleaving counts a packet twice: with at most as many packets recorded
  initially as stated, an entry never holds more packets than the initial bound plus the
  number of CPUs that have finished with that flow.
\<close>

theorem no_packet_counted_twice:
  assumes "sys_steps (M, cs) (M', cs')" and "packets_at M k \<le> n" and "all_start cs"
  shows "packets_at M' k \<le> n + added k cs'"
  using sys_steps_packets [OF assms(1), of k n] assms(2) by simp

text \<open>
  C23: Two CPUs that both see the first packet of a flow can lose one of the two: there
  is an interleaving from a map without the flow in which both programs finish, both
  updates succeed, and the entry holds only the second packet.
\<close>

theorem first_packet_race_loses_a_packet:
  assumes "M k = None"
  shows "\<exists>M' cs'. sys_steps (M, [start_cpu k d1 n1, start_cpu k d2 n2]) (M', cs') \<and>
     all_done cs' \<and> list_all (\<lambda>c. cpu_ret c = Some 0) cs' \<and>
     M' k = Some (packet_stats d2 n2) \<and> packets_at M' k = 1"
proof (intro exI conjI)
  show "sys_steps (M, [start_cpu k d1 n1, start_cpu k d2 n2])
    (M(k \<mapsto> packet_stats d2 n2), [end_cpu k d1 n1 (Some 0), end_cpu k d2 n2 (Some 0)])"
    using assms by (rule race_run)
qed (simp_all add: all_done_def packets_at_def end_cpu_def)

text \<open>
  C21: The interleaving model is the program's: for any maps that obey the helper laws,
  the contents the program's counting code leaves, with the trace it prints, are exactly
  those one CPU of the model comes to when it runs alone from its lookup to its end and
  the update's return code is the one the trace shows. The code does nothing the model
  does not, and the model, alone, nothing the code does not.
\<close>

theorem counting_code_is_one_cpu:
  assumes "bpf_map ops" and "count_flow ops fmt len dir k m = (m', tr)"
  shows "(\<exists>ret. sys_steps (lookup_elem ops m, [start_cpu k dir len]) (M, [end_cpu k dir len ret]) \<and>
      reported fmt ret = tr) \<longleftrightarrow> M = lookup_elem ops m'"
  by (rule bpf_map.count_flow_one_cpu [OF assms])

theorem present_flows_counted_exactly_witness:
  "([sample_key \<mapsto> add_stats zero_stats (packet_stats CGROUP_EGRESS 60)] :: inet_v4_flow shared) sample_key =
   map_option (\<lambda>v. add_stats v (pending_sum sample_key [start_cpu sample_key CGROUP_EGRESS 60]))
     ([sample_key \<mapsto> zero_stats] sample_key)"
proof -
  let ?M = "[sample_key \<mapsto> zero_stats]"
  have run: "sys_steps (?M, [start_cpu sample_key CGROUP_EGRESS 60])
      (?M(sample_key \<mapsto> add_stats zero_stats (packet_stats CGROUP_EGRESS 60)),
       [end_cpu sample_key CGROUP_EGRESS 60 None])"
    by (rule single_hit) simp
  show ?thesis
    using present_flows_counted_exactly [OF run, of sample_key]
    by (simp add: all_start_def all_done_def start_cpu_def end_cpu_def)
qed

theorem no_packet_counted_twice_witness:
  "packets_at ([sample_key \<mapsto> packet_stats CGROUP_EGRESS 60] :: inet_v4_flow shared) sample_key \<le>
     0 + added sample_key [end_cpu sample_key CGROUP_INGRESS 9 (Some 0),
                           end_cpu sample_key CGROUP_EGRESS 60 (Some 0)]"
proof -
  have "sys_steps ((Map.empty :: inet_v4_flow shared),
        [start_cpu sample_key CGROUP_INGRESS 9, start_cpu sample_key CGROUP_EGRESS 60])
      ([sample_key \<mapsto> packet_stats CGROUP_EGRESS 60],
        [end_cpu sample_key CGROUP_INGRESS 9 (Some 0), end_cpu sample_key CGROUP_EGRESS 60 (Some 0)])"
    by (rule race_run) simp
  then show ?thesis
    by (rule no_packet_counted_twice) (simp_all add: packets_at_def all_start_def start_cpu_def)
qed

theorem first_packet_race_loses_a_packet_witness:
  "\<exists>M' cs'. sys_steps (Map.empty, [start_cpu sample_key CGROUP_INGRESS 60,
        start_cpu sample_key CGROUP_INGRESS 1500]) (M', cs') \<and> all_done cs' \<and>
     list_all (\<lambda>c. cpu_ret c = Some 0) cs' \<and> M' sample_key = Some (packet_stats CGROUP_INGRESS 1500) \<and> packets_at M' sample_key = 1"
  by (rule first_packet_race_loses_a_packet) simp

theorem counting_code_is_one_cpu_witness:
  "\<exists>m' ret. count_flow hash_ops v4_fmt 60 CGROUP_INGRESS sample_key \<lparr>hm_entries = [], hm_capacity = 4\<rparr> =
      (m', reported v4_fmt ret) \<and>
    lookup_elem hash_ops m' sample_key = Some (init_cgroup_ingress_stats 60) \<and>
    sys_steps (lookup_elem hash_ops \<lparr>hm_entries = [], hm_capacity = 4\<rparr>,
        [start_cpu sample_key CGROUP_INGRESS 60])
      (lookup_elem hash_ops m', [end_cpu sample_key CGROUP_INGRESS 60 ret])"
proof -
  have "count_flow hash_ops v4_fmt 60 CGROUP_INGRESS sample_key \<lparr>hm_entries = [], hm_capacity = 4\<rparr> =
    (\<lparr>hm_entries = [(sample_key, init_cgroup_ingress_stats 60)], hm_capacity = 4\<rparr>, [])"
    by (simp add: count_flow_def hash_ops_def hm_lookup_def hm_update_def BPF_ANY_def
        BPF_NOEXIST_def BPF_EXIST_def)
  note run = this
  from iffD2 [OF counting_code_is_one_cpu [OF hash.bpf_map_axioms run] refl] obtain ret where
    "sys_steps (lookup_elem hash_ops \<lparr>hm_entries = [], hm_capacity = 4\<rparr>,
        [start_cpu sample_key CGROUP_INGRESS 60])
      (lookup_elem hash_ops \<lparr>hm_entries = [(sample_key, init_cgroup_ingress_stats 60)], hm_capacity = 4\<rparr>,
        [end_cpu sample_key CGROUP_INGRESS 60 ret])" and "reported v4_fmt ret = []"
    by blast
  moreover have "lookup_elem hash_ops \<lparr>hm_entries = [(sample_key, init_cgroup_ingress_stats 60)],
      hm_capacity = 4\<rparr> sample_key = Some (init_cgroup_ingress_stats 60)"
    by (simp add: hash_ops_def hm_lookup_def)
  ultimately show ?thesis using run by metis
qed

end
