(* ===== verification/System_Properties.thy ===== *)
theory System_Properties
  imports Startup Ledger Agent_Properties Kernel_Properties
begin

unbundle bit_operations_syntax

text \<open>
  The properties of the whole: how the process starts and ends, what every run of the
  started agent keeps, and what the packet program and the agent together make of the
  traffic between two pods of one node.
\<close>

section \<open>Starting\<close>

definition sample_machine :: machine where
  "sample_machine = \<lparr>parse_flags = Some, level_known = (\<lambda>l. l = ''debug''),
     getenv = (\<lambda>x. if x = ''KUBERNETES_NODE_NAME'' then ''node-1'' else ''''),
     script = (\<lambda>env. Script_done), in_cluster = True, client_made = True, cache_sync = Synced,
     port_free = (\<lambda>p. True), metric_goroutine_first = True\<rparr>"

text \<open>What the script is told, when it is started, and when the environment is ready.\<close>

definition script_vars :: "machine \<Rightarrow> StatsAgentConfig \<Rightarrow> script_env" where
  "script_vars mc conf =
     (let root = getenv mc ''CGROUP_ROOT'' in
      [(''EBPF_MAP_DIR'', container_path ''/ebpf/'' ''/sys/fs/bpf'' (EbpfMapDir conf)),
       (''CGROUP_MOUNT'', container_path ''/cgroup/'' ''/sys/fs/cgroup''
          (if root = '''' then CgroupRoot conf else root))])"

definition script_started :: "machine \<Rightarrow> StatsAgentConfig \<Rightarrow> bool" where
  "script_started mc conf \<longleftrightarrow> level_known mc (LogLevel conf) \<and>
     (NodeName conf \<noteq> '''' \<or> getenv mc ''KUBERNETES_NODE_NAME'' \<noteq> '''')"

definition set_up :: "machine \<Rightarrow> StatsAgentConfig \<Rightarrow> bool" where
  "set_up mc conf \<longleftrightarrow> script_started mc conf \<and> script mc (script_vars mc conf) \<noteq> Script_hangs \<and>
     in_cluster mc \<and> client_made mc"

lemmas main_defs = main_program_def NewK8sEnvironment_def run_agent_def RunStatus_def runMetric_def Let_def

lemma environment_outcome:
  "NewK8sEnvironment mc conf =
     (if NodeName conf = '''' \<and> getenv mc ''KUBERNETES_NODE_NAME'' = '''' then ([], Some (Inl No_node_name))
      else ([script_vars mc conf],
        if script mc (script_vars mc conf) = Script_hangs then None
        else if \<not> in_cluster mc then Some (Inl No_cluster_config)
        else if \<not> client_made mc then Some (Inl No_client)
        else Some (Inr (conf
          \<lparr>NodeName := if NodeName conf = '''' then getenv mc ''KUBERNETES_NODE_NAME'' else NodeName conf,
           CgroupRoot := if getenv mc ''CGROUP_ROOT'' = '''' then CgroupRoot conf else getenv mc ''CGROUP_ROOT'',
           EbpfMapDir := container_path ''/ebpf/'' ''/sys/fs/bpf'' (EbpfMapDir conf)\<rparr>))))"
  by (simp add: NewK8sEnvironment_def script_vars_def Let_def)

lemma environment_ignores_script [simp]:
  "script_vars (mc\<lparr>script := sc\<rparr>) conf = script_vars mc conf"
  "run_agent (mc\<lparr>script := sc\<rparr>) c = run_agent mc c"
  by (simp_all add: script_vars_def run_agent_def RunStatus_def Let_def split: sync_end.split option.split)

lemma agent_outcome:
  "(\<exists>c' subs s. run_agent mc c = Serving c' subs s) \<longleftrightarrow> cache_sync mc = Synced \<and>
     ticker_ok (StatsInterval c) \<and> 0 <s StatusPort c \<and> port_free mc (StatusPort c)"
  "run_agent mc c = Exited \<longleftrightarrow> cache_sync mc = Synced \<and> StatusPort c \<le>s 0 \<and>
     (ticker_ok (StatsInterval c) \<or> \<not> metric_goroutine_first mc)"
  "run_agent mc c = Hanging \<longleftrightarrow> cache_sync mc = Never_synced"
  by (auto simp: main_defs signed.not_le split: sync_end.splits if_splits)

text \<open>
  C30: How a start ends, for a command line that can be parsed. The agent serves exactly
  when the log level is known, a node name comes from the flags or the environment, the
  script that loads and attaches the packet program comes to an end, the cluster and its
  client can be had, the cache of pods is filled, the interval makes a ticker, and the
  status port is positive and can be listened on. With a status port that is not positive
  everything is set up and the process then ends at once. The start hangs for ever when
  the script does or when the cache is never filled, which nothing limits. The script is
  started exactly when there is a known level and a node name, with the directories as
  seen in the container; that it fails, so that nothing is loaded, changes nothing.
\<close>

theorem startup_outcome:
  assumes "parse_flags mc InitFlags = Some conf"
  shows "((\<exists>c subs s. snd (main_program mc) = Serving c subs s) \<longleftrightarrow>
      set_up mc conf \<and> cache_sync mc = Synced \<and> ticker_ok (StatsInterval conf) \<and>
      0 <s StatusPort conf \<and> port_free mc (StatusPort conf)) \<and>
    (snd (main_program mc) = Exited \<longleftrightarrow>
      set_up mc conf \<and> cache_sync mc = Synced \<and> StatusPort conf \<le>s 0 \<and>
      (ticker_ok (StatsInterval conf) \<or> \<not> metric_goroutine_first mc)) \<and>
    (snd (main_program mc) = Hanging \<longleftrightarrow>
      script_started mc conf \<and> script mc (script_vars mc conf) = Script_hangs \<or>
      set_up mc conf \<and> cache_sync mc = Never_synced) \<and>
    fst (main_program mc) = (if script_started mc conf then [script_vars mc conf] else []) \<and>
    (script mc (script_vars mc conf) = Script_done \<longrightarrow>
      main_program (mc\<lparr>script := \<lambda>env. Script_failed\<rparr>) = main_program mc)"
proof -
  let ?c = "conf\<lparr>NodeName := if NodeName conf = '''' then getenv mc ''KUBERNETES_NODE_NAME'' else NodeName conf,
    CgroupRoot := if getenv mc ''CGROUP_ROOT'' = '''' then CgroupRoot conf else getenv mc ''CGROUP_ROOT'',
    EbpfMapDir := container_path ''/ebpf/'' ''/sys/fs/bpf'' (EbpfMapDir conf)\<rparr>"
  have run: "main_program (mc\<lparr>script := sc\<rparr>) =
      (if \<not> script_started mc conf
       then ([], Panicked (if level_known mc (LogLevel conf) then No_node_name else Bad_log_level))
       else ([script_vars mc conf],
         if sc (script_vars mc conf) = Script_hangs then Hanging
         else if \<not> in_cluster mc then Panicked No_cluster_config
         else if \<not> client_made mc then Panicked No_client
         else run_agent mc ?c))" for sc
    using assms by (simp add: main_program_def environment_outcome script_started_def)
  have same: "mc\<lparr>script := script mc\<rparr> = mc" by simp
  show ?thesis
    using run [of "script mc", unfolded same] run [of "\<lambda>env. Script_failed"] agent_outcome [of mc ?c]
    by (auto simp: set_up_def split: if_splits)
qed

text \<open>
  C31: The directory of the pinned maps is the same seen from the host and from the
  container, where \<open>/sys/fs/bpf\<close> is mounted at \<open>/ebpf\<close>: an absolute path below the first
  becomes the path with the same remaining elements below the second. A path outside
  loses its common elements with \<open>/sys/fs/bpf\<close> instead and names another directory, and
  a relative path becomes the mount point.
\<close>

theorem map_directory_translated:
  "path_elems (container_path ''/ebpf/'' ''/sys/fs/bpf'' dir) =
     (if \<not> rooted dir then [''ebpf'']
      else let common = longest_common_prefix [''sys'', ''fs'', ''bpf''] (path_elems dir);
               rest = drop (length common) (path_elems dir)
           in if common = [''sys'', ''fs'', ''bpf''] then ''ebpf'' # rest else rest)"
proof (cases "rooted dir")
  case True
  have len: "length (longest_common_prefix [''sys'', ''fs'', ''bpf''] es) = 3 \<longleftrightarrow>
      longest_common_prefix [''sys'', ''fs'', ''bpf''] es = [''sys'', ''fs'', ''bpf'']" for es
  proof -
    obtain zs where zs: "[''sys'', ''fs'', ''bpf''] =
        longest_common_prefix [''sys'', ''fs'', ''bpf''] es @ zs" (is "?l = ?p @ zs")
      using longest_common_prefix_prefix1 [of "[''sys'', ''fs'', ''bpf'']" es] by (auto simp: prefix_def)
    have "length ?p + length zs = 3" by (metis zs length_append length_Cons list.size(3) numeral_3_eq_3)
    then have "length ?p = 3 \<longleftrightarrow> zs = []" by auto
    also have "zs = [] \<longleftrightarrow> ?p = ?l" by (metis zs append_self_conv)
    finally show ?thesis .
  qed
  show ?thesis
    using container_elems [OF True, of "''ebpf''" "''/sys/fs/bpf''"] True
    by (simp add: base_elems plain_elem_def Let_def len [unfolded numeral_3_eq_3])
qed (simp add: container_path_def Rel_def path_elems_def)

text \<open>
  C37: The status page tells the number of pods: after any orderly sequence of events
  the reply is the JSON object with the number of pods that exist and have an address of
  their own, or the empty object when there is none.
\<close>

theorem status_reports_live_pods:
  assumes "orderly_run Map.empty es" and "run_events keyFunc es NewStatsAgent = Some a"
  shows "status_reply a =
    (let n = card (dom (fold track es Map.empty)) in
     if n = 0 then ''{}'' @ [CHR 0x0A] else ''{\"pod-count\":'' @ dec_string n @ ''}'' @ [CHR 0x0A])"
proof -
  have "map_option PodIP (podInfo a k) = fold track es Map.empty k" for k
    using run_events_consistent [OF assms(1) consistent_new, of keyFunc] assms(2)
    by (auto simp: pods_consistent_def)
  then have "dom (podInfo a) = dom (fold track es Map.empty)"
    by (auto simp: dom_def) (metis map_option_eq_Some option.distinct(1) not_None_eq)+
  then show ?thesis by (simp add: status_reply_def Let_def)
qed

theorem status_reports_live_pods_witness:
  "status_reply sample_agent = ''{\"pod-count\":2}'' @ [CHR 0x0A]"
proof -
  have "orderly_run Map.empty sample_events" and pods: "fold track sample_events Map.empty =
      [''shop/web'' \<mapsto> ''10.0.0.1'', ''shop/db'' \<mapsto> ''10.0.0.2'']"
    by (simp_all add: sample_events_def web_def db_def cart_def podKey_def)
  moreover have "dec_string (Suc (Suc 0)) = ''2''" by code_simp
  ultimately show ?thesis
    using status_reports_live_pods [OF _ sample_agent_run] by (simp add: pods)
qed

section \<open>Running\<close>

lemma agent_serves:
  "run_agent mc c = Serving conf subs s \<Longrightarrow>
   subs = registerPrometheusMetrics Map.empty \<and> runMetric (StatsInterval c) NewStatsAgent = Some s"
  by (auto simp: run_agent_def Let_def split: sync_end.splits option.splits if_splits status_end.splits)

lemma serving_agent:
  assumes "snd (main_program mc) = Serving conf subs s"
  shows "subs = registerPrometheusMetrics Map.empty \<and> (\<exists>interval. runMetric interval NewStatsAgent = Some s)"
proof -
  from assms obtain c where "run_agent mc c = Serving conf subs s"
    by (auto simp: main_program_def split: if_splits prod.splits sum.splits option.splits)
  then show ?thesis using agent_serves by blast
qed

lemma serving_starts:
  "snd (main_program mc) = Serving conf subs s \<Longrightarrow>
   subs = registerPrometheusMetrics Map.empty \<and> system_ok s \<and> \<not> stuck s"
  using serving_agent runMetric_ok by blast

lemma serving_empty:
  "snd (main_program mc) = Serving conf subs s \<Longrightarrow>
   cluster s = NewStatsAgent \<and> metric s = NewInetV4FlowMetricsEntry \<and> ledger_of s = empty_ledger"
  by (drule serving_agent)
     (auto simp: runMetric_def ledger_simps empty_ledger_def start_state
      NewInetV4FlowMetricsEntry_def no_maps_def base_def fun_eq_iff split: if_splits)

definition sample_system :: agent_system where
  "sample_system = \<lparr>cluster = NewStatsAgent, metric = NewInetV4FlowMetricsEntry, stop_closed = False,
     ticker_running = True, tick_pending = False, position_of = Selecting\<rparr>"

lemma sample_interval: "ticker_ok 120" "0 <s (8010 :: i64)"
  by code_simp+

lemma sample_serving:
  "\<exists>conf. snd (main_program sample_machine) = Serving conf prom sample_system"
proof -
  have "\<not> (8010 :: i64) \<le>s 0" using sample_interval(2) by (simp add: signed.not_le)
  with sample_interval(1) show ?thesis
    by (simp add: main_defs sample_machine_def InitFlags_def sample_system_def prom_def)
qed

theorem startup_outcome_witness:
  "\<exists>c subs s. snd (main_program (sample_machine\<lparr>script := \<lambda>env. Script_failed\<rparr>)) = Serving c subs s"
proof -
  have flags: "parse_flags (sample_machine\<lparr>script := \<lambda>env. Script_failed\<rparr>) InitFlags = Some InitFlags"
    by (simp add: sample_machine_def)
  have "set_up (sample_machine\<lparr>script := \<lambda>env. Script_failed\<rparr>) InitFlags"
    by (simp add: set_up_def script_started_def sample_machine_def InitFlags_def)
  with conjunct1 [OF startup_outcome [OF flags]] sample_interval show ?thesis
    by (simp add: sample_machine_def InitFlags_def)
qed

text \<open>
  C4: What ends a started agent. In every interleaving of informer events, ticks,
  deletions and the single rounds of scans of the kernel map with any contents, the
  process ends at an action exactly when that action is a callback given a tombstone
  instead of a pod or a service, a failure of the status server, or a callback writing
  the tables while a round of a scan reads them without the mutex. In particular no map
  contents, no missing gauge and no mismatch of labels ever does.
\<close>

theorem what_ends_the_agent:
  assumes "snd (main_program mc) = Serving conf subs s"
  shows "agent_run keyFunc subs as s = Panic \<longleftrightarrow>
    (\<exists>bs a cs s1. as = bs @ a # cs \<and> agent_run keyFunc subs bs s = Finished s1 \<and> ends_process keyFunc a s1)"
proof -
  have subs: "subs = registerPrometheusMetrics Map.empty" and ok: "system_ok s"
    using serving_starts [OF assms] by simp_all
  have "agent_step keyFunc subs a s1 = Panic \<longleftrightarrow> ends_process keyFunc a s1"
    if "agent_run keyFunc subs bs s = Finished s1" for a bs s1
    using step_panics [OF running.run_keeps [OF that [unfolded subs] ok]] by (simp only: subs)
  then show ?thesis unfolding run_all_panics by blast
qed

theorem what_ends_the_agent_witness:
  "agent_run key_func prom [Informer (Pod_add_or_update (Object web)), Fire, Tick_case, Scan_lock (Some 1),
     Collision (Pod_delete (Object web)) (web_to_db, first_count)] sample_system = Panic"
proof -
  let ?bs = "[Informer (Pod_add_or_update (Object web)), Fire, Tick_case, Scan_lock (Some 1)]"
  let ?a = "Collision (Pod_delete (Object web)) (web_to_db, first_count)"
  obtain conf where start: "snd (main_program sample_machine) = Serving conf prom sample_system"
    using sample_serving by blast
  obtain s1 where "agent_run key_func prom ?bs sample_system = Finished s1" and "ends_process key_func ?a s1"
    by (simp add: podUpdated_def sample_system_def web_def NewInetV4FlowMetricsEntry_def reads_tables_def)
  then have "\<exists>bs a cs s1. ?bs @ [?a] = bs @ a # cs \<and>
      agent_run key_func prom bs sample_system = Finished s1 \<and> ends_process key_func a s1"
    by blast
  then have "agent_run key_func prom (?bs @ [?a]) sample_system = Panic"
    by (rule iffD2 [OF what_ends_the_agent [OF start]])
  then show ?thesis by (simp only: append.simps)
qed

text \<open>
  C13: In every state a started agent reaches, no two flows share an entry of the base
  map, no statistics map holds a key twice, every gauge was set with exactly the labels
  it declares, and the mutex is held during a scan and otherwise free unless a scan could
  not load the kernel map.
\<close>

theorem agent_state_invariant:
  assumes "snd (main_program mc) = Serving conf subs s" and "agent_run keyFunc subs as s = Finished s'"
  shows "distinct (map fst (baseMap (metric s'))) \<and> distinct (map snd (baseMap (metric s'))) \<and>
    distinct (map fst (podStatsMap (stats_of (metric s')))) \<and>
    distinct (map fst (svcStatsMap (stats_of (metric s')))) \<and>
    distinct (map fst (knownStatsMap (stats_of (metric s')))) \<and>
    list_all labels_match (gauge_log (stats_of (metric s'))) \<and>
    (mutex_held (metric s') \<longleftrightarrow> scanning (position_of s') \<or> list_ex failed_scan as)"
proof -
  from serving_starts [OF assms(1)] assms(2) have
    run: "agent_run keyFunc (registerPrometheusMetrics Map.empty) as s = Finished s'"
    and start: "system_ok s" "\<not> stuck s" by simp_all
  have ok: "system_ok s'" by (rule running.run_keeps [OF run start(1)])
  have "stuck s' \<longleftrightarrow> list_ex failed_scan as" using locking.run_marks [OF run start(1)] start(2) by simp
  with ok show ?thesis by (auto simp: system_ok_def stuck_def metrics_wf_def log_ok_def keys_once_def)
qed

lemma sample_failure:
  obtains s' where "agent_run key_func prom [Fire, Tick_case, Scan_lock None] sample_system = Finished s'"
    and "\<not> scanning (position_of s')"
  by (simp add: sample_system_def NewInetV4FlowMetricsEntry_def)

theorem agent_state_invariant_witness:
  "\<exists>s'. agent_run key_func prom [Fire, Tick_case, Scan_lock None] sample_system = Finished s' \<and>
     mutex_held (metric s')"
proof -
  obtain conf where start: "snd (main_program sample_machine) = Serving conf prom sample_system"
    using sample_serving by blast
  obtain s' where run: "agent_run key_func prom [Fire, Tick_case, Scan_lock None] sample_system = Finished s'"
    by (rule sample_failure)
  with agent_state_invariant [OF start run] show ?thesis by simp
qed

text \<open>
  C14: One failure to load the kernel map stops the statistics for good. The scan returns
  without unlocking, so from then on, whatever happens, no scan begins or goes on, no
  deletion takes place and the metric stays as it is, while the agent goes on serving the
  old values.
\<close>

theorem load_failure_is_final:
  assumes "snd (main_program mc) = Serving conf subs s" and "agent_run keyFunc subs as s = Finished s1"
    and "list_ex failed_scan as" and "agent_run keyFunc subs bs s1 = Finished s2"
  shows "metric s2 = metric s1 \<and> agent_step keyFunc subs (Scan_lock loaded) s2 = Blocked \<and>
    agent_step keyFunc subs (Scan_next kv) s2 = Blocked \<and> agent_step keyFunc subs Scan_end s2 = Blocked \<and>
    agent_step keyFunc subs (Delete i b deletable) s2 = Blocked"
proof -
  from serving_starts [OF assms(1)] assms(2)
  have "agent_run keyFunc (registerPrometheusMetrics Map.empty) as s = Finished s1" "system_ok s" by simp_all
  from locking.run_marks [OF this] assms(3) have "frozen (metric s1) s1" by (simp add: frozen_def)
  with freezing.run_keeps [OF assms(4)] have "frozen (metric s1) s2" .
  then show ?thesis
    by (cases "position_of s2") (auto simp: frozen_def stuck_def run_task_def)
qed

theorem load_failure_is_final_witness:
  "\<exists>s1. agent_run key_func prom [Fire, Tick_case, Scan_lock None] sample_system = Finished s1 \<and>
     agent_step key_func prom (Scan_lock (Some 2)) s1 = Blocked"
proof -
  obtain conf where start: "snd (main_program sample_machine) = Serving conf prom sample_system"
    using sample_serving by blast
  obtain s1 where run: "agent_run key_func prom [Fire, Tick_case, Scan_lock None] sample_system = Finished s1"
    by (rule sample_failure)
  have stay: "agent_run key_func prom [] s1 = Finished s1" by simp
  have "agent_step key_func prom (Scan_lock (Some 2)) s1 = Blocked"
    by (rule conjunct1 [OF conjunct2 [OF load_failure_is_final [OF start run _ stay]]]) simp
  with run show ?thesis by blast
qed

text \<open>
  C15: Stopping stops the scans and not the goroutine. When a started agent has taken the
  stop case of the select, whatever came before and whatever comes after, no tick is
  ever sent again and at most one more scan begins, for a tick that was already in the
  channel; and whenever the goroutine is back at the select it can take the stop case
  any number of times, and changes nothing: the \<open>break\<close> leaves the select, not the
  loop, which spins. (\<open>main\<close> itself never closes the channel.)
\<close>

theorem stop_leaves_the_loop_spinning:
  assumes "snd (main_program mc) = Serving conf subs s"
    and "agent_run keyFunc subs (as @ [Stop_case]) s = Finished s1"
    and "agent_run keyFunc subs bs s1 = Finished s2"
  shows "Fire \<notin> set bs \<and> length (filter is_scan bs) \<le> 1 \<and>
    (position_of s2 = Selecting \<longrightarrow> agent_run keyFunc subs (replicate n Stop_case) s2 = Finished s2)"
proof -
  have stopped: "\<not> ticker_running s1" "stop_closed s1" "position_of s1 = Selecting"
    using assms(2) by (auto simp: run_all_append split: call.splits if_splits)
  then have "updates_left s1 \<le> 1" by (simp add: updates_left_def)
  with stopping.run_pays [OF assms(3) stopped(1)] have "length (filter is_scan bs) \<le> 1" by linarith
  moreover have "Fire \<notin> set bs"
    by (rule stopping.run_avoids [OF assms(3) stopped(1)]) simp
  moreover have "agent_run keyFunc subs (replicate n Stop_case) s2 = Finished s2" if "position_of s2 = Selecting"
  proof -
    have off: "\<not> ticker_running s2" by (rule stopping.run_keeps [OF assms(3) stopped(1)])
    then have "s2\<lparr>ticker_running := False\<rparr> = s2" by (cases s2) simp
    with that closing.run_keeps [OF assms(3) stopped(2)]
    have "agent_step keyFunc subs Stop_case s2 = Finished s2" by simp
    then show ?thesis by (induction n) simp_all
  qed
  ultimately show ?thesis by blast
qed

theorem stop_leaves_the_loop_spinning_witness:
  "\<exists>s1 s2. agent_run key_func prom ([Fire, Close] @ [Stop_case]) sample_system = Finished s1 \<and>
     agent_run key_func prom [Tick_case, Scan_lock (Some 1), Scan_end] s1 = Finished s2 \<and>
     agent_run key_func prom (replicate 1000 Stop_case) s2 = Finished s2"
proof -
  obtain conf where start: "snd (main_program sample_machine) = Serving conf prom sample_system"
    using sample_serving by blast
  obtain s1 s2 where run: "agent_run key_func prom ([Fire, Close] @ [Stop_case]) sample_system = Finished s1"
      "agent_run key_func prom [Tick_case, Scan_lock (Some 1), Scan_end] s1 = Finished s2"
      and "position_of s2 = Selecting"
    by (simp add: sample_system_def NewInetV4FlowMetricsEntry_def)
  with stop_leaves_the_loop_spinning [OF start run, of 1000] show ?thesis by blast
qed

section \<open>Whole runs\<close>

text \<open>
  C7: A started agent keeps a ledger. Whatever informers, ticks, rounds of scans and
  deletions interleave, the state it is in, seen as maps from flows and from pods, services
  and pairs to entries, is what the ledger's own steps make of the empty ledger: a round
  posts a new flow to both its ends, a scan's end ages every entry and writes down what is
  due, a deletion takes away just that.
\<close>

theorem agent_keeps_the_ledger:
  assumes "snd (main_program mc) = Serving conf subs s" and "agent_run keyFunc subs as s = Finished s'"
  shows "ledger_of s' = fold (ledger_step keyFunc) as empty_ledger"
  using booking.run_simulates [of keyFunc Map.empty as s s'] serving_starts [OF assms(1)]
    serving_empty [OF assms(1)] assms(2) by simp

text \<open>A run in which the second pod appears between two rounds of the first scan.\<close>

definition first_steps :: "action list" where
  "first_steps = [Fire, Informer (Pod_add_or_update (Object web)), Tick_case, Scan_lock (Some 1),
     Scan_next (web_to_db, first_count), Informer (Pod_add_or_update (Object db)),
     Scan_next (reverse_v4 web_to_db, second_count), Scan_end]"

lemma sample_system_ok: "system_ok sample_system"
  using start_ok new_metrics_wf
  by (simp add: sample_system_def system_ok_def)
     (simp add: keys_once_def NewInetV4FlowMetricsEntry_def no_maps_def)

lemma first_steps_run:
  obtains s' where "agent_run key_func prom first_steps sample_system = Finished s'"
proof (cases "agent_run key_func prom first_steps sample_system")
  case Blocked
  then show thesis
    by (auto simp: first_steps_def sample_system_def NewInetV4FlowMetricsEntry_def podUpdated_def
        web_def db_def split: option.splits)
next
  case Panic
  with running.run_safe [OF sample_system_ok, of first_steps key_func] show thesis
    by (simp add: first_steps_def prom_def)
qed (rule that)

definition one_pod :: StatsAgent where
  "one_pod = the (podUpdated (Object web) NewStatsAgent)"

definition two_pods :: StatsAgent where
  "two_pods = the (podUpdated (Object db) one_pod)"

lemma pods_seen:
  "podUpdated (Object web) NewStatsAgent = Some one_pod" "podUpdated (Object db) one_pod = Some two_pods"
  by (simp_all add: one_pod_def two_pods_def podUpdated_def web_def db_def)

lemma first_steps_keys:
  "getPodStatsKey v4_FlowKey one_pod web_to_db = (\<lparr>ep0 = ''shop/web'', ep1 = ''10.0.0.2''\<rparr>, 1)"
  "getPodStatsKey v4_FlowKey two_pods (reverse_v4 web_to_db) =
     (\<lparr>ep0 = ''shop/db'', ep1 = ''shop/web''\<rparr>, 3)"
  by (simp_all add: getPodStatsKey_def one_pod_def two_pods_def podUpdated_def web_def db_def
      NewStatsAgent_def podKey_def
      sample_flow_text key_type_defs)


lemma web_to_db_ne: "web_to_db \<noteq> reverse_v4 web_to_db"
  by (simp add: web_to_db_def flow_between_def reverse_v4_def)

lemmas first_steps_simps = first_steps_def pods_seen first_steps_keys web_to_db_ne
  web_to_db_ne [symmetric] pod_charges_def svc_charges_def known_charges_def src_key_def dst_key_def

theorem agent_keeps_the_ledger_witness:
  "\<exists>s'. agent_run key_func prom first_steps sample_system = Finished s' \<and>
     base (metric s') web_to_db = Some \<lparr>Stats = first_count, Aging_counter = 0, TimeStamp = 1\<rparr> \<and>
     length (tasks (metric s')) = 1"
proof -
  obtain conf where start: "snd (main_program sample_machine) = Serving conf prom sample_system"
    using sample_serving by blast
  obtain s' where run: "agent_run key_func prom first_steps sample_system = Finished s'"
    by (rule first_steps_run)
  have "l_flows (ledger_of s') web_to_db = Some \<lparr>Stats = first_count, Aging_counter = 0, TimeStamp = 1\<rparr> \<and>
      length (l_due (ledger_of s')) = 1"
    unfolding agent_keeps_the_ledger [OF start run]
    by (simp add: first_steps_simps empty_ledger_def see_flow_def charge_def close_round_def
        charge_of_def next_entry_def idle_out_def)
  with run show ?thesis by (auto simp: ledger_of_def)
qed

text \<open>
  C9: Over a whole run of a started agent in which nothing is deleted, every flow is
  charged once: by the round that sees it first, with the counters of that round, to the
  ends it has in the picture of the cluster at that moment. What the informers report
  later moves nothing that has been charged, and what the flow carries later is not added.
\<close>

theorem run_charges_first_sights:
  assumes "snd (main_program mc) = Serving conf subs s" and "agent_run keyFunc subs as s = Finished s'"
    and "\<not> list_ex deletes as"
  shows "agg (podStatsMap (stats_of (metric s'))) key =
      charged (bill keyFunc pod_charges NewStatsAgent {} as) key zero_stats \<and>
    agg (svcStatsMap (stats_of (metric s'))) key =
      charged (bill keyFunc svc_charges NewStatsAgent {} as) key zero_stats \<and>
    agg (knownStatsMap (stats_of (metric s'))) key =
      charged (bill keyFunc known_charges NewStatsAgent {} as) key zero_stats"
proof -
  from serving_starts [OF assms(1)] assms(2)
  have run: "agent_run keyFunc (registerPrometheusMetrics Map.empty) as s = Finished s'" and ok: "system_ok s"
    by simp_all
  have "base NewInetV4FlowMetricsEntry = Map.empty" by (simp add: fun_eq_iff start_state)
  with serving_empty [OF assms(1)] show ?thesis
    using pods.run_bill [OF run ok assms(3), of key] svcs.run_bill [OF run ok assms(3), of key]
      pairs.run_bill [OF run ok assms(3), of key]
    by (simp add: start_state) (simp add: NewInetV4FlowMetricsEntry_def no_maps_def agg_def)
qed


theorem run_charges_first_sights_witness:
  "\<exists>s'. agent_run key_func prom first_steps sample_system = Finished s' \<and>
     agg (podStatsMap (stats_of (metric s'))) \<lparr>ep0 = ''shop/db'', ep1 = ''''\<rparr> = second_count"
proof -
  obtain conf where start: "snd (main_program sample_machine) = Serving conf prom sample_system"
    using sample_serving by blast
  obtain s' where run: "agent_run key_func prom first_steps sample_system = Finished s'"
    by (rule first_steps_run)
  have "\<not> list_ex deletes first_steps" by (simp add: first_steps_def)
  from run_charges_first_sights [OF start run this, of "\<lparr>ep0 = ''shop/db'', ep1 = ''''\<rparr>"] run
  show ?thesis by (simp add: first_steps_simps)
qed


section \<open>What Prometheus is shown\<close>

lemma plain_series:
  "plain ns \<Longrightarrow> plain name \<Longrightarrow> pod_series \<lparr>ep0 = pod_ref ns name, ep1 = ''''\<rparr> = Some (pod_labels ns name)"
  "plain ns \<Longrightarrow> plain name \<Longrightarrow> CHR ''/'' \<notin> set scope \<Longrightarrow>
   svc_series \<lparr>ep0 = svc_ref ns name scope, ep1 = ''''\<rparr> = Some (svc_labels ns name scope)"
  by (simp_all add: pod_series_def svc_series_def prom_of_pod prom_of_svc pod_labels_def svc_labels_def)

text \<open>
  C8: In every state of a started agent the four gauges of every pod and of every service
  the agent holds statistics for show exactly those statistics, as floating-point numbers,
  whatever was merged, aged and deleted before and at whatever point of a scan. A deletion
  changes no gauge: the series of a pod whose entry is deleted stays with its last values.
\<close>

theorem gauges_show_statistics:
  assumes "snd (main_program mc) = Serving conf subs s" and "agent_run keyFunc subs as s = Finished s'"
    and "plain ns" and "plain name" and "CHR ''/'' \<notin> set scope"
  shows "(map_of (podStatsMap (stats_of (metric s'))) \<lparr>ep0 = pod_ref ns name, ep1 = ''''\<rparr> = Some e \<longrightarrow>
      map (\<lambda>n. gauge_value (gauge_log (stats_of (metric s'))) n (pod_labels ns name)) PodPromMetrics =
        map (\<lambda>v. Some (float64 v)) (stats_values (Stats e))) \<and>
    (map_of (svcStatsMap (stats_of (metric s'))) \<lparr>ep0 = svc_ref ns name scope, ep1 = ''''\<rparr> = Some e \<longrightarrow>
      map (\<lambda>n. gauge_value (gauge_log (stats_of (metric s'))) n (svc_labels ns name scope)) SvcPromMetrics =
        map (\<lambda>v. Some (float64 v)) (stats_values (Stats e))) \<and>
    (agent_step keyFunc subs (Delete i loaded deletable) s' = Finished s'' \<longrightarrow>
      gauge_value (gauge_log (stats_of (metric s''))) = gauge_value (gauge_log (stats_of (metric s'))))"
proof -
  have start: "gauges_shown (stats_of (metric s))"
    using serving_empty [OF assms(1)]
    by (simp add: gauges_shown_def shows_all_def NewInetV4FlowMetricsEntry_def no_maps_def)
  have "gauges_shown (stats_of (metric s'))"
    using showing.run_keeps [of keyFunc Map.empty as s s'] serving_starts [OF assms(1)] assms(2) start by simp
  then have pods: "shows_all podStatsMap PodPromMetrics pod_series (stats_of (metric s'))"
    and svcs: "shows_all svcStatsMap SvcPromMetrics svc_series (stats_of (metric s'))"
    by (simp_all add: gauges_shown_def)
  have "gauge_log (stats_of (metric s'')) = gauge_log (stats_of (metric s'))"
    if "agent_step keyFunc subs (Delete i loaded deletable) s' = Finished s''"
    using that by (rule delete_stepE) (auto simp: run_task_def Let_def split: if_splits)
  then show ?thesis
    using pods [unfolded shows_all_def, rule_format, OF _ plain_series(1) [OF assms(3,4)]]
      svcs [unfolded shows_all_def, rule_format, OF _ plain_series(2) [OF assms(3-5)]]
    by (simp add: agg_def)
qed

theorem gauges_show_statistics_witness:
  "\<exists>s' e. agent_run key_func prom first_steps sample_system = Finished s' \<and>
     map_of (podStatsMap (stats_of (metric s'))) \<lparr>ep0 = pod_ref ''shop'' ''web'', ep1 = ''''\<rparr> = Some e \<and>
     map (\<lambda>n. gauge_value (gauge_log (stats_of (metric s'))) n (pod_labels ''shop'' ''web'')) PodPromMetrics =
       map (\<lambda>v. Some (float64 v)) (stats_values (Stats e))"
proof -
  obtain conf where start: "snd (main_program sample_machine) = Serving conf prom sample_system"
    using sample_serving by blast
  obtain s' where run: "agent_run key_func prom first_steps sample_system = Finished s'"
    by (rule first_steps_run)
  have "ledger_of s' = fold (ledger_step key_func) first_steps empty_ledger"
    using booking.run_simulates [of key_func Map.empty first_steps sample_system s'] run sample_system_ok
      serving_empty [OF start] by (simp add: prom_def)
  then have "l_pods (ledger_of s') \<lparr>ep0 = pod_ref ''shop'' ''web'', ep1 = ''''\<rparr> \<noteq> None"
    by (simp add: first_steps_simps empty_ledger_def see_flow_def charge_def close_round_def aged_def
        charge_of_def next_entry_def idle_out_def pod_ref_def)
  then obtain e where e: "map_of (podStatsMap (stats_of (metric s'))) \<lparr>ep0 = pod_ref ''shop'' ''web'', ep1 = ''''\<rparr> = Some e"
    by (auto simp: ledger_of_def)
  have "plain ''shop''" "plain ''web''" "CHR ''/'' \<notin> set ''''" by (simp_all add: plain_def)
  from gauges_show_statistics [OF start run this, of e] run e show ?thesis by blast
qed


end
