(* ===== verification/Pod_Traffic.thy ===== *)
theory Pod_Traffic
  imports Agent_Properties Kernel_Properties
begin

text \<open>
  From packets to aggregates: the packet program adds up packets by flow, the agent adds
  up flows by pod and by service, and together they add up packets by pod and by service.
\<close>

section \<open>Sums of counters\<close>

definition sum_stats :: "flow_stats list \<Rightarrow> flow_stats" where
  "sum_stats xs = foldr add_stats xs zero_stats"

lemma sum_stats_simps [simp]:
  "sum_stats [] = zero_stats" "sum_stats (x # xs) = add_stats x (sum_stats xs)"
  by (simp_all add: sum_stats_def)

lemma sum_stats_add:
  "sum_stats (map (\<lambda>k. add_stats (f k) (g k)) ks) = add_stats (sum_stats (map f ks)) (sum_stats (map g ks))"
  by (induction ks) (simp_all add: add_stats_assoc add_stats_left_comm)

lemma sum_stats_zero [simp]: "sum_stats (map (\<lambda>k. zero_stats) ks) = zero_stats"
  by (induction ks) simp_all

lemma sum_stats_one:
  "distinct ks \<Longrightarrow> a \<in> set ks \<Longrightarrow> sum_stats (map (\<lambda>k. if k = a then f k else zero_stats) ks) = f a"
proof (induction ks)
  case (Cons k ks)
  have "sum_stats (map (\<lambda>k. if k = a then f k else zero_stats) ks) = sum_stats (map (\<lambda>k. zero_stats) ks)"
    if "a \<notin> set ks"
    by (rule arg_cong [where f = sum_stats], rule map_cong) (use that in auto)
  then have "sum_stats (map (\<lambda>k. if k = a then f k else zero_stats) ks) = zero_stats" if "a \<notin> set ks"
    using that by simp
  with Cons show ?case by (cases "k = a") auto
qed simp

section \<open>The share of an endpoint\<close>

text \<open>
  \<open>who\<close> names the pod, or the service, at an address. An endpoint gets a flow's counters as
  they are at the source and with the directions exchanged at the destination.
\<close>

definition flow_share ::
    "(string \<Rightarrow> string option) \<Rightarrow> string \<Rightarrow> inet_v4_flow \<Rightarrow> flow_stats \<Rightarrow> flow_stats" where
  "flow_share who name k v =
     add_stats (if who (GetSrcIp k) = Some name then v else zero_stats)
       (if who (GetDstIp k) = Some name then fs_swap v else zero_stats)"

lemma flow_share_add:
  "flow_share who name k (add_stats v w) = add_stats (flow_share who name k v) (flow_share who name k w)"
  by (simp add: flow_share_def fs_swap_add add_stats_assoc add_stats_left_comm)

lemma flow_share_zero [simp]: "flow_share who name k zero_stats = zero_stats"
  by (simp add: flow_share_def)

text \<open>The packets the program has seen with the endpoint's address as source or destination.\<close>

definition ipv4_flow :: "packet \<Rightarrow> inet_v4_flow option" where
  "ipv4_flow p = (case packet_flow (skb_data (fst p)) of Some (V4_key k) \<Rightarrow> Some k | _ \<Rightarrow> None)"

definition packets_from :: "(string \<Rightarrow> string option) \<Rightarrow> string \<Rightarrow> packet list \<Rightarrow> sk_buff list" where
  "packets_from who name ps =
     map fst (filter (\<lambda>p. \<exists>k \<in> set_option (ipv4_flow p). who (GetSrcIp k) = Some name) ps)"

definition packets_to :: "(string \<Rightarrow> string option) \<Rightarrow> string \<Rightarrow> packet list \<Rightarrow> sk_buff list" where
  "packets_to who name ps =
     map fst (filter (\<lambda>p. \<exists>k \<in> set_option (ipv4_flow p). who (GetDstIp k) = Some name) ps)"

definition traffic :: "(string \<Rightarrow> string option) \<Rightarrow> string \<Rightarrow> packet list \<Rightarrow> flow_stats" where
  "traffic who name ps =
     \<lparr>out_bytes = bytes_of (packets_from who name ps),
      out_packets = of_nat (length (packets_from who name ps)),
      in_bytes = bytes_of (packets_to who name ps),
      in_packets = of_nat (length (packets_to who name ps))\<rparr>"

lemma packet_key_v4:
  "packet_key p = Some (V4_key k) \<longleftrightarrow> (\<exists>k0. ipv4_flow p = Some k0 \<and> k = normalize_v4_flow k0 (snd p))"
proof (cases "packet_flow (skb_data (fst p))")
  case (Some f)
  then show ?thesis by (cases f) (auto simp: packet_key_def normalize_flow_def ipv4_flow_def)
qed (simp add: packet_key_def ipv4_flow_def)

text \<open>One packet, charged to its flow in either direction, is one packet out and one in.\<close>

lemma packet_share:
  assumes "packet_key p = Some (V4_key k)"
  shows "add_stats (flow_share who name k (packet_stats (snd p) (skb_len (fst p)))) (traffic who name ps) =
    traffic who name (p # ps)"
proof -
  from assms obtain k0 where "ipv4_flow p = Some k0" "k = normalize_v4_flow k0 (snd p)"
    by (auto simp: packet_key_v4)
  then show ?thesis
    by (cases "snd p")
       (simp_all add: flow_share_def traffic_def packets_from_def packets_to_def packet_stats_def
         bytes_of_def fs_swap_def add_stats_def)
qed

lemma no_packet_share:
  assumes "\<nexists>k. packet_key p = Some (V4_key k)"
  shows "traffic who name (p # ps) = traffic who name ps"
proof -
  have "ipv4_flow p = None" using assms by (cases "ipv4_flow p") (auto simp: packet_key_v4)
  then show ?thesis by (simp add: traffic_def packets_from_def packets_to_def)
qed

text \<open>Adding up by flow and then by endpoint is adding up by endpoint.\<close>

lemma shares_are_traffic:
  assumes "distinct ks" and "\<And>p k. p \<in> set ps \<Longrightarrow> packet_key p = Some (V4_key k) \<Longrightarrow> k \<in> set ks"
  shows "sum_stats (map (\<lambda>k. flow_share who name k (flow_total ps (V4_key k))) ks) = traffic who name ps"
  using assms(2)
proof (induction ps)
  case Nil
  then show ?case
    by (simp add: traffic_def packets_from_def packets_to_def bytes_of_def zero_stats_def [symmetric])
next
  case (Cons p ps)
  let ?one = "\<lambda>k. flow_share who name k (packet_stats (snd p) (skb_len (fst p)))"
  have IH: "sum_stats (map (\<lambda>k. flow_share who name k (flow_total ps (V4_key k))) ks) = traffic who name ps"
    by (rule Cons.IH) (rule Cons.prems, simp_all)
  show ?case
  proof (cases "\<exists>k. packet_key p = Some (V4_key k)")
    case True
    then obtain a where a: "packet_key p = Some (V4_key a)" by blast
    have "map (\<lambda>k. flow_share who name k (flow_total (p # ps) (V4_key k))) ks =
        map (\<lambda>k. add_stats (if k = a then ?one k else zero_stats)
          (flow_share who name k (flow_total ps (V4_key k)))) ks"
      by (rule map_cong) (auto simp: flow_total_Cons a flow_share_add)
    moreover have "a \<in> set ks" by (rule Cons.prems [OF _ a]) simp
    ultimately have "sum_stats (map (\<lambda>k. flow_share who name k (flow_total (p # ps) (V4_key k))) ks) =
        add_stats (?one a) (sum_stats (map (\<lambda>k. flow_share who name k (flow_total ps (V4_key k))) ks))"
      using assms(1) by (simp only: sum_stats_add sum_stats_one)
    with IH packet_share [OF a] show ?thesis by simp
  next
    case False
    with IH show ?thesis by (simp add: flow_total_Cons no_packet_share)
  qed
qed

section \<open>Pods and services\<close>

definition svc_at :: "StatsAgent \<Rightarrow> string \<Rightarrow> string option" where
  "svc_at agent ip = map_option (\<lambda>name. name @ ''/'' @ svc_type_of agent name) (svcIpToName agent ip)"

text \<open>Pods have names, and no address is both a pod's and a service's.\<close>

definition well_named :: "StatsAgent \<Rightarrow> bool" where
  "well_named agent \<longleftrightarrow> (\<forall>ip. podIpToName agent ip \<noteq> Some '''' \<and>
     (podIpToName agent ip = None \<or> svcIpToName agent ip = None))"

locale endpoints = statistic sel charges_of for sel charges_of +
  fixes who :: "StatsAgent \<Rightarrow> string \<Rightarrow> string option"
  assumes charged_share: "well_named agent \<Longrightarrow> getPodStatsKey v4_FlowKey agent k = (key, kt) \<Longrightarrow>
    charged (charges_of kt key v) \<lparr>ep0 = name, ep1 = ''''\<rparr> x = add_stats x (flow_share (who agent) name k v)"
begin

lemma charged_shares:
  assumes "well_named agent"
  shows "charged (all_charges agent charges_of entries) \<lparr>ep0 = name, ep1 = ''''\<rparr> x =
    add_stats x (sum_stats (map (\<lambda>(k, v). flow_share (who agent) name k v) entries))"
proof (induction entries arbitrary: x)
  case (Cons kv entries)
  obtain k v where kv: "kv = (k, v)" by fastforce
  obtain key kt where "getPodStatsKey v4_FlowKey agent k = (key, kt)" by fastforce
  with charged_share [OF assms this] Cons show ?case by (simp add: kv charged_append add_stats_assoc)
qed simp

text \<open>The two programs together: the aggregates of a first update are the traffic.\<close>

lemma update_shows_traffic:
  assumes "flow_maps ops4 ops6" and "run_reader ops4 ops6 ps s = Some s'" and "trace s' = trace s"
    and "\<And>k. lookup_elem ops4 (v4_map s) k = None"
    and "distinct (map fst entries)" and "map_of entries = lookup_elem ops4 (v4_map s')"
    and "UpdateStats agent subs t (Some entries) m = Finished m'" and "metrics_wf m"
    and "\<And>k. base m k = None" and "well_named agent"
  shows "agg (sel (stats_of m')) \<lparr>ep0 = name, ep1 = ''''\<rparr> =
    add_stats (agg (sel (stats_of m)) \<lparr>ep0 = name, ep1 = ''''\<rparr>) (traffic (who agent) name ps)"
proof -
  note view = flow_maps.run_reader_account [OF assms(1-3)]
  have entry: "v = flow_total ps (V4_key k)" if "(k, v) \<in> set entries" for k v
  proof -
    have "flow_view ops4 ops6 s' (V4_key k) = Some v"
      using that assms(5,6) by (simp add: flow_view_def flip: assms(6))
    moreover have "flow_view ops4 ops6 s (V4_key k) = None" using assms(4) by (simp add: flow_view_def)
    ultimately show ?thesis
      using balance_fold [of ps "flow_view ops4 ops6 s" "V4_key k"] by (simp add: balance_def view)
  qed
  have seen: "k \<in> set (map fst entries)" if "p \<in> set ps" "packet_key p = Some (V4_key k)" for p k
  proof -
    have "V4_key k \<in> dom (flow_view ops4 ops6 s')" using that by (auto simp: view dom_fold_account)
    then show ?thesis by (auto simp: flow_view_def map_of_eq_None_iff simp flip: assms(6)) (force dest: map_of_SomeD)
  qed
  have "sum_stats (map (\<lambda>(k, v). flow_share (who agent) name k v) entries) =
      sum_stats (map (\<lambda>k. flow_share (who agent) name k (flow_total ps (V4_key k))) (map fst entries))"
    by (rule arg_cong [where f = sum_stats]) (clarsimp, drule entry, simp)
  also have "\<dots> = traffic (who agent) name ps" by (rule shares_are_traffic [OF assms(5) seen])
  finally have "sum_stats (map (\<lambda>(k, v). flow_share (who agent) name k v) entries) = traffic (who agent) name ps" .
  then show ?thesis
    by (simp add: update_charges [OF assms(7,8,5)] assms(9) charged_shares [OF assms(10)])
qed

end

text \<open>The key and the kind of a flow, with its two ends apart.\<close>

definition end_name :: "StatsAgent \<Rightarrow> string \<Rightarrow> string" where
  "end_name agent ip =
     (case podIpToName agent ip of Some name \<Rightarrow> name
      | None \<Rightarrow> (case svc_at agent ip of Some name \<Rightarrow> name | None \<Rightarrow> ip))"

definition end_kind :: "int \<Rightarrow> int \<Rightarrow> StatsAgent \<Rightarrow> string \<Rightarrow> int" where
  "end_kind pod svc agent ip =
     (if podIpToName agent ip \<noteq> None then pod else if svcIpToName agent ip \<noteq> None then svc else 0)"

lemma well_namedD:
  "well_named agent \<Longrightarrow> podIpToName agent ip = Some name \<Longrightarrow> svcIpToName agent ip = None \<and> name \<noteq> ''''"
  "well_named agent \<Longrightarrow> svcIpToName agent ip = Some name \<Longrightarrow> podIpToName agent ip = None"
  by (auto simp: well_named_def) (metis option.distinct(1))+

lemma end_cases:
  assumes "well_named agent"
  obtains (pod) n where "podIpToName agent ip = Some n" "svcIpToName agent ip = None" "n \<noteq> ''''"
    | (svc) n where "podIpToName agent ip = None" "svcIpToName agent ip = Some n"
    | (none) "podIpToName agent ip = None" "svcIpToName agent ip = None"
  using well_namedD [OF assms, of ip] by (cases "podIpToName agent ip"; cases "svcIpToName agent ip") auto

lemma key_by_ends:
  assumes "well_named agent"
  shows "getPodStatsKey v4_FlowKey agent k =
    (\<lparr>ep0 = end_name agent (GetSrcIp k), ep1 = end_name agent (GetDstIp k)\<rparr>,
     end_kind 1 4 agent (GetSrcIp k) + end_kind 2 8 agent (GetDstIp k))"
  by (rule end_cases [OF assms, of "GetSrcIp k"]; rule end_cases [OF assms, of "GetDstIp k"])
     (simp_all add: getPodStatsKey_def end_name_def end_kind_def svc_at_def key_type_defs)

interpretation pod_ends: endpoints podStatsMap pod_charges podIpToName
proof
  fix agent name and k :: inet_v4_flow and key kt v x
  assume wn: "well_named agent" and "getPodStatsKey v4_FlowKey agent k = (key, kt)"
  then have "key = \<lparr>ep0 = end_name agent (GetSrcIp k), ep1 = end_name agent (GetDstIp k)\<rparr>"
    "kt = end_kind 1 4 agent (GetSrcIp k) + end_kind 2 8 agent (GetDstIp k)"
    by (simp_all add: key_by_ends)
  then show "charged (pod_charges kt key v) \<lparr>ep0 = name, ep1 = ''''\<rparr> x =
      add_stats x (flow_share (podIpToName agent) name k v)"
    by (cases "podIpToName agent (GetSrcIp k)"; cases "podIpToName agent (GetDstIp k)")
       (simp_all add: end_name_def end_kind_def pod_charges_def flow_share_def src_key_def dst_key_def
         add_stats_assoc)
qed

interpretation svc_ends: endpoints svcStatsMap svc_charges svc_at
proof
  fix agent name and k :: inet_v4_flow and key kt v x
  assume wn: "well_named agent" and "getPodStatsKey v4_FlowKey agent k = (key, kt)"
  then have ends: "key = \<lparr>ep0 = end_name agent (GetSrcIp k), ep1 = end_name agent (GetDstIp k)\<rparr>"
    "kt = end_kind 1 4 agent (GetSrcIp k) + end_kind 2 8 agent (GetDstIp k)"
    by (simp_all add: key_by_ends)
  show "charged (svc_charges kt key v) \<lparr>ep0 = name, ep1 = ''''\<rparr> x =
      add_stats x (flow_share (svc_at agent) name k v)"
    using well_namedD(2) [OF wn, of "GetSrcIp k"] well_namedD(2) [OF wn, of "GetDstIp k"] ends
    by (cases "svcIpToName agent (GetSrcIp k)"; cases "svcIpToName agent (GetDstIp k)")
       (simp_all add: end_name_def end_kind_def svc_at_def svc_charges_def flow_share_def src_key_def
         dst_key_def add_stats_assoc)
qed

end
