(* ===== verification/Node.thy ===== *)
theory Node
  imports Pod_Traffic
begin

text \<open>
  A whole node: the packet program on its maps and the agent beside it, packets passing
  while a scan is under way and while entries are deleted. The theory bounds what the
  agent shows by what has passed, in every interleaving.
\<close>

section \<open>State and steps\<close>

text \<open>\<open>passed\<close> records the packets for the statements; no step reads it.\<close>

record ('m4, 'm6) node =
  kernel_part :: "('m4, 'm6) kernel_state"
  agent_part :: agent_system
  passed :: "packet list"

datatype node_action = Packet packet | Agent action

text \<open>The iterator of a scan yields entries the map has; a deletion takes keys out of it.\<close>

definition offered :: "('m4, inet_v4_flow) map_ops \<Rightarrow> action \<Rightarrow> 'm4 \<Rightarrow> bool" where
  "offered ops4 a m = (case a of Scan_next (k, v) \<Rightarrow> lookup_elem ops4 m k = Some v | _ \<Rightarrow> True)"

definition deleted_keys :: "action \<Rightarrow> agent_system \<Rightarrow> inet_v4_flow list" where
  "deleted_keys a s =
     (case a of
        Delete i loaded deletable \<Rightarrow>
          if loaded then filter deletable (toDeleteList (tasks (metric s) ! i)) else []
      | _ \<Rightarrow> [])"

fun node_step ::
    "('m4, inet_v4_flow) map_ops \<Rightarrow> ('m6, inet_v6_flow) map_ops \<Rightarrow> ('m4 \<Rightarrow> inet_v4_flow \<Rightarrow> 'm4) \<Rightarrow>
     (Service \<Rightarrow> string option) \<Rightarrow> prom_subsystems \<Rightarrow> node_action \<Rightarrow> ('m4, 'm6) node \<Rightarrow>
     ('m4, 'm6) node call" where
  "node_step ops4 ops6 del kf subs (Packet p) n =
     (case bpf_flow_reader ops4 ops6 (fst p) (snd p) (kernel_part n) of
        None \<Rightarrow> Panic
      | Some (c, s) \<Rightarrow> Finished (n\<lparr>kernel_part := s, passed := passed n @ [p]\<rparr>))"
| "node_step ops4 ops6 del kf subs (Agent a) n =
     (if offered ops4 a (v4_map (kernel_part n)) then
        (case agent_step kf subs a (agent_part n) of
           Blocked \<Rightarrow> Blocked
         | Panic \<Rightarrow> Panic
         | Finished s \<Rightarrow>
             let m = fold (\<lambda>k m. del m k) (deleted_keys a (agent_part n)) (v4_map (kernel_part n))
             in Finished (n\<lparr>agent_part := s, kernel_part := (kernel_part n)\<lparr>v4_map := m\<rparr>\<rparr>))
      else Blocked)"

text \<open>The picture of the cluster stands still and every deletion in the kernel succeeds.\<close>

fun steady :: "node_action \<Rightarrow> bool" where
  "steady (Agent (Informer e)) = False"
| "steady (Agent (Delete i loaded deletable)) = (\<forall>k. deletable k)"
| "steady _ = True"

text \<open>\<open>bpf_map_delete_elem\<close> as documented.\<close>

locale deleting_maps = flow_maps ops4 ops6
  for ops4 :: "('m4, inet_v4_flow) map_ops" and ops6 :: "('m6, inet_v6_flow) map_ops" +
  fixes del :: "'m4 \<Rightarrow> inet_v4_flow \<Rightarrow> 'm4"
  assumes del_ok: "lookup_elem ops4 (del m k) = (lookup_elem ops4 m)(k := None)"
begin

lemma fold_del: "lookup_elem ops4 (fold (\<lambda>k m. del m k) ks m) = lookup_elem ops4 m |` (- set ks)"
  by (induction ks arbitrary: m) (auto simp: del_ok restrict_map_def fun_eq_iff)

text \<open>What a packet does to the IPv4 map.\<close>

lemma packet_lookup:
  assumes "bpf_flow_reader ops4 ops6 (fst p) (snd p) s = Some (c, s')"
  shows "lookup_elem ops4 (v4_map s') = lookup_elem ops4 (v4_map s) \<or>
    (\<exists>k. packet_key p = Some (V4_key k) \<and> lookup_elem ops4 (v4_map s') =
      (lookup_elem ops4 (v4_map s))(k \<mapsto> add_stats
        (case lookup_elem ops4 (v4_map s) k of None \<Rightarrow> zero_stats | Some v \<Rightarrow> v)
        (packet_stats (snd p) (skb_len (fst p)))))"
proof -
  have look: "lookup_elem ops4 (v4_map s) k = flow_view ops4 ops6 s (V4_key k)" for k s
    by (simp add: flow_view_def)
  from reader_step [OF assms] consider
      "flow_view ops4 ops6 s' = account_packet p (flow_view ops4 ops6 s)"
    | "flow_view ops4 ops6 s' = flow_view ops4 ops6 s" by auto
  then show ?thesis
  proof cases
    case 1
    show ?thesis
    proof (cases "packet_key p")
      case None
      with 1 show ?thesis by (simp add: look fun_eq_iff account_packet_def)
    next
      case (Some f)
      with 1 show ?thesis by (cases f) (auto simp: look fun_eq_iff account_packet_def balance_def)
    qed
  next
    case 2
    then show ?thesis by (simp add: look fun_eq_iff)
  qed
qed

end

definition hm_delete :: "'k hash_map \<Rightarrow> 'k \<Rightarrow> 'k hash_map" where
  "hm_delete m k = m\<lparr>hm_entries := filter (\<lambda>(k', v). k' \<noteq> k) (hm_entries m)\<rparr>"

lemma map_of_without: "map_of (filter (\<lambda>(k', v). k' \<noteq> k) es) = (map_of es)(k := None)"
  by (induction es) (auto simp: fun_eq_iff)

interpretation hash_deleting: deleting_maps hash_ops hash_ops hm_delete
  by unfold_locales (simp add: hash_ops_def hm_lookup_def hm_delete_def map_of_without fun_eq_iff)

section \<open>What is counted and what is still to be counted\<close>

text \<open>One of the four counters, as a number.\<close>

definition counter :: "(flow_stats \<Rightarrow> u64) \<Rightarrow> bool" where
  "counter c \<longleftrightarrow> (\<forall>a b. c (add_stats a b) = c a + c b) \<and> c zero_stats = 0"

lemma the_counters: "counter out_bytes" "counter out_packets" "counter in_bytes" "counter in_packets"
  by (simp_all add: counter_def)

lemma unat_add_le: "unat (a + b :: u64) \<le> unat a + unat b"
  by (simp add: unat_word_ariths(1))

lemma counter_le: "counter c \<Longrightarrow> unat (c (add_stats a b)) \<le> unat (c a) + unat (c b)"
  by (simp add: counter_def unat_add_le)

text \<open>The share of an endpoint in the flows the kernel has and the agent has not seen.\<close>

definition waiting ::
    "(string \<Rightarrow> string option) \<Rightarrow> string \<Rightarrow> (flow_stats \<Rightarrow> u64) \<Rightarrow> (inet_v4_flow \<rightharpoonup> flow_stats) \<Rightarrow>
     (inet_v4_flow \<rightharpoonup> FlowStatsEntry) \<Rightarrow> nat" where
  "waiting who name c L B =
     (\<Sum>k \<in> dom L - dom B. unat (c (flow_share who name k (the (L k)))))"

definition packet_share :: "(string \<Rightarrow> string option) \<Rightarrow> string \<Rightarrow> packet \<Rightarrow> flow_stats" where
  "packet_share who name p =
     (case packet_key p of
        Some (V4_key k) \<Rightarrow> flow_share who name k (packet_stats (snd p) (skb_len (fst p)))
      | _ \<Rightarrow> zero_stats)"

lemma waiting_more:
  assumes "finite (dom L)" and "counter c"
  shows "waiting who name c (L(k \<mapsto> add_stats (case L k of None \<Rightarrow> zero_stats | Some v \<Rightarrow> v) w)) B \<le>
    waiting who name c L B + unat (c (flow_share who name k w))"
proof -
  let ?f = "\<lambda>L k. unat (c (flow_share who name k (the (L k))))"
  let ?v = "case L k of None \<Rightarrow> zero_stats | Some v \<Rightarrow> v"
  let ?L = "L(k \<mapsto> add_stats ?v w)"
  have rest: "sum (?f ?L) (dom L - dom B - {k}) = sum (?f L) (dom L - dom B - {k})"
    by (rule sum.cong) auto
  show ?thesis
  proof (cases "k \<in> dom B")
    case True
    then have "dom ?L - dom B = dom L - dom B" "dom L - dom B - {k} = dom L - dom B" by auto
    with rest show ?thesis by (simp add: waiting_def)
  next
    case False
    then have d: "dom ?L - dom B = insert k (dom L - dom B - {k})" by auto
    have fin: "finite (dom L - dom B - {k})" using assms(1) by simp
    have "sum (?f ?L) (dom ?L - dom B) = ?f ?L k + sum (?f L) (dom L - dom B - {k})"
      unfolding d by (subst sum.insert [OF fin]) (use rest in simp_all)
    moreover have "?f ?L k \<le> unat (c (flow_share who name k ?v)) + unat (c (flow_share who name k w))"
      using counter_le [OF assms(2)] by (simp add: flow_share_add)
    moreover have "sum (?f L) (dom L - dom B) =
        unat (c (flow_share who name k ?v)) + sum (?f L) (dom L - dom B - {k})"
    proof (cases "L k")
      case None
      then have "dom L - dom B - {k} = dom L - dom B" by auto
      with None assms(2) show ?thesis by (simp add: counter_def)
    next
      case (Some v)
      with False have "k \<in> dom L - dom B" by auto
      with Some assms(1) show ?thesis by (simp add: sum.remove [of _ k])
    qed
    ultimately show ?thesis by (simp add: waiting_def)
  qed
qed

lemma waiting_seen:
  assumes "finite (dom L)" and "L k = Some v"
  shows "waiting who name c L (B(k \<mapsto> e)) + (if B k = None then unat (c (flow_share who name k v)) else 0) =
    waiting who name c L B"
proof (cases "B k")
  case None
  with assms have "k \<in> dom L - dom B" "dom L - dom (B(k \<mapsto> e)) = dom L - dom B - {k}" by auto
  with None assms show ?thesis by (simp add: waiting_def sum.remove [of _ k])
next
  case (Some x)
  then have "dom (B(k \<mapsto> e)) = dom B" by auto
  with Some show ?thesis by (simp add: waiting_def)
qed

lemma waiting_less:
  assumes "finite (dom L)"
  shows "waiting who name c (L |` (- D)) (B |` (- D)) \<le> waiting who name c L B"
proof -
  have "waiting who name c (L |` (- D)) (B |` (- D)) =
      (\<Sum>k \<in> dom L - dom B - D. unat (c (flow_share who name k (the (L k)))))"
    unfolding waiting_def by (rule sum.cong) auto
  also have "\<dots> \<le> waiting who name c L B"
    unfolding waiting_def using assms by (intro sum_mono2) auto
  finally show ?thesis .
qed

text \<open>The bound: shown and still to be counted together are at most what has passed.\<close>

definition bounded ::
    "('m4, inet_v4_flow) map_ops \<Rightarrow> (stats_maps \<Rightarrow> stats_map) \<Rightarrow> (StatsAgent \<Rightarrow> string \<Rightarrow> string option) \<Rightarrow>
     StatsAgent \<Rightarrow> string \<Rightarrow> (flow_stats \<Rightarrow> u64) \<Rightarrow> ('m4, 'm6) node \<Rightarrow> bool" where
  "bounded ops4 sel who a0 name c n \<longleftrightarrow>
     finite (dom (lookup_elem ops4 (v4_map (kernel_part n)))) \<and> system_ok (agent_part n) \<and> cluster (agent_part n) = a0 \<and>
     unat (c (agg (sel (stats_of (metric (agent_part n)))) \<lparr>ep0 = name, ep1 = ''''\<rparr>)) +
       waiting (who a0) name c (lookup_elem ops4 (v4_map (kernel_part n))) (base (metric (agent_part n))) \<le>
     (\<Sum>p \<leftarrow> passed n. unat (c (packet_share (who a0) name p)))"

locale watched = endpoints sel charges_of who + deleting_maps ops4 ops6 del
  for sel charges_of who and ops4 :: "('m4, inet_v4_flow) map_ops"
    and ops6 :: "('m6, inet_v6_flow) map_ops" and del +
  assumes task_removes: "run_task loaded deletable task m = Finished (m', ks) \<Longrightarrow>
    \<exists>gone. sel (stats_of m') = del_keys gone (sel (stats_of m))"
begin

lemma packet_bounded:
  assumes "bounded ops4 sel who a0 name c n" and "counter c"
    and "node_step ops4 ops6 del kf subs (Packet p) n = Finished n'"
  shows "bounded ops4 sel who a0 name c n'"
proof -
  from assms(3) obtain r s where run: "bpf_flow_reader ops4 ops6 (fst p) (snd p) (kernel_part n) = Some (r, s)"
    and n': "n' = n\<lparr>kernel_part := s, passed := passed n @ [p]\<rparr>"
    by (auto split: option.splits)
  from packet_lookup [OF run] show ?thesis
  proof (elim disjE exE conjE)
    assume "lookup_elem ops4 (v4_map s) = lookup_elem ops4 (v4_map (kernel_part n))"
    with assms(1) show ?thesis by (simp add: n' bounded_def)
  next
    fix k
    assume key: "packet_key p = Some (V4_key k)" and L: "lookup_elem ops4 (v4_map s) =
      (lookup_elem ops4 (v4_map (kernel_part n)))(k \<mapsto> add_stats
        (case lookup_elem ops4 (v4_map (kernel_part n)) k of None \<Rightarrow> zero_stats | Some v \<Rightarrow> v)
        (packet_stats (snd p) (skb_len (fst p))))"
    from assms(1) waiting_more [OF _ assms(2), of "lookup_elem ops4 (v4_map (kernel_part n))" "who a0" name k
        "packet_stats (snd p) (skb_len (fst p))" "base (metric (agent_part n))"]
    show ?thesis by (auto simp: n' bounded_def L key packet_share_def)
  qed
qed

lemma next_bounded:
  assumes "bounded ops4 sel who a0 name c n" and "counter c" and "well_named a0"
    and "node_step ops4 ops6 del kf subs (Agent (Scan_next (k, v))) n = Finished n'"
    and "system_ok (agent_part n')"
  shows "bounded ops4 sel who a0 name c n'"
proof -
  let ?L = "lookup_elem ops4 (v4_map (kernel_part n))" and ?key = "\<lparr>ep0 = name, ep1 = ''''\<rparr>"
  from assms(4) obtain s where step: "agent_step kf subs (Scan_next (k, v)) (agent_part n) = Finished s"
    and L: "?L k = Some v" and n': "n' = n\<lparr>agent_part := s\<rparr>"
    by (auto simp: offered_def deleted_keys_def split: if_splits call.splits simp del: agent_step.simps)
  from step obtain t td m td' where "position_of (agent_part n) = Scanning t td"
    and run: "scan_step (cluster (agent_part n)) subs t (k, v) (metric (agent_part n), td) = Some (m, td')"
    and s: "s = (agent_part n)\<lparr>metric := m, position_of := Scanning t td'\<rparr>"
    by (rule next_stepE)
  have wf: "metrics_wf (metric (agent_part n))" and c0: "cluster (agent_part n) = a0" and fin: "finite (dom ?L)"
    using assms(1) by (simp_all add: bounded_def system_ok_def)
  have "agg (sel (stats_of m)) ?key = (if base (metric (agent_part n)) k = None
      then add_stats (agg (sel (stats_of (metric (agent_part n)))) ?key) (flow_share (who a0) name k v)
      else agg (sel (stats_of (metric (agent_part n)))) ?key)"
    using round_charges [OF run, of ?key] charged_shares [OF assms(3), of "[(k, v)]" name] by (simp add: c0)
  then have "unat (c (agg (sel (stats_of m)) ?key)) \<le>
      unat (c (agg (sel (stats_of (metric (agent_part n)))) ?key)) +
      (if base (metric (agent_part n)) k = None then unat (c (flow_share (who a0) name k v)) else 0)"
    using counter_le [OF assms(2)] by simp
  with waiting_seen [OF fin L, of "who a0" name c "base (metric (agent_part n))"
      "next_entry t v (base (metric (agent_part n)) k)"]
    assms(1,5) scan_step_effect(2) [OF run wf] c0
  show ?thesis by (auto simp: bounded_def n' s split: if_splits)
qed

lemma delete_bounded:
  assumes "bounded ops4 sel who a0 name c n" and "counter c"
    and "node_step ops4 ops6 del kf subs (Agent (Delete i loaded deletable)) n = Finished n'"
    and "\<And>k. deletable k" and "system_ok (agent_part n')"
  shows "bounded ops4 sel who a0 name c n'"
proof -
  let ?L = "lookup_elem ops4 (v4_map (kernel_part n))" and ?key = "\<lparr>ep0 = name, ep1 = ''''\<rparr>"
  let ?ks = "if loaded then toDeleteList (tasks (metric (agent_part n)) ! i) else []"
  have all: "filter deletable xs = xs" for xs using assms(4) by simp
  from assms(3) obtain s where step: "agent_step kf subs (Delete i loaded deletable) (agent_part n) = Finished s"
    and n': "n' = n\<lparr>agent_part := s, kernel_part := (kernel_part n)\<lparr>v4_map := fold (\<lambda>k m. del m k) ?ks (v4_map (kernel_part n))\<rparr>\<rparr>"
    by (auto simp: offered_def deleted_keys_def Let_def all split: if_splits call.splits
        simp del: agent_step.simps)
  from step obtain m ks where run: "run_task loaded deletable (tasks (metric (agent_part n)) ! i) (metric (agent_part n)) =
      Finished (m, ks)" and s: "s = (agent_part n)\<lparr>metric := m\<lparr>tasks := take i (tasks m) @ drop (Suc i) (tasks m)\<rparr>\<rparr>"
    by (rule delete_stepE)
  have b: "base m = base (metric (agent_part n)) |` (- set ?ks)"
    using run by (auto simp: run_task_def Let_def base_del split: if_splits)
  obtain gone where "sel (stats_of m) = del_keys gone (sel (stats_of (metric (agent_part n))))"
    using task_removes [OF run] by blast
  then have "agg (sel (stats_of m)) ?key = agg (sel (stats_of (metric (agent_part n)))) ?key \<or>
      agg (sel (stats_of m)) ?key = zero_stats"
    by (auto simp: agg_def map_of_del_keys restrict_map_def)
  then have "unat (c (agg (sel (stats_of m)) ?key)) \<le> unat (c (agg (sel (stats_of (metric (agent_part n)))) ?key))"
    using assms(2) by (auto simp: counter_def)
  moreover have "waiting (who a0) name c (?L |` (- set ?ks)) (base m) \<le>
      waiting (who a0) name c ?L (base (metric (agent_part n)))"
    unfolding b using assms(1) by (intro waiting_less) (simp add: bounded_def)
  ultimately show ?thesis
    using assms(1,5) by (auto simp: bounded_def n' s fold_del)
qed

text \<open>All other steps of the agent leave maps and aggregates as they are.\<close>

lemma quiet_bounded:
  assumes "bounded ops4 sel who a0 name c n"
    and "node_step ops4 ops6 del kf subs (Agent a) n = Finished n'"
    and "a \<in> {Fire, Close, Stop_case, Tick_case, Scan_end} \<or> (\<exists>loaded. a = Scan_lock loaded)"
    and "system_ok (agent_part n')"
  shows "bounded ops4 sel who a0 name c n'"
proof -
  from assms(2,3) obtain s where step: "agent_step kf subs a (agent_part n) = Finished s" and n': "n' = n\<lparr>agent_part := s\<rparr>"
    by (auto simp: offered_def deleted_keys_def split: if_splits call.splits simp del: agent_step.simps)
  from step assms(3) have "cluster s = cluster (agent_part n) \<and> base (metric s) = base (metric (agent_part n)) \<and>
      agg (sel (stats_of (metric s))) = agg (sel (stats_of (metric (agent_part n))))"
    by (auto split: if_splits position.splits)
  with assms(1,4) show ?thesis by (simp add: bounded_def n')
qed

lemma node_bounded:
  assumes "bounded ops4 sel who a0 name c n" and "counter c" and "well_named a0"
    and "only steady (node_step ops4 ops6 del kf (registerPrometheusMetrics subs)) na n = Finished n'"
  shows "bounded ops4 sel who a0 name c n'"
proof (cases na)
  case (Packet p)
  with assms packet_bounded show ?thesis by (simp add: only_def)
next
  case (Agent a)
  from assms(4) have step: "node_step ops4 ops6 del kf (registerPrometheusMetrics subs) (Agent a) n = Finished n'"
    and ok: "steady (Agent a)" by (simp_all add: only_def Agent split: if_splits)
  from step have "agent_step kf (registerPrometheusMetrics subs) a (agent_part n) = Finished (agent_part n')"
    by (auto simp: Let_def split: if_splits call.splits simp del: agent_step.simps)
  then have sys: "system_ok (agent_part n')"
    using assms(1) running.step_keeps by (auto simp: bounded_def simp del: agent_step.simps)
  show ?thesis
  proof (cases a)
    case (Informer e)
    with ok show ?thesis by simp
  next
    case (Scan_next kv)
    with next_bounded [OF assms(1-3)] step sys show ?thesis by (cases kv) simp
  next
    case (Delete i loaded deletable)
    with delete_bounded [OF assms(1,2)] step ok sys show ?thesis by simp
  next
    case Serve_error
    with step show ?thesis by (simp add: offered_def)
  next
    case (Collision e kv)
    with step show ?thesis
      by (cases "agent_step kf (registerPrometheusMetrics subs) a (agent_part n)")
         (simp_all add: offered_def collision_ends del: agent_step.simps)
  qed (use quiet_bounded [OF assms(1) step _ sys] in auto)
qed

end


lemma task_removes_pods:
  "run_task loaded deletable task m = Finished (m', ks) \<Longrightarrow>
   \<exists>gone. podStatsMap (stats_of m') = del_keys gone (podStatsMap (stats_of m))"
  by (auto simp: run_task_def Let_def split: if_splits intro: exI [of _ "[]"])

lemma task_removes_svcs:
  "run_task loaded deletable task m = Finished (m', ks) \<Longrightarrow>
   \<exists>gone. svcStatsMap (stats_of m') = del_keys gone (svcStatsMap (stats_of m))"
  by (auto simp: run_task_def Let_def split: if_splits intro: exI [of _ "[]"])

lemma watched_pods: "deleting_maps ops4 ops6 del \<Longrightarrow> watched podStatsMap pod_charges podIpToName ops4 ops6 del"
  by (intro watched.intro pod_ends.endpoints_axioms watched_axioms.intro task_removes_pods)

lemma watched_svcs: "deleting_maps ops4 ops6 del \<Longrightarrow> watched svcStatsMap svc_charges svc_at ops4 ops6 del"
  by (intro watched.intro svc_ends.endpoints_axioms watched_axioms.intro task_removes_svcs)

interpretation hash_pods: watched podStatsMap pod_charges podIpToName hash_ops hash_ops hm_delete
  by (rule watched_pods [OF hash_deleting.deleting_maps_axioms])

interpretation hash_svcs: watched svcStatsMap svc_charges svc_at hash_ops hash_ops hm_delete
  by (rule watched_svcs [OF hash_deleting.deleting_maps_axioms])

section \<open>What has passed, by endpoint\<close>

lemma packet_share_ends:
  "packet_share who name p =
     (case ipv4_flow p of
        None \<Rightarrow> zero_stats
      | Some k \<Rightarrow> add_stats
          (if who (GetSrcIp k) = Some name then packet_stats CGROUP_INGRESS (skb_len (fst p)) else zero_stats)
          (if who (GetDstIp k) = Some name then packet_stats CGROUP_EGRESS (skb_len (fst p)) else zero_stats))"
proof (cases "ipv4_flow p")
  case None
  then have "packet_key p \<noteq> Some (V4_key k)" for k by (simp add: packet_key_v4)
  with None show ?thesis by (auto simp: packet_share_def split: option.splits flow_key.splits)
next
  case (Some k)
  then have "packet_key p = Some (V4_key (normalize_v4_flow k (snd p)))" by (simp add: packet_key_v4)
  with Some show ?thesis
    by (cases "snd p")
       (auto simp: packet_share_def flow_share_def packet_stats_def fs_swap_def add_stats_def zero_stats_def)
qed

lemma unat_len: "unat (ucast (w :: u32) :: u64) = unat w"
  by (simp add: unsigned_ucast_eq take_bit_nat_eq_self order_less_trans [OF unsigned_less])

lemma passed_shares:
  "(\<Sum>p \<leftarrow> ps. unat (out_packets (packet_share who name p))) = length (packets_from who name ps)"
  "(\<Sum>p \<leftarrow> ps. unat (in_packets (packet_share who name p))) = length (packets_to who name ps)"
  "(\<Sum>p \<leftarrow> ps. unat (out_bytes (packet_share who name p))) = (\<Sum>skb \<leftarrow> packets_from who name ps. unat (skb_len skb))"
  "(\<Sum>p \<leftarrow> ps. unat (in_bytes (packet_share who name p))) = (\<Sum>skb \<leftarrow> packets_to who name ps. unat (skb_len skb))"
  by (induction ps)
     (auto simp: packet_share_ends packets_from_def packets_to_def packet_stats_def unat_len
       split: option.splits)

fun packets_in :: "node_action list \<Rightarrow> packet list" where
  "packets_in [] = []"
| "packets_in (Packet p # as) = p # packets_in as"
| "packets_in (Agent a # as) = packets_in as"

lemma run_passed:
  "run_all (node_step ops4 ops6 del kf subs) as n = Finished n' \<Longrightarrow> passed n' = passed n @ packets_in as"
proof (induction as arbitrary: n)
  case (Cons na as)
  from Cons.prems obtain n1 where one: "node_step ops4 ops6 del kf subs na n = Finished n1"
    and rest: "run_all (node_step ops4 ops6 del kf subs) as n1 = Finished n'"
    by (rule run_all_ConsE)
  from one have "passed n1 = passed n @ packets_in [na]"
    by (cases na) (auto simp: Let_def split: option.splits if_splits call.splits simp del: agent_step.simps)
  with Cons.IH [OF rest] show ?case by (cases na) simp_all
qed simp

section \<open>The bound in every run\<close>

definition fresh_node :: "('m4, 'm6) kernel_state \<Rightarrow> agent_system \<Rightarrow> ('m4, 'm6) node" where
  "fresh_node k s = \<lparr>kernel_part = k, agent_part = s, passed = []\<rparr>"

lemma run_bounded:
  assumes "watched sel charges_of who ops4 ops6 del" and "counter c" and "well_named a0"
    and "lookup_elem ops4 (v4_map k0) = Map.empty" and "runMetric interval a0 = Some s0"
    and "sel no_maps = []"
    and "run_all (node_step ops4 ops6 del kf (registerPrometheusMetrics subs)) as (fresh_node k0 s0) = Finished n"
    and "list_all steady as"
  shows "unat (c (agg (sel (stats_of (metric (agent_part n)))) \<lparr>ep0 = name, ep1 = ''''\<rparr>)) \<le>
    (\<Sum>p \<leftarrow> packets_in as. unat (c (packet_share (who a0) name p)))"
proof -
  let ?step = "only steady (node_step ops4 ops6 del kf (registerPrometheusMetrics subs))"
  have keeps: "kept ?step (bounded ops4 sel who a0 name c)"
    by (rule kept.intro) (rule watched.node_bounded [OF assms(1) _ assms(2,3)])
  have "metric s0 = NewInetV4FlowMetricsEntry"
    using assms(5) by (auto simp: runMetric_def split: if_splits)
  then have "bounded ops4 sel who a0 name c (fresh_node k0 s0)"
    using runMetric_ok [OF assms(5)] assms(2,4,6)
    by (simp add: bounded_def fresh_node_def waiting_def counter_def agg_def)
       (simp add: NewInetV4FlowMetricsEntry_def)
  moreover have "run_all ?step as (fresh_node k0 s0) = Finished n"
    by (simp add: run_only [OF assms(8)] assms(7))
  ultimately have "bounded ops4 sel who a0 name c n" by (rule kept.run_keeps [OF keeps, rotated])
  moreover have "passed n = packets_in as" using run_passed [OF assms(7)] by (simp add: fresh_node_def)
  ultimately show ?thesis by (simp add: bounded_def)
qed

text \<open>
  C6: No interleaving makes the agent show more than has passed. While packets run through
  the program, scans read the map round by round and deletions take idle flows out of it,
  every counter of every pod and of every service is at most the number of packets, or of
  bytes, that have passed with its address as source ("out") or as destination ("in"), as
  long as the picture of the cluster stands still and deletions in the kernel succeed.
\<close>

theorem never_more_than_passed:
  assumes "deleting_maps ops4 ops6 del" and "well_named a0"
    and "lookup_elem ops4 (v4_map k0) = Map.empty" and "runMetric interval a0 = Some s0"
    and "run_all (node_step ops4 ops6 del keyFunc (registerPrometheusMetrics subs)) as (fresh_node k0 s0) = Finished n"
    and "list_all steady as"
  shows "let pod = agg (podStatsMap (stats_of (metric (agent_part n)))) \<lparr>ep0 = name, ep1 = ''''\<rparr>;
      svc = agg (svcStatsMap (stats_of (metric (agent_part n)))) \<lparr>ep0 = name, ep1 = ''''\<rparr>;
      ps = packets_in as in
    unat (out_packets pod) \<le> length (packets_from (podIpToName a0) name ps) \<and>
    unat (in_packets pod) \<le> length (packets_to (podIpToName a0) name ps) \<and>
    unat (out_bytes pod) \<le> (\<Sum>skb \<leftarrow> packets_from (podIpToName a0) name ps. unat (skb_len skb)) \<and>
    unat (in_bytes pod) \<le> (\<Sum>skb \<leftarrow> packets_to (podIpToName a0) name ps. unat (skb_len skb)) \<and>
    unat (out_packets svc) \<le> length (packets_from (svc_at a0) name ps) \<and>
    unat (in_packets svc) \<le> length (packets_to (svc_at a0) name ps) \<and>
    unat (out_bytes svc) \<le> (\<Sum>skb \<leftarrow> packets_from (svc_at a0) name ps. unat (skb_len skb)) \<and>
    unat (in_bytes svc) \<le> (\<Sum>skb \<leftarrow> packets_to (svc_at a0) name ps. unat (skb_len skb))"
proof -
  have none: "podStatsMap no_maps = []" "svcStatsMap no_maps = []" by (simp_all add: no_maps_def)
  note pod = run_bounded [OF watched_pods [OF assms(1)] _ assms(2-4) none(1) assms(5,6), of _ name]
  note svc = run_bounded [OF watched_svcs [OF assms(1)] _ assms(2-4) none(2) assms(5,6), of _ name]
  show ?thesis
    using pod [OF the_counters(1)] pod [OF the_counters(2)] pod [OF the_counters(3)] pod [OF the_counters(4)]
      svc [OF the_counters(1)] svc [OF the_counters(2)] svc [OF the_counters(3)] svc [OF the_counters(4)]
    unfolding Let_def passed_shares by blast
qed

text \<open>A second packet of a flow passes between the round that sees the flow and the end of the scan.\<close>

definition sample_node_run :: "node_action list" where
  "sample_node_run =
     [Packet (sample_request, CGROUP_INGRESS), Agent Fire, Agent Tick_case, Agent (Scan_lock (Some 1)),
      Agent (Scan_next (sample_key, packet_stats CGROUP_INGRESS 60)),
      Packet (sample_request, CGROUP_INGRESS), Agent Scan_end]"

definition sample_start :: agent_system where
  "sample_start = the (runMetric 120 sample_agent)"

fun finishes :: "'a call \<Rightarrow> bool" where
  "finishes (Finished x) = True"
| "finishes _ = False"

lemma sample_node_finishes:
  "finishes (run_all (node_step hash_ops hash_ops hm_delete key_func prom) sample_node_run
     (fresh_node (empty_state 4) sample_start))"
  by code_simp

theorem never_more_than_passed_witness:
  "\<exists>n. run_all (node_step hash_ops hash_ops hm_delete key_func prom) sample_node_run
      (fresh_node (empty_state 4) sample_start) = Finished n \<and>
    unat (out_packets (agg (podStatsMap (stats_of (metric (agent_part n)))) \<lparr>ep0 = ''shop/web'', ep1 = ''''\<rparr>)) \<le> 2"
proof -
  obtain n where run: "run_all (node_step hash_ops hash_ops hm_delete key_func prom) sample_node_run
      (fresh_node (empty_state 4) sample_start) = Finished n"
    using sample_node_finishes
    by (cases "run_all (node_step hash_ops hash_ops hm_delete key_func prom) sample_node_run
      (fresh_node (empty_state 4) sample_start)") simp_all
  have wn: "well_named sample_agent" by (simp add: well_named_def sample_agent_eq)
  have empty: "lookup_elem hash_ops (v4_map (empty_state 4)) = Map.empty"
    by (simp add: fun_eq_iff empty_state_def hash_ops_def hm_lookup_def)
  have "ticker_ok 120" by code_simp
  then have start: "runMetric 120 sample_agent = Some sample_start"
    by (simp add: sample_start_def runMetric_def)
  have steady: "list_all steady sample_node_run" by (simp add: sample_node_run_def)
  have "length (packets_from (podIpToName sample_agent) ''shop/web'' (packets_in sample_node_run)) \<le> 2"
    by (simp add: packets_from_def sample_node_run_def le_Suc_eq)
  with never_more_than_passed [OF hash_deleting.deleting_maps_axioms wn empty start
      run [unfolded prom_def] steady, of "''shop/web''"] run
  show ?thesis by (auto simp: Let_def)
qed


section \<open>A deletion that fails\<close>

lemma only_entry:
  "distinct (map fst xs) \<Longrightarrow> (k, v) \<in> set xs \<Longrightarrow> filter (\<lambda>(k', v'). k' = k) xs = [(k, v)]"
  by (induction xs) (force simp: filter_empty_conv)+

lemma task_forgets:
  assumes "run_task True deletable task m = Finished (m1, gone)"
  shows "base m1 = base m |` (- set (toDeleteList task))" and "gone = filter deletable (toDeleteList task)"
  using assms by (auto simp: run_task_def Let_def base_del split: if_splits)

text \<open>
  C25: A deletion that fails counts its flow twice. The goroutine takes the flow out of the
  agent's own table even when the kernel has kept it; the next scan finds it there, takes
  it for a new one, and adds all it has ever counted to its pods and services once more.
\<close>

theorem failed_delete_counts_twice:
  assumes "run_task True deletable task m = Finished (m1, gone)"
    and "k \<in> set (toDeleteList task)" and "\<not> deletable k"
    and "UpdateStats agent subs t (Some entries) m1 = Finished m2"
    and "metrics_wf m" and "distinct (map fst entries)" and "(k, v) \<in> set entries"
    and "\<And>k' v'. (k', v') \<in> set entries \<Longrightarrow> k' \<noteq> k \<Longrightarrow> base m1 k' \<noteq> None"
    and "well_named agent"
  shows "k \<notin> set gone \<and>
    agg (podStatsMap (stats_of m2)) \<lparr>ep0 = name, ep1 = ''''\<rparr> =
      add_stats (agg (podStatsMap (stats_of m1)) \<lparr>ep0 = name, ep1 = ''''\<rparr>)
        (flow_share (podIpToName agent) name k v) \<and>
    agg (svcStatsMap (stats_of m2)) \<lparr>ep0 = name, ep1 = ''''\<rparr> =
      add_stats (agg (svcStatsMap (stats_of m1)) \<lparr>ep0 = name, ep1 = ''''\<rparr>)
        (flow_share (svc_at agent) name k v)"
proof -
  note task = task_forgets [OF assms(1)]
  have wf: "metrics_wf m1" using task_wf [OF assms(1,5)] by simp
  have "base m1 k = None" using assms(2) by (simp add: task)
  with assms(8) have "filter (\<lambda>(k', v'). base m1 k' = None) entries = filter (\<lambda>(k', v'). k' = k) entries"
    by (intro filter_cong) (auto, metis option.distinct(1))
  then have new: "filter (\<lambda>(k', v'). base m1 k' = None) entries = [(k, v)]"
    by (simp only: only_entry [OF assms(6,7)])
  show ?thesis
    using assms(3)
    by (simp add: task(2) pods.update_charges [OF assms(4) wf assms(6)] svcs.update_charges [OF assms(4) wf assms(6)]
        new pod_ends.charged_shares [OF assms(9)] svc_ends.charged_shares [OF assms(9)]
        del: all_charges.simps)
qed

definition sample_deletion :: delete_task where
  "sample_deletion = \<lparr>toDeleteList = [web_to_db], toDeleteKnownStatsList = [],
     toDeletePodStatsList = [], toDeleteSvcStatsList = []\<rparr>"

theorem failed_delete_counts_twice_witness:
  "\<exists>m m1 m2. UpdateStats sample_agent prom 1 (Some [(web_to_db, first_count)]) NewInetV4FlowMetricsEntry = Finished m \<and>
     run_task True (\<lambda>_. False) sample_deletion m = Finished (m1, []) \<and>
     UpdateStats sample_agent prom 2 (Some [(web_to_db, first_count)]) m1 = Finished m2 \<and>
     agg (podStatsMap (stats_of m2)) \<lparr>ep0 = ''shop/web'', ep1 = ''''\<rparr> = add_stats first_count first_count"
proof -
  obtain m where one: "UpdateStats sample_agent prom 1 (Some [(web_to_db, first_count)]) NewInetV4FlowMetricsEntry = Finished m"
      "log_ok (stats_of m)" "\<not> mutex_held m"
    using update_possible [OF start_ok] by blast
  have wf: "metrics_wf m" using UpdateStats_base(1) [OF one(1) new_metrics_wf] by simp
  define m1 where "m1 = m\<lparr>baseMap := del_keys [web_to_db] (baseMap m)\<rparr>"
  have del: "run_task True (\<lambda>_. False) sample_deletion m = Finished (m1, [])"
    using one(3) by (simp add: run_task_def sample_deletion_def m1_def Let_def)
  have ok: "log_ok (stats_of m1)" "\<not> mutex_held m1" using one(2,3) by (simp_all add: m1_def)
  obtain m2 where two: "UpdateStats sample_agent prom 2 (Some [(web_to_db, first_count)]) m1 = Finished m2"
    using update_possible [OF ok(2,1)] by blast
  have wn: "well_named sample_agent" by (simp add: well_named_def sample_agent_eq)
  have share: "flow_share (podIpToName sample_agent) ''shop/web'' web_to_db first_count = first_count"
    by (simp add: flow_share_def sample_agent_eq sample_flow_text)
  have "agg (podStatsMap (stats_of m)) \<lparr>ep0 = ''shop/web'', ep1 = ''''\<rparr> = first_count"
    using pods.update_charges [OF one(1) new_metrics_wf, of "\<lparr>ep0 = ''shop/web'', ep1 = ''''\<rparr>"]
    by (simp add: start_state web_to_db_key pod_charges_def src_key_def dst_key_def)
  then have "agg (podStatsMap (stats_of m2)) \<lparr>ep0 = ''shop/web'', ep1 = ''''\<rparr> = add_stats first_count first_count"
    using failed_delete_counts_twice [OF del _ _ two wf, of web_to_db first_count "''shop/web''"] wn
    by (simp add: sample_deletion_def share m1_def)
  with one(1) del two show ?thesis by blast
qed

end
