(* ===== verification/Idle_Flows.thy ===== *)
theory Idle_Flows
  imports Node
begin

text \<open>
  The life of an idle flow on a whole node: three rounds of scans that find its counters
  where they were, whatever happens between them, and the deletion from both maps.
\<close>

section \<open>Stages\<close>

text \<open>The flow waits for its deletion: in the list of the scan under way, or in a task.\<close>

definition due :: "inet_v4_flow \<Rightarrow> agent_system \<Rightarrow> bool" where
  "due k s \<longleftrightarrow> (case position_of s of Scanning t td \<Rightarrow> k \<in> set td | _ \<Rightarrow> False) \<or>
     list_ex (\<lambda>task. k \<in> set (toDeleteList task)) (tasks (metric s))"

text \<open>\<open>e\<close> is the entry the flow starts with, \<open>j\<close> the number of idle rounds since then.\<close>

definition ageing :: "inet_v4_flow \<Rightarrow> FlowStatsEntry \<Rightarrow> nat \<Rightarrow> agent_system \<Rightarrow> bool" where
  "ageing k e j s \<longleftrightarrow>
     (if j < 3 then base (metric s) k = Some (e\<lparr>Aging_counter := of_nat j\<rparr>) \<and> \<not> due k s
      else base (metric s) k = None \<or> (base (metric s) k = Some (e\<lparr>Aging_counter := 3\<rparr>) \<and> due k s))"

fun sees :: "inet_v4_flow \<Rightarrow> node_action \<Rightarrow> bool" where
  "sees k (Agent (Scan_next (k', v))) \<longleftrightarrow> k' = k"
| "sees k _ \<longleftrightarrow> False"

fun load_fails :: "node_action \<Rightarrow> bool" where
  "load_fails (Agent (Delete i loaded deletable)) \<longleftrightarrow> \<not> loaded"
| "load_fails _ \<longleftrightarrow> False"


lemma ageing_frame:
  "due k s' = due k s \<Longrightarrow> base (metric s') k = base (metric s) k \<Longrightarrow> ageing k e j s \<Longrightarrow> ageing k e j s'"
  by (simp add: ageing_def)

section \<open>Steps of the agent\<close>

lemma next_ages:
  assumes "agent_step kf subs (Scan_next (k', v)) s = Finished s'" and "system_ok s" and "ageing k e j s"
  shows "k' \<noteq> k \<Longrightarrow> ageing k e j s'"
    and "k' = k \<Longrightarrow> v = Stats e \<Longrightarrow> j < 3 \<Longrightarrow> ageing k e (Suc j) s'"
proof -
  from assms(1) obtain t td m td' where pos: "position_of s = Scanning t td"
    and run: "scan_step (cluster s) subs t (k', v) (metric s, td) = Some (m, td')"
    and s': "s' = s\<lparr>metric := m, position_of := Scanning t td'\<rparr>"
    by (rule next_stepE)
  have "metrics_wf (metric s)" using assms(2) by (simp add: system_ok_def)
  note eff = scan_step_effect [OF run this]
  show "ageing k e j s'" if "k' \<noteq> k"
  proof -
    have "due k s' = due k s" using that by (simp add: due_def s' pos eff(3,5))
    moreover have "base (metric s') k = base (metric s) k" using that by (simp add: s' eff(2))
    ultimately show ?thesis using assms(3) by (rule ageing_frame)
  qed
  show "ageing k e (Suc j) s'" if "k' = k" "v = Stats e" "j < 3"
  proof -
    have old: "base (metric s) k = Some (e\<lparr>Aging_counter := of_nat j\<rparr>)" "\<not> due k s"
      using assms(3) that(3) by (simp_all add: ageing_def)
    have new: "base (metric s') k = Some (e\<lparr>Aging_counter := of_nat j + 1\<rparr>)"
      using that(1,2) old(1) by (simp add: s' eff(2) next_entry_def)
    have "td' = td @ (if (3 :: u8) \<le> of_nat j + 1 then [k] else [])"
      using that(1,2) old(1) eff(3) by (simp add: idle_out_def)
    then have due: "due k s' \<longleftrightarrow> (3 :: u8) \<le> of_nat j + 1"
      using old(2) by (simp add: due_def s' pos eff(5))
    from that(3) have "j \<in> {0, 1, 2}" by auto
    with new due show ?thesis by (elim insertE) (simp_all add: ageing_def word_le_nat_alt)
  qed
qed

lemma delete_ages:
  assumes "agent_step kf subs (Delete i True d) s = Finished s'" and "ageing k e j s"
  shows "ageing k e j s'"
proof -
  from assms(1) obtain m ks where i: "i < length (tasks (metric s))"
    and run: "run_task True d (tasks (metric s) ! i) (metric s) = Finished (m, ks)"
    and s': "s' = s\<lparr>metric := m\<lparr>tasks := take i (tasks m) @ drop (Suc i) (tasks m)\<rparr>\<rparr>"
    by (rule delete_stepE)
  let ?gone = "set (toDeleteList (tasks (metric s) ! i))"
  have tasks: "tasks m = tasks (metric s)" and b: "base m = base (metric s) |` (- ?gone)"
    using run by (auto simp: run_task_def Let_def base_del split: if_splits)
  have split: "tasks (metric s) = take i (tasks (metric s)) @ tasks (metric s) ! i # drop (Suc i) (tasks (metric s))"
    by (rule id_take_nth_drop [OF i])
  have due: "due k s \<longleftrightarrow> due k s' \<or> k \<in> ?gone"
    unfolding due_def by (subst split) (simp add: s' tasks disj_ac conj_ac)
  show ?thesis
  proof (cases "k \<in> ?gone")
    case True
    with due have "due k s" by simp
    with assms(2) have "\<not> j < 3" by (auto simp: ageing_def)
    moreover have "base (metric s') k = None" using True by (simp add: s' b)
    ultimately show ?thesis by (simp add: ageing_def)
  next
    case False
    then have "due k s' = due k s" "base (metric s') k = base (metric s) k" by (simp_all add: s' b due)
    then show ?thesis using assms(2) by (rule ageing_frame)
  qed
qed

text \<open>All other actions leave the flow where it is.\<close>

lemma quiet_ages:
  assumes "agent_step kf subs a s = Finished s'" and "ageing k e j s"
    and "\<nexists>kv. a = Scan_next kv" and "\<nexists>i loaded d. a = Delete i loaded d"
  shows "ageing k e j s'"
proof (cases "a = Scan_end")
  case True
  from assms(1) [unfolded True] obtain t td where "position_of s = Scanning t td"
    and s': "s' = s\<lparr>metric := finish_scan t (metric s) td, position_of := Selecting\<rparr>"
    by (rule end_stepE)
  then have "due k s' = due k s" by (auto simp: due_def)
  moreover have "base (metric s') k = base (metric s) k" by (simp add: s')
  ultimately show ?thesis using assms(2) by (rule ageing_frame)
next
  case False
  with assms have "due k s' = due k s \<and> base (metric s') k = base (metric s) k"
    by (cases a) (auto simp: due_def split: option.splits if_splits position.splits)
  then show ?thesis using assms(2) by (blast intro: ageing_frame)
qed

section \<open>Steps of the node\<close>

lemma node_ages:
  assumes "node_step ops4 ops6 del kf subs na n = Finished n'" and "system_ok (agent_part n)"
    and "ageing k e j (agent_part n)" and "\<not> load_fails na"
  shows "\<not> sees k na \<Longrightarrow> ageing k e j (agent_part n')"
    and "na = Agent (Scan_next (k, Stats e)) \<Longrightarrow> j < 3 \<Longrightarrow> ageing k e (Suc j) (agent_part n')"
proof -
  have agent: "agent_step kf subs a (agent_part n) = Finished (agent_part n')" if "na = Agent a" for a
    using assms(1) that by (auto simp: Let_def split: if_splits call.splits simp del: agent_step.simps)
  show "ageing k e j (agent_part n')" if "\<not> sees k na"
  proof (cases na)
    case (Packet p)
    with assms(1,3) show ?thesis by (auto split: option.splits)
  next
    case (Agent a)
    note step = agent [OF Agent]
    show ?thesis
    proof (cases a)
      case (Scan_next kv)
      obtain k' v where kv: "kv = (k', v)" by fastforce
      with that Agent Scan_next have "k' \<noteq> k" by simp
      with next_ages(1) [OF step [unfolded Scan_next kv] assms(2,3)] show ?thesis .
    next
      case (Delete i loaded d)
      with assms(4) Agent have "loaded" by simp
      with step Delete have "agent_step kf subs (Delete i True d) (agent_part n) = Finished (agent_part n')" by simp
      then show ?thesis by (rule delete_ages) (rule assms(3))
    qed (use quiet_ages [OF step assms(3)] in auto)
  qed
  show "ageing k e (Suc j) (agent_part n')" if "na = Agent (Scan_next (k, Stats e))" "j < 3"
    using next_ages(2) [OF agent [OF that(1)] assms(2,3) refl refl that(2)] .
qed

interpretation node_running: kept "node_step ops4 ops6 del kf (registerPrometheusMetrics subs)"
    "\<lambda>n. system_ok (agent_part n)" for ops4 ops6 del kf subs
proof
  fix na n n'
  assume step: "node_step ops4 ops6 del kf (registerPrometheusMetrics subs) na n = Finished n'"
    and ok: "system_ok (agent_part n)"
  show "system_ok (agent_part n')"
  proof (cases na)
    case (Packet p)
    with step ok show ?thesis by (auto split: option.splits)
  next
    case (Agent a)
    with step have "agent_step kf (registerPrometheusMetrics subs) a (agent_part n) = Finished (agent_part n')"
      by (auto simp: Let_def split: if_splits call.splits simp del: agent_step.simps)
    with ok running.step_keeps show ?thesis by blast
  qed
qed

lemma run_ages:
  assumes "run_all (node_step ops4 ops6 del kf (registerPrometheusMetrics subs)) as n = Finished n'"
    and "system_ok (agent_part n)" and "ageing k e i (agent_part n)"
    and "filter (sees k) as = replicate j (Agent (Scan_next (k, Stats e)))" and "i + j \<le> 3"
    and "\<not> list_ex load_fails as"
  shows "ageing k e (i + j) (agent_part n')"
  using assms
proof (induction as arbitrary: n i j)
  case (Cons na as)
  from Cons.prems(1) obtain n1
    where step: "node_step ops4 ops6 del kf (registerPrometheusMetrics subs) na n = Finished n1"
      and rest: "run_all (node_step ops4 ops6 del kf (registerPrometheusMetrics subs)) as n1 = Finished n'"
    by (rule run_all_ConsE)
  have ok: "system_ok (agent_part n1)" by (rule node_running.step_keeps [OF step Cons.prems(2)])
  have load: "\<not> load_fails na" "\<not> list_ex load_fails as" using Cons.prems(6) by simp_all
  note ages = node_ages [OF step Cons.prems(2,3) load(1)]
  show ?case
  proof (cases "sees k na")
    case True
    with Cons.prems(4) obtain j' where j: "j = Suc j'" "na = Agent (Scan_next (k, Stats e))"
      "filter (sees k) as = replicate j' (Agent (Scan_next (k, Stats e)))"
      by (cases j) auto
    with Cons.prems(5) have "ageing k e (Suc i) (agent_part n1)" by (intro ages(2)) simp_all
    from Cons.IH [OF rest ok this j(3) _ load(2)] j(1) Cons.prems(5) show ?thesis by simp
  next
    case False
    with Cons.prems(4) have "filter (sees k) as = replicate j (Agent (Scan_next (k, Stats e)))" by simp
    from Cons.IH [OF rest ok ages(1) [OF False] this Cons.prems(5) load(2)] show ?thesis .
  qed
qed simp


text \<open>Only a deletion that loads and has the flow in its list takes it out of the agent's table.\<close>

lemma step_forgets:
  assumes "agent_step kf subs a s = Finished s'" and "system_ok s"
    and "base (metric s) k \<noteq> None" and "base (metric s') k = None"
  shows "\<exists>i d. a = Delete i True d \<and> k \<in> set (toDeleteList (tasks (metric s) ! i))"
proof (cases a)
  case (Scan_next kv)
  obtain k' v where kv: "kv = (k', v)" by fastforce
  from assms(1) [unfolded Scan_next kv] obtain t td m td' where
    run: "scan_step (cluster s) subs t (k', v) (metric s, td) = Some (m, td')"
    and s': "s' = s\<lparr>metric := m, position_of := Scanning t td'\<rparr>"
    by (rule next_stepE)
  have "metrics_wf (metric s)" using assms(2) by (simp add: system_ok_def)
  from scan_step_effect(2) [OF run this] assms(3,4) show ?thesis by (simp add: s' split: if_splits)
next
  case (Delete i loaded d)
  from assms(1) [unfolded Delete] obtain m ks where run: "run_task loaded d (tasks (metric s) ! i) (metric s) = Finished (m, ks)"
    and s': "s' = s\<lparr>metric := m\<lparr>tasks := take i (tasks m) @ drop (Suc i) (tasks m)\<rparr>\<rparr>"
    by (rule delete_stepE)
  show ?thesis
  proof (cases loaded)
    case True
    with run have "run_task True d (tasks (metric s) ! i) (metric s) = Finished (m, ks)" by simp
    from task_forgets(1) [OF this] assms(3,4) have "k \<in> set (toDeleteList (tasks (metric s) ! i))"
      by (auto simp: s' restrict_map_def split: if_splits)
    with Delete True show ?thesis by blast
  next
    case False
    with run have "m = metric s" by (auto simp: run_task_def split: if_splits)
    with assms(3,4) show ?thesis by (simp add: s')
  qed
next
  case Scan_end
  from assms(1) [unfolded Scan_end] obtain t td where
    "s' = s\<lparr>metric := finish_scan t (metric s) td, position_of := Selecting\<rparr>"
    by (rule end_stepE)
  with assms(3,4) show ?thesis by simp
next
  case (Collision e kv)
  with assms(1) show ?thesis by (simp only: collision_ends)
qed (use assms(1,3,4) in \<open>auto split: option.splits if_splits\<close>)

lemma node_forgets:
  assumes "node_step ops4 ops6 del kf subs na n = Finished n'" and "system_ok (agent_part n)"
    and "base (metric (agent_part n)) k \<noteq> None" and "base (metric (agent_part n')) k = None"
  shows "\<exists>i d. na = Agent (Delete i True d) \<and> k \<in> set (toDeleteList (tasks (metric (agent_part n)) ! i))"
proof (cases na)
  case (Packet p)
  with assms show ?thesis by (auto split: option.splits)
next
  case (Agent a)
  then have "agent_step kf subs a (agent_part n) = Finished (agent_part n')"
    using assms(1) by (auto simp: Let_def split: if_splits call.splits simp del: agent_step.simps)
  from step_forgets [OF this assms(2-4)] Agent show ?thesis by blast
qed

section \<open>The deletion\<close>

text \<open>What a deletion whose map loads does to a flow in its list: out of the agent's table,
  and out of the kernel's map too unless the kernel refuses.\<close>

definition expelled ::
    "('m4, inet_v4_flow) map_ops \<Rightarrow> inet_v4_flow \<Rightarrow> bool \<Rightarrow> ('m4, 'm6) node \<Rightarrow> ('m4, 'm6) node \<Rightarrow> bool" where
  "expelled ops4 k deleted n n' \<longleftrightarrow> base (metric (agent_part n')) k = None \<and>
     lookup_elem ops4 (v4_map (kernel_part n')) k =
       (if deleted then None else lookup_elem ops4 (v4_map (kernel_part n)) k)"

context deleting_maps
begin

lemma delete_expels:
  assumes "node_step ops4 ops6 del kf subs (Agent (Delete i True d)) n = Finished n'"
    and "k \<in> set (toDeleteList (tasks (metric (agent_part n)) ! i))"
  shows "expelled ops4 k (d k) n n'"
proof -
  let ?ks = "filter d (toDeleteList (tasks (metric (agent_part n)) ! i))"
  from assms(1) obtain s where step: "agent_step kf subs (Delete i True d) (agent_part n) = Finished s"
    and n': "n' = n\<lparr>agent_part := s,
      kernel_part := (kernel_part n)\<lparr>v4_map := fold (\<lambda>k m. del m k) ?ks (v4_map (kernel_part n))\<rparr>\<rparr>"
    by (auto simp: offered_def deleted_keys_def Let_def split: if_splits call.splits simp del: agent_step.simps)
  from step obtain m ks where run: "run_task True d (tasks (metric (agent_part n)) ! i) (metric (agent_part n)) =
      Finished (m, ks)"
    and s: "s = (agent_part n)\<lparr>metric := m\<lparr>tasks := take i (tasks m) @ drop (Suc i) (tasks m)\<rparr>\<rparr>"
    by (rule delete_stepE)
  show ?thesis
    using assms(2) task_forgets(1) [OF run] by (simp add: expelled_def n' s fold_del)
qed

text \<open>The deletion that took the flow out of the agent's table.\<close>

lemma run_expels:
  assumes "run_all (node_step ops4 ops6 del kf (registerPrometheusMetrics subs)) as n = Finished n'"
    and "system_ok (agent_part n)" and "base (metric (agent_part n)) k \<noteq> None"
    and "base (metric (agent_part n')) k = None"
  shows "\<exists>bs i d cs n1 n2. as = bs @ Agent (Delete i True d) # cs \<and>
    run_all (node_step ops4 ops6 del kf (registerPrometheusMetrics subs)) bs n = Finished n1 \<and>
    node_step ops4 ops6 del kf (registerPrometheusMetrics subs) (Agent (Delete i True d)) n1 = Finished n2 \<and>
    expelled ops4 k (d k) n1 n2"
  using assms
proof (induction as arbitrary: n)
  case (Cons na as)
  let ?step = "node_step ops4 ops6 del kf (registerPrometheusMetrics subs)"
  from Cons.prems(1) obtain n1 where step: "?step na n = Finished n1" and rest: "run_all ?step as n1 = Finished n'"
    by (rule run_all_ConsE)
  have ok: "system_ok (agent_part n1)" by (rule node_running.step_keeps [OF step Cons.prems(2)])
  show ?case
  proof (cases "base (metric (agent_part n1)) k = None")
    case False
    from Cons.IH [OF rest ok False Cons.prems(4)] obtain bs i d cs n2 n3 where
      "as = bs @ Agent (Delete i True d) # cs" "run_all ?step bs n1 = Finished n2"
      "?step (Agent (Delete i True d)) n2 = Finished n3" "expelled ops4 k (d k) n2 n3"
      by blast
    with step show ?thesis
      by (intro exI [of _ "na # bs"] exI [of _ i] exI [of _ d] exI [of _ cs] exI [of _ n2] exI [of _ n3])
         (simp del: node_step.simps)
  next
    case True
    from node_forgets [OF step Cons.prems(2,3) True] obtain i d where
      na: "na = Agent (Delete i True d)" "k \<in> set (toDeleteList (tasks (metric (agent_part n)) ! i))"
      by blast
    with delete_expels step show ?thesis
      by (intro exI [of _ "[]"] exI [of _ i] exI [of _ d] exI [of _ as] exI [of _ n] exI [of _ n1])
         (simp del: node_step.simps)
  qed
qed simp

text \<open>A flow that is due goes once the scan, if one is under way, has ended and the goroutine runs.\<close>

lemma due_goes:
  assumes "due k (agent_part n)" and "scanning (position_of (agent_part n)) \<or> \<not> mutex_held (metric (agent_part n))"
  shows "\<exists>i n'. run_all (node_step ops4 ops6 del kf subs)
      ((if scanning (position_of (agent_part n)) then [Agent Scan_end] else []) @ [Agent (Delete i True d)]) n =
      Finished n' \<and> expelled ops4 k (d k) n n'"
proof -
  have go: "\<exists>i n'. node_step ops4 ops6 del kf subs (Agent (Delete i True d)) n = Finished n' \<and>
      expelled ops4 k (d k) n n'"
    if "list_ex (\<lambda>task. k \<in> set (toDeleteList task)) (tasks (metric (agent_part n)))"
      and free: "\<not> mutex_held (metric (agent_part n))" for n :: "('m4, 'm6) node"
  proof -
    from that(1) obtain i where i: "i < length (tasks (metric (agent_part n)))"
      and k: "k \<in> set (toDeleteList (tasks (metric (agent_part n)) ! i))"
      by (auto simp: list_ex_length)
    obtain m ks where "run_task True d (tasks (metric (agent_part n)) ! i) (metric (agent_part n)) = Finished (m, ks)"
      using free by (simp add: run_task_def Let_def)
    with i obtain n' where "node_step ops4 ops6 del kf subs (Agent (Delete i True d)) n = Finished n'"
      by (simp add: offered_def Let_def)
    with delete_expels [OF this k] show ?thesis by blast
  qed
  show ?thesis
  proof (cases "scanning (position_of (agent_part n))")
    case True
    then obtain t td where pos: "position_of (agent_part n) = Scanning t td" by (rule scanningE)
    let ?n = "n\<lparr>agent_part := (agent_part n)\<lparr>metric := finish_scan t (metric (agent_part n)) td,
      position_of := Selecting\<rparr>\<rparr>"
    have step: "node_step ops4 ops6 del kf subs (Agent Scan_end) n = Finished ?n"
      by (simp add: offered_def deleted_keys_def pos)
    have "list_ex (\<lambda>task. k \<in> set (toDeleteList task)) (tasks (metric (agent_part ?n)))"
      using assms(1) by (auto simp: due_def pos)
    from go [OF this] obtain i n' where "node_step ops4 ops6 del kf subs (Agent (Delete i True d)) ?n = Finished n'"
      "expelled ops4 k (d k) ?n n'"
      by auto
    with step True show ?thesis
      by (intro exI [of _ i] exI [of _ n']) (simp add: expelled_def del: node_step.simps)
  next
    case False
    with assms(1) have "list_ex (\<lambda>task. k \<in> set (toDeleteList task)) (tasks (metric (agent_part n)))"
      by (auto simp: due_def split: position.splits)
    from go [OF this] assms(2) False obtain i n' where
      "node_step ops4 ops6 del kf subs (Agent (Delete i True d)) n = Finished n'" "expelled ops4 k (d k) n n'"
      by blast
    with False show ?thesis
      by (intro exI [of _ i] exI [of _ n']) (simp del: node_step.simps)
  qed
qed

end


section \<open>The life of an idle flow\<close>

text \<open>
  C24: An idle flow is deleted after three idle rounds and not before, in every
  interleaving. Take a flow the agent has just seen with new counters and that no
  deletion is waiting for, and any run of the node after it (packets, scans with any
  other flows, informer events, deletions that find the map) in which the rounds of the
  flow find it with the same counters. After fewer than three such rounds it is in the
  agent's table with that many rounds of age and nothing waits to delete it. After the
  third it waits for its deletion, which needs only the end of the scan and the goroutine,
  or it has been deleted already. Either deletion takes it out of the agent's table and,
  unless the kernel refuses, out of the kernel's map.
\<close>

theorem idle_flow_expires:
  assumes "deleting_maps ops4 ops6 del" and "runMetric interval a0 = Some s0"
    and "run_all (node_step ops4 ops6 del keyFunc (registerPrometheusMetrics subs)) before (fresh_node k0 s0) = Finished n0"
    and "base (metric (agent_part n0)) k = Some e" and "Aging_counter e = 0" and "\<not> due k (agent_part n0)"
    and "run_all (node_step ops4 ops6 del keyFunc (registerPrometheusMetrics subs)) as n0 = Finished n1"
    and "filter (sees k) as = replicate j (Agent (Scan_next (k, Stats e)))" and "j \<le> 3"
    and "\<not> list_ex load_fails as"
  shows "if j < 3 then
      base (metric (agent_part n1)) k = Some (e\<lparr>Aging_counter := of_nat j\<rparr>) \<and> \<not> due k (agent_part n1)
    else if base (metric (agent_part n1)) k = None then
      \<exists>bs i d cs n n'. as = bs @ Agent (Delete i True d) # cs \<and>
        run_all (node_step ops4 ops6 del keyFunc (registerPrometheusMetrics subs)) bs n0 = Finished n \<and>
        node_step ops4 ops6 del keyFunc (registerPrometheusMetrics subs) (Agent (Delete i True d)) n = Finished n' \<and>
        expelled ops4 k (d k) n n'
    else due k (agent_part n1) \<and>
      (scanning (position_of (agent_part n1)) \<or> \<not> mutex_held (metric (agent_part n1)) \<longrightarrow>
        (\<exists>i n2. run_all (node_step ops4 ops6 del keyFunc (registerPrometheusMetrics subs))
            ((if scanning (position_of (agent_part n1)) then [Agent Scan_end] else []) @
              [Agent (Delete i True deletable)]) n1 = Finished n2 \<and>
          expelled ops4 k (deletable k) n1 n2))"
proof -
  have "system_ok (agent_part (fresh_node k0 s0))" using runMetric_ok [OF assms(2)] by (simp add: fresh_node_def)
  then have ok: "system_ok (agent_part n0)" by (rule node_running.run_keeps [OF assms(3)])
  have "e\<lparr>Aging_counter := 0\<rparr> = e" using assms(5) by (cases e) simp
  then have "ageing k e 0 (agent_part n0)" using assms(4,6) by (simp add: ageing_def)
  from run_ages [OF assms(7) ok this assms(8) _ assms(10)] assms(9) have aged: "ageing k e j (agent_part n1)"
    by simp
  have "base (metric (agent_part n0)) k \<noteq> None" using assms(4) by simp
  note gone = deleting_maps.run_expels [OF assms(1,7) ok this]
  note goes = deleting_maps.due_goes [OF assms(1), of k n1 keyFunc "registerPrometheusMetrics subs" deletable]
  show ?thesis
  proof (cases "j < 3")
    case True
    with aged show ?thesis by (simp add: ageing_def)
  next
    case False
    then have j: "\<not> j < 3" .
    show ?thesis
    proof (cases "base (metric (agent_part n1)) k = None")
      case True
      from gone [OF True] show ?thesis unfolding if_not_P [OF j] if_P [OF True] .
    next
      case False
      with aged j have "due k (agent_part n1)" by (simp add: ageing_def)
      with goes show ?thesis unfolding if_not_P [OF j] if_not_P [OF False] by blast
    qed
  qed
qed


text \<open>A packet, the scan that sees its flow, and three more scans that find it idle.\<close>

definition idle_start :: "node_action list" where
  "idle_start =
     [Packet (sample_request, CGROUP_INGRESS), Agent Fire, Agent Tick_case, Agent (Scan_lock (Some 1)),
      Agent (Scan_next (sample_key, packet_stats CGROUP_INGRESS 60)), Agent Scan_end]"

definition idle_scan :: "nat \<Rightarrow> node_action list" where
  "idle_scan t =
     [Agent Fire, Agent Tick_case, Agent (Scan_lock (Some t)),
      Agent (Scan_next (sample_key, packet_stats CGROUP_INGRESS 60)), Agent Scan_end,
      Agent (Delete 0 True (\<lambda>k. True))]"

definition idle_run :: "node_action list" where
  "idle_run = idle_scan 2 @ idle_scan 3 @ idle_scan 4 @ [Agent (Delete 0 True (\<lambda>k. True))]"

text \<open>The node after the first scan, with what the theorem asks of it.\<close>

fun idle_outcome :: "(inet_v4_flow hash_map, inet_v6_flow hash_map) node call \<Rightarrow> bool" where
  "idle_outcome (Finished n) \<longleftrightarrow>
     map_option Aging_counter (base (metric (agent_part n)) sample_key) = Some 0 \<and>
     map_option Stats (base (metric (agent_part n)) sample_key) = Some (packet_stats CGROUP_INGRESS 60) \<and>
     \<not> due sample_key (agent_part n) \<and>
     (case run_all (node_step hash_ops hash_ops hm_delete key_func prom) idle_run n of
        Finished n' \<Rightarrow> base (metric (agent_part n')) sample_key = None
      | _ \<Rightarrow> False)"
| "idle_outcome _ \<longleftrightarrow> False"

lemma sample_idle_outcome:
  "idle_outcome (run_all (node_step hash_ops hash_ops hm_delete key_func prom) idle_start
     (fresh_node (empty_state 4) sample_start))"
  by code_simp

theorem idle_flow_expires_witness:
  "\<exists>n0 bs i d cs n n'.
     run_all (node_step hash_ops hash_ops hm_delete key_func prom) idle_start
       (fresh_node (empty_state 4) sample_start) = Finished n0 \<and>
     idle_run = bs @ Agent (Delete i True d) # cs \<and>
     run_all (node_step hash_ops hash_ops hm_delete key_func prom) bs n0 = Finished n \<and>
     node_step hash_ops hash_ops hm_delete key_func prom (Agent (Delete i True d)) n = Finished n' \<and>
     expelled hash_ops sample_key (d sample_key) n n'"
proof -
  let ?run = "run_all (node_step hash_ops hash_ops hm_delete key_func prom)"
  obtain n0 where start: "?run idle_start (fresh_node (empty_state 4) sample_start) = Finished n0"
    and out: "idle_outcome (Finished n0)"
    using sample_idle_outcome
    by (cases "?run idle_start (fresh_node (empty_state 4) sample_start)") simp_all
  obtain n1 where run: "?run idle_run n0 = Finished n1"
    and gone: "base (metric (agent_part n1)) sample_key = None"
    using out by (cases "?run idle_run n0") simp_all
  obtain e where e: "base (metric (agent_part n0)) sample_key = Some e" "Aging_counter e = 0"
    "Stats e = packet_stats CGROUP_INGRESS 60"
    using out by (cases "base (metric (agent_part n0)) sample_key") simp_all
  have fresh: "\<not> due sample_key (agent_part n0)" using out by simp
  have "ticker_ok 120" by code_simp
  then have agent: "runMetric 120 sample_agent = Some sample_start" by (simp add: sample_start_def runMetric_def)
  have rounds: "filter (sees sample_key) idle_run = replicate 3 (Agent (Scan_next (sample_key, Stats e)))"
    by (simp add: idle_run_def idle_scan_def e numeral_3_eq_3)
  have loads: "\<not> list_ex load_fails idle_run" by (simp add: idle_run_def idle_scan_def)
  from idle_flow_expires [OF hash_deleting.deleting_maps_axioms agent start [unfolded prom_def] e(1,2) fresh
      run [unfolded prom_def] rounds _ loads] gone start
  show ?thesis by (simp add: prom_def)
qed

end
