(* ===== verification/Go_V6.thy ===== *)
theory Go_V6
  imports Go_Flow
begin

text \<open>
  IPv6 flows on the agent's side (\<open>pkg/statsagent/inet_v6_flow.go\<close>): the text of an
  address as Go's \<open>net.IP.String\<close> writes it, and that it identifies the address. The
  ports and the protocol are those of the IPv4 flow.
\<close>

section \<open>Hexadecimal groups\<close>

definition hex_digit :: "nat \<Rightarrow> char" where
  "hex_digit n = (if n < 10 then char_of (48 + n) else char_of (87 + n))"

fun hex_string :: "nat \<Rightarrow> string" where
  "hex_string n = (if n < 16 then [hex_digit n] else hex_string (n div 16) @ [hex_digit (n mod 16)])"

declare hex_string.simps [simp del]

lemma hex_string_code [code]:
  "hex_string n = (case n < 16 of True \<Rightarrow> [hex_digit n]
     | False \<Rightarrow> hex_string (n div 16) @ [hex_digit (n mod 16)])"
  by (subst hex_string.simps) simp

definition hex_value :: "string \<Rightarrow> nat" where
  "hex_value s = foldl (\<lambda>a c. 16 * a + (if of_char c < (58 :: nat) then of_char c - 48 else of_char c - 87)) 0 s"

lemma of_char_hex: "n < 16 \<Longrightarrow> of_char (hex_digit n) = (if n < 10 then 48 + n else 87 + n)"
  by (simp add: hex_digit_def of_char_of)

lemma hex_value_snoc: "n < 16 \<Longrightarrow> hex_value (s @ [hex_digit n]) = 16 * hex_value s + n"
  by (simp add: hex_value_def of_char_hex)

lemma hex_value_hex_string: "hex_value (hex_string n) = n"
proof (induction n rule: hex_string.induct)
  case (1 n)
  show ?case
  proof (cases "n < 16")
    case True
    then show ?thesis using hex_value_snoc [of n "[]"] by (simp add: hex_string.simps [of n] hex_value_def)
  next
    case False
    with "1.IH" show ?thesis by (simp add: hex_string.simps [of n] hex_value_snoc)
  qed
qed

lemma hex_string_inj: "hex_string m = hex_string n \<longleftrightarrow> m = n"
  by (metis hex_value_hex_string)

lemma hex_string_nonempty [simp]: "hex_string n \<noteq> []"
  by (subst hex_string.simps) simp

lemma hex_string_chars: "c \<in> set (hex_string n) \<Longrightarrow> \<exists>k < 16. c = hex_digit k"
proof (induction n rule: hex_string.induct)
  case (1 n)
  then show ?case by (cases "n < 16") (auto simp: hex_string.simps [of n] intro: exI [of _ "n mod 16"])
qed

lemma hex_string_plain: "CHR '':'' \<notin> set (hex_string n)" "CHR ''.'' \<notin> set (hex_string n)"
proof -
  have "of_char c \<noteq> (58 :: nat) \<and> of_char c \<noteq> (46 :: nat)" if "c \<in> set (hex_string n)" for c
    using hex_string_chars [OF that] by (auto simp: of_char_hex split: if_splits)
  then show "CHR '':'' \<notin> set (hex_string n)" "CHR ''.'' \<notin> set (hex_string n)" by force+
qed

section \<open>The text of an address\<close>

text \<open>The eight groups of a sixteen-byte address, in network order.\<close>

fun groups :: "u8 list \<Rightarrow> u16 list" where
  "groups (b0 # b1 # bs) = word_cat b0 b1 # groups bs"
| "groups _ = []"

text \<open>The first longest run of zero groups, as the indices \<open>e0\<close> and \<open>e1\<close> of the library.\<close>

fun find_run :: "nat \<Rightarrow> u16 list \<Rightarrow> nat \<times> nat \<Rightarrow> nat \<times> nat" where
  "find_run i [] (e0, e1) = (e0, e1)"
| "find_run i (g # gs) (e0, e1) =
     (let n = length (takeWhile (\<lambda>x. x = 0) (g # gs)) in
      find_run (Suc i) gs (if e1 - e0 < n then (i, i + n) else (e0, e1)))"

definition hex_groups :: "u16 list \<Rightarrow> string" where
  "hex_groups gs = join (CHR '':'') (map (\<lambda>g. hex_string (unat g)) gs)"

definition ip6_text :: "u16 list \<Rightarrow> string" where
  "ip6_text gs =
     (case find_run 0 gs (0, 0) of (e0, e1) \<Rightarrow>
        if e1 - e0 \<le> 1 then hex_groups gs
        else hex_groups (take e0 gs) @ ''::'' @ hex_groups (drop e1 gs))"

text \<open>
  \<open>net.IP.String\<close> of sixteen bytes: an address that \<open>To4\<close> recognises as an embedded IPv4
  address is written in dotted decimal.
\<close>

definition net_ip6_string :: "u8 list \<Rightarrow> string" where
  "net_ip6_string p =
     (if take 12 p = replicate 10 0 @ [0xff, 0xff] then dotted (drop 12 p)
      else ip6_text (groups p))"

definition write_little_array :: "addr6 \<Rightarrow> u8 list" where
  "write_little_array a = (case a of (a0, a1, a2, a3) \<Rightarrow> bytes32 a0 @ bytes32 a1 @ bytes32 a2 @ bytes32 a3)"

definition v6_GetSrcIp :: "inet_v6_flow \<Rightarrow> string" where
  "v6_GetSrcIp flow = net_ip6_string (write_little_array (v6_src_ip flow))"

definition v6_GetDstIp :: "inet_v6_flow \<Rightarrow> string" where
  "v6_GetDstIp flow = net_ip6_string (write_little_array (v6_dst_ip flow))"

definition v6_GetIpProto :: "inet_v6_flow \<Rightarrow> string" where
  "v6_GetIpProto flow = GetIpProto (v6_l4 flow)"

definition v6_GetSPort :: "inet_v6_flow \<Rightarrow> string" where
  "v6_GetSPort flow = GetSPort (v6_l4 flow)"

definition v6_GetDPort :: "inet_v6_flow \<Rightarrow> string" where
  "v6_GetDPort flow = GetDPort (v6_l4 flow)"

section \<open>The run is a run of zeros\<close>

definition zero_between :: "u16 list \<Rightarrow> nat \<times> nat \<Rightarrow> bool" where
  "zero_between gs e \<longleftrightarrow> fst e \<le> snd e \<and> snd e \<le> length gs \<and> (\<forall>k. fst e \<le> k \<and> k < snd e \<longrightarrow> gs ! k = 0)"

lemma takeWhile_zero: "k < length (takeWhile (\<lambda>x. x = 0) gs) \<Longrightarrow> gs ! k = (0 :: u16)"
  using nth_mem [of k "takeWhile (\<lambda>x. x = 0) gs"] set_takeWhileD takeWhile_nth [of k "\<lambda>x. x = 0" gs]
  by metis

lemma find_run_zero:
  "zero_between all e \<Longrightarrow> all = before @ gs \<Longrightarrow> i = length before \<Longrightarrow> zero_between all (find_run i gs e)"
proof (induction i gs e arbitrary: before rule: find_run.induct)
  case (2 i g gs e0 e1)
  let ?n = "length (takeWhile (\<lambda>x. x = 0) (g # gs))"
  have le: "?n \<le> length (g # gs)" by (rule length_takeWhile_le)
  have "all ! k = 0" if "i \<le> k" "k < i + ?n" for k
    using that takeWhile_zero [of "k - i" "g # gs"] "2.prems"(2,3) by (simp add: nth_append)
  then have "zero_between all (i, i + ?n)"
    using le "2.prems"(2,3) by (auto simp: zero_between_def)
  with 2(2) have "zero_between all (if e1 - e0 < ?n then (i, i + ?n) else (e0, e1))" by simp
  then have "zero_between all (find_run (Suc i) gs (if e1 - e0 < ?n then (i, i + ?n) else (e0, e1)))"
    using "2.IH" [OF refl, of "before @ [g]"] "2.prems"(2,3) by simp
  then show ?case by (simp only: find_run.simps Let_def)
qed simp

lemma run_is_zero:
  assumes "find_run 0 gs (0, 0) = (e0, e1)"
  shows "gs = take e0 gs @ replicate (e1 - e0) 0 @ drop e1 gs"
proof -
  have z: "zero_between gs (e0, e1)"
    using find_run_zero [of gs "(0, 0)" "[]" gs 0] by (simp add: zero_between_def assms)
  then have "take (e1 - e0) (drop e0 gs) = replicate (e1 - e0) 0"
    by (intro nth_equalityI) (auto simp: zero_between_def)
  moreover have "gs = take e0 gs @ take (e1 - e0) (drop e0 gs) @ drop e1 gs"
    using z by (metis append_take_drop_id drop_drop le_add_diff_inverse2 zero_between_def fst_conv snd_conv)
  ultimately show ?thesis by simp
qed

section \<open>The text identifies the address\<close>

text \<open>The pieces between colons: an empty piece shows where zeros were left out.\<close>

definition pieces :: "u16 list \<Rightarrow> string list" where
  "pieces gs = (if gs = [] then [''''] else map (\<lambda>g. hex_string (unat g)) gs)"

lemma split_hex_groups: "split_on (CHR '':'') (hex_groups gs) = pieces gs"
  using split_on_join [of "map (\<lambda>g. hex_string (unat g)) gs" "CHR '':''"] hex_string_plain(1)
  by (auto simp: hex_groups_def pieces_def)

lemma split_on_append: "split_on c (s @ c # t) = split_on c s @ split_on c t"
  by (induction c s rule: split_on.induct) (auto split: list.split)

lemma split_compressed:
  "split_on (CHR '':'') (hex_groups a @ ''::'' @ hex_groups b) = pieces a @ [''''] @ pieces b"
proof -
  have "split_on (CHR '':'') (hex_groups a @ CHR '':'' # [] @ CHR '':'' # hex_groups b) =
      pieces a @ [''''] @ pieces b"
    by (simp only: split_on_append split_hex_groups) simp
  then show ?thesis by simp
qed

lemma map_hex_inj: "map (\<lambda>g :: u16. hex_string (unat g)) xs = map (\<lambda>g. hex_string (unat g)) ys \<longleftrightarrow> xs = ys"
  by (rule inj_map_eq_map) (simp add: inj_def hex_string_inj word_unat_eq_iff)

lemma hex_piece [simp]: "'''' \<noteq> hex_string n" "'''' \<notin> (\<lambda>g. hex_string (f g)) ` S"
  using hex_string_nonempty by (metis, auto simp: image_iff) (metis hex_string_nonempty)

lemma pieces_inj: "pieces xs = pieces ys \<longleftrightarrow> xs = ys"
  by (cases "xs = []"; cases "ys = []") (auto simp: pieces_def map_hex_inj neq_Nil_conv)

text \<open>Before the first empty piece come the groups before the gap, after it those behind.\<close>

lemma pieces_gap_inj:
  assumes "pieces a @ [''''] @ pieces b = pieces c @ [''''] @ pieces d"
  shows "a = c \<and> b = d"
proof -
  have pre: "takeWhile (\<lambda>p. p \<noteq> '''') (pieces a @ [''''] @ pieces b) = (if a = [] then [] else pieces a)" for a b
    by (auto simp: pieces_def takeWhile_append)
  have "a = c"
    using arg_cong [OF assms, of "takeWhile (\<lambda>p. p \<noteq> '''')"] unfolding pre
    by (auto simp: pieces_def map_hex_inj split: if_splits)
  with assms show ?thesis by (simp add: pieces_inj)
qed

lemma ip6_text_cases:
  obtains (whole) "ip6_text gs = hex_groups gs"
  | (gap) a b n where "ip6_text gs = hex_groups a @ ''::'' @ hex_groups b" "gs = a @ replicate n 0 @ b"
proof -
  obtain e0 e1 where run: "find_run 0 gs (0, 0) = (e0, e1)" by fastforce
  show thesis
  proof (cases "e1 - e0 \<le> 1")
    case True
    then show thesis by (intro whole) (simp add: ip6_text_def run)
  next
    case False
    then show thesis using run_is_zero [OF run] by (intro gap) (auto simp: ip6_text_def run)
  qed
qed

lemma whole_not_gap: "length gs = 8 \<Longrightarrow> hex_groups gs \<noteq> hex_groups a @ ''::'' @ hex_groups b"
proof
  assume len: "length gs = 8" and "hex_groups gs = hex_groups a @ ''::'' @ hex_groups b"
  then have "pieces gs = pieces a @ [''''] @ pieces b" by (metis split_hex_groups split_compressed)
  then have "'''' \<in> set (pieces gs)" by simp
  with len show False by (auto simp: pieces_def split: if_splits)
qed

lemma ip6_text_inj:
  assumes "length gs = 8" "length hs = 8" and "ip6_text gs = ip6_text hs"
  shows "gs = hs"
proof (cases gs rule: ip6_text_cases)
  case whole
  show ?thesis
  proof (cases hs rule: ip6_text_cases)
    case w: whole
    with whole assms(3) show ?thesis by (metis split_hex_groups pieces_inj)
  next
    case (gap a b n)
    with whole assms whole_not_gap show ?thesis by metis
  qed
next
  case (gap a b n)
  show ?thesis
  proof (cases hs rule: ip6_text_cases)
    case whole
    with gap assms whole_not_gap show ?thesis by metis
  next
    case g: (gap c d m)
    with gap assms(3) have "pieces a @ [''''] @ pieces b = pieces c @ [''''] @ pieces d"
      by (metis split_compressed)
    then have "a = c" "b = d" using pieces_gap_inj by blast+
    with gap g assms(1,2) have "n = m" by simp
    with gap g \<open>a = c\<close> \<open>b = d\<close> show ?thesis by simp
  qed
qed

section \<open>From bytes to text\<close>

lemma word_cat_bytes_inj: "(word_cat a b :: u16) = word_cat c d \<longleftrightarrow> a = (c :: u8) \<and> b = (d :: u8)"
proof -
  have "ucast (word_cat a b :: u16) = (b :: u8)" "ucast (drop_bit 8 (word_cat a b :: u16)) = (a :: u8)" for a b :: u8
    by (rule bit_word_eqI; simp add: bit_cat16 bit_simps)+
  then show ?thesis by metis
qed

lemma groups_inj: "even (length xs) \<Longrightarrow> length xs = length ys \<Longrightarrow> groups xs = groups ys \<Longrightarrow> xs = ys"
proof (induction xs arbitrary: ys rule: groups.induct)
  case (1 b0 b1 bs)
  then obtain c0 c1 cs where "ys = c0 # c1 # cs" by (auto simp: length_Suc_conv Suc_length_conv)
  with 1 show ?case by (auto simp: word_cat_bytes_inj)
qed auto

lemma length_groups: "length (groups bs) = length bs div 2"
  by (induction bs rule: groups.induct) auto

lemma no_dot: "CHR ''.'' \<notin> set (ip6_text gs)"
proof -
  have "CHR ''.'' \<notin> set (hex_groups hs)" for hs
    using set_join [of "CHR '':''" "map (\<lambda>g. hex_string (unat g)) hs"] hex_string_plain(2)
    by (fastforce simp: hex_groups_def)
  then show ?thesis by (auto simp: ip6_text_def split: prod.split)
qed

lemma dot_in_dotted: "length bs = 4 \<Longrightarrow> CHR ''.'' \<in> set (dotted bs)"
  by (auto simp: dotted_def length_Suc_conv numeral_eq_Suc)

lemma net_ip6_string_inj:
  assumes "length p = 16" "length q = 16"
  shows "net_ip6_string p = net_ip6_string q \<longleftrightarrow> p = q"
proof
  assume eq: "net_ip6_string p = net_ip6_string q"
  let ?mapped = "\<lambda>p. take 12 p = replicate 10 0 @ [0xff, 0xff :: u8]"
  have dot: "CHR ''.'' \<in> set (net_ip6_string p) \<longleftrightarrow> ?mapped p" if "length p = 16" for p
    using that no_dot dot_in_dotted [of "drop 12 p"] by (simp add: net_ip6_string_def)
  have "?mapped p \<longleftrightarrow> ?mapped q"
    using dot [OF assms(1)] dot [OF assms(2)] unfolding eq by (rule trans [OF sym])
  then show "p = q"
  proof (cases "?mapped p")
    case True
    with \<open>?mapped p \<longleftrightarrow> ?mapped q\<close> eq have "dotted (drop 12 p) = dotted (drop 12 q)" "take 12 p = take 12 q"
      by (simp_all add: net_ip6_string_def)
    moreover have "drop 12 p \<noteq> []" "drop 12 q \<noteq> []" using assms by simp_all
    ultimately show ?thesis by (metis append_take_drop_id dotted_inj)
  next
    case False
    with \<open>?mapped p \<longleftrightarrow> ?mapped q\<close> eq have "ip6_text (groups p) = ip6_text (groups q)"
      by (simp add: net_ip6_string_def)
    then have "groups p = groups q" using assms by (intro ip6_text_inj) (simp_all add: length_groups)
    with assms show ?thesis by (intro groups_inj) simp_all
  qed
qed simp

lemma write_little_array_bytes: "write_little_array a = addr6_bytes a"
  by (simp add: write_little_array_def addr6_bytes_def)

text \<open>
  C34: The five texts of an IPv6 flow identify it: two flows have the same source text,
  the same destination text, the same port texts and the same protocol text exactly when
  they have the same source, destination, ports and protocol, whichever way an address
  is shortened.
\<close>

theorem v6_text_identifies_flow:
  "(v6_GetSrcIp f = v6_GetSrcIp g \<longleftrightarrow> v6_src_ip f = v6_src_ip g) \<and>
   (v6_GetDstIp f = v6_GetDstIp g \<longleftrightarrow> v6_dst_ip f = v6_dst_ip g) \<and>
   (v6_GetSPort f = v6_GetSPort g \<longleftrightarrow> sport (v6_l4 f) = sport (v6_l4 g)) \<and>
   (v6_GetDPort f = v6_GetDPort g \<longleftrightarrow> dport (v6_l4 f) = dport (v6_l4 g)) \<and>
   (v6_GetIpProto f = v6_GetIpProto g \<longleftrightarrow> ip_proto (v6_l4 f) = ip_proto (v6_l4 g))"
proof -
  have swap: "bswap16 a = bswap16 b \<longleftrightarrow> a = b" for a b by (metis bswap16_bswap16)
  show ?thesis
    by (simp add: v6_GetSrcIp_def v6_GetDstIp_def v6_GetSPort_def v6_GetDPort_def v6_GetIpProto_def
        write_little_array_bytes net_ip6_string_inj addr6_bytes_inj GetSPort_def GetDPort_def
        GetIpProto_def port_bytes_swapped dec_string_inj swap word_unat_eq_iff [symmetric])
qed

definition v6_FlowKey :: "inet_v6_flow FlowKey" where
  "v6_FlowKey =
     \<lparr>fk_GetSrcIp = v6_GetSrcIp, fk_GetDstIp = v6_GetDstIp, fk_GetIpProto = v6_GetIpProto,
      fk_GetSPort = v6_GetSPort, fk_GetDPort = v6_GetDPort\<rparr>"

lemma v6_text_plain:
  assumes "length p = 16"
  shows "CHR ''/'' \<notin> set (net_ip6_string p)" and "net_ip6_string p \<noteq> []"
proof -
  have "of_char c \<noteq> (47 :: nat)" if "c \<in> set (hex_string n)" for c n
    using hex_string_chars [OF that] by (auto simp: of_char_hex split: if_splits)
  then have "CHR ''/'' \<notin> set (hex_string n)" for n by force
  then have "CHR ''/'' \<notin> set (hex_groups gs)" for gs
    using set_join [of "CHR '':''" "map (\<lambda>g. hex_string (unat g)) gs"] by (fastforce simp: hex_groups_def)
  then show "CHR ''/'' \<notin> set (net_ip6_string p)"
    by (auto simp: net_ip6_string_def ip6_text_def dotted_no_slash split: prod.split)
  have "ip6_text (groups p) \<noteq> []"
  proof (cases "groups p" rule: ip6_text_cases)
    case whole
    have "groups p \<noteq> []" using assms length_groups [of p] by force
    with whole show ?thesis using split_hex_groups [of "groups p"] by (auto simp: pieces_def)
  qed simp
  then show "net_ip6_string p \<noteq> []" using assms by (simp add: net_ip6_string_def dotted_nonempty)
qed

interpretation v6_key: flow_key v6_FlowKey v6_src_ip v6_dst_ip "\<lambda>a. net_ip6_string (write_little_array a)"
  by unfold_locales
     (simp_all add: v6_FlowKey_def v6_GetSrcIp_def v6_GetDstIp_def net_ip6_string_inj v6_text_plain
       write_little_array_bytes addr6_bytes_inj)

text \<open>Loopback, and an address with two runs of zeros, of which the first is left out.\<close>

lemma sample_texts:
  "ip6_text [0, 0, 0, 0, 0, 0, 0, 1] = ''::1''"
  "ip6_text [0x2001, 0xdb8, 0, 0, 1, 0, 0, 1] = ''2001:db8::1:0:0:1''"
  by (simp_all add: ip6_text_def hex_groups_def hex_string.simps hex_digit_def) code_simp+

end
