(* ===== verification/C_Enum.thy ===== *)
theory C_Enum
  imports Prelude
begin

text \<open>
  C enumerations: an enumerator takes the value written after it, or one more than
  the one before it, the first one 0. A table of enumerators is the declaration as it
  stands in the header; the values are computed from it.
\<close>

type_synonym enumerators = "(string \<times> int option) list"

fun number_from :: "int \<Rightarrow> enumerators \<Rightarrow> (string \<times> int) list" where
  "number_from n [] = []"
| "number_from n ((x, v) # es) =
     (let i = (case v of None \<Rightarrow> n | Some i \<Rightarrow> i) in (x, i) # number_from (i + 1) es)"

definition enum_values :: "enumerators \<Rightarrow> (string \<times> int) list" where
  "enum_values es = number_from 0 es"

definition enum_value :: "enumerators \<Rightarrow> string \<Rightarrow> int option" where
  "enum_value es x = map_of (enum_values es) x"

text \<open>Every explicit value is at least what the counter has reached.\<close>

fun rising :: "int \<Rightarrow> enumerators \<Rightarrow> bool" where
  "rising n [] = True"
| "rising n ((x, v) # es) =
     (case v of None \<Rightarrow> rising (n + 1) es | Some i \<Rightarrow> n \<le> i \<and> rising (i + 1) es)"

definition implicit :: "enumerators \<Rightarrow> bool" where
  "implicit es = list_all (\<lambda>e. snd e = None) es"

lemma map_fst_number_from [simp]: "map fst (number_from n es) = map fst es"
  by (induction n es rule: number_from.induct) (auto simp: Let_def)

lemma length_number_from [simp]: "length (number_from n es) = length es"
  by (metis length_map map_fst_number_from)

lemma rising_bound:
  "rising n es \<Longrightarrow> i \<in> snd ` set (number_from n es) \<Longrightarrow> n \<le> i"
proof (induction n es rule: number_from.induct)
  case (2 n x v es)
  then show ?case by (cases v) (fastforce simp: Let_def)+
qed simp

lemma rising_sorted: "rising n es \<Longrightarrow> sorted_wrt (<) (map snd (number_from n es))"
proof (induction es arbitrary: n)
  case (Cons e es)
  obtain x v where e: "e = (x, v)" by (cases e)
  let ?i = "case v of None \<Rightarrow> n | Some i \<Rightarrow> i"
  have "rising (?i + 1) es" using Cons.prems by (cases v) (simp_all add: e)
  with Cons.IH rising_bound [of "?i + 1" es] show ?case
    by (fastforce simp: e Let_def)
qed simp

lemma rising_distinct: "rising 0 es \<Longrightarrow> distinct (map snd (enum_values es))"
  using rising_sorted [of 0 es] by (simp add: enum_values_def strict_sorted_iff)

lemma number_from_append:
  "implicit es \<Longrightarrow> number_from n (es @ fs) = number_from n es @ number_from (n + int (length es)) fs"
  by (induction es arbitrary: n) (auto simp: implicit_def add_ac)

lemma implicit_values: "implicit es \<Longrightarrow> map snd (number_from n es) = map (\<lambda>i. n + int i) [0..<length es]"
proof (induction es arbitrary: n)
  case (Cons e es)
  then have "map snd (number_from (n + 1) es) = map (\<lambda>i. n + int i) (map Suc [0..<length es])"
    by (simp add: implicit_def add_ac)
  with Cons.prems show ?case
    by (cases e) (simp add: implicit_def map_Suc_upt upt_conv_Cons del: upt_Suc)
qed simp

text \<open>A trailing \<open>__MAX\<close> enumerator counts the ones before it.\<close>

lemma implicit_last:
  assumes "implicit es" and "x \<notin> fst ` set es"
  shows "enum_value (es @ [(x, None)]) x = Some (int (length es))"
proof -
  have "x \<notin> fst ` set (number_from 0 es)"
    using assms(2) map_fst_number_from [of 0 es] by (metis list.set_map)
  then have "map_of (number_from 0 es) x = None" by (simp add: map_of_eq_None_iff)
  then show ?thesis
    by (simp add: enum_value_def enum_values_def number_from_append [OF assms(1)] map_add_def)
qed

lemma implicit_nth:
  assumes "implicit es" and "distinct (map fst es)" and "i < length es"
  shows "enum_value (es @ fs) (fst (es ! i)) = Some (int i)"
proof -
  let ?vs = "number_from 0 es"
  have "fst (?vs ! i) = fst (es ! i)"
    using assms(3) nth_map [of i ?vs fst] nth_map [of i es fst] by simp
  moreover have "snd (?vs ! i) = int i"
    using assms(3) implicit_values [OF assms(1), of 0] nth_map [of i ?vs snd] by simp
  ultimately have "(fst (es ! i), int i) \<in> set ?vs"
    using assms(3) by (metis length_number_from nth_mem prod.collapse)
  then have "map_of ?vs (fst (es ! i)) = Some (int i)"
    using assms(2) by (intro map_of_is_SomeI) simp_all
  then show ?thesis
    by (simp add: enum_value_def enum_values_def number_from_append [OF assms(1)] map_add_def
        split: option.split)
qed

end
