(* ===== verification/Bpf_Enums.thy ===== *)
theory Bpf_Enums
  imports C_Enum
begin

text \<open>
  The enumerations of \<open>linux/bpf.h\<close>, \<open>tcp.h\<close>, \<open>ip.h\<close> and \<open>ipv6.h\<close>, each the list of its
  enumerators in the order of the declaration, and the helper numbers, which the header
  makes from one list of names with a macro.
\<close>

section \<open>Enumerations\<close>

definition bpf_register :: enumerators where
  "bpf_register =
    [(''BPF_REG_0'', Some 0), (''BPF_REG_1'', None), (''BPF_REG_2'', None), (''BPF_REG_3'', None),
     (''BPF_REG_4'', None), (''BPF_REG_5'', None), (''BPF_REG_6'', None), (''BPF_REG_7'', None),
     (''BPF_REG_8'', None), (''BPF_REG_9'', None), (''BPF_REG_10'', None),
     (''__MAX_BPF_REG'', None)]"

definition bpf_cmd :: enumerators where
  "bpf_cmd =
    [(''BPF_MAP_CREATE'', None), (''BPF_MAP_LOOKUP_ELEM'', None), (''BPF_MAP_UPDATE_ELEM'', None),
     (''BPF_MAP_DELETE_ELEM'', None), (''BPF_MAP_GET_NEXT_KEY'', None), (''BPF_PROG_LOAD'', None),
     (''BPF_OBJ_PIN'', None), (''BPF_OBJ_GET'', None), (''BPF_PROG_ATTACH'', None),
     (''BPF_PROG_DETACH'', None), (''BPF_PROG_TEST_RUN'', None), (''BPF_PROG_GET_NEXT_ID'', None),
     (''BPF_MAP_GET_NEXT_ID'', None), (''BPF_PROG_GET_FD_BY_ID'', None),
     (''BPF_MAP_GET_FD_BY_ID'', None), (''BPF_OBJ_GET_INFO_BY_FD'', None),
     (''BPF_PROG_QUERY'', None), (''BPF_RAW_TRACEPOINT_OPEN'', None), (''BPF_BTF_LOAD'', None),
     (''BPF_BTF_GET_FD_BY_ID'', None), (''BPF_TASK_FD_QUERY'', None),
     (''BPF_MAP_LOOKUP_AND_DELETE_ELEM'', None), (''BPF_MAP_FREEZE'', None),
     (''BPF_BTF_GET_NEXT_ID'', None)]"

definition bpf_map_type :: enumerators where
  "bpf_map_type =
    [(''BPF_MAP_TYPE_UNSPEC'', None), (''BPF_MAP_TYPE_HASH'', None),
     (''BPF_MAP_TYPE_ARRAY'', None), (''BPF_MAP_TYPE_PROG_ARRAY'', None),
     (''BPF_MAP_TYPE_PERF_EVENT_ARRAY'', None), (''BPF_MAP_TYPE_PERCPU_HASH'', None),
     (''BPF_MAP_TYPE_PERCPU_ARRAY'', None), (''BPF_MAP_TYPE_STACK_TRACE'', None),
     (''BPF_MAP_TYPE_CGROUP_ARRAY'', None), (''BPF_MAP_TYPE_LRU_HASH'', None),
     (''BPF_MAP_TYPE_LRU_PERCPU_HASH'', None), (''BPF_MAP_TYPE_LPM_TRIE'', None),
     (''BPF_MAP_TYPE_ARRAY_OF_MAPS'', None), (''BPF_MAP_TYPE_HASH_OF_MAPS'', None),
     (''BPF_MAP_TYPE_DEVMAP'', None), (''BPF_MAP_TYPE_SOCKMAP'', None),
     (''BPF_MAP_TYPE_CPUMAP'', None), (''BPF_MAP_TYPE_XSKMAP'', None),
     (''BPF_MAP_TYPE_SOCKHASH'', None), (''BPF_MAP_TYPE_CGROUP_STORAGE'', None),
     (''BPF_MAP_TYPE_REUSEPORT_SOCKARRAY'', None), (''BPF_MAP_TYPE_PERCPU_CGROUP_STORAGE'', None),
     (''BPF_MAP_TYPE_QUEUE'', None), (''BPF_MAP_TYPE_STACK'', None),
     (''BPF_MAP_TYPE_SK_STORAGE'', None), (''BPF_MAP_TYPE_DEVMAP_HASH'', None)]"

definition bpf_prog_type :: enumerators where
  "bpf_prog_type =
    [(''BPF_PROG_TYPE_UNSPEC'', None), (''BPF_PROG_TYPE_SOCKET_FILTER'', None),
     (''BPF_PROG_TYPE_KPROBE'', None), (''BPF_PROG_TYPE_SCHED_CLS'', None),
     (''BPF_PROG_TYPE_SCHED_ACT'', None), (''BPF_PROG_TYPE_TRACEPOINT'', None),
     (''BPF_PROG_TYPE_XDP'', None), (''BPF_PROG_TYPE_PERF_EVENT'', None),
     (''BPF_PROG_TYPE_CGROUP_SKB'', None), (''BPF_PROG_TYPE_CGROUP_SOCK'', None),
     (''BPF_PROG_TYPE_LWT_IN'', None), (''BPF_PROG_TYPE_LWT_OUT'', None),
     (''BPF_PROG_TYPE_LWT_XMIT'', None), (''BPF_PROG_TYPE_SOCK_OPS'', None),
     (''BPF_PROG_TYPE_SK_SKB'', None), (''BPF_PROG_TYPE_CGROUP_DEVICE'', None),
     (''BPF_PROG_TYPE_SK_MSG'', None), (''BPF_PROG_TYPE_RAW_TRACEPOINT'', None),
     (''BPF_PROG_TYPE_CGROUP_SOCK_ADDR'', None), (''BPF_PROG_TYPE_LWT_SEG6LOCAL'', None),
     (''BPF_PROG_TYPE_LIRC_MODE2'', None), (''BPF_PROG_TYPE_SK_REUSEPORT'', None),
     (''BPF_PROG_TYPE_FLOW_DISSECTOR'', None), (''BPF_PROG_TYPE_CGROUP_SYSCTL'', None),
     (''BPF_PROG_TYPE_RAW_TRACEPOINT_WRITABLE'', None), (''BPF_PROG_TYPE_CGROUP_SOCKOPT'', None)]"

definition bpf_attach_type :: enumerators where
  "bpf_attach_type =
    [(''BPF_CGROUP_INET_INGRESS'', None), (''BPF_CGROUP_INET_EGRESS'', None),
     (''BPF_CGROUP_INET_SOCK_CREATE'', None), (''BPF_CGROUP_SOCK_OPS'', None),
     (''BPF_SK_SKB_STREAM_PARSER'', None), (''BPF_SK_SKB_STREAM_VERDICT'', None),
     (''BPF_CGROUP_DEVICE'', None), (''BPF_SK_MSG_VERDICT'', None),
     (''BPF_CGROUP_INET4_BIND'', None), (''BPF_CGROUP_INET6_BIND'', None),
     (''BPF_CGROUP_INET4_CONNECT'', None), (''BPF_CGROUP_INET6_CONNECT'', None),
     (''BPF_CGROUP_INET4_POST_BIND'', None), (''BPF_CGROUP_INET6_POST_BIND'', None),
     (''BPF_CGROUP_UDP4_SENDMSG'', None), (''BPF_CGROUP_UDP6_SENDMSG'', None),
     (''BPF_LIRC_MODE2'', None), (''BPF_FLOW_DISSECTOR'', None), (''BPF_CGROUP_SYSCTL'', None),
     (''BPF_CGROUP_UDP4_RECVMSG'', None), (''BPF_CGROUP_UDP6_RECVMSG'', None),
     (''BPF_CGROUP_GETSOCKOPT'', None), (''BPF_CGROUP_SETSOCKOPT'', None),
     (''__MAX_BPF_ATTACH_TYPE'', None)]"

definition bpf_stack_build_id_status :: enumerators where
  "bpf_stack_build_id_status =
    [(''BPF_STACK_BUILD_ID_EMPTY'', Some 0), (''BPF_STACK_BUILD_ID_VALID'', Some 1),
     (''BPF_STACK_BUILD_ID_IP'', Some 2)]"

definition bpf_adj_room_mode :: enumerators where
  "bpf_adj_room_mode =
    [(''BPF_ADJ_ROOM_NET'', None), (''BPF_ADJ_ROOM_MAC'', None)]"

definition bpf_hdr_start_off :: enumerators where
  "bpf_hdr_start_off =
    [(''BPF_HDR_START_MAC'', None), (''BPF_HDR_START_NET'', None)]"

definition bpf_lwt_encap_mode :: enumerators where
  "bpf_lwt_encap_mode =
    [(''BPF_LWT_ENCAP_SEG6'', None), (''BPF_LWT_ENCAP_SEG6_INLINE'', None),
     (''BPF_LWT_ENCAP_IP'', None)]"

definition bpf_ret_code :: enumerators where
  "bpf_ret_code =
    [(''BPF_OK'', Some 0), (''BPF_DROP'', Some 2), (''BPF_REDIRECT'', Some 7),
     (''BPF_LWT_REROUTE'', Some 128)]"

definition xdp_action :: enumerators where
  "xdp_action =
    [(''XDP_ABORTED'', Some 0), (''XDP_DROP'', None), (''XDP_PASS'', None), (''XDP_TX'', None),
     (''XDP_REDIRECT'', None)]"

definition sk_action :: enumerators where
  "sk_action =
    [(''SK_DROP'', Some 0), (''SK_PASS'', None)]"

definition bpf_sock_ops_op :: enumerators where
  "bpf_sock_ops_op =
    [(''BPF_SOCK_OPS_VOID'', None), (''BPF_SOCK_OPS_TIMEOUT_INIT'', None),
     (''BPF_SOCK_OPS_RWND_INIT'', None), (''BPF_SOCK_OPS_TCP_CONNECT_CB'', None),
     (''BPF_SOCK_OPS_ACTIVE_ESTABLISHED_CB'', None),
     (''BPF_SOCK_OPS_PASSIVE_ESTABLISHED_CB'', None), (''BPF_SOCK_OPS_NEEDS_ECN'', None),
     (''BPF_SOCK_OPS_BASE_RTT'', None), (''BPF_SOCK_OPS_RTO_CB'', None),
     (''BPF_SOCK_OPS_RETRANS_CB'', None), (''BPF_SOCK_OPS_STATE_CB'', None),
     (''BPF_SOCK_OPS_TCP_LISTEN_CB'', None), (''BPF_SOCK_OPS_RTT_CB'', None)]"

definition bpf_tcp_state :: enumerators where
  "bpf_tcp_state =
    [(''BPF_TCP_ESTABLISHED'', Some 1), (''BPF_TCP_SYN_SENT'', None),
     (''BPF_TCP_SYN_RECV'', None), (''BPF_TCP_FIN_WAIT1'', None), (''BPF_TCP_FIN_WAIT2'', None),
     (''BPF_TCP_TIME_WAIT'', None), (''BPF_TCP_CLOSE'', None), (''BPF_TCP_CLOSE_WAIT'', None),
     (''BPF_TCP_LAST_ACK'', None), (''BPF_TCP_LISTEN'', None), (''BPF_TCP_CLOSING'', None),
     (''BPF_TCP_NEW_SYN_RECV'', None), (''BPF_TCP_MAX_STATES'', None)]"

definition bpf_fib_lkup_ret :: enumerators where
  "bpf_fib_lkup_ret =
    [(''BPF_FIB_LKUP_RET_SUCCESS'', None), (''BPF_FIB_LKUP_RET_BLACKHOLE'', None),
     (''BPF_FIB_LKUP_RET_UNREACHABLE'', None), (''BPF_FIB_LKUP_RET_PROHIBIT'', None),
     (''BPF_FIB_LKUP_RET_NOT_FWDED'', None), (''BPF_FIB_LKUP_RET_FWD_DISABLED'', None),
     (''BPF_FIB_LKUP_RET_UNSUPP_LWT'', None), (''BPF_FIB_LKUP_RET_NO_NEIGH'', None),
     (''BPF_FIB_LKUP_RET_FRAG_NEEDED'', None)]"

definition bpf_task_fd_type :: enumerators where
  "bpf_task_fd_type =
    [(''BPF_FD_TYPE_RAW_TRACEPOINT'', None), (''BPF_FD_TYPE_TRACEPOINT'', None),
     (''BPF_FD_TYPE_KPROBE'', None), (''BPF_FD_TYPE_KRETPROBE'', None),
     (''BPF_FD_TYPE_UPROBE'', None), (''BPF_FD_TYPE_URETPROBE'', None)]"

definition tcp_queue :: enumerators where
  "tcp_queue =
    [(''TCP_NO_QUEUE'', None), (''TCP_RECV_QUEUE'', None), (''TCP_SEND_QUEUE'', None),
     (''TCP_QUEUES_NR'', None)]"

definition tcp_ca_state :: enumerators where
  "tcp_ca_state =
    [(''TCP_CA_Open'', Some 0), (''TCP_CA_Disorder'', Some 1), (''TCP_CA_CWR'', Some 2),
     (''TCP_CA_Recovery'', Some 3), (''TCP_CA_Loss'', Some 4)]"

definition tcp_nla :: enumerators where
  "tcp_nla =
    [(''TCP_NLA_PAD'', None), (''TCP_NLA_BUSY'', None), (''TCP_NLA_RWND_LIMITED'', None),
     (''TCP_NLA_SNDBUF_LIMITED'', None), (''TCP_NLA_DATA_SEGS_OUT'', None),
     (''TCP_NLA_TOTAL_RETRANS'', None), (''TCP_NLA_PACING_RATE'', None),
     (''TCP_NLA_DELIVERY_RATE'', None), (''TCP_NLA_SND_CWND'', None),
     (''TCP_NLA_REORDERING'', None), (''TCP_NLA_MIN_RTT'', None),
     (''TCP_NLA_RECUR_RETRANS'', None), (''TCP_NLA_DELIVERY_RATE_APP_LMT'', None),
     (''TCP_NLA_SNDQ_SIZE'', None), (''TCP_NLA_CA_STATE'', None),
     (''TCP_NLA_SND_SSTHRESH'', None), (''TCP_NLA_DELIVERED'', None),
     (''TCP_NLA_DELIVERED_CE'', None), (''TCP_NLA_BYTES_SENT'', None),
     (''TCP_NLA_BYTES_RETRANS'', None), (''TCP_NLA_DSACK_DUPS'', None),
     (''TCP_NLA_REORD_SEEN'', None), (''TCP_NLA_SRTT'', None)]"

definition ipv4_devconf :: enumerators where
  "ipv4_devconf =
    [(''IPV4_DEVCONF_FORWARDING'', Some 1), (''IPV4_DEVCONF_MC_FORWARDING'', None),
     (''IPV4_DEVCONF_PROXY_ARP'', None), (''IPV4_DEVCONF_ACCEPT_REDIRECTS'', None),
     (''IPV4_DEVCONF_SECURE_REDIRECTS'', None), (''IPV4_DEVCONF_SEND_REDIRECTS'', None),
     (''IPV4_DEVCONF_SHARED_MEDIA'', None), (''IPV4_DEVCONF_RP_FILTER'', None),
     (''IPV4_DEVCONF_ACCEPT_SOURCE_ROUTE'', None), (''IPV4_DEVCONF_BOOTP_RELAY'', None),
     (''IPV4_DEVCONF_LOG_MARTIANS'', None), (''IPV4_DEVCONF_TAG'', None),
     (''IPV4_DEVCONF_ARPFILTER'', None), (''IPV4_DEVCONF_MEDIUM_ID'', None),
     (''IPV4_DEVCONF_NOXFRM'', None), (''IPV4_DEVCONF_NOPOLICY'', None),
     (''IPV4_DEVCONF_FORCE_IGMP_VERSION'', None), (''IPV4_DEVCONF_ARP_ANNOUNCE'', None),
     (''IPV4_DEVCONF_ARP_IGNORE'', None), (''IPV4_DEVCONF_PROMOTE_SECONDARIES'', None),
     (''IPV4_DEVCONF_ARP_ACCEPT'', None), (''IPV4_DEVCONF_ARP_NOTIFY'', None),
     (''IPV4_DEVCONF_ACCEPT_LOCAL'', None), (''IPV4_DEVCONF_SRC_VMARK'', None),
     (''IPV4_DEVCONF_PROXY_ARP_PVLAN'', None), (''IPV4_DEVCONF_ROUTE_LOCALNET'', None),
     (''IPV4_DEVCONF_IGMPV2_UNSOLICITED_REPORT_INTERVAL'', None),
     (''IPV4_DEVCONF_IGMPV3_UNSOLICITED_REPORT_INTERVAL'', None),
     (''IPV4_DEVCONF_IGNORE_ROUTES_WITH_LINKDOWN'', None),
     (''IPV4_DEVCONF_DROP_UNICAST_IN_L2_MULTICAST'', None),
     (''IPV4_DEVCONF_DROP_GRATUITOUS_ARP'', None), (''IPV4_DEVCONF_BC_FORWARDING'', None),
     (''__IPV4_DEVCONF_MAX'', None)]"

definition ipv6_devconf :: enumerators where
  "ipv6_devconf =
    [(''DEVCONF_FORWARDING'', Some 0), (''DEVCONF_HOPLIMIT'', None), (''DEVCONF_MTU6'', None),
     (''DEVCONF_ACCEPT_RA'', None), (''DEVCONF_ACCEPT_REDIRECTS'', None),
     (''DEVCONF_AUTOCONF'', None), (''DEVCONF_DAD_TRANSMITS'', None),
     (''DEVCONF_RTR_SOLICITS'', None), (''DEVCONF_RTR_SOLICIT_INTERVAL'', None),
     (''DEVCONF_RTR_SOLICIT_DELAY'', None), (''DEVCONF_USE_TEMPADDR'', None),
     (''DEVCONF_TEMP_VALID_LFT'', None), (''DEVCONF_TEMP_PREFERED_LFT'', None),
     (''DEVCONF_REGEN_MAX_RETRY'', None), (''DEVCONF_MAX_DESYNC_FACTOR'', None),
     (''DEVCONF_MAX_ADDRESSES'', None), (''DEVCONF_FORCE_MLD_VERSION'', None),
     (''DEVCONF_ACCEPT_RA_DEFRTR'', None), (''DEVCONF_ACCEPT_RA_PINFO'', None),
     (''DEVCONF_ACCEPT_RA_RTR_PREF'', None), (''DEVCONF_RTR_PROBE_INTERVAL'', None),
     (''DEVCONF_ACCEPT_RA_RT_INFO_MAX_PLEN'', None), (''DEVCONF_PROXY_NDP'', None),
     (''DEVCONF_OPTIMISTIC_DAD'', None), (''DEVCONF_ACCEPT_SOURCE_ROUTE'', None),
     (''DEVCONF_MC_FORWARDING'', None), (''DEVCONF_DISABLE_IPV6'', None),
     (''DEVCONF_ACCEPT_DAD'', None), (''DEVCONF_FORCE_TLLAO'', None),
     (''DEVCONF_NDISC_NOTIFY'', None), (''DEVCONF_MLDV1_UNSOLICITED_REPORT_INTERVAL'', None),
     (''DEVCONF_MLDV2_UNSOLICITED_REPORT_INTERVAL'', None),
     (''DEVCONF_SUPPRESS_FRAG_NDISC'', None), (''DEVCONF_ACCEPT_RA_FROM_LOCAL'', None),
     (''DEVCONF_USE_OPTIMISTIC'', None), (''DEVCONF_ACCEPT_RA_MTU'', None),
     (''DEVCONF_STABLE_SECRET'', None), (''DEVCONF_USE_OIF_ADDRS_ONLY'', None),
     (''DEVCONF_ACCEPT_RA_MIN_HOP_LIMIT'', None), (''DEVCONF_IGNORE_ROUTES_WITH_LINKDOWN'', None),
     (''DEVCONF_DROP_UNICAST_IN_L2_MULTICAST'', None), (''DEVCONF_DROP_UNSOLICITED_NA'', None),
     (''DEVCONF_KEEP_ADDR_ON_DOWN'', None), (''DEVCONF_RTR_SOLICIT_MAX_INTERVAL'', None),
     (''DEVCONF_SEG6_ENABLED'', None), (''DEVCONF_SEG6_REQUIRE_HMAC'', None),
     (''DEVCONF_ENHANCED_DAD'', None), (''DEVCONF_ADDR_GEN_MODE'', None),
     (''DEVCONF_DISABLE_POLICY'', None), (''DEVCONF_ACCEPT_RA_RT_INFO_MIN_PLEN'', None),
     (''DEVCONF_NDISC_TCLASS'', None), (''DEVCONF_MAX'', None)]"

section \<open>Helper numbers\<close>

definition bpf_func_mapper :: "string list" where
  "bpf_func_mapper =
    [''unspec'', ''map_lookup_elem'', ''map_update_elem'', ''map_delete_elem'', ''probe_read'',
     ''ktime_get_ns'', ''trace_printk'', ''get_prandom_u32'', ''get_smp_processor_id'',
     ''skb_store_bytes'', ''l3_csum_replace'', ''l4_csum_replace'', ''tail_call'',
     ''clone_redirect'', ''get_current_pid_tgid'', ''get_current_uid_gid'',
     ''get_current_comm'', ''get_cgroup_classid'', ''skb_vlan_push'', ''skb_vlan_pop'',
     ''skb_get_tunnel_key'', ''skb_set_tunnel_key'', ''perf_event_read'', ''redirect'',
     ''get_route_realm'', ''perf_event_output'', ''skb_load_bytes'', ''get_stackid'',
     ''csum_diff'', ''skb_get_tunnel_opt'', ''skb_set_tunnel_opt'', ''skb_change_proto'',
     ''skb_change_type'', ''skb_under_cgroup'', ''get_hash_recalc'', ''get_current_task'',
     ''probe_write_user'', ''current_task_under_cgroup'', ''skb_change_tail'',
     ''skb_pull_data'', ''csum_update'', ''set_hash_invalid'', ''get_numa_node_id'',
     ''skb_change_head'', ''xdp_adjust_head'', ''probe_read_str'', ''get_socket_cookie'',
     ''get_socket_uid'', ''set_hash'', ''setsockopt'', ''skb_adjust_room'', ''redirect_map'',
     ''sk_redirect_map'', ''sock_map_update'', ''xdp_adjust_meta'', ''perf_event_read_value'',
     ''perf_prog_read_value'', ''getsockopt'', ''override_return'', ''sock_ops_cb_flags_set'',
     ''msg_redirect_map'', ''msg_apply_bytes'', ''msg_cork_bytes'', ''msg_pull_data'', ''bind'',
     ''xdp_adjust_tail'', ''skb_get_xfrm_state'', ''get_stack'', ''skb_load_bytes_relative'',
     ''fib_lookup'', ''sock_hash_update'', ''msg_redirect_hash'', ''sk_redirect_hash'',
     ''lwt_push_encap'', ''lwt_seg6_store_bytes'', ''lwt_seg6_adjust_srh'', ''lwt_seg6_action'',
     ''rc_repeat'', ''rc_keydown'', ''skb_cgroup_id'', ''get_current_cgroup_id'',
     ''get_local_storage'', ''sk_select_reuseport'', ''skb_ancestor_cgroup_id'',
     ''sk_lookup_tcp'', ''sk_lookup_udp'', ''sk_release'', ''map_push_elem'', ''map_pop_elem'',
     ''map_peek_elem'', ''msg_push_data'', ''msg_pop_data'', ''rc_pointer_rel'', ''spin_lock'',
     ''spin_unlock'', ''sk_fullsock'', ''tcp_sock'', ''skb_ecn_set_ce'', ''get_listener_sock'',
     ''skc_lookup_tcp'', ''tcp_check_syncookie'', ''sysctl_get_name'',
     ''sysctl_get_current_value'', ''sysctl_get_new_value'', ''sysctl_set_new_value'',
     ''strtol'', ''strtoul'', ''sk_storage_get'', ''sk_storage_delete'', ''send_signal'',
     ''tcp_gen_syncookie'']"

definition bpf_enum_fn :: "string \<Rightarrow> string" where
  "bpf_enum_fn x = ''BPF_FUNC_'' @ x"

definition bpf_func_id :: enumerators where
  "bpf_func_id = map (\<lambda>x. (bpf_enum_fn x, None)) bpf_func_mapper @ [(''__BPF_FUNC_MAX_ID'', None)]"

text \<open>All enumerations, with the prefix of their names and their last enumerator.\<close>

definition header_enums :: "(string \<times> enumerators) list" where
  "header_enums =
    [(''bpf_register'', bpf_register), (''bpf_cmd'', bpf_cmd), (''bpf_map_type'', bpf_map_type),
     (''bpf_prog_type'', bpf_prog_type), (''bpf_attach_type'', bpf_attach_type),
     (''bpf_stack_build_id_status'', bpf_stack_build_id_status),
     (''bpf_adj_room_mode'', bpf_adj_room_mode), (''bpf_hdr_start_off'', bpf_hdr_start_off),
     (''bpf_lwt_encap_mode'', bpf_lwt_encap_mode), (''bpf_ret_code'', bpf_ret_code),
     (''xdp_action'', xdp_action), (''sk_action'', sk_action),
     (''bpf_sock_ops_op'', bpf_sock_ops_op), (''bpf_tcp_state'', bpf_tcp_state),
     (''bpf_fib_lkup_ret'', bpf_fib_lkup_ret), (''bpf_task_fd_type'', bpf_task_fd_type),
     (''tcp_queue'', tcp_queue), (''tcp_ca_state'', tcp_ca_state), (''tcp_nla'', tcp_nla),
     (''ipv4_devconf'', ipv4_devconf), (''ipv6_devconf'', ipv6_devconf),
     (''bpf_func_id'', bpf_func_id)]"

end
