(* ===== verification/Bpf_Helpers.thy ===== *)
theory Bpf_Helpers
  imports Bpf_Enums
begin

text \<open>
  The helper functions declared in \<open>linux/bpf_helpers.h\<close>: a static function pointer
  whose value is the number of the helper. A call through it becomes a \<open>BPF_CALL\<close> with
  that number, the arguments in the registers \<open>BPF_REG_1\<close> to \<open>BPF_REG_5\<close>.
\<close>

record helper_decl =
  h_name :: string
  h_ret :: string
  h_params :: "string list"
  h_func :: string

abbreviation helper :: "string \<Rightarrow> string \<Rightarrow> string list \<Rightarrow> string \<Rightarrow> helper_decl" where
  "helper n r ps f \<equiv> \<lparr>h_name = n, h_ret = r, h_params = ps, h_func = f\<rparr>"

text \<open>The declarations under \<open>__clang__\<close>, and those outside that block.\<close>

definition clang_helpers_1 :: "helper_decl list" where
  "clang_helpers_1 =
    [helper ''bpf_map_lookup_elem'' ''void *'' [''void *'', ''const void *''] ''BPF_FUNC_map_lookup_elem'',
     helper ''bpf_map_update_elem'' ''int'' [''void *'', ''const void *'', ''const void *'', ''unsigned long long''] ''BPF_FUNC_map_update_elem'',
     helper ''bpf_map_delete_elem'' ''int'' [''void *'', ''const void *''] ''BPF_FUNC_map_delete_elem'',
     helper ''bpf_map_push_elem'' ''int'' [''void *'', ''const void *'', ''unsigned long long''] ''BPF_FUNC_map_push_elem'',
     helper ''bpf_map_pop_elem'' ''int'' [''void *'', ''void *''] ''BPF_FUNC_map_pop_elem'',
     helper ''bpf_map_peek_elem'' ''int'' [''void *'', ''void *''] ''BPF_FUNC_map_peek_elem'',
     helper ''bpf_probe_read'' ''int'' [''void *'', ''int'', ''const void *''] ''BPF_FUNC_probe_read'',
     helper ''bpf_ktime_get_ns'' ''unsigned long long'' [] ''BPF_FUNC_ktime_get_ns'',
     helper ''bpf_trace_printk'' ''int'' [''const char *'', ''int'', ''...''] ''BPF_FUNC_trace_printk'',
     helper ''bpf_tail_call'' ''void'' [''void *'', ''void *'', ''int''] ''BPF_FUNC_tail_call'',
     helper ''bpf_get_smp_processor_id'' ''unsigned long long'' [] ''BPF_FUNC_get_smp_processor_id'',
     helper ''bpf_get_current_pid_tgid'' ''unsigned long long'' [] ''BPF_FUNC_get_current_pid_tgid'',
     helper ''bpf_get_current_uid_gid'' ''unsigned long long'' [] ''BPF_FUNC_get_current_uid_gid'',
     helper ''bpf_get_current_comm'' ''int'' [''void *'', ''int''] ''BPF_FUNC_get_current_comm'',
     helper ''bpf_perf_event_read'' ''unsigned long long'' [''void *'', ''unsigned long long''] ''BPF_FUNC_perf_event_read'',
     helper ''bpf_clone_redirect'' ''int'' [''void *'', ''int'', ''int''] ''BPF_FUNC_clone_redirect'',
     helper ''bpf_redirect'' ''int'' [''int'', ''int''] ''BPF_FUNC_redirect'',
     helper ''bpf_redirect_map'' ''int'' [''void *'', ''int'', ''int''] ''BPF_FUNC_redirect_map'',
     helper ''bpf_perf_event_output'' ''int'' [''void *'', ''void *'', ''unsigned long long'', ''void *'', ''int''] ''BPF_FUNC_perf_event_output'',
     helper ''bpf_get_stackid'' ''int'' [''void *'', ''void *'', ''int''] ''BPF_FUNC_get_stackid'',
     helper ''bpf_probe_write_user'' ''int'' [''void *'', ''const void *'', ''int''] ''BPF_FUNC_probe_write_user'',
     helper ''bpf_current_task_under_cgroup'' ''int'' [''void *'', ''int''] ''BPF_FUNC_current_task_under_cgroup'',
     helper ''bpf_skb_get_tunnel_key'' ''int'' [''void *'', ''void *'', ''int'', ''int''] ''BPF_FUNC_skb_get_tunnel_key'',
     helper ''bpf_skb_set_tunnel_key'' ''int'' [''void *'', ''void *'', ''int'', ''int''] ''BPF_FUNC_skb_set_tunnel_key'',
     helper ''bpf_skb_get_tunnel_opt'' ''int'' [''void *'', ''void *'', ''int''] ''BPF_FUNC_skb_get_tunnel_opt'',
     helper ''bpf_skb_set_tunnel_opt'' ''int'' [''void *'', ''void *'', ''int''] ''BPF_FUNC_skb_set_tunnel_opt'',
     helper ''bpf_get_prandom_u32'' ''unsigned long long'' [] ''BPF_FUNC_get_prandom_u32'',
     helper ''bpf_xdp_adjust_head'' ''int'' [''void *'', ''int''] ''BPF_FUNC_xdp_adjust_head'',
     helper ''bpf_xdp_adjust_meta'' ''int'' [''void *'', ''int''] ''BPF_FUNC_xdp_adjust_meta'',
     helper ''bpf_get_socket_cookie'' ''int'' [''void *''] ''BPF_FUNC_get_socket_cookie'',
     helper ''bpf_setsockopt'' ''int'' [''void *'', ''int'', ''int'', ''void *'', ''int''] ''BPF_FUNC_setsockopt'',
     helper ''bpf_getsockopt'' ''int'' [''void *'', ''int'', ''int'', ''void *'', ''int''] ''BPF_FUNC_getsockopt'',
     helper ''bpf_sock_ops_cb_flags_set'' ''int'' [''void *'', ''int''] ''BPF_FUNC_sock_ops_cb_flags_set'',
     helper ''bpf_sk_redirect_map'' ''int'' [''void *'', ''void *'', ''int'', ''int''] ''BPF_FUNC_sk_redirect_map'',
     helper ''bpf_sk_redirect_hash'' ''int'' [''void *'', ''void *'', ''void *'', ''int''] ''BPF_FUNC_sk_redirect_hash'',
     helper ''bpf_sock_map_update'' ''int'' [''void *'', ''void *'', ''void *'', ''unsigned long long''] ''BPF_FUNC_sock_map_update'',
     helper ''bpf_sock_hash_update'' ''int'' [''void *'', ''void *'', ''void *'', ''unsigned long long''] ''BPF_FUNC_sock_hash_update'',
     helper ''bpf_perf_event_read_value'' ''int'' [''void *'', ''unsigned long long'', ''void *'', ''unsigned int''] ''BPF_FUNC_perf_event_read_value'',
     helper ''bpf_perf_prog_read_value'' ''int'' [''void *'', ''void *'', ''unsigned int''] ''BPF_FUNC_perf_prog_read_value'',
     helper ''bpf_override_return'' ''int'' [''void *'', ''unsigned long''] ''BPF_FUNC_override_return'',
     helper ''bpf_msg_redirect_map'' ''int'' [''void *'', ''void *'', ''int'', ''int''] ''BPF_FUNC_msg_redirect_map'',
     helper ''bpf_msg_redirect_hash'' ''int'' [''void *'', ''void *'', ''void *'', ''int''] ''BPF_FUNC_msg_redirect_hash'',
     helper ''bpf_msg_apply_bytes'' ''int'' [''void *'', ''int''] ''BPF_FUNC_msg_apply_bytes'',
     helper ''bpf_msg_cork_bytes'' ''int'' [''void *'', ''int''] ''BPF_FUNC_msg_cork_bytes'',
     helper ''bpf_msg_pull_data'' ''int'' [''void *'', ''int'', ''int'', ''int''] ''BPF_FUNC_msg_pull_data'',
     helper ''bpf_msg_push_data'' ''int'' [''void *'', ''int'', ''int'', ''int''] ''BPF_FUNC_msg_push_data'',
     helper ''bpf_msg_pop_data'' ''int'' [''void *'', ''int'', ''int'', ''int''] ''BPF_FUNC_msg_pop_data'']"

definition clang_helpers_2 :: "helper_decl list" where
  "clang_helpers_2 =
    [helper ''bpf_bind'' ''int'' [''void *'', ''void *'', ''int''] ''BPF_FUNC_bind'',
     helper ''bpf_xdp_adjust_tail'' ''int'' [''void *'', ''int''] ''BPF_FUNC_xdp_adjust_tail'',
     helper ''bpf_skb_get_xfrm_state'' ''int'' [''void *'', ''int'', ''void *'', ''int'', ''int''] ''BPF_FUNC_skb_get_xfrm_state'',
     helper ''bpf_sk_select_reuseport'' ''int'' [''void *'', ''void *'', ''void *'', ''__u32''] ''BPF_FUNC_sk_select_reuseport'',
     helper ''bpf_get_stack'' ''int'' [''void *'', ''void *'', ''int'', ''int''] ''BPF_FUNC_get_stack'',
     helper ''bpf_fib_lookup'' ''int'' [''void *'', ''struct bpf_fib_lookup *'', ''int'', ''__u32''] ''BPF_FUNC_fib_lookup'',
     helper ''bpf_lwt_push_encap'' ''int'' [''void *'', ''unsigned int'', ''void *'', ''unsigned int''] ''BPF_FUNC_lwt_push_encap'',
     helper ''bpf_lwt_seg6_store_bytes'' ''int'' [''void *'', ''unsigned int'', ''void *'', ''unsigned int''] ''BPF_FUNC_lwt_seg6_store_bytes'',
     helper ''bpf_lwt_seg6_action'' ''int'' [''void *'', ''unsigned int'', ''void *'', ''unsigned int''] ''BPF_FUNC_lwt_seg6_action'',
     helper ''bpf_lwt_seg6_adjust_srh'' ''int'' [''void *'', ''unsigned int'', ''unsigned int''] ''BPF_FUNC_lwt_seg6_adjust_srh'',
     helper ''bpf_rc_repeat'' ''int'' [''void *''] ''BPF_FUNC_rc_repeat'',
     helper ''bpf_rc_keydown'' ''int'' [''void *'', ''unsigned int'', ''unsigned long long'', ''unsigned int''] ''BPF_FUNC_rc_keydown'',
     helper ''bpf_get_current_cgroup_id'' ''unsigned long long'' [] ''BPF_FUNC_get_current_cgroup_id'',
     helper ''bpf_get_local_storage'' ''void *'' [''void *'', ''unsigned long long''] ''BPF_FUNC_get_local_storage'',
     helper ''bpf_skb_cgroup_id'' ''unsigned long long'' [''void *''] ''BPF_FUNC_skb_cgroup_id'',
     helper ''bpf_skb_ancestor_cgroup_id'' ''unsigned long long'' [''void *'', ''int''] ''BPF_FUNC_skb_ancestor_cgroup_id'',
     helper ''bpf_sk_lookup_tcp'' ''struct bpf_sock *'' [''void *'', ''struct bpf_sock_tuple *'', ''int'', ''unsigned long long'', ''unsigned long long''] ''BPF_FUNC_sk_lookup_tcp'',
     helper ''bpf_skc_lookup_tcp'' ''struct bpf_sock *'' [''void *'', ''struct bpf_sock_tuple *'', ''int'', ''unsigned long long'', ''unsigned long long''] ''BPF_FUNC_skc_lookup_tcp'',
     helper ''bpf_sk_lookup_udp'' ''struct bpf_sock *'' [''void *'', ''struct bpf_sock_tuple *'', ''int'', ''unsigned long long'', ''unsigned long long''] ''BPF_FUNC_sk_lookup_udp'',
     helper ''bpf_sk_release'' ''int'' [''struct bpf_sock *''] ''BPF_FUNC_sk_release'',
     helper ''bpf_skb_vlan_push'' ''int'' [''void *'', ''__be16'', ''__u16''] ''BPF_FUNC_skb_vlan_push'',
     helper ''bpf_skb_vlan_pop'' ''int'' [''void *''] ''BPF_FUNC_skb_vlan_pop'',
     helper ''bpf_rc_pointer_rel'' ''int'' [''void *'', ''int'', ''int''] ''BPF_FUNC_rc_pointer_rel'',
     helper ''bpf_spin_lock'' ''void'' [''struct bpf_spin_lock *''] ''BPF_FUNC_spin_lock'',
     helper ''bpf_spin_unlock'' ''void'' [''struct bpf_spin_lock *''] ''BPF_FUNC_spin_unlock'',
     helper ''bpf_sk_fullsock'' ''struct bpf_sock *'' [''struct bpf_sock *''] ''BPF_FUNC_sk_fullsock'',
     helper ''bpf_tcp_sock'' ''struct bpf_tcp_sock *'' [''struct bpf_sock *''] ''BPF_FUNC_tcp_sock'',
     helper ''bpf_get_listener_sock'' ''struct bpf_sock *'' [''struct bpf_sock *''] ''BPF_FUNC_get_listener_sock'',
     helper ''bpf_skb_ecn_set_ce'' ''int'' [''void *''] ''BPF_FUNC_skb_ecn_set_ce'',
     helper ''bpf_tcp_check_syncookie'' ''int'' [''struct bpf_sock *'', ''void *'', ''int'', ''void *'', ''int''] ''BPF_FUNC_tcp_check_syncookie'',
     helper ''bpf_sysctl_get_name'' ''int'' [''void *'', ''char *'', ''unsigned long long'', ''unsigned long long''] ''BPF_FUNC_sysctl_get_name'',
     helper ''bpf_sysctl_get_current_value'' ''int'' [''void *'', ''char *'', ''unsigned long long''] ''BPF_FUNC_sysctl_get_current_value'',
     helper ''bpf_sysctl_get_new_value'' ''int'' [''void *'', ''char *'', ''unsigned long long''] ''BPF_FUNC_sysctl_get_new_value'',
     helper ''bpf_sysctl_set_new_value'' ''int'' [''void *'', ''const char *'', ''unsigned long long''] ''BPF_FUNC_sysctl_set_new_value'',
     helper ''bpf_strtol'' ''int'' [''const char *'', ''unsigned long long'', ''unsigned long long'', ''long *''] ''BPF_FUNC_strtol'',
     helper ''bpf_strtoul'' ''int'' [''const char *'', ''unsigned long long'', ''unsigned long long'', ''unsigned long *''] ''BPF_FUNC_strtoul'',
     helper ''bpf_sk_storage_get'' ''void *'' [''void *'', ''struct bpf_sock *'', ''void *'', ''__u64''] ''BPF_FUNC_sk_storage_get'',
     helper ''bpf_sk_storage_delete'' ''int'' [''void *'', ''struct bpf_sock *''] ''BPF_FUNC_sk_storage_delete'',
     helper ''bpf_send_signal'' ''int'' [''unsigned''] ''BPF_FUNC_send_signal'',
     helper ''bpf_tcp_gen_syncookie'' ''long long'' [''struct bpf_sock *'', ''void *'', ''int'', ''void *'', ''int''] ''BPF_FUNC_tcp_gen_syncookie'']"

definition skb_helpers :: "helper_decl list" where
  "skb_helpers =
    [helper ''bpf_skb_load_bytes'' ''int'' [''void *'', ''int'', ''void *'', ''int''] ''BPF_FUNC_skb_load_bytes'',
     helper ''bpf_skb_load_bytes_relative'' ''int'' [''void *'', ''int'', ''void *'', ''int'', ''__u32''] ''BPF_FUNC_skb_load_bytes_relative'',
     helper ''bpf_skb_store_bytes'' ''int'' [''void *'', ''int'', ''void *'', ''int'', ''int''] ''BPF_FUNC_skb_store_bytes'',
     helper ''bpf_l3_csum_replace'' ''int'' [''void *'', ''int'', ''int'', ''int'', ''int''] ''BPF_FUNC_l3_csum_replace'',
     helper ''bpf_l4_csum_replace'' ''int'' [''void *'', ''int'', ''int'', ''int'', ''int''] ''BPF_FUNC_l4_csum_replace'',
     helper ''bpf_csum_diff'' ''int'' [''void *'', ''int'', ''void *'', ''int'', ''int''] ''BPF_FUNC_csum_diff'',
     helper ''bpf_skb_under_cgroup'' ''int'' [''void *'', ''void *'', ''int''] ''BPF_FUNC_skb_under_cgroup'',
     helper ''bpf_skb_change_head'' ''int'' [''void *'', ''int'', ''int''] ''BPF_FUNC_skb_change_head'',
     helper ''bpf_skb_pull_data'' ''int'' [''void *'', ''int''] ''BPF_FUNC_skb_pull_data'',
     helper ''bpf_get_cgroup_classid'' ''unsigned int'' [''void *''] ''BPF_FUNC_get_cgroup_classid'',
     helper ''bpf_get_route_realm'' ''unsigned int'' [''void *''] ''BPF_FUNC_get_route_realm'',
     helper ''bpf_skb_change_proto'' ''int'' [''void *'', ''__be16'', ''__u64''] ''BPF_FUNC_skb_change_proto'',
     helper ''bpf_skb_change_type'' ''int'' [''void *'', ''__u32''] ''BPF_FUNC_skb_change_type'',
     helper ''bpf_get_hash_recalc'' ''unsigned int'' [''void *''] ''BPF_FUNC_get_hash_recalc'',
     helper ''bpf_get_current_task'' ''unsigned long long'' [] ''BPF_FUNC_get_current_task'',
     helper ''bpf_skb_change_tail'' ''int'' [''void *'', ''__u32'', ''__u64''] ''BPF_FUNC_skb_change_tail'',
     helper ''bpf_csum_update'' ''long long'' [''void *'', ''__u32''] ''BPF_FUNC_csum_update'',
     helper ''bpf_set_hash_invalid'' ''void'' [''void *''] ''BPF_FUNC_set_hash_invalid'',
     helper ''bpf_get_numa_node_id'' ''int'' [] ''BPF_FUNC_get_numa_node_id'',
     helper ''bpf_probe_read_str'' ''int'' [''void *'', ''__u32'', ''const void *''] ''BPF_FUNC_probe_read_str'',
     helper ''bpf_get_socket_uid'' ''unsigned int'' [''void *''] ''BPF_FUNC_get_socket_uid'',
     helper ''bpf_set_hash'' ''unsigned int'' [''void *'', ''__u32''] ''BPF_FUNC_set_hash'',
     helper ''bpf_skb_adjust_room'' ''int'' [''void *'', ''__s32'', ''__u32'', ''unsigned long long''] ''BPF_FUNC_skb_adjust_room'']"

definition helper_decls :: "helper_decl list" where
  "helper_decls = clang_helpers_1 @ clang_helpers_2 @ skb_helpers"

definition helper_number :: "helper_decl \<Rightarrow> int option" where
  "helper_number h = enum_value bpf_func_id (h_func h)"

end
