(* ===== verification/Bpf_Layouts.thy ===== *)
theory Bpf_Layouts
  imports Net_Headers
begin

text \<open>
  The structures of the program's headers beyond the ones the flow reader walks: the
  arguments of the \<open>bpf\<close> system call, the contexts of the program types, the objects
  the kernel reports, and the remaining structures of \<open>tcp.h\<close>, \<open>ip.h\<close>, \<open>ipv6.h\<close> and
  \<open>if_ether.h\<close>. An anonymous member has the empty name. Sizes and offsets are computed.
\<close>

text \<open>A pointer in a context: 8 bytes on every target.\<close>

definition bpf_md_ptr :: "string \<Rightarrow> ctype" where
  "bpf_md_ptr name = Aligned 8 (Union [(name, c_ptr), ('''', Bits c_u64 [('''', 64)])])"

section \<open>Structures\<close>

definition lpm_trie_key :: ctype where
  "lpm_trie_key =
    Struct [(''prefixlen'', c_u32), (''data'', Arr 0 c_u8)]"

definition cgroup_storage_key :: ctype where
  "cgroup_storage_key =
    Struct [(''cgroup_inode_id'', c_u64), (''attach_type'', c_u32)]"

definition stack_build_id :: ctype where
  "stack_build_id =
    Struct [(''status'', c_u32), (''build_id'', Arr 20 c_u8), ('''', Union [(''offset'', c_u64),
     (''ip'', c_u64)])]"

definition sk_buff_ctx :: ctype where
  "sk_buff_ctx =
    Struct [(''len'', c_u32), (''pkt_type'', c_u32), (''mark'', c_u32),
     (''queue_mapping'', c_u32), (''protocol'', c_u32), (''vlan_present'', c_u32),
     (''vlan_tci'', c_u32), (''vlan_proto'', c_u32), (''priority'', c_u32),
     (''ingress_ifindex'', c_u32), (''ifindex'', c_u32), (''tc_index'', c_u32),
     (''cb'', Arr 5 c_u32), (''hash'', c_u32), (''tc_classid'', c_u32), (''data'', c_u32),
     (''data_end'', c_u32), (''napi_id'', c_u32), (''family'', c_u32), (''remote_ip4'', c_u32),
     (''local_ip4'', c_u32), (''remote_ip6'', Arr 4 c_u32), (''local_ip6'', Arr 4 c_u32),
     (''remote_port'', c_u32), (''local_port'', c_u32), (''data_meta'', c_u32),
     ('''', bpf_md_ptr ''flow_keys''), (''tstamp'', c_u64), (''wire_len'', c_u32),
     (''gso_segs'', c_u32), ('''', bpf_md_ptr ''sk'')]"

definition tunnel_key :: ctype where
  "tunnel_key =
    Struct [(''tunnel_id'', c_u32), ('''', Union [(''remote_ipv4'', c_u32),
     (''remote_ipv6'', Arr 4 c_u32)]), (''tunnel_tos'', c_u8), (''tunnel_ttl'', c_u8),
     (''tunnel_ext'', c_u16), (''tunnel_label'', c_u32)]"

definition xfrm_state :: ctype where
  "xfrm_state =
    Struct [(''reqid'', c_u32), (''spi'', c_u32), (''family'', c_u16), (''ext'', c_u16),
     ('''', Union [(''remote_ipv4'', c_u32), (''remote_ipv6'', Arr 4 c_u32)])]"

definition bpf_sock :: ctype where
  "bpf_sock =
    Struct [(''bound_dev_if'', c_u32), (''family'', c_u32), (''type'', c_u32),
     (''protocol'', c_u32), (''mark'', c_u32), (''priority'', c_u32), (''src_ip4'', c_u32),
     (''src_ip6'', Arr 4 c_u32), (''src_port'', c_u32), (''dst_port'', c_u32),
     (''dst_ip4'', c_u32), (''dst_ip6'', Arr 4 c_u32), (''state'', c_u32)]"

definition bpf_tcp_sock :: ctype where
  "bpf_tcp_sock =
    Struct [(''snd_cwnd'', c_u32), (''srtt_us'', c_u32), (''rtt_min'', c_u32),
     (''snd_ssthresh'', c_u32), (''rcv_nxt'', c_u32), (''snd_nxt'', c_u32), (''snd_una'', c_u32),
     (''mss_cache'', c_u32), (''ecn_flags'', c_u32), (''rate_delivered'', c_u32),
     (''rate_interval_us'', c_u32), (''packets_out'', c_u32), (''retrans_out'', c_u32),
     (''total_retrans'', c_u32), (''segs_in'', c_u32), (''data_segs_in'', c_u32),
     (''segs_out'', c_u32), (''data_segs_out'', c_u32), (''lost_out'', c_u32),
     (''sacked_out'', c_u32), (''bytes_received'', c_u64), (''bytes_acked'', c_u64),
     (''dsack_dups'', c_u32), (''delivered'', c_u32), (''delivered_ce'', c_u32),
     (''icsk_retransmits'', c_u32)]"

definition sock_tuple :: ctype where
  "sock_tuple =
    Struct [('''', Union [(''ipv4'', Struct [(''saddr'', c_be32), (''daddr'', c_be32),
     (''sport'', c_be16), (''dport'', c_be16)]), (''ipv6'', Struct [(''saddr'', Arr 4 c_be32),
     (''daddr'', Arr 4 c_be32), (''sport'', c_be16), (''dport'', c_be16)])])]"

definition xdp_sock :: ctype where
  "xdp_sock =
    Struct [(''queue_id'', c_u32)]"

definition xdp_md :: ctype where
  "xdp_md =
    Struct [(''data'', c_u32), (''data_end'', c_u32), (''data_meta'', c_u32),
     (''ingress_ifindex'', c_u32), (''rx_queue_index'', c_u32)]"

definition sk_msg_md :: ctype where
  "sk_msg_md =
    Struct [('''', bpf_md_ptr ''data''), ('''', bpf_md_ptr ''data_end''), (''family'', c_u32),
     (''remote_ip4'', c_u32), (''local_ip4'', c_u32), (''remote_ip6'', Arr 4 c_u32),
     (''local_ip6'', Arr 4 c_u32), (''remote_port'', c_u32), (''local_port'', c_u32),
     (''size'', c_u32)]"

definition sk_reuseport_md :: ctype where
  "sk_reuseport_md =
    Struct [('''', bpf_md_ptr ''data''), ('''', bpf_md_ptr ''data_end''), (''len'', c_u32),
     (''eth_protocol'', c_u32), (''ip_protocol'', c_u32), (''bind_inany'', c_u32),
     (''hash'', c_u32)]"

definition bpf_prog_info :: ctype where
  "bpf_prog_info =
    Aligned 8 (Struct [(''type'', c_u32), (''id'', c_u32), (''tag'', Arr 8 c_u8),
     (''jited_prog_len'', c_u32), (''xlated_prog_len'', c_u32),
     (''jited_prog_insns'', Aligned 8 c_u64), (''xlated_prog_insns'', Aligned 8 c_u64),
     (''load_time'', c_u64), (''created_by_uid'', c_u32), (''nr_map_ids'', c_u32),
     (''map_ids'', Aligned 8 c_u64), (''name'', Arr 16 c_u8), (''ifindex'', c_u32),
     (''gpl_compatible'', Bits c_u32 [(''gpl_compatible'', 1), ('''', 31)]),
     (''netns_dev'', c_u64), (''netns_ino'', c_u64), (''nr_jited_ksyms'', c_u32),
     (''nr_jited_func_lens'', c_u32), (''jited_ksyms'', Aligned 8 c_u64),
     (''jited_func_lens'', Aligned 8 c_u64), (''btf_id'', c_u32), (''func_info_rec_size'', c_u32),
     (''func_info'', Aligned 8 c_u64), (''nr_func_info'', c_u32), (''nr_line_info'', c_u32),
     (''line_info'', Aligned 8 c_u64), (''jited_line_info'', Aligned 8 c_u64),
     (''nr_jited_line_info'', c_u32), (''line_info_rec_size'', c_u32),
     (''jited_line_info_rec_size'', c_u32), (''nr_prog_tags'', c_u32),
     (''prog_tags'', Aligned 8 c_u64), (''run_time_ns'', c_u64), (''run_cnt'', c_u64)])"

definition bpf_map_info :: ctype where
  "bpf_map_info =
    Aligned 8 (Struct [(''type'', c_u32), (''id'', c_u32), (''key_size'', c_u32),
     (''value_size'', c_u32), (''max_entries'', c_u32), (''map_flags'', c_u32),
     (''name'', Arr 16 c_u8), (''ifindex'', c_u32), ('''', Bits c_u32 [('''', 32)]),
     (''netns_dev'', c_u64), (''netns_ino'', c_u64), (''btf_id'', c_u32),
     (''btf_key_type_id'', c_u32), (''btf_value_type_id'', c_u32)])"

definition bpf_btf_info :: ctype where
  "bpf_btf_info =
    Aligned 8 (Struct [(''btf'', Aligned 8 c_u64), (''btf_size'', c_u32), (''id'', c_u32)])"

definition bpf_sock_addr :: ctype where
  "bpf_sock_addr =
    Struct [(''user_family'', c_u32), (''user_ip4'', c_u32), (''user_ip6'', Arr 4 c_u32),
     (''user_port'', c_u32), (''family'', c_u32), (''type'', c_u32), (''protocol'', c_u32),
     (''msg_src_ip4'', c_u32), (''msg_src_ip6'', Arr 4 c_u32), ('''', bpf_md_ptr ''sk'')]"

definition bpf_sock_ops :: ctype where
  "bpf_sock_ops =
    Struct [(''op'', c_u32), ('''', Union [(''args'', Arr 4 c_u32), (''reply'', c_u32),
     (''replylong'', Arr 4 c_u32)]), (''family'', c_u32), (''remote_ip4'', c_u32),
     (''local_ip4'', c_u32), (''remote_ip6'', Arr 4 c_u32), (''local_ip6'', Arr 4 c_u32),
     (''remote_port'', c_u32), (''local_port'', c_u32), (''is_fullsock'', c_u32),
     (''snd_cwnd'', c_u32), (''srtt_us'', c_u32), (''bpf_sock_ops_cb_flags'', c_u32),
     (''state'', c_u32), (''rtt_min'', c_u32), (''snd_ssthresh'', c_u32), (''rcv_nxt'', c_u32),
     (''snd_nxt'', c_u32), (''snd_una'', c_u32), (''mss_cache'', c_u32), (''ecn_flags'', c_u32),
     (''rate_delivered'', c_u32), (''rate_interval_us'', c_u32), (''packets_out'', c_u32),
     (''retrans_out'', c_u32), (''total_retrans'', c_u32), (''segs_in'', c_u32),
     (''data_segs_in'', c_u32), (''segs_out'', c_u32), (''data_segs_out'', c_u32),
     (''lost_out'', c_u32), (''sacked_out'', c_u32), (''sk_txhash'', c_u32),
     (''bytes_received'', c_u64), (''bytes_acked'', c_u64), ('''', bpf_md_ptr ''sk'')]"

definition perf_event_value :: ctype where
  "perf_event_value =
    Struct [(''counter'', c_u64), (''enabled'', c_u64), (''running'', c_u64)]"

definition cgroup_dev_ctx :: ctype where
  "cgroup_dev_ctx =
    Struct [(''access_type'', c_u32), (''major'', c_u32), (''minor'', c_u32)]"

definition raw_tracepoint_args :: ctype where
  "raw_tracepoint_args =
    Struct [(''args'', Arr 0 c_u64)]"

definition fib_lookup :: ctype where
  "fib_lookup =
    Struct [(''family'', c_u8), (''l4_protocol'', c_u8), (''sport'', c_be16), (''dport'', c_be16),
     (''tot_len'', c_u16), (''ifindex'', c_u32), ('''', Union [(''tos'', c_u8),
     (''flowinfo'', c_be32), (''rt_metric'', c_u32)]), ('''', Union [(''ipv4_src'', c_be32),
     (''ipv6_src'', Arr 4 c_u32)]), ('''', Union [(''ipv4_dst'', c_be32),
     (''ipv6_dst'', Arr 4 c_u32)]), (''h_vlan_proto'', c_be16), (''h_vlan_TCI'', c_be16),
     (''smac'', Arr 6 c_u8), (''dmac'', Arr 6 c_u8)]"

definition flow_keys :: ctype where
  "flow_keys =
    Struct [(''nhoff'', c_u16), (''thoff'', c_u16), (''addr_proto'', c_u16), (''is_frag'', c_u8),
     (''is_first_frag'', c_u8), (''is_encap'', c_u8), (''ip_proto'', c_u8), (''n_proto'', c_be16),
     (''sport'', c_be16), (''dport'', c_be16),
     ('''', Union [('''', Struct [(''ipv4_src'', c_be32), (''ipv4_dst'', c_be32)]),
     ('''', Struct [(''ipv6_src'', Arr 4 c_u32), (''ipv6_dst'', Arr 4 c_u32)])]),
     (''flags'', c_u32), (''flow_label'', c_be32)]"

definition func_info :: ctype where
  "func_info =
    Struct [(''insn_off'', c_u32), (''type_id'', c_u32)]"

definition line_info :: ctype where
  "line_info =
    Struct [(''insn_off'', c_u32), (''file_name_off'', c_u32), (''line_off'', c_u32),
     (''line_col'', c_u32)]"

definition spin_lock :: ctype where
  "spin_lock =
    Struct [(''val'', c_u32)]"

definition bpf_sysctl :: ctype where
  "bpf_sysctl =
    Struct [(''write'', c_u32), (''file_pos'', c_u32)]"

definition bpf_sockopt :: ctype where
  "bpf_sockopt =
    Struct [('''', bpf_md_ptr ''sk''), ('''', bpf_md_ptr ''optval''),
     ('''', bpf_md_ptr ''optval_end''), (''level'', c_u32), (''optname'', c_u32),
     (''optlen'', c_u32), (''retval'', c_u32)]"

definition bpf_map_def_layout :: ctype where
  "bpf_map_def_layout =
    Struct [(''type'', c_u32), (''key_size'', c_u32), (''value_size'', c_u32),
     (''max_entries'', c_u32), (''map_flags'', c_u32), (''inner_map_idx'', c_u32),
     (''numa_node'', c_u32)]"

definition tcp_word_hdr :: ctype where
  "tcp_word_hdr =
    Union [(''hdr'', Struct tcphdr), (''words'', Arr 5 c_be32)]"

definition tcp_repair_opt :: ctype where
  "tcp_repair_opt =
    Struct [(''opt_code'', c_u32), (''opt_val'', c_u32)]"

definition tcp_repair_window :: ctype where
  "tcp_repair_window =
    Struct [(''snd_wl1'', c_u32), (''snd_wnd'', c_u32), (''max_window'', c_u32),
     (''rcv_wnd'', c_u32), (''rcv_wup'', c_u32)]"

definition tcp_info :: ctype where
  "tcp_info =
    Struct [(''tcpi_state'', c_u8), (''tcpi_ca_state'', c_u8), (''tcpi_retransmits'', c_u8),
     (''tcpi_probes'', c_u8), (''tcpi_backoff'', c_u8), (''tcpi_options'', c_u8),
     (''tcpi_snd_wscale_tcpi_rcv_wscale'', Bits c_u8 [(''tcpi_snd_wscale'', 4),
     (''tcpi_rcv_wscale'', 4)]),
     (''tcpi_delivery_rate_app_limited'', Bits c_u8 [(''tcpi_delivery_rate_app_limited'', 1)]),
     (''tcpi_rto'', c_u32), (''tcpi_ato'', c_u32), (''tcpi_snd_mss'', c_u32),
     (''tcpi_rcv_mss'', c_u32), (''tcpi_unacked'', c_u32), (''tcpi_sacked'', c_u32),
     (''tcpi_lost'', c_u32), (''tcpi_retrans'', c_u32), (''tcpi_fackets'', c_u32),
     (''tcpi_last_data_sent'', c_u32), (''tcpi_last_ack_sent'', c_u32),
     (''tcpi_last_data_recv'', c_u32), (''tcpi_last_ack_recv'', c_u32), (''tcpi_pmtu'', c_u32),
     (''tcpi_rcv_ssthresh'', c_u32), (''tcpi_rtt'', c_u32), (''tcpi_rttvar'', c_u32),
     (''tcpi_snd_ssthresh'', c_u32), (''tcpi_snd_cwnd'', c_u32), (''tcpi_advmss'', c_u32),
     (''tcpi_reordering'', c_u32), (''tcpi_rcv_rtt'', c_u32), (''tcpi_rcv_space'', c_u32),
     (''tcpi_total_retrans'', c_u32), (''tcpi_pacing_rate'', c_u64),
     (''tcpi_max_pacing_rate'', c_u64), (''tcpi_bytes_acked'', c_u64),
     (''tcpi_bytes_received'', c_u64), (''tcpi_segs_out'', c_u32), (''tcpi_segs_in'', c_u32),
     (''tcpi_notsent_bytes'', c_u32), (''tcpi_min_rtt'', c_u32), (''tcpi_data_segs_in'', c_u32),
     (''tcpi_data_segs_out'', c_u32), (''tcpi_delivery_rate'', c_u64),
     (''tcpi_busy_time'', c_u64), (''tcpi_rwnd_limited'', c_u64),
     (''tcpi_sndbuf_limited'', c_u64), (''tcpi_delivered'', c_u32),
     (''tcpi_delivered_ce'', c_u32), (''tcpi_bytes_sent'', c_u64),
     (''tcpi_bytes_retrans'', c_u64), (''tcpi_dsack_dups'', c_u32), (''tcpi_reord_seen'', c_u32),
     (''tcpi_rcv_ooopack'', c_u32), (''tcpi_snd_wnd'', c_u32)]"

definition sockaddr_storage :: ctype where
  "sockaddr_storage =
    Struct [('''', Union [('''', Struct [(''ss_family'', c_u16), (''__data'', Arr 126 c_u8)]),
     (''__align'', c_ptr)])]"

definition tcp_md5sig :: ctype where
  "tcp_md5sig =
    Struct [(''tcpm_addr'', sockaddr_storage), (''tcpm_flags'', c_u8), (''tcpm_prefixlen'', c_u8),
     (''tcpm_keylen'', c_u16), (''__tcpm_pad'', c_u32), (''tcpm_key'', Arr 80 c_u8)]"

definition tcp_diag_md5sig :: ctype where
  "tcp_diag_md5sig =
    Struct [(''tcpm_family'', c_u8), (''tcpm_prefixlen'', c_u8), (''tcpm_keylen'', c_u16),
     (''tcpm_addr'', Arr 4 c_be32), (''tcpm_key'', Arr 80 c_u8)]"

definition tcp_zerocopy_receive :: ctype where
  "tcp_zerocopy_receive =
    Struct [(''address'', c_u64), (''length'', c_u32), (''recv_skip_hint'', c_u32)]"

definition ip_auth_hdr :: ctype where
  "ip_auth_hdr =
    Struct [(''nexthdr'', c_u8), (''hdrlen'', c_u8), (''reserved'', c_be16), (''spi'', c_be32),
     (''seq_no'', c_be32), (''auth_data'', Arr 0 c_u8)]"

definition ip_esp_hdr :: ctype where
  "ip_esp_hdr =
    Struct [(''spi'', c_be32), (''seq_no'', c_be32), (''enc_data'', Arr 0 c_u8)]"

definition ip_comp_hdr :: ctype where
  "ip_comp_hdr =
    Struct [(''nexthdr'', c_u8), (''flags'', c_u8), (''cpi'', c_be16)]"

definition ip_beet_phdr :: ctype where
  "ip_beet_phdr =
    Struct [(''nexthdr'', c_u8), (''hdrlen'', c_u8), (''padlen'', c_u8), (''reserved'', c_u8)]"

definition in6_ifreq :: ctype where
  "in6_ifreq =
    Struct [(''ifr6_addr'', in6_addr), (''ifr6_prefixlen'', c_u32), (''ifr6_ifindex'', c_int)]"

definition ipv6_rt_hdr :: ctype where
  "ipv6_rt_hdr =
    Struct [(''nexthdr'', c_u8), (''hdrlen'', c_u8), (''type'', c_u8), (''segments_left'', c_u8)]"

definition ipv6_opt_hdr :: ctype where
  "ipv6_opt_hdr =
    Packed [(''nexthdr'', c_u8), (''hdrlen'', c_u8)]"

definition rt0_hdr :: ctype where
  "rt0_hdr =
    Struct [(''rt_hdr'', ipv6_rt_hdr), (''reserved'', c_u32), (''addr'', Arr 0 in6_addr)]"

definition rt2_hdr :: ctype where
  "rt2_hdr =
    Struct [(''rt_hdr'', ipv6_rt_hdr), (''reserved'', c_u32), (''addr'', in6_addr)]"

definition ipv6_destopt_hao :: ctype where
  "ipv6_destopt_hao =
    Packed [(''type'', c_u8), (''length'', c_u8), (''addr'', in6_addr)]"

definition ethhdr :: ctype where
  "ethhdr =
    Packed [(''h_dest'', Arr 6 c_u8), (''h_source'', Arr 6 c_u8), (''h_proto'', c_be16)]"

section \<open>The argument of the system call\<close>

definition attr_map_create :: ctype where
  "attr_map_create =
    Struct [(''map_type'', c_u32), (''key_size'', c_u32), (''value_size'', c_u32),
     (''max_entries'', c_u32), (''map_flags'', c_u32), (''inner_map_fd'', c_u32),
     (''numa_node'', c_u32), (''map_name'', Arr 16 c_u8), (''map_ifindex'', c_u32),
     (''btf_fd'', c_u32), (''btf_key_type_id'', c_u32), (''btf_value_type_id'', c_u32)]"

definition attr_map_elem :: ctype where
  "attr_map_elem =
    Struct [(''map_fd'', c_u32), (''key'', Aligned 8 c_u64),
     ('''', Union [(''value'', Aligned 8 c_u64), (''next_key'', Aligned 8 c_u64)]),
     (''flags'', c_u64)]"

definition attr_prog_load :: ctype where
  "attr_prog_load =
    Struct [(''prog_type'', c_u32), (''insn_cnt'', c_u32), (''insns'', Aligned 8 c_u64),
     (''license'', Aligned 8 c_u64), (''log_level'', c_u32), (''log_size'', c_u32),
     (''log_buf'', Aligned 8 c_u64), (''kern_version'', c_u32), (''prog_flags'', c_u32),
     (''prog_name'', Arr 16 c_u8), (''prog_ifindex'', c_u32), (''expected_attach_type'', c_u32),
     (''prog_btf_fd'', c_u32), (''func_info_rec_size'', c_u32), (''func_info'', Aligned 8 c_u64),
     (''func_info_cnt'', c_u32), (''line_info_rec_size'', c_u32),
     (''line_info'', Aligned 8 c_u64), (''line_info_cnt'', c_u32)]"

definition attr_obj :: ctype where
  "attr_obj =
    Struct [(''pathname'', Aligned 8 c_u64), (''bpf_fd'', c_u32), (''file_flags'', c_u32)]"

definition attr_prog_attach :: ctype where
  "attr_prog_attach =
    Struct [(''target_fd'', c_u32), (''attach_bpf_fd'', c_u32), (''attach_type'', c_u32),
     (''attach_flags'', c_u32)]"

definition attr_prog_test_run :: ctype where
  "attr_prog_test_run =
    Struct [(''prog_fd'', c_u32), (''retval'', c_u32), (''data_size_in'', c_u32),
     (''data_size_out'', c_u32), (''data_in'', Aligned 8 c_u64), (''data_out'', Aligned 8 c_u64),
     (''repeat'', c_u32), (''duration'', c_u32), (''ctx_size_in'', c_u32),
     (''ctx_size_out'', c_u32), (''ctx_in'', Aligned 8 c_u64), (''ctx_out'', Aligned 8 c_u64)]"

definition attr_get_id :: ctype where
  "attr_get_id =
    Struct [('''', Union [(''start_id'', c_u32), (''prog_id'', c_u32), (''map_id'', c_u32),
     (''btf_id'', c_u32)]), (''next_id'', c_u32), (''open_flags'', c_u32)]"

definition attr_obj_info :: ctype where
  "attr_obj_info =
    Struct [(''bpf_fd'', c_u32), (''info_len'', c_u32), (''info'', Aligned 8 c_u64)]"

definition attr_prog_query :: ctype where
  "attr_prog_query =
    Struct [(''target_fd'', c_u32), (''attach_type'', c_u32), (''query_flags'', c_u32),
     (''attach_flags'', c_u32), (''prog_ids'', Aligned 8 c_u64), (''prog_cnt'', c_u32)]"

definition attr_raw_tracepoint :: ctype where
  "attr_raw_tracepoint =
    Struct [(''name'', c_u64), (''prog_fd'', c_u32)]"

definition attr_btf_load :: ctype where
  "attr_btf_load =
    Struct [(''btf'', Aligned 8 c_u64), (''btf_log_buf'', Aligned 8 c_u64), (''btf_size'', c_u32),
     (''btf_log_size'', c_u32), (''btf_log_level'', c_u32)]"

definition attr_task_fd_query :: ctype where
  "attr_task_fd_query =
    Struct [(''pid'', c_u32), (''fd'', c_u32), (''flags'', c_u32), (''buf_len'', c_u32),
     (''buf'', Aligned 8 c_u64), (''prog_id'', c_u32), (''fd_type'', c_u32),
     (''probe_offset'', c_u64), (''probe_addr'', c_u64)]"

definition bpf_attr :: ctype where
  "bpf_attr = Aligned 8 (Union
    [('''', attr_map_create), ('''', attr_map_elem), ('''', attr_prog_load), ('''', attr_obj),
     ('''', attr_prog_attach), (''test'', attr_prog_test_run), ('''', attr_get_id),
     (''info'', attr_obj_info), (''query'', attr_prog_query),
     (''raw_tracepoint'', attr_raw_tracepoint), ('''', attr_btf_load),
     (''task_fd_query'', attr_task_fd_query)])"

definition header_structs :: "(string \<times> ctype) list" where
  "header_structs =
    [(''bpf_lpm_trie_key'', lpm_trie_key), (''bpf_cgroup_storage_key'', cgroup_storage_key),
     (''bpf_stack_build_id'', stack_build_id), (''__sk_buff'', sk_buff_ctx),
     (''bpf_tunnel_key'', tunnel_key), (''bpf_xfrm_state'', xfrm_state), (''bpf_sock'', bpf_sock),
     (''bpf_tcp_sock'', bpf_tcp_sock), (''bpf_sock_tuple'', sock_tuple),
     (''bpf_xdp_sock'', xdp_sock), (''xdp_md'', xdp_md), (''sk_msg_md'', sk_msg_md),
     (''sk_reuseport_md'', sk_reuseport_md), (''bpf_prog_info'', bpf_prog_info),
     (''bpf_map_info'', bpf_map_info), (''bpf_btf_info'', bpf_btf_info),
     (''bpf_sock_addr'', bpf_sock_addr), (''bpf_sock_ops'', bpf_sock_ops),
     (''bpf_perf_event_value'', perf_event_value), (''bpf_cgroup_dev_ctx'', cgroup_dev_ctx),
     (''bpf_raw_tracepoint_args'', raw_tracepoint_args), (''bpf_fib_lookup'', fib_lookup),
     (''bpf_flow_keys'', flow_keys), (''bpf_func_info'', func_info),
     (''bpf_line_info'', line_info), (''bpf_spin_lock'', spin_lock), (''bpf_sysctl'', bpf_sysctl),
     (''bpf_sockopt'', bpf_sockopt), (''bpf_map_def'', bpf_map_def_layout),
     (''tcp_word_hdr'', tcp_word_hdr), (''tcp_repair_opt'', tcp_repair_opt),
     (''tcp_repair_window'', tcp_repair_window), (''tcp_info'', tcp_info),
     (''__kernel_sockaddr_storage'', sockaddr_storage), (''tcp_md5sig'', tcp_md5sig),
     (''tcp_diag_md5sig'', tcp_diag_md5sig), (''tcp_zerocopy_receive'', tcp_zerocopy_receive),
     (''ip_auth_hdr'', ip_auth_hdr), (''ip_esp_hdr'', ip_esp_hdr), (''ip_comp_hdr'', ip_comp_hdr),
     (''ip_beet_phdr'', ip_beet_phdr), (''in6_ifreq'', in6_ifreq), (''ipv6_rt_hdr'', ipv6_rt_hdr),
     (''ipv6_opt_hdr'', ipv6_opt_hdr), (''rt0_hdr'', rt0_hdr), (''rt2_hdr'', rt2_hdr),
     (''ipv6_destopt_hao'', ipv6_destopt_hao), (''ethhdr'', ethhdr), (''bpf_attr'', bpf_attr)]"

end
