(* ===== verification/Bpf_Insn.thy ===== *)
theory Bpf_Insn
  imports Net_Headers Bpf_Enums
begin

unbundle bit_operations_syntax

text \<open>
  The instruction set of \<open>linux/bpf_common.h\<close> and \<open>linux/bpf.h\<close>: the fields of an
  opcode byte, their values, and the eight bytes of an instruction.
\<close>

section \<open>Fields of an opcode\<close>

definition BPF_CLASS :: "u8 \<Rightarrow> u8" where "BPF_CLASS code = code AND 0x07"
definition BPF_SIZE :: "u8 \<Rightarrow> u8" where "BPF_SIZE code = code AND 0x18"
definition BPF_MODE :: "u8 \<Rightarrow> u8" where "BPF_MODE code = code AND 0xe0"
definition BPF_OP :: "u8 \<Rightarrow> u8" where "BPF_OP code = code AND 0xf0"
definition BPF_SRC :: "u8 \<Rightarrow> u8" where "BPF_SRC code = code AND 0x08"

section \<open>Instruction classes\<close>

definition BPF_LD :: u8 where "BPF_LD = 0x00"
definition BPF_LDX :: u8 where "BPF_LDX = 0x01"
definition BPF_ST :: u8 where "BPF_ST = 0x02"
definition BPF_STX :: u8 where "BPF_STX = 0x03"
definition BPF_ALU :: u8 where "BPF_ALU = 0x04"
definition BPF_JMP :: u8 where "BPF_JMP = 0x05"
definition BPF_RET :: u8 where "BPF_RET = 0x06"
definition BPF_MISC :: u8 where "BPF_MISC = 0x07"
definition BPF_JMP32 :: u8 where "BPF_JMP32 = 0x06"
definition BPF_ALU64 :: u8 where "BPF_ALU64 = 0x07"

section \<open>Sizes and modes of loads and stores\<close>

definition BPF_W :: u8 where "BPF_W = 0x00"
definition BPF_H :: u8 where "BPF_H = 0x08"
definition BPF_B :: u8 where "BPF_B = 0x10"
definition BPF_IMM :: u8 where "BPF_IMM = 0x00"
definition BPF_ABS :: u8 where "BPF_ABS = 0x20"
definition BPF_IND :: u8 where "BPF_IND = 0x40"
definition BPF_MEM :: u8 where "BPF_MEM = 0x60"
definition BPF_LEN :: u8 where "BPF_LEN = 0x80"
definition BPF_MSH :: u8 where "BPF_MSH = 0xa0"
definition BPF_DW :: u8 where "BPF_DW = 0x18"
definition BPF_XADD :: u8 where "BPF_XADD = 0xc0"

section \<open>Arithmetic and jumps\<close>

definition BPF_ADD :: u8 where "BPF_ADD = 0x00"
definition BPF_SUB :: u8 where "BPF_SUB = 0x10"
definition BPF_MUL :: u8 where "BPF_MUL = 0x20"
definition BPF_DIV :: u8 where "BPF_DIV = 0x30"
definition BPF_OR :: u8 where "BPF_OR = 0x40"
definition BPF_AND :: u8 where "BPF_AND = 0x50"
definition BPF_LSH :: u8 where "BPF_LSH = 0x60"
definition BPF_RSH :: u8 where "BPF_RSH = 0x70"
definition BPF_NEG :: u8 where "BPF_NEG = 0x80"
definition BPF_MOD :: u8 where "BPF_MOD = 0x90"
definition BPF_XOR :: u8 where "BPF_XOR = 0xa0"
definition BPF_JA :: u8 where "BPF_JA = 0x00"
definition BPF_JEQ :: u8 where "BPF_JEQ = 0x10"
definition BPF_JGT :: u8 where "BPF_JGT = 0x20"
definition BPF_JGE :: u8 where "BPF_JGE = 0x30"
definition BPF_JSET :: u8 where "BPF_JSET = 0x40"
definition BPF_K :: u8 where "BPF_K = 0x00"
definition BPF_X :: u8 where "BPF_X = 0x08"
definition BPF_MOV :: u8 where "BPF_MOV = 0xb0"
definition BPF_ARSH :: u8 where "BPF_ARSH = 0xc0"
definition BPF_END :: u8 where "BPF_END = 0xd0"
definition BPF_TO_LE :: u8 where "BPF_TO_LE = 0x00"
definition BPF_TO_BE :: u8 where "BPF_TO_BE = 0x08"
definition BPF_JNE :: u8 where "BPF_JNE = 0x50"
definition BPF_JLT :: u8 where "BPF_JLT = 0xa0"
definition BPF_JLE :: u8 where "BPF_JLE = 0xb0"
definition BPF_JSGT :: u8 where "BPF_JSGT = 0x60"
definition BPF_JSGE :: u8 where "BPF_JSGE = 0x70"
definition BPF_JSLT :: u8 where "BPF_JSLT = 0xc0"
definition BPF_JSLE :: u8 where "BPF_JSLE = 0xd0"
definition BPF_CALL :: u8 where "BPF_CALL = 0x80"
definition BPF_EXIT :: u8 where "BPF_EXIT = 0x90"

definition BPF_FROM_LE :: u8 where "BPF_FROM_LE = BPF_TO_LE"
definition BPF_FROM_BE :: u8 where "BPF_FROM_BE = BPF_TO_BE"

definition load_store_classes :: "u8 list" where
  "load_store_classes =
    [BPF_LD, BPF_LDX, BPF_ST, BPF_STX]"

definition arith_classes :: "u8 list" where
  "arith_classes =
    [BPF_ALU, BPF_JMP, BPF_JMP32, BPF_ALU64]"

definition sizes :: "u8 list" where
  "sizes =
    [BPF_W, BPF_H, BPF_B, BPF_DW]"

definition modes :: "u8 list" where
  "modes =
    [BPF_IMM, BPF_ABS, BPF_IND, BPF_MEM, BPF_LEN, BPF_MSH, BPF_XADD]"

definition sources :: "u8 list" where
  "sources =
    [BPF_K, BPF_X]"

definition alu_ops :: "u8 list" where
  "alu_ops =
    [BPF_ADD, BPF_SUB, BPF_MUL, BPF_DIV, BPF_OR, BPF_AND, BPF_LSH, BPF_RSH, BPF_NEG, BPF_MOD,
     BPF_XOR, BPF_MOV, BPF_ARSH, BPF_END]"

definition jmp_ops :: "u8 list" where
  "jmp_ops =
    [BPF_JA, BPF_JEQ, BPF_JGT, BPF_JGE, BPF_JSET, BPF_JNE, BPF_JSGT, BPF_JSGE, BPF_CALL,
     BPF_EXIT, BPF_JLT, BPF_JLE, BPF_JSLT, BPF_JSLE]"

lemmas opcode_defs =
  BPF_CLASS_def BPF_SIZE_def BPF_MODE_def BPF_OP_def BPF_SRC_def

text \<open>The macros cut the byte into disjoint fields that cover it, in two ways.\<close>

lemma load_store_fields: "BPF_CLASS c OR BPF_SIZE c OR BPF_MODE c = c"
proof -
  have "BPF_CLASS c OR BPF_SIZE c OR BPF_MODE c = c AND (0x07 OR 0x18 OR 0xe0)"
    by (simp only: opcode_defs bit.conj_disj_distrib)
  also have "(0x07 OR 0x18 OR 0xe0 :: u8) = - 1" by simp
  finally show ?thesis by simp
qed

lemma arith_fields: "BPF_CLASS c OR BPF_SRC c OR BPF_OP c = c"
proof -
  have "BPF_CLASS c OR BPF_SRC c OR BPF_OP c = c AND (0x07 OR 0x08 OR 0xf0)"
    by (simp only: opcode_defs bit.conj_disj_distrib)
  also have "(0x07 OR 0x08 OR 0xf0 :: u8) = - 1" by simp
  finally show ?thesis by simp
qed

section \<open>Instructions\<close>

record bpf_insn =
  code :: u8
  dst_reg :: "4 word"
  src_reg :: "4 word"
  insn_off :: u16
  imm :: u32

definition bpf_insn_layout :: members where
  "bpf_insn_layout =
     [(''code'', c_u8), (''dst_reg_src_reg'', Bits c_u8 [(''dst_reg'', 4), (''src_reg'', 4)]),
      (''off'', c_u16), (''imm'', c_u32)]"

definition insn_bytes :: "bpf_insn \<Rightarrow> u8 list" where
  "insn_bytes i =
     [code i, word_cat (src_reg i) (dst_reg i)] @ bytes16 (insn_off i) @ bytes32 (imm i)"

definition read_insn :: "u8 list \<Rightarrow> nat \<Rightarrow> bpf_insn option" where
  "read_insn bs off = do {
     c \<leftarrow> member8 bpf_insn_layout ''code'' bs off;
     regs \<leftarrow> member8 bpf_insn_layout ''dst_reg_src_reg'' bs off;
     o16 \<leftarrow> member16 bpf_insn_layout ''off'' bs off;
     i32 \<leftarrow> member32 bpf_insn_layout ''imm'' bs off;
     Some \<lparr>code = c, dst_reg = ucast (bit_field 0 4 regs), src_reg = ucast (bit_field 4 4 regs),
           insn_off = o16, imm = i32\<rparr> }"

text \<open>A call of a helper: the number in \<open>imm\<close> selects it.\<close>

definition BPF_MAXINSNS :: nat where "BPF_MAXINSNS = 4096"
definition BPF_PSEUDO_CALL :: "4 word" where "BPF_PSEUDO_CALL = 1"
definition BPF_PSEUDO_MAP_FD :: "4 word" where "BPF_PSEUDO_MAP_FD = 1"
definition BPF_PSEUDO_MAP_VALUE :: "4 word" where "BPF_PSEUDO_MAP_VALUE = 2"

lemma insn_size: "sizeof bpf_insn_layout = 8"
  by code_simp

lemma insn_offsets:
  "offset_of bpf_insn_layout ''code'' = Some 0"
  "offset_of bpf_insn_layout ''dst_reg_src_reg'' = Some 1"
  "offset_of bpf_insn_layout ''off'' = Some 2"
  "offset_of bpf_insn_layout ''imm'' = Some 4"
  by code_simp+

lemma nibbles:
  "ucast (bit_field 0 4 (word_cat (s :: 4 word) (d :: 4 word) :: u8)) = d"
  "ucast (bit_field 4 4 (word_cat (s :: 4 word) (d :: 4 word) :: u8)) = s"
  by (rule bit_word_eqI;
      auto simp: bit_field_def bit_simps bit_word_cat_iff)+

lemma length_insn_bytes [simp]: "length (insn_bytes i) = 8"
  by (simp add: insn_bytes_def)

lemma read_insn_bytes: "read_insn (insn_bytes i @ rest) 0 = Some i"
proof -
  have "load8 (insn_bytes i @ rest) 0 = Some (code i)"
    "load8 (insn_bytes i @ rest) 1 = Some (word_cat (src_reg i) (dst_reg i))"
    by (simp_all add: insn_bytes_def load8_def)
  moreover have "load16 (insn_bytes i @ rest) 2 = Some (insn_off i)"
    using load16_append_right [of "[code i, word_cat (src_reg i) (dst_reg i)]"
        "bytes16 (insn_off i) @ bytes32 (imm i) @ rest" 0]
    by (simp add: insn_bytes_def load16_bytes16 numeral_2_eq_2)
  moreover have "load32 (insn_bytes i @ rest) 4 = Some (imm i)"
    using load32_append_right [of
        "[code i, word_cat (src_reg i) (dst_reg i)] @ bytes16 (insn_off i)" "bytes32 (imm i) @ rest" 0]
    by (simp add: insn_bytes_def load32_bytes32)
  ultimately show ?thesis
    by (simp add: read_insn_def member8_def member16_def member32_def insn_offsets nibbles)
qed

end
