(* ===== verification/Header_Macros.thy ===== *)
theory Header_Macros
  imports Bpf_Enums Net_Headers
begin

unbundle bit_operations_syntax

text \<open>
  The macros of the headers: the fields of the IPv4 option and type-of-service bytes
  (\<open>ip.h\<close>), protocol numbers and frame sizes (\<open>if_ether.h\<close>), socket options (\<open>tcp.h\<close>,
  \<open>udp.h\<close>), and the flags and packed words of \<open>linux/bpf.h\<close>.
\<close>

section \<open>IPv4 type of service and options\<close>

definition IPTOS_TOS_MASK :: u8 where "IPTOS_TOS_MASK = 0x1E"
definition IPTOS_LOWDELAY :: u8 where "IPTOS_LOWDELAY = 0x10"
definition IPTOS_THROUGHPUT :: u8 where "IPTOS_THROUGHPUT = 0x08"
definition IPTOS_RELIABILITY :: u8 where "IPTOS_RELIABILITY = 0x04"
definition IPTOS_MINCOST :: u8 where "IPTOS_MINCOST = 0x02"
definition IPTOS_PREC_MASK :: u8 where "IPTOS_PREC_MASK = 0xE0"
definition IPTOS_PREC_NETCONTROL :: u8 where "IPTOS_PREC_NETCONTROL = 0xe0"
definition IPTOS_PREC_INTERNETCONTROL :: u8 where "IPTOS_PREC_INTERNETCONTROL = 0xc0"
definition IPTOS_PREC_CRITIC_ECP :: u8 where "IPTOS_PREC_CRITIC_ECP = 0xa0"
definition IPTOS_PREC_FLASHOVERRIDE :: u8 where "IPTOS_PREC_FLASHOVERRIDE = 0x80"
definition IPTOS_PREC_FLASH :: u8 where "IPTOS_PREC_FLASH = 0x60"
definition IPTOS_PREC_IMMEDIATE :: u8 where "IPTOS_PREC_IMMEDIATE = 0x40"
definition IPTOS_PREC_PRIORITY :: u8 where "IPTOS_PREC_PRIORITY = 0x20"
definition IPTOS_PREC_ROUTINE :: u8 where "IPTOS_PREC_ROUTINE = 0x00"
definition IPTOS_TOS :: "u8 \<Rightarrow> u8" where "IPTOS_TOS tos = tos AND IPTOS_TOS_MASK"
definition IPTOS_PREC :: "u8 \<Rightarrow> u8" where "IPTOS_PREC tos = tos AND IPTOS_PREC_MASK"

definition IPOPT_COPY :: u8 where "IPOPT_COPY = 0x80"
definition IPOPT_CLASS_MASK :: u8 where "IPOPT_CLASS_MASK = 0x60"
definition IPOPT_NUMBER_MASK :: u8 where "IPOPT_NUMBER_MASK = 0x1f"
definition IPOPT_CONTROL :: u8 where "IPOPT_CONTROL = 0x00"
definition IPOPT_RESERVED1 :: u8 where "IPOPT_RESERVED1 = 0x20"
definition IPOPT_MEASUREMENT :: u8 where "IPOPT_MEASUREMENT = 0x40"
definition IPOPT_RESERVED2 :: u8 where "IPOPT_RESERVED2 = 0x60"
definition IPOPT_COPIED :: "u8 \<Rightarrow> u8" where "IPOPT_COPIED opt = opt AND IPOPT_COPY"
definition IPOPT_CLASS :: "u8 \<Rightarrow> u8" where "IPOPT_CLASS opt = opt AND IPOPT_CLASS_MASK"
definition IPOPT_NUMBER :: "u8 \<Rightarrow> u8" where "IPOPT_NUMBER opt = opt AND IPOPT_NUMBER_MASK"

definition ip_options :: "(string \<times> u8) list" where
  "ip_options =
    [(''IPOPT_END'', 0 OR IPOPT_CONTROL), (''IPOPT_NOOP'', 1 OR IPOPT_CONTROL),
     (''IPOPT_SEC'', 2 OR IPOPT_CONTROL OR IPOPT_COPY),
     (''IPOPT_LSRR'', 3 OR IPOPT_CONTROL OR IPOPT_COPY),
     (''IPOPT_TIMESTAMP'', 4 OR IPOPT_MEASUREMENT),
     (''IPOPT_CIPSO'', 6 OR IPOPT_CONTROL OR IPOPT_COPY), (''IPOPT_RR'', 7 OR IPOPT_CONTROL),
     (''IPOPT_SID'', 8 OR IPOPT_CONTROL OR IPOPT_COPY),
     (''IPOPT_SSRR'', 9 OR IPOPT_CONTROL OR IPOPT_COPY),
     (''IPOPT_RA'', 20 OR IPOPT_CONTROL OR IPOPT_COPY)]"

definition ip_limits :: "(string \<times> int) list" where
  "ip_limits =
    [(''IPVERSION'', 4), (''MAXTTL'', 255), (''IPDEFTTL'', 64), (''IPOPT_OPTVAL'', 0),
     (''IPOPT_OLEN'', 1), (''IPOPT_OFFSET'', 2), (''IPOPT_MINOFF'', 4), (''MAX_IPOPTLEN'', 40),
     (''IPOPT_TS_TSONLY'', 0), (''IPOPT_TS_TSANDADDR'', 1), (''IPOPT_TS_PRESPEC'', 3),
     (''IPV4_BEET_PHMAXLEN'', 8)]"

text \<open>Second names of three options.\<close>

definition ip_option_names :: "(string \<times> string) list" where
  "ip_option_names =
    [(''IPOPT_NOP'', ''IPOPT_NOOP''), (''IPOPT_EOL'', ''IPOPT_END''), (''IPOPT_TS'', ''IPOPT_TIMESTAMP'')]"

section \<open>Ethernet\<close>

definition eth_sizes :: "(string \<times> int) list" where
  "eth_sizes =
    [(''ETH_ALEN'', 6), (''ETH_TLEN'', 2), (''ETH_HLEN'', 14), (''ETH_ZLEN'', 60),
     (''ETH_DATA_LEN'', 1500), (''ETH_FRAME_LEN'', 1514), (''ETH_FCS_LEN'', 4),
     (''ETH_MIN_MTU'', 68), (''ETH_MAX_MTU'', 0xFFFF)]"

definition eth_protocols :: "(string \<times> int) list" where
  "eth_protocols =
    [(''ETH_P_LOOP'', 0x0060), (''ETH_P_PUP'', 0x0200), (''ETH_P_PUPAT'', 0x0201),
     (''ETH_P_TSN'', 0x22F0), (''ETH_P_ERSPAN2'', 0x22EB), (''ETH_P_IP'', 0x0800),
     (''ETH_P_X25'', 0x0805), (''ETH_P_ARP'', 0x0806), (''ETH_P_BPQ'', 0x08FF),
     (''ETH_P_IEEEPUP'', 0x0a00), (''ETH_P_IEEEPUPAT'', 0x0a01), (''ETH_P_BATMAN'', 0x4305),
     (''ETH_P_DEC'', 0x6000), (''ETH_P_DNA_DL'', 0x6001), (''ETH_P_DNA_RC'', 0x6002),
     (''ETH_P_DNA_RT'', 0x6003), (''ETH_P_LAT'', 0x6004), (''ETH_P_DIAG'', 0x6005),
     (''ETH_P_CUST'', 0x6006), (''ETH_P_SCA'', 0x6007), (''ETH_P_TEB'', 0x6558),
     (''ETH_P_RARP'', 0x8035), (''ETH_P_ATALK'', 0x809B), (''ETH_P_AARP'', 0x80F3),
     (''ETH_P_8021Q'', 0x8100), (''ETH_P_ERSPAN'', 0x88BE), (''ETH_P_IPX'', 0x8137),
     (''ETH_P_IPV6'', 0x86DD), (''ETH_P_PAUSE'', 0x8808), (''ETH_P_SLOW'', 0x8809),
     (''ETH_P_WCCP'', 0x883E), (''ETH_P_MPLS_UC'', 0x8847), (''ETH_P_MPLS_MC'', 0x8848),
     (''ETH_P_ATMMPOA'', 0x884c), (''ETH_P_PPP_DISC'', 0x8863), (''ETH_P_PPP_SES'', 0x8864),
     (''ETH_P_LINK_CTL'', 0x886c), (''ETH_P_ATMFATE'', 0x8884), (''ETH_P_PAE'', 0x888E),
     (''ETH_P_AOE'', 0x88A2), (''ETH_P_8021AD'', 0x88A8), (''ETH_P_802_EX1'', 0x88B5),
     (''ETH_P_PREAUTH'', 0x88C7), (''ETH_P_TIPC'', 0x88CA), (''ETH_P_LLDP'', 0x88CC),
     (''ETH_P_MACSEC'', 0x88E5), (''ETH_P_8021AH'', 0x88E7), (''ETH_P_MVRP'', 0x88F5),
     (''ETH_P_1588'', 0x88F7), (''ETH_P_NCSI'', 0x88F8), (''ETH_P_PRP'', 0x88FB),
     (''ETH_P_FCOE'', 0x8906), (''ETH_P_IBOE'', 0x8915), (''ETH_P_TDLS'', 0x890D),
     (''ETH_P_FIP'', 0x8914), (''ETH_P_80221'', 0x8917), (''ETH_P_HSR'', 0x892F),
     (''ETH_P_NSH'', 0x894F), (''ETH_P_LOOPBACK'', 0x9000), (''ETH_P_QINQ1'', 0x9100),
     (''ETH_P_QINQ2'', 0x9200), (''ETH_P_QINQ3'', 0x9300), (''ETH_P_EDSA'', 0xDADA),
     (''ETH_P_DSA_8021Q'', 0xDADB), (''ETH_P_IFE'', 0xED3E), (''ETH_P_AF_IUCV'', 0xFBFB)]"

definition ETH_P_802_3_MIN :: int where "ETH_P_802_3_MIN = 0x0600"

definition eth_other_protocols :: "(string \<times> int) list" where
  "eth_other_protocols =
    [(''ETH_P_802_3'', 0x0001), (''ETH_P_AX25'', 0x0002), (''ETH_P_ALL'', 0x0003),
     (''ETH_P_802_2'', 0x0004), (''ETH_P_SNAP'', 0x0005), (''ETH_P_DDCMP'', 0x0006),
     (''ETH_P_WAN_PPP'', 0x0007), (''ETH_P_PPP_MP'', 0x0008), (''ETH_P_LOCALTALK'', 0x0009),
     (''ETH_P_CAN'', 0x000C), (''ETH_P_CANFD'', 0x000D), (''ETH_P_PPPTALK'', 0x0010),
     (''ETH_P_TR_802_2'', 0x0011), (''ETH_P_MOBITEX'', 0x0015), (''ETH_P_CONTROL'', 0x0016),
     (''ETH_P_IRDA'', 0x0017), (''ETH_P_ECONET'', 0x0018), (''ETH_P_HDLC'', 0x0019),
     (''ETH_P_ARCNET'', 0x001A), (''ETH_P_DSA'', 0x001B), (''ETH_P_TRAILER'', 0x001C),
     (''ETH_P_PHONET'', 0x00F5), (''ETH_P_IEEE802154'', 0x00F6), (''ETH_P_CAIF'', 0x00F7),
     (''ETH_P_XDSA'', 0x00F8), (''ETH_P_MAP'', 0x00F9)]"

section \<open>Socket options\<close>

definition tcp_options :: "(string \<times> int) list" where
  "tcp_options =
    [(''TCP_NODELAY'', 1), (''TCP_MAXSEG'', 2), (''TCP_CORK'', 3), (''TCP_KEEPIDLE'', 4),
     (''TCP_KEEPINTVL'', 5), (''TCP_KEEPCNT'', 6), (''TCP_SYNCNT'', 7), (''TCP_LINGER2'', 8),
     (''TCP_DEFER_ACCEPT'', 9), (''TCP_WINDOW_CLAMP'', 10), (''TCP_INFO'', 11),
     (''TCP_QUICKACK'', 12), (''TCP_CONGESTION'', 13), (''TCP_MD5SIG'', 14),
     (''TCP_THIN_LINEAR_TIMEOUTS'', 16), (''TCP_THIN_DUPACK'', 17), (''TCP_USER_TIMEOUT'', 18),
     (''TCP_REPAIR'', 19), (''TCP_REPAIR_QUEUE'', 20), (''TCP_QUEUE_SEQ'', 21),
     (''TCP_REPAIR_OPTIONS'', 22), (''TCP_FASTOPEN'', 23), (''TCP_TIMESTAMP'', 24),
     (''TCP_NOTSENT_LOWAT'', 25), (''TCP_CC_INFO'', 26), (''TCP_SAVE_SYN'', 27),
     (''TCP_SAVED_SYN'', 28), (''TCP_REPAIR_WINDOW'', 29), (''TCP_FASTOPEN_CONNECT'', 30),
     (''TCP_ULP'', 31), (''TCP_MD5SIG_EXT'', 32), (''TCP_FASTOPEN_KEY'', 33),
     (''TCP_FASTOPEN_NO_COOKIE'', 34), (''TCP_ZEROCOPY_RECEIVE'', 35), (''TCP_INQ'', 36),
     (''TCP_TX_DELAY'', 37), (''TCP_CM_INQ'', 36)]"

definition tcp_repair_modes :: "(string \<times> int) list" where
  "tcp_repair_modes =
    [(''TCP_REPAIR_ON'', 1), (''TCP_REPAIR_OFF'', 0), (''TCP_REPAIR_OFF_NO_WP'', (-1))]"

definition tcp_info_options :: "(string \<times> u8) list" where
  "tcp_info_options =
    [(''TCPI_OPT_TIMESTAMPS'', 1), (''TCPI_OPT_SACK'', 2), (''TCPI_OPT_WSCALE'', 4),
     (''TCPI_OPT_ECN'', 8), (''TCPI_OPT_ECN_SEEN'', 16), (''TCPI_OPT_SYN_DATA'', 32)]"

definition udp_options :: "(string \<times> int) list" where
  "udp_options =
    [(''UDP_CORK'', 1), (''UDP_ENCAP'', 100), (''UDP_NO_CHECK6_TX'', 101),
     (''UDP_NO_CHECK6_RX'', 102), (''UDP_SEGMENT'', 103), (''UDP_GRO'', 104)]"

definition udp_encaps :: "(string \<times> int) list" where
  "udp_encaps =
    [(''UDP_ENCAP_ESPINUDP_NON_IKE'', 1), (''UDP_ENCAP_ESPINUDP'', 2),
     (''UDP_ENCAP_L2TPINUDP'', 3), (''UDP_ENCAP_GTP0'', 4), (''UDP_ENCAP_GTP1U'', 5),
     (''UDP_ENCAP_RXRPC'', 6)]"

text \<open>\<open>TCPF_CA_x\<close> is the bit of the congestion state \<open>TCP_CA_x\<close>.\<close>

definition tcpf_ca :: "string \<Rightarrow> u32 option" where
  "tcpf_ca x = map_option (\<lambda>i. push_bit (nat i) 1) (enum_value tcp_ca_state x)"

section \<open>Flags of the bpf system call\<close>

definition prog_attach_flags :: "(string \<times> u32) list" where
  "prog_attach_flags =
    [(''BPF_F_ALLOW_OVERRIDE'', push_bit 0 1), (''BPF_F_ALLOW_MULTI'', push_bit 1 1)]"

definition prog_load_flags :: "(string \<times> u32) list" where
  "prog_load_flags =
    [(''BPF_F_STRICT_ALIGNMENT'', push_bit 0 1), (''BPF_F_ANY_ALIGNMENT'', push_bit 1 1),
     (''BPF_F_TEST_RND_HI32'', push_bit 2 1), (''BPF_F_TEST_STATE_FREQ'', push_bit 3 1)]"

definition map_create_flags :: "(string \<times> u32) list" where
  "map_create_flags =
    [(''BPF_F_NO_PREALLOC'', push_bit 0 1), (''BPF_F_NO_COMMON_LRU'', push_bit 1 1),
     (''BPF_F_NUMA_NODE'', push_bit 2 1), (''BPF_F_RDONLY'', push_bit 3 1),
     (''BPF_F_WRONLY'', push_bit 4 1), (''BPF_F_STACK_BUILD_ID'', push_bit 5 1),
     (''BPF_F_ZERO_SEED'', push_bit 6 1), (''BPF_F_RDONLY_PROG'', push_bit 7 1),
     (''BPF_F_WRONLY_PROG'', push_bit 8 1), (''BPF_F_CLONE'', push_bit 9 1)]"

definition map_update_flags :: "(string \<times> u64) list" where
  "map_update_flags =
    [(''BPF_ANY'', 0), (''BPF_NOEXIST'', 1), (''BPF_EXIST'', 2), (''BPF_F_LOCK'', 4)]"

section \<open>Flags of the helpers\<close>

definition store_bytes_flags :: "(string \<times> u64) list" where
  "store_bytes_flags =
    [(''BPF_F_RECOMPUTE_CSUM'', push_bit 0 1), (''BPF_F_INVALIDATE_HASH'', push_bit 1 1)]"

definition csum_replace_flags :: "(string \<times> u64) list" where
  "csum_replace_flags =
    [(''BPF_F_PSEUDO_HDR'', push_bit 4 1), (''BPF_F_MARK_MANGLED_0'', push_bit 5 1),
     (''BPF_F_MARK_ENFORCE'', push_bit 6 1)]"

definition BPF_F_HDR_FIELD_MASK :: u64 where "BPF_F_HDR_FIELD_MASK = 0xf"

definition stack_flags :: "(string \<times> u64) list" where
  "stack_flags =
    [(''BPF_F_USER_STACK'', push_bit 8 1), (''BPF_F_FAST_STACK_CMP'', push_bit 9 1),
     (''BPF_F_REUSE_STACKID'', push_bit 10 1), (''BPF_F_USER_BUILD_ID'', push_bit 11 1)]"

definition BPF_F_SKIP_FIELD_MASK :: u64 where "BPF_F_SKIP_FIELD_MASK = 0xff"

definition tunnel_flags :: "(string \<times> u64) list" where
  "tunnel_flags =
    [(''BPF_F_ZERO_CSUM_TX'', push_bit 1 1), (''BPF_F_DONT_FRAGMENT'', push_bit 2 1),
     (''BPF_F_SEQ_NUMBER'', push_bit 3 1)]"

definition BPF_F_TUNINFO_IPV6 :: u64 where "BPF_F_TUNINFO_IPV6 = push_bit 0 1"
definition BPF_F_INGRESS :: u64 where "BPF_F_INGRESS = push_bit 0 1"
definition BPF_F_INDEX_MASK :: u64 where "BPF_F_INDEX_MASK = 0xffffffff"
definition BPF_F_CURRENT_CPU :: u64 where "BPF_F_CURRENT_CPU = BPF_F_INDEX_MASK"
definition BPF_F_CTXLEN_MASK :: u64 where "BPF_F_CTXLEN_MASK = push_bit 32 0xfffff"
definition BPF_F_CURRENT_NETNS :: u64 where "BPF_F_CURRENT_NETNS = - 1"

definition adj_room_flags :: "(string \<times> u64) list" where
  "adj_room_flags =
    [(''BPF_F_ADJ_ROOM_FIXED_GSO'', push_bit 0 1),
     (''BPF_F_ADJ_ROOM_ENCAP_L3_IPV4'', push_bit 1 1),
     (''BPF_F_ADJ_ROOM_ENCAP_L3_IPV6'', push_bit 2 1),
     (''BPF_F_ADJ_ROOM_ENCAP_L4_GRE'', push_bit 3 1),
     (''BPF_F_ADJ_ROOM_ENCAP_L4_UDP'', push_bit 4 1)]"

definition BPF_ADJ_ROOM_ENCAP_L2_MASK :: u64 where "BPF_ADJ_ROOM_ENCAP_L2_MASK = 0xff"
definition BPF_ADJ_ROOM_ENCAP_L2_SHIFT :: nat where "BPF_ADJ_ROOM_ENCAP_L2_SHIFT = 56"

definition BPF_F_ADJ_ROOM_ENCAP_L2 :: "u64 \<Rightarrow> u64" where
  "BPF_F_ADJ_ROOM_ENCAP_L2 len =
     push_bit BPF_ADJ_ROOM_ENCAP_L2_SHIFT (len AND BPF_ADJ_ROOM_ENCAP_L2_MASK)"

definition BPF_F_SYSCTL_BASE_NAME :: u64 where "BPF_F_SYSCTL_BASE_NAME = push_bit 0 1"
definition BPF_SK_STORAGE_GET_F_CREATE :: u64 where "BPF_SK_STORAGE_GET_F_CREATE = push_bit 0 1"

definition sock_ops_cb_flags :: "(string \<times> u32) list" where
  "sock_ops_cb_flags =
    [(''BPF_SOCK_OPS_RTO_CB_FLAG'', push_bit 0 1),
     (''BPF_SOCK_OPS_RETRANS_CB_FLAG'', push_bit 1 1),
     (''BPF_SOCK_OPS_STATE_CB_FLAG'', push_bit 2 1), (''BPF_SOCK_OPS_RTT_CB_FLAG'', push_bit 3 1)]"

definition BPF_SOCK_OPS_ALL_CB_FLAGS :: u32 where "BPF_SOCK_OPS_ALL_CB_FLAGS = 0xF"
definition XDP_PACKET_HEADROOM :: nat where "XDP_PACKET_HEADROOM = 256"
definition TCP_BPF_IW :: int where "TCP_BPF_IW = 1001"
definition TCP_BPF_SNDCWND_CLAMP :: int where "TCP_BPF_SNDCWND_CLAMP = 1002"

definition devcg_access :: "(string \<times> u32) list" where
  "devcg_access =
    [(''BPF_DEVCG_ACC_MKNOD'', push_bit 0 1), (''BPF_DEVCG_ACC_READ'', push_bit 1 1),
     (''BPF_DEVCG_ACC_WRITE'', push_bit 2 1)]"

definition devcg_device :: "(string \<times> u32) list" where
  "devcg_device =
    [(''BPF_DEVCG_DEV_BLOCK'', push_bit 0 1), (''BPF_DEVCG_DEV_CHAR'', push_bit 1 1)]"

text \<open>\<open>access_type\<close> of \<open>struct bpf_cgroup_dev_ctx\<close>.\<close>

definition devcg_access_type :: "u32 \<Rightarrow> u32 \<Rightarrow> u32" where
  "devcg_access_type acc dev = push_bit 16 acc OR dev"

definition fib_lookup_flags :: "(string \<times> u32) list" where
  "fib_lookup_flags =
    [(''BPF_FIB_LOOKUP_DIRECT'', push_bit 0 1), (''BPF_FIB_LOOKUP_OUTPUT'', push_bit 1 1)]"

definition flow_dissector_flags :: "(string \<times> u32) list" where
  "flow_dissector_flags =
    [(''BPF_FLOW_DISSECTOR_F_PARSE_1ST_FRAG'', push_bit 0 1),
     (''BPF_FLOW_DISSECTOR_F_STOP_AT_FLOW_LABEL'', push_bit 1 1),
     (''BPF_FLOW_DISSECTOR_F_STOP_AT_ENCAP'', push_bit 2 1)]"

definition BPF_LINE_INFO_LINE_NUM :: "u32 \<Rightarrow> u32" where "BPF_LINE_INFO_LINE_NUM line_col = drop_bit 10 line_col"
definition BPF_LINE_INFO_LINE_COL :: "u32 \<Rightarrow> u32" where "BPF_LINE_INFO_LINE_COL line_col = line_col AND 0x3ff"

text \<open>No two flags of a list share a bit, and none shares one with \<open>rest\<close>.\<close>

fun disjoint_bits :: "'a::len word \<Rightarrow> 'a word list \<Rightarrow> bool" where
  "disjoint_bits rest [] = True"
| "disjoint_bits rest (f # fs) = (f AND rest = 0 \<and> disjoint_bits (rest OR f) fs)"

definition distinct_values :: "(string \<times> 'v) list \<Rightarrow> bool" where
  "distinct_values t = distinct (map snd t)"

end
