(* ===== verification/Header_Properties.thy ===== *)
theory Header_Properties
  imports Bpf_Helpers Bpf_Layouts Bpf_Insn Header_Macros Flow_Map
begin

unbundle bit_operations_syntax

text \<open>
  What the program's headers promise to the code compiled against them and to the
  kernel and the tools on the other side: numbers that do not collide, structures of
  known sizes, instructions and packed words that can be taken apart again.
\<close>

section \<open>Numbers\<close>

lemma header_enums_rising: "list_all (\<lambda>(n, es). rising 0 es) header_enums"
  by code_simp

lemma func_mapper_distinct: "distinct bpf_func_mapper"
  by code_simp

lemma func_mapper_length [simp]: "length bpf_func_mapper = 111"
  by code_simp

lemma func_number:
  assumes "i < 111"
  shows "enum_value bpf_func_id (bpf_enum_fn (bpf_func_mapper ! i)) = Some (int i)"
proof -
  let ?es = "map (\<lambda>x. (bpf_enum_fn x, None)) bpf_func_mapper :: enumerators"
  have "implicit ?es" by (simp add: implicit_def list_all_iff)
  moreover have "distinct (map fst ?es)"
    by (simp add: o_def distinct_map func_mapper_distinct inj_on_def bpf_enum_fn_def)
  ultimately have "enum_value (?es @ [(''__BPF_FUNC_MAX_ID'', None)]) (fst (?es ! i)) = Some (int i)"
    using assms by (intro implicit_nth) simp_all
  then show ?thesis using assms by (simp add: bpf_func_id_def)
qed

text \<open>
  In every enumeration of the headers no two enumerators have the same value. The
  numbers the loader and the kernel agree on for this program are the ones its code
  uses: a hash map is map type 1, a cgroup program type 8, attached at points 0 and 1;
  helpers 1, 2 and 6 are lookup, update and trace; the sentinels count 111 helpers, 11
  registers and 23 attach points.
\<close>

theorem enumerations_are_injective:
  "list_all (\<lambda>(n, es). distinct (map snd (enum_values es))) header_enums \<and>
   enum_value bpf_map_type ''BPF_MAP_TYPE_HASH'' = Some (int BPF_MAP_TYPE_HASH) \<and>
   enum_value bpf_prog_type ''BPF_PROG_TYPE_CGROUP_SKB'' = Some 8 \<and>
   enum_value bpf_attach_type ''BPF_CGROUP_INET_INGRESS'' = Some 0 \<and>
   enum_value bpf_attach_type ''BPF_CGROUP_INET_EGRESS'' = Some 1 \<and>
   map (\<lambda>i. bpf_func_mapper ! i) [1, 2, 6] = [''map_lookup_elem'', ''map_update_elem'', ''trace_printk''] \<and>
   enum_value bpf_func_id ''__BPF_FUNC_MAX_ID'' = Some 111 \<and>
   enum_value bpf_register ''__MAX_BPF_REG'' = Some 11 \<and>
   enum_value bpf_attach_type ''__MAX_BPF_ATTACH_TYPE'' = Some 23"
proof (intro conjI)
  show "list_all (\<lambda>(n, es). distinct (map snd (enum_values es))) header_enums"
    using header_enums_rising by (auto simp: list_all_iff intro: rising_distinct)
  have "enum_value (map (\<lambda>x. (bpf_enum_fn x, None)) bpf_func_mapper @ [(''__BPF_FUNC_MAX_ID'', None)])
      ''__BPF_FUNC_MAX_ID'' = Some (int (length (map (\<lambda>x. (bpf_enum_fn x, None :: int option)) bpf_func_mapper)))"
    by (rule implicit_last) (auto simp: implicit_def list_all_iff bpf_enum_fn_def)
  then show "enum_value bpf_func_id ''__BPF_FUNC_MAX_ID'' = Some 111"
    by (simp add: bpf_func_id_def)
qed (code_simp+)

text \<open>The declarations name the helpers after the first one, each of them once.\<close>

definition helper_suffix :: "helper_decl \<Rightarrow> string" where
  "helper_suffix h = drop 4 (h_name h)"

lemma helper_named:
  "list_all (\<lambda>h. h_name h = ''bpf_'' @ helper_suffix h \<and>
     h_func h = bpf_enum_fn (helper_suffix h) \<and> length (h_params h) \<le> 5) helper_decls"
  by code_simp

fun among :: "string list \<Rightarrow> string list \<Rightarrow> bool" where
  "among [] ys = True"
| "among (x # xs) ys = (x \<in> set ys \<and> among xs ys)"

lemma among_iff: "among xs ys \<longleftrightarrow> set xs \<subseteq> set ys"
  by (induction xs) simp_all

lemma suffixes_known: "among (map helper_suffix helper_decls) (tl bpf_func_mapper)"
  by code_simp

lemma suffixes_distinct: "distinct (map helper_suffix helper_decls)"
  by code_simp

lemma helper_count: "length helper_decls = 110"
  by code_simp

lemma suffix_set: "set (map helper_suffix helper_decls) = (!) bpf_func_mapper ` {1..110}"
proof -
  have "set (tl bpf_func_mapper) = (\<lambda>i. tl bpf_func_mapper ! i) ` {0..<110}"
    by (simp add: set_conv_nth image_def atLeast0LessThan Bex_def conj_commute)
  also have "\<dots> = (\<lambda>i. bpf_func_mapper ! Suc i) ` {0..<110}"
    by (intro image_cong) (simp_all add: nth_tl)
  also have "\<dots> = (!) bpf_func_mapper ` Suc ` {0..<110}" by (simp only: image_image)
  also have "Suc ` {0..<110} = {1..110}" by (auto simp: image_Suc_atLeastLessThan)
  finally have tl: "set (tl bpf_func_mapper) = (!) bpf_func_mapper ` {1..110}" .
  have "set (map helper_suffix helper_decls) \<subseteq> set (tl bpf_func_mapper)"
    using suffixes_known by (simp only: among_iff)
  moreover have "card (set (map helper_suffix helper_decls)) = card (set (tl bpf_func_mapper))"
    using distinct_card [OF suffixes_distinct] distinct_card [of "tl bpf_func_mapper"]
      func_mapper_distinct
    by (simp add: helper_count distinct_tl)
  ultimately show ?thesis using tl card_subset_eq by (metis List.finite_set)
qed

lemma helper_numbers: "map helper_number helper_decls = map (\<lambda>x. enum_value bpf_func_id (bpf_enum_fn x)) (map helper_suffix helper_decls)"
  using helper_named by (simp add: helper_number_def list_all_iff)

lemma number_of_suffix: "x = bpf_func_mapper ! i \<Longrightarrow> i < 111 \<Longrightarrow> enum_value bpf_func_id (bpf_enum_fn x) = Some (int i)"
  by (simp add: func_number)

lemma helper_numbers_set: "set (map helper_number helper_decls) = (\<lambda>i. Some (int i)) ` {1..110}"
proof -
  have "set (map helper_number helper_decls) =
      (\<lambda>x. enum_value bpf_func_id (bpf_enum_fn x)) ` (!) bpf_func_mapper ` {1..110}"
    by (metis helper_numbers set_map suffix_set)
  then show ?thesis by (simp add: image_image func_number)
qed

lemma helper_numbers_distinct: "distinct (map helper_number helper_decls)"
proof (rule card_distinct)
  show "card (set (map helper_number helper_decls)) = length (map helper_number helper_decls)"
    by (simp only: helper_numbers_set length_map helper_count) (simp add: card_image inj_on_def)
qed

text \<open>
  Every helper declaration calls the helper it is named after: the pointer
  \<open>bpf_x\<close> holds \<open>BPF_FUNC_x\<close>. The declarations reach each of the 110 helpers exactly
  once, and none needs more than the five argument registers of a call.
\<close>

theorem helper_declarations_match:
  "list_all (\<lambda>h. h_name h = ''bpf_'' @ drop 4 (h_name h) \<and>
       h_func h = bpf_enum_fn (drop 4 (h_name h)) \<and> length (h_params h) \<le> 5) helper_decls \<and>
   distinct (map helper_number helper_decls) \<and>
   set (map helper_number helper_decls) = (\<lambda>i. Some (int i)) ` {1..110}"
  using helper_named helper_numbers_distinct helper_numbers_set by (simp add: helper_suffix_def)

section \<open>Structures\<close>

text \<open>
  The sizes of the structures the kernel and the tools share with the program, each
  a multiple of its alignment. The packet program finds \<open>len\<close>, \<open>data\<close> and \<open>data_end\<close>
  of its context at the offsets 0, 76 and 80 the verifier knows. The structures with
  bytes that no member covers in every use (compiler padding, or a union whose members
  differ in size) are exactly the listed ones; a caller has to clear those.
\<close>

theorem abi_layouts:
  "map (\<lambda>(c, t). (c, size_of t)) header_structs =
    [(''bpf_lpm_trie_key'', 4), (''bpf_cgroup_storage_key'', 16), (''bpf_stack_build_id'', 32),
     (''__sk_buff'', 176), (''bpf_tunnel_key'', 28), (''bpf_xfrm_state'', 28), (''bpf_sock'', 76),
     (''bpf_tcp_sock'', 112), (''bpf_sock_tuple'', 36), (''bpf_xdp_sock'', 4), (''xdp_md'', 20),
     (''sk_msg_md'', 72), (''sk_reuseport_md'', 40), (''bpf_prog_info'', 208),
     (''bpf_map_info'', 80), (''bpf_btf_info'', 16), (''bpf_sock_addr'', 72),
     (''bpf_sock_ops'', 192), (''bpf_perf_event_value'', 24), (''bpf_cgroup_dev_ctx'', 12),
     (''bpf_raw_tracepoint_args'', 0), (''bpf_fib_lookup'', 64), (''bpf_flow_keys'', 56),
     (''bpf_func_info'', 8), (''bpf_line_info'', 16), (''bpf_spin_lock'', 4), (''bpf_sysctl'', 8),
     (''bpf_sockopt'', 40), (''bpf_map_def'', 28), (''tcp_word_hdr'', 20), (''tcp_repair_opt'', 8),
     (''tcp_repair_window'', 20), (''tcp_info'', 232), (''__kernel_sockaddr_storage'', 128),
     (''tcp_md5sig'', 216), (''tcp_diag_md5sig'', 100), (''tcp_zerocopy_receive'', 16),
     (''ip_auth_hdr'', 12), (''ip_esp_hdr'', 8), (''ip_comp_hdr'', 4), (''ip_beet_phdr'', 4),
     (''in6_ifreq'', 24), (''ipv6_rt_hdr'', 4), (''ipv6_opt_hdr'', 2), (''rt0_hdr'', 8),
     (''rt2_hdr'', 24), (''ipv6_destopt_hao'', 18), (''ethhdr'', 14), (''bpf_attr'', 112)] \<and>
   list_all (\<lambda>(c, t). align_of t dvd size_of t) header_structs \<and>
   map fst (filter (\<lambda>(c, t). \<not> no_padding t) header_structs) =
    [''bpf_cgroup_storage_key'', ''bpf_tunnel_key'', ''bpf_xfrm_state'', ''bpf_sock_tuple'',
     ''sk_reuseport_md'', ''bpf_map_info'', ''bpf_sock_addr'', ''bpf_sock_ops'',
     ''bpf_fib_lookup'', ''bpf_flow_keys'', ''tcp_info'', ''__kernel_sockaddr_storage'',
     ''tcp_md5sig'', ''bpf_attr''] \<and>
   (case sk_buff_ctx of Struct ms \<Rightarrow>
      map (offset_of ms) [''len'', ''data'', ''data_end''] = [Some 0, Some 76, Some 80] | _ \<Rightarrow> False)"
  by (intro conjI) (code_simp+)

section \<open>Instructions\<close>

text \<open>
  An instruction written to its eight bytes is read back field by field at the
  offsets of \<open>struct bpf_insn\<close>, with both 4-bit registers.
\<close>

theorem instruction_read_back:
  "length (insn_bytes i) = sizeof bpf_insn_layout \<and> read_insn (insn_bytes i @ rest) 0 = Some i"
  by (simp add: insn_size read_insn_bytes)

lemma opcode_compositions:
  "list_all (\<lambda>cls. list_all (\<lambda>sz. list_all (\<lambda>md.
      BPF_CLASS (cls OR sz OR md) = cls \<and> BPF_SIZE (cls OR sz OR md) = sz \<and>
      BPF_MODE (cls OR sz OR md) = md) modes) sizes) load_store_classes"
  "list_all (\<lambda>cls. list_all (\<lambda>src. list_all (\<lambda>op.
      BPF_CLASS (cls OR src OR op) = cls \<and> BPF_SRC (cls OR src OR op) = src \<and>
      BPF_OP (cls OR src OR op) = op) (alu_ops @ jmp_ops)) sources) arith_classes"
  by code_simp+

text \<open>
  The opcode macros are a faithful encoding. The three fields of a byte, read as a
  load or store or as an arithmetic or jump, give the byte back, and an opcode put
  together from the header's constants decodes to those constants. Within each group
  the constants are distinct, while the 32-bit jump and the 64-bit arithmetic classes
  reuse the numbers of the classic return and miscellaneous classes.
\<close>

theorem opcodes_decode:
  "BPF_CLASS c OR BPF_SIZE c OR BPF_MODE c = c \<and> BPF_CLASS c OR BPF_SRC c OR BPF_OP c = c \<and>
   list_all (\<lambda>cls. list_all (\<lambda>sz. list_all (\<lambda>md.
      BPF_CLASS (cls OR sz OR md) = cls \<and> BPF_SIZE (cls OR sz OR md) = sz \<and>
      BPF_MODE (cls OR sz OR md) = md) modes) sizes) load_store_classes \<and>
   list_all (\<lambda>cls. list_all (\<lambda>src. list_all (\<lambda>op.
      BPF_CLASS (cls OR src OR op) = cls \<and> BPF_SRC (cls OR src OR op) = src \<and>
      BPF_OP (cls OR src OR op) = op) (alu_ops @ jmp_ops)) sources) arith_classes \<and>
   list_all distinct [load_store_classes @ arith_classes, sizes, modes, sources, alu_ops, jmp_ops] \<and>
   BPF_JMP32 = BPF_RET \<and> BPF_ALU64 = BPF_MISC"
proof (intro conjI)
  show "list_all distinct
      [load_store_classes @ arith_classes, sizes, modes, sources, alu_ops, jmp_ops]" by code_simp
qed (use opcode_compositions in \<open>simp_all add: load_store_fields arith_fields
       BPF_JMP32_def BPF_RET_def BPF_ALU64_def BPF_MISC_def\<close>)

section \<open>Packed words and flags\<close>

lemma line_info_fields:
  "BPF_LINE_INFO_LINE_NUM (push_bit 10 n OR take_bit 10 col) = take_bit 22 n"
  "BPF_LINE_INFO_LINE_COL (push_bit 10 n OR take_bit 10 col) = take_bit 10 col"
  "push_bit 10 (BPF_LINE_INFO_LINE_NUM w) OR BPF_LINE_INFO_LINE_COL w = w"
proof -
  have m: "(0x3ff :: u32) = mask 10" by (simp add: mask_eq_exp_minus_1)
  show "BPF_LINE_INFO_LINE_NUM (push_bit 10 n OR take_bit 10 col) = take_bit 22 n"
    by (rule bit_word_eqI) (auto simp: BPF_LINE_INFO_LINE_NUM_def bit_simps)
  show "BPF_LINE_INFO_LINE_COL (push_bit 10 n OR take_bit 10 col) = take_bit 10 col"
    unfolding BPF_LINE_INFO_LINE_COL_def m by (rule bit_word_eqI) (auto simp: bit_simps)
  show "push_bit 10 (BPF_LINE_INFO_LINE_NUM w) OR BPF_LINE_INFO_LINE_COL w = w"
    unfolding BPF_LINE_INFO_LINE_COL_def BPF_LINE_INFO_LINE_NUM_def m
    by (rule bit_word_eqI) (auto simp: bit_simps)
qed

lemma adj_room_len: "drop_bit 56 (BPF_F_ADJ_ROOM_ENCAP_L2 len) = take_bit 8 len"
proof -
  have m: "(0xff :: u64) = mask 8" by (simp add: mask_eq_exp_minus_1)
  show ?thesis
    unfolding BPF_F_ADJ_ROOM_ENCAP_L2_def BPF_ADJ_ROOM_ENCAP_L2_SHIFT_def
      BPF_ADJ_ROOM_ENCAP_L2_MASK_def m
    by (rule bit_word_eqI) (auto simp: bit_simps)
qed

lemma devcg_fields:
  "drop_bit 16 (devcg_access_type (take_bit 16 acc) (take_bit 16 dev)) = take_bit 16 acc"
  "take_bit 16 (devcg_access_type (take_bit 16 acc) (take_bit 16 dev)) = take_bit 16 dev"
  by (rule bit_word_eqI; auto simp: devcg_access_type_def bit_simps)+

lemma ip_byte_fields:
  "IPOPT_COPIED o8 OR IPOPT_CLASS o8 OR IPOPT_NUMBER o8 = o8"
  "IPTOS_PREC tos OR IPTOS_TOS tos OR (tos AND 1) = tos"
proof -
  have "IPOPT_COPIED o8 OR IPOPT_CLASS o8 OR IPOPT_NUMBER o8 = o8 AND (0x80 OR 0x60 OR 0x1f)"
    by (simp only: IPOPT_COPIED_def IPOPT_CLASS_def IPOPT_NUMBER_def IPOPT_COPY_def
        IPOPT_CLASS_MASK_def IPOPT_NUMBER_MASK_def bit.conj_disj_distrib)
  also have "(0x80 OR 0x60 OR 0x1f :: u8) = - 1" by simp
  finally show "IPOPT_COPIED o8 OR IPOPT_CLASS o8 OR IPOPT_NUMBER o8 = o8" by simp
  have "IPTOS_PREC tos OR IPTOS_TOS tos OR (tos AND 1) = tos AND (0xE0 OR 0x1E OR 1)"
    by (simp only: IPTOS_PREC_def IPTOS_TOS_def IPTOS_TOS_MASK_def IPTOS_PREC_MASK_def
        bit.conj_disj_distrib)
  also have "(0xE0 OR 0x1E OR 1 :: u8) = - 1" by simp
  finally show "IPTOS_PREC tos OR IPTOS_TOS tos OR (tos AND 1) = tos" by simp
qed

text \<open>
  The packed words of the headers come apart as they were put together: line and
  column of a line-info word, the L2 length of \<open>bpf_skb_adjust_room\<close>, access and device
  of a device-cgroup request, and copied flag, class and number of an IPv4 option,
  precedence and type of a service byte. The IPv4 options have distinct numbers, and
  those copied into fragments are the five security and routing options and the router
  alert.
\<close>

theorem packed_words_read_back:
  "BPF_LINE_INFO_LINE_NUM (push_bit 10 n OR take_bit 10 col) = take_bit 22 n \<and>
   BPF_LINE_INFO_LINE_COL (push_bit 10 n OR take_bit 10 col) = take_bit 10 col \<and>
   push_bit 10 (BPF_LINE_INFO_LINE_NUM w) OR BPF_LINE_INFO_LINE_COL w = w \<and>
   drop_bit 56 (BPF_F_ADJ_ROOM_ENCAP_L2 len) = take_bit 8 len \<and>
   drop_bit 16 (devcg_access_type (take_bit 16 acc) (take_bit 16 dev)) = take_bit 16 acc \<and>
   take_bit 16 (devcg_access_type (take_bit 16 acc) (take_bit 16 dev)) = take_bit 16 dev \<and>
   IPOPT_COPIED o8 OR IPOPT_CLASS o8 OR IPOPT_NUMBER o8 = o8 \<and>
   IPTOS_PREC tos OR IPTOS_TOS tos OR (tos AND 1) = tos \<and>
   distinct (map (\<lambda>(x, v). IPOPT_NUMBER v) ip_options) \<and>
   map fst (filter (\<lambda>(x, v). IPOPT_COPIED v \<noteq> 0) ip_options) =
     [''IPOPT_SEC'', ''IPOPT_LSRR'', ''IPOPT_CIPSO'', ''IPOPT_SID'', ''IPOPT_SSRR'', ''IPOPT_RA'']"
proof (intro conjI)
  show "distinct (map (\<lambda>(x, v). IPOPT_NUMBER v) ip_options)" by code_simp
  show "map fst (filter (\<lambda>(x, v). IPOPT_COPIED v \<noteq> 0) ip_options) =
     [''IPOPT_SEC'', ''IPOPT_LSRR'', ''IPOPT_CIPSO'', ''IPOPT_SID'', ''IPOPT_SSRR'', ''IPOPT_RA'']"
    by code_simp
qed (simp_all add: line_info_fields adj_room_len devcg_fields ip_byte_fields)

text \<open>
  Flags that one call takes together never share a bit, nor a bit of the field
  packed beside them (the header size of a checksum, the skip count of a stack, the L2
  length of an encapsulation); the mask of all \<open>sock_ops\<close> callbacks is exactly their
  union; each congestion state has a bit of its own; Ethernet protocols and socket
  options have distinct numbers, and the Ethernet protocols below the 802.3 limit are
  exactly three.
\<close>

theorem flags_do_not_collide:
  "list_all (\<lambda>fs. disjoint_bits 0 (map snd fs))
     [prog_attach_flags, prog_load_flags, map_create_flags, sock_ops_cb_flags, fib_lookup_flags,
      flow_dissector_flags] \<and>
   disjoint_bits 0 (map snd store_bytes_flags) \<and>
   disjoint_bits BPF_F_HDR_FIELD_MASK (map snd csum_replace_flags) \<and>
   disjoint_bits BPF_F_SKIP_FIELD_MASK (map snd stack_flags) \<and>
   disjoint_bits BPF_F_TUNINFO_IPV6 (map snd tunnel_flags) \<and>
   disjoint_bits (BPF_F_ADJ_ROOM_ENCAP_L2 0xff) (map snd adj_room_flags) \<and>
   disjoint_bits BPF_F_INDEX_MASK [BPF_F_CTXLEN_MASK] \<and>
   fold (OR) (map snd sock_ops_cb_flags) 0 = BPF_SOCK_OPS_ALL_CB_FLAGS \<and>
   disjoint_bits 0 (map (\<lambda>(x, v). the (tcpf_ca x)) tcp_ca_state) \<and>
   disjoint_bits 0 (map snd tcp_info_options) \<and>
   distinct (map snd (eth_protocols @ eth_other_protocols)) \<and>
   map fst (filter (\<lambda>(x, v). v < ETH_P_802_3_MIN) eth_protocols) =
     [''ETH_P_LOOP'', ''ETH_P_PUP'', ''ETH_P_PUPAT''] \<and>
   distinct_values (butlast tcp_options) \<and> distinct_values udp_options \<and> distinct_values udp_encaps"
  by (intro conjI) (code_simp+)

end
