(* ===== verification/C_Types.thy ===== *)
theory C_Types
  imports Bpf_Layouts
begin

text \<open>
  The type names of \<open>linux/types.h\<close>, and what its \<open>__aligned_u64\<close> is for: a structure laid
  out by a 32-bit compiler, which puts 8-byte integers at multiples of 4, against the same
  structure laid out by a 64-bit compiler.
\<close>

section \<open>The names\<close>

definition type_names :: "(string \<times> ctype) list" where
  "type_names =
    [(''__le16'', c_u16), (''__be16'', c_u16), (''__le32'', c_u32), (''__be32'', c_u32),
     (''__le64'', c_u64), (''__be64'', c_u64), (''__sum16'', c_u16), (''__wsum'', c_u32),
     (''__poll_t'', c_int)]"

definition aligned_u64 :: ctype where "aligned_u64 = Aligned 8 c_u64"
definition aligned_be64 :: ctype where "aligned_be64 = Aligned 8 (the (map_of type_names ''__be64''))"
definition aligned_le64 :: ctype where "aligned_le64 = Aligned 8 (the (map_of type_names ''__le64''))"

section \<open>Two compilers\<close>

text \<open>
  \<open>on_32_bit t\<close> is a type that a 64-bit compiler lays out the way a 32-bit one lays out \<open>t\<close>:
  an integer of eight bytes becomes two of four. Pointers do not become shorter; in the
  structures of the headers they stand in unions with a longer member.
\<close>

fun on_32_bit :: "ctype \<Rightarrow> ctype"
and members_32_bit :: "members \<Rightarrow> members" where
  "on_32_bit (Scalar n) = (if n = 8 then Arr 2 (Scalar 4) else Scalar n)"
| "on_32_bit (Arr n t) = Arr n (on_32_bit t)"
| "on_32_bit (Bits t ms) = Bits (on_32_bit t) ms"
| "on_32_bit (Struct ms) = Struct (members_32_bit ms)"
| "on_32_bit (Union ms) = Union (members_32_bit ms)"
| "on_32_bit (Aligned n t) = Aligned n (on_32_bit t)"
| "on_32_bit (Packed ms) = Packed (members_32_bit ms)"
| "members_32_bit [] = []"
| "members_32_bit ((x, t) # ms) = (x, on_32_bit t) # members_32_bit ms"

text \<open>Every 8-byte integer of the type carries the attribute.\<close>

fun plain_u64 :: "ctype \<Rightarrow> bool" where
  "plain_u64 (Scalar n) = (n = 8)"
| "plain_u64 _ = False"

fun all_aligned :: "ctype \<Rightarrow> bool"
and members_aligned :: "members \<Rightarrow> bool" where
  "all_aligned (Scalar n) = (n \<noteq> 8)"
| "all_aligned (Arr n t) = all_aligned t"
| "all_aligned (Bits t ms) = all_aligned t"
| "all_aligned (Struct ms) = members_aligned ms"
| "all_aligned (Union ms) = members_aligned ms"
| "all_aligned (Aligned n t) = (if plain_u64 t then 8 \<le> n else all_aligned t)"
| "all_aligned (Packed ms) = members_aligned ms"
| "members_aligned [] = True"
| "members_aligned ((x, t) # ms) = (all_aligned t \<and> members_aligned ms)"

lemma plain_u64_iff: "plain_u64 t \<longleftrightarrow> t = Scalar 8"
  by (cases t) auto

lemma aligned_same_align:
  "all_aligned t \<Longrightarrow> align_of (on_32_bit t) = align_of t"
  "members_aligned ms \<Longrightarrow> members_align (members_32_bit ms) = members_align ms"
  by (induction t and ms rule: all_aligned_members_aligned.induct)
     (auto simp: plain_u64_iff split: if_splits)

lemma aligned_same_size:
  "all_aligned t \<Longrightarrow> size_of (on_32_bit t) = size_of t"
  "members_aligned ms \<Longrightarrow> (\<forall>off. members_end off (members_32_bit ms) = members_end off ms) \<and>
     members_max (members_32_bit ms) = members_max ms \<and> members_sum (members_32_bit ms) = members_sum ms"
  by (induction t and ms rule: all_aligned_members_aligned.induct)
     (auto simp: plain_u64_iff aligned_same_align split: if_splits)

lemma aligned_same_slots:
  "members_aligned ms \<Longrightarrow> member_slots off (members_32_bit ms) = member_slots off ms"
  by (induction off ms rule: member_slots.induct)
     (simp_all add: Let_def aligned_same_align aligned_same_size)

text \<open>Whether the two compilers put a member, at any depth, at different places.\<close>

fun moved :: "ctype \<Rightarrow> bool"
and members_moved :: "members \<Rightarrow> bool" where
  "moved (Scalar n) = False"
| "moved (Arr n t) = moved t"
| "moved (Bits t ms) = False"
| "moved (Struct ms) =
     (member_slots 0 (members_32_bit ms) \<noteq> member_slots 0 ms \<or> members_moved ms)"
| "moved (Union ms) = members_moved ms"
| "moved (Aligned n t) = moved t"
| "moved (Packed ms) = members_moved ms"
| "members_moved [] = False"
| "members_moved ((x, t) # ms) = (moved t \<or> members_moved ms)"

lemma aligned_not_moved:
  "all_aligned t \<Longrightarrow> \<not> moved t"
  "members_aligned ms \<Longrightarrow> \<not> members_moved ms"
  by (induction t and ms rule: all_aligned_members_aligned.induct)
     (auto simp: plain_u64_iff aligned_same_slots split: if_splits)

text \<open>
  C39: A structure whose 8-byte integers all carry the attribute of \<open>__aligned_u64\<close> has the
  same size, alignment and offsets for a 32-bit and a 64-bit compiler, which is what the
  type is for. Of the structures of the headers, not all of which use it, none has a
  member that moves, and only \<open>bpf_cgroup_storage_key\<close> changes its size: 16 bytes on one
  side, 12 on the other.
\<close>

theorem aligned_types_fix_layout:
  "(all_aligned t \<longrightarrow> size_of (on_32_bit t) = size_of t \<and> align_of (on_32_bit t) = align_of t \<and> \<not> moved t) \<and>
   all_aligned aligned_u64 \<and> all_aligned aligned_be64 \<and> all_aligned aligned_le64 \<and>
   list_all (\<lambda>(c, t). \<not> moved t) header_structs \<and>
   map (\<lambda>(c, t). (c, size_of t, size_of (on_32_bit t)))
     (filter (\<lambda>(c, t). size_of (on_32_bit t) \<noteq> size_of t) header_structs) =
     [(''bpf_cgroup_storage_key'', 16, 12)]"
proof -
  have "all_aligned aligned_u64 \<and> all_aligned aligned_be64 \<and> all_aligned aligned_le64" by code_simp
  moreover have "list_all (\<lambda>(c, t). \<not> moved t) header_structs" by code_simp
  moreover have "map (\<lambda>(c, t). (c, size_of t, size_of (on_32_bit t)))
     (filter (\<lambda>(c, t). size_of (on_32_bit t) \<noteq> size_of t) header_structs) =
     [(''bpf_cgroup_storage_key'', 16, 12)]" by code_simp
  ultimately show ?thesis
    using aligned_same_size(1) aligned_same_align(1) aligned_not_moved(1) by blast
qed

theorem aligned_types_fix_layout_witness:
  "size_of (on_32_bit bpf_btf_info) = 16 \<and> \<not> moved bpf_btf_info"
proof -
  have "all_aligned bpf_btf_info" "size_of bpf_btf_info = 16" by code_simp+
  with aligned_types_fix_layout [of bpf_btf_info] show ?thesis by simp
qed

end
