(* ===== verification/Pt_Regs.thy ===== *)
theory Pt_Regs
  imports Prelude
begin

text \<open>
  The register accessors of \<open>linux/bpf_helpers.h\<close>, for programs attached to kernel
  probes: which architecture the header is compiled for, and where on it the parameters,
  the return value and the return address of a function are. The register structures
  belong to the kernel: an accessor is a place in one, and the contents are a parameter.
\<close>

section \<open>The target\<close>

datatype target =
  Target_x86 | Target_s390 | Target_arm | Target_arm64 | Target_mips | Target_powerpc | Target_sparc

definition arch_macros :: "(string \<times> target) list" where
  "arch_macros =
    [(''__TARGET_ARCH_x86'', Target_x86), (''__TARGET_ARCH_s390'', Target_s390),
     (''__TARGET_ARCH_arm'', Target_arm), (''__TARGET_ARCH_arm64'', Target_arm64),
     (''__TARGET_ARCH_mips'', Target_mips), (''__TARGET_ARCH_powerpc'', Target_powerpc),
     (''__TARGET_ARCH_sparc'', Target_sparc)]"

definition compiler_macros :: "(string \<times> target) list" where
  "compiler_macros =
    [(''__x86_64__'', Target_x86), (''__s390__'', Target_s390), (''__arm__'', Target_arm),
     (''__aarch64__'', Target_arm64), (''__mips__'', Target_mips),
     (''__powerpc__'', Target_powerpc), (''__sparc__'', Target_sparc)]"

text \<open>The first of the macros that is defined; \<open>ms\<close> are the macros defined before the header.\<close>

definition first_defined :: "string list \<Rightarrow> (string \<times> target) list \<Rightarrow> target option" where
  "first_defined ms choices = map_option snd (find (\<lambda>(m, t). m \<in> set ms) choices)"

definition bpf_target :: "string list \<Rightarrow> target option" where
  "bpf_target ms =
     (case first_defined ms arch_macros of
        None \<Rightarrow> first_defined ms compiler_macros
      | Some t \<Rightarrow> Some t)"

section \<open>The accessors\<close>

datatype accessor = PARM1 | PARM2 | PARM3 | PARM4 | PARM5 | RET | FP | RC | SP | IP

datatype place = Field string | Elem string nat | Elem_named string string | Zero

definition x86_kernel_regs :: "(accessor \<times> place) list" where
  "x86_kernel_regs =
    [(PARM1, Field ''di''), (PARM2, Field ''si''), (PARM3, Field ''dx''),
     (PARM4, Field ''cx''), (PARM5, Field ''r8''), (RET, Field ''sp''),
     (FP, Field ''bp''), (RC, Field ''ax''), (SP, Field ''sp''),
     (IP, Field ''ip'')]"

definition x86_32_regs :: "(accessor \<times> place) list" where
  "x86_32_regs =
    [(PARM1, Field ''eax''), (PARM2, Field ''edx''), (PARM3, Field ''ecx''),
     (PARM4, Zero), (PARM5, Zero), (RET, Field ''esp''), (FP, Field ''ebp''),
     (RC, Field ''eax''), (SP, Field ''esp''), (IP, Field ''eip'')]"

definition x86_64_regs :: "(accessor \<times> place) list" where
  "x86_64_regs =
    [(PARM1, Field ''rdi''), (PARM2, Field ''rsi''), (PARM3, Field ''rdx''),
     (PARM4, Field ''rcx''), (PARM5, Field ''r8''), (RET, Field ''rsp''),
     (FP, Field ''rbp''), (RC, Field ''rax''), (SP, Field ''rsp''),
     (IP, Field ''rip'')]"

definition s390_regs :: "(accessor \<times> place) list" where
  "s390_regs =
    [(PARM1, Elem ''gprs'' 2), (PARM2, Elem ''gprs'' 3), (PARM3, Elem ''gprs'' 4),
     (PARM4, Elem ''gprs'' 5), (PARM5, Elem ''gprs'' 6), (RET, Elem ''gprs'' 14),
     (FP, Elem ''gprs'' 11), (RC, Elem ''gprs'' 2), (SP, Elem ''gprs'' 15),
     (IP, Field ''psw.addr'')]"

definition arm_regs :: "(accessor \<times> place) list" where
  "arm_regs =
    [(PARM1, Elem ''uregs'' 0), (PARM2, Elem ''uregs'' 1), (PARM3, Elem ''uregs'' 2),
     (PARM4, Elem ''uregs'' 3), (PARM5, Elem ''uregs'' 4), (RET, Elem ''uregs'' 14),
     (FP, Elem ''uregs'' 11), (RC, Elem ''uregs'' 0), (SP, Elem ''uregs'' 13),
     (IP, Elem ''uregs'' 12)]"

definition arm64_regs :: "(accessor \<times> place) list" where
  "arm64_regs =
    [(PARM1, Elem ''regs'' 0), (PARM2, Elem ''regs'' 1), (PARM3, Elem ''regs'' 2),
     (PARM4, Elem ''regs'' 3), (PARM5, Elem ''regs'' 4), (RET, Elem ''regs'' 30),
     (FP, Elem ''regs'' 29), (RC, Elem ''regs'' 0), (SP, Field ''sp''),
     (IP, Field ''pc'')]"

definition mips_regs :: "(accessor \<times> place) list" where
  "mips_regs =
    [(PARM1, Elem ''regs'' 4), (PARM2, Elem ''regs'' 5), (PARM3, Elem ''regs'' 6),
     (PARM4, Elem ''regs'' 7), (PARM5, Elem ''regs'' 8), (RET, Elem ''regs'' 31),
     (FP, Elem ''regs'' 30), (RC, Elem ''regs'' 1), (SP, Elem ''regs'' 29),
     (IP, Field ''cp0_epc'')]"

definition powerpc_regs :: "(accessor \<times> place) list" where
  "powerpc_regs =
    [(PARM1, Elem ''gpr'' 3), (PARM2, Elem ''gpr'' 4), (PARM3, Elem ''gpr'' 5),
     (PARM4, Elem ''gpr'' 6), (PARM5, Elem ''gpr'' 7), (RC, Elem ''gpr'' 3),
     (SP, Field ''sp''), (IP, Field ''nip'')]"

definition sparc_regs :: "(accessor \<times> place) list" where
  "sparc_regs =
    [(PARM1, Elem_named ''u_regs'' ''UREG_I0''),
     (PARM2, Elem_named ''u_regs'' ''UREG_I1''),
     (PARM3, Elem_named ''u_regs'' ''UREG_I2''),
     (PARM4, Elem_named ''u_regs'' ''UREG_I3''),
     (PARM5, Elem_named ''u_regs'' ''UREG_I4''),
     (RET, Elem_named ''u_regs'' ''UREG_I7''),
     (RC, Elem_named ''u_regs'' ''UREG_I0''),
     (SP, Elem_named ''u_regs'' ''UREG_FP'')]"

definition sparc_ip :: "string list \<Rightarrow> place" where
  "sparc_ip ms = (if ''__arch64__'' \<in> set ms then Field ''tpc'' else Field ''pc'')"

definition PT_REGS :: "string list \<Rightarrow> accessor \<Rightarrow> place option" where
  "PT_REGS ms a =
     (case bpf_target ms of
        None \<Rightarrow> None
      | Some Target_x86 \<Rightarrow>
          if ''__KERNEL__'' \<in> set ms then map_of x86_kernel_regs a
          else if ''__i386__'' \<in> set ms then map_of x86_32_regs a
          else map_of x86_64_regs a
      | Some Target_s390 \<Rightarrow> map_of s390_regs a
      | Some Target_arm \<Rightarrow> map_of arm_regs a
      | Some Target_arm64 \<Rightarrow> map_of arm64_regs a
      | Some Target_mips \<Rightarrow> map_of mips_regs a
      | Some Target_powerpc \<Rightarrow> map_of powerpc_regs a
      | Some Target_sparc \<Rightarrow> if a = IP then Some (sparc_ip ms) else map_of sparc_regs a)"

definition read_place :: "(place \<Rightarrow> u64) \<Rightarrow> place \<Rightarrow> u64" where
  "read_place regs p = (if p = Zero then 0 else regs p)"

text \<open>
  The return address in an entry probe and in a return probe. \<open>probe a\<close> is the word
  \<open>bpf_probe_read\<close> stores for the address \<open>a\<close>. An accessor the target lacks is an error
  when the macro is used, \<open>None\<close>.
\<close>

definition BPF_KPROBE_READ_RET_IP :: "string list \<Rightarrow> (u64 \<Rightarrow> u64) \<Rightarrow> (place \<Rightarrow> u64) \<Rightarrow> u64 option" where
  "BPF_KPROBE_READ_RET_IP ms probe regs =
     (if bpf_target ms = Some Target_powerpc then Some (regs (Field ''link''))
      else if bpf_target ms = Some Target_sparc
      then map_option (read_place regs) (PT_REGS ms RET)
      else map_option (\<lambda>p. probe (read_place regs p)) (PT_REGS ms RET))"

definition BPF_KRETPROBE_READ_RET_IP :: "string list \<Rightarrow> (u64 \<Rightarrow> u64) \<Rightarrow> (place \<Rightarrow> u64) \<Rightarrow> u64 option" where
  "BPF_KRETPROBE_READ_RET_IP ms probe regs =
     (if bpf_target ms = Some Target_powerpc \<or> bpf_target ms = Some Target_sparc
      then BPF_KPROBE_READ_RET_IP ms probe regs
      else map_option (\<lambda>p. probe (read_place regs p + 8)) (PT_REGS ms FP))"

section \<open>The places of a function's parameters\<close>

definition parameters :: "string list \<Rightarrow> place list" where
  "parameters ms = filter (\<lambda>p. p \<noteq> Zero)
     (map (\<lambda>a. the (PT_REGS ms a)) [PARM1, PARM2, PARM3, PARM4, PARM5])"

lemmas register_tables =
  x86_kernel_regs_def x86_32_regs_def x86_64_regs_def s390_regs_def arm_regs_def arm64_regs_def
  mips_regs_def powerpc_regs_def sparc_regs_def sparc_ip_def

text \<open>
  On every target all five accessors exist, they name different places, and none of them
  the stack pointer or the instruction pointer.
\<close>

lemma parameters_apart:
  assumes "bpf_target ms = Some t"
  shows "distinct (parameters ms)" and "\<forall>a \<in> {PARM1, PARM2, PARM3, PARM4, PARM5}. PT_REGS ms a \<noteq> None"
    and "\<forall>a \<in> {SP, IP}. \<exists>p. PT_REGS ms a = Some p \<and> p \<notin> set (parameters ms)"
  using assms by (cases t; simp add: parameters_def PT_REGS_def register_tables)+

text \<open>The return address can be read on every target.\<close>

lemma return_address_defined:
  "bpf_target ms = Some t \<Longrightarrow> BPF_KPROBE_READ_RET_IP ms probe regs \<noteq> None"
  "bpf_target ms = Some t \<Longrightarrow> BPF_KRETPROBE_READ_RET_IP ms probe regs \<noteq> None"
  by (cases t; simp add: BPF_KPROBE_READ_RET_IP_def BPF_KRETPROBE_READ_RET_IP_def PT_REGS_def register_tables)+

lemma named_target_wins:
  "''__TARGET_ARCH_arm64'' \<in> set ms \<Longrightarrow> list_all (\<lambda>m. m \<notin> set ms) (map fst (take 3 arch_macros)) \<Longrightarrow>
   bpf_target ms = Some Target_arm64"
  by (simp add: bpf_target_def first_defined_def arch_macros_def numeral_3_eq_3)

end
