(* ===== verification/Spec2Isabelle.thy ===== *)
theory Spec2Isabelle
  imports System_Properties Idle_Flows Map_Reader Go_V6 Header_Properties C_Types Pt_Regs
begin

text \<open>
  Verification of kubpf, which accounts the network traffic of Kubernetes pods per flow.

  \<^bold>\<open>The program.\<close> An eBPF program attached to the pods' cgroup
  (\<open>ebpf/kernel/bpf_cgroup_kern.c\<close>) runs on every packet that enters or leaves a pod,
  reads addresses, protocol and ports, and counts the packet in one of two kernel hash
  maps, keyed by the flow in its inbound direction. A command (\<open>ebpf/user/map_reader.c\<close>)
  prints the IPv4 map. An agent (\<open>main.go\<close>, \<open>pkg/statsagent\<close>) loads the program through
  a script, follows pods and services through Kubernetes informers, reads the IPv4 map at
  an interval, adds what it finds to pods, services and pairs of both, shows the sums as
  Prometheus gauges, and deletes idle flows from the map.

  \<^bold>\<open>The packet program.\<close> \<open>Prelude\<close> has the shared collections, little-endian loads and
  decimal numerals, \<open>Runs\<close> what holds of runs of any system of actions (locales \<open>kept\<close>,
  \<open>safe\<close>, \<open>marked\<close>, \<open>budget\<close>, \<open>simulated\<close>). \<open>C_Layout\<close> computes offsets and sizes of C structures. \<open>Net_Headers\<close>
  has the header structures of \<open>ip.h\<close>, \<open>ipv6.h\<close>, \<open>tcp.h\<close>, \<open>udp.h\<close> and \<open>l3.h\<close>; \<open>Flow\<close> the
  keys, counters and normalisation of \<open>flow.h\<close>, with their bytes; \<open>Flow_Map\<close> the map
  definitions of \<open>ebpf_maps.h\<close> and the locale \<open>bpf_map\<close>, the laws of the map helpers,
  interpreted on a bounded hash map. \<open>Flow_Reader\<close> is \<open>bpf_flow_reader\<close> with its two entry
  points: a packet is its length and bytes, a pointer is an offset, a read past
  \<open>data_end\<close> is \<open>None\<close>. \<open>Flow_Accounting\<close> relates it to an abstract account of sums
  (locale \<open>flow_maps\<close>); \<open>Flow_Races\<close> takes the map accesses of several CPUs apart into
  atomic steps, and shows that they allow what \<open>count_flow\<close> can do alone and nothing else;
  \<open>Packet_Format\<close> builds packets from header fields; \<open>Endian\<close> is \<open>linux/bpf_endian.h\<close>. \<open>Kernel_Properties\<close> shows that no packet is dropped or read out of
  bounds, that counters are exact sums, that keys read back the packet, and what races
  and fragments do to the counts.

  \<^bold>\<open>The map reader.\<close> \<open>Net_Text\<close> has dotted addresses and the splitting of strings,
  \<open>Map_Reader\<close> the command, with the system calls as parameters (locale \<open>quiet_map\<close>).

  \<^bold>\<open>The agent.\<close> \<open>Go_Flow\<close> has the text of flows, the interface \<open>FlowKey\<close>
  (locale \<open>flow_key\<close>, interpreted on both kinds of flow) and the arithmetic on counters,
  \<open>Go_V6\<close> the text of IPv6 flows (\<open>inet_v6_flow.go\<close>);
  \<open>Agent_State\<close> the maps of pods and services and the informers' callbacks (\<open>agent.go\<close>,
  \<open>pods.go\<close>, \<open>services.go\<close>), with the table of live pods as their specification;
  \<open>Pod_Keys\<close> the keys and labels (\<open>metrics.go\<close>); \<open>Prom_Gauges\<close> the gauges
  (\<open>podsvcpromsubsystem.go\<close>); \<open>V4_Metrics\<close> is \<open>inet_v4_flow.go\<close>: \<open>mergeStats\<close>,
  \<open>UpdateStats\<close> and the deletion goroutine, on an explicit heap for the entries of the
  base map, because an aliased pointer decides what is added. \<open>Metrics_Facts\<close> and
  \<open>Metric_Updates\<close> give the specification of an update: the charges of a flow (locale
  \<open>statistic\<close>, interpreted on the maps of pods, services and pairs), and the base map
  without its heap. \<open>Agent_System\<close> puts the informers, the goroutine of \<open>runMetric\<close>, the
  single rounds of its scans and the deletions side by side as actions that can happen in
  any order, with what ends the process at any time: a tombstone, the status server failing,
  and Go's runtime seeing the tables written while a scan reads them without their mutex.
  \<open>Ledger\<close> is the abstract machine those runs implement, and the bill of a run;
  \<open>Gauges_Shown\<close> relates the gauges to the statistics (locale \<open>series\<close>).
  \<open>Startup\<close> is \<open>main.go\<close>, \<open>environment.go\<close>, the flags and the status page: the runs of the
  loading script (which may fail, or never end), the wait for the informers' cache (which
  may not end either), and the ticker's panic in a goroutine of its own, in a race with \<open>main\<close>.
  \<open>Agent_Properties\<close> and \<open>System_Properties\<close> show which flows an update charges and how
  entries age, that labels and tables are right, how a start comes out, what exactly ends
  a started agent, what its states keep, what whole runs charge, and where the agent gets
  stuck.
  \<open>Pod_Traffic\<close> joins the packet program and the agent (locale \<open>endpoints\<close>): sums by
  flow, added up by pod and by service, are sums over packets by pod and by service.
  \<open>Node\<close> runs both on one map, packets between the rounds of a scan and around deletions
  (locales \<open>deleting_maps\<close>, the law of the delete helper, and \<open>watched\<close>), and bounds the
  counters the agent holds by what has passed; it also shows why the bound needs
  deletions that succeed. Its node has ghost state, the packets passed, that no step reads.
  \<open>Idle_Flows\<close> follows one flow through the runs of that node: three rounds that find its
  counters where they were, whatever lies between them, and the deletion from both maps.

  \<^bold>\<open>The headers.\<close> \<open>C_Enum\<close>, \<open>Bpf_Enums\<close>, \<open>Bpf_Helpers\<close>, \<open>Bpf_Layouts\<close>, \<open>Bpf_Insn\<close> and
  \<open>Header_Macros\<close> hold the enumerations, helper declarations, structures, instruction
  fields and macros of the headers under \<open>ebpf/kernel/include\<close>; \<open>C_Types\<close> the type names
  of \<open>linux/types.h\<close>, with the layouts of 32-bit and 64-bit compilers compared; \<open>Pt_Regs\<close>
  the register accessors of \<open>bpf_helpers.h\<close>. \<open>Header_Properties\<close> shows that they fit
  together and round trips of the packed formats.

  \<^bold>\<open>Conventions.\<close> Machine integers are words of their width, so sums wrap. A panic or a
  fault is \<open>None\<close> or \<open>Panic\<close>, an early return a branch of the result. Go maps are partial
  functions where nothing iterates over them and association lists where something does;
  each round of those loops touches its own entry only, so their order does not matter.
  Loops are structural recursions; the only one that may not end, the command's, is a
  \<open>partial_function\<close>, and it is shown to end on a quiet map. No fuel is used. The target
  is little endian.

  \<^bold>\<open>Not modelled.\<close> The kernel's maps, the Prometheus and Kubernetes clients, the swab
  macros of \<open>linux/swab.h\<close>, the system calls and the shell script are parameters: of the
  script there is how it ends, not what it does. Log lines are left out. A callback of an
  informer is one step, and so is a round of a scan, although \<open>getPodStatsKey\<close> reads the
  tables without their lock: a callback comes between two rounds, or it meets one and
  the runtime ends the process (\<open>Collision\<close>); a read that meets a write unnoticed is
  taken to see the table before or after it. What the callbacks do while \<open>main\<close> waits for
  the cache counts as the first of what they do in the running agent. \<open>float64\<close> is the
  Go language's own conversion, to 53 significant bits. Not
  modelled are \<open>BPF_CORE_READ\<close>, \<open>bpf_printk\<close> and \<open>SEC\<close> of \<open>bpf_helpers.h\<close>, code that
  is compiled out, and the build and deployment files. More than half of \<open>bpf.h\<close> is the
  manual of the helper functions, in comments.
\<close>

section \<open>Traffic between two pods of a node\<close>

text \<open>What the two runs on one packet leave in the kernel map.\<close>

lemma both_ends_entries:
  assumes "flow_maps ops4 ops6" and "packet_flow (skb_data skb) = Some (V4_key k)"
    and "k \<noteq> reverse_v4 k"
    and "run_reader ops4 ops6 [(skb, CGROUP_EGRESS), (skb, CGROUP_INGRESS)] s = Some s'"
    and "trace s' = trace s"
    and "lookup_elem ops4 (v4_map s) k = None" "lookup_elem ops4 (v4_map s) (reverse_v4 k) = None"
  shows "lookup_elem ops4 (v4_map s') k = Some (packet_stats CGROUP_INGRESS (skb_len skb))"
    and "lookup_elem ops4 (v4_map s') (reverse_v4 k) = Some (packet_stats CGROUP_EGRESS (skb_len skb))"
proof -
  have view: "flow_view ops4 ops6 s' =
      account_packet (skb, CGROUP_INGRESS) (account_packet (skb, CGROUP_EGRESS) (flow_view ops4 ops6 s))"
    using flow_maps.run_reader_account [OF assms(1,4,5)] by simp
  have keys: "packet_key (skb, CGROUP_INGRESS) = Some (V4_key k)"
    "packet_key (skb, CGROUP_EGRESS) = Some (V4_key (reverse_v4 k))"
    using assms(2) by (simp_all add: packet_key_def normalize_flow_def)
  have old: "flow_view ops4 ops6 s (V4_key k) = None" "flow_view ops4 ops6 s (V4_key (reverse_v4 k)) = None"
    using assms(6,7) by (simp_all add: flow_view_def)
  have "flow_view ops4 ops6 s' (V4_key k) = Some (packet_stats CGROUP_INGRESS (skb_len skb))"
    "flow_view ops4 ops6 s' (V4_key (reverse_v4 k)) = Some (packet_stats CGROUP_EGRESS (skb_len skb))"
    using assms(3) old by (auto simp: view account_packet_def keys balance_def)
  then show "lookup_elem ops4 (v4_map s') k = Some (packet_stats CGROUP_INGRESS (skb_len skb))"
    "lookup_elem ops4 (v4_map s') (reverse_v4 k) = Some (packet_stats CGROUP_EGRESS (skb_len skb))"
    by (simp_all add: flow_view_def)
qed

text \<open>
  C16: Traffic between two pods of the same node is counted twice. The packet passes the
  program when it leaves the first pod and again when it enters the second, and the two
  runs charge two different flows, each the reverse of the other. The agent takes them
  for two flows and adds both to both pods: the sender's outgoing and the receiver's
  incoming counters grow by twice the packet's bytes and by two packets.
\<close>

theorem local_traffic_counted_twice:
  assumes "flow_maps ops4 ops6" and "packet_flow (skb_data skb) = Some (V4_key k)"
    and "run_reader ops4 ops6 [(skb, CGROUP_EGRESS), (skb, CGROUP_INGRESS)] s = Some s'"
    and "trace s' = trace s"
    and "lookup_elem ops4 (v4_map s) k = None" "lookup_elem ops4 (v4_map s) (reverse_v4 k) = None"
    and "UpdateStats agent subs t (Some [(k, the (lookup_elem ops4 (v4_map s') k)),
           (reverse_v4 k, the (lookup_elem ops4 (v4_map s') (reverse_v4 k)))]) m = Finished m'"
    and "metrics_wf m" and "base m k = None" and "base m (reverse_v4 k) = None"
    and "podIpToName agent (GetSrcIp k) = Some a" and "podIpToName agent (GetDstIp k) = Some b"
    and "svcIpToName agent (GetSrcIp k) = None" and "svcIpToName agent (GetDstIp k) = None"
    and "a \<noteq> ''''" and "b \<noteq> ''''" and "a \<noteq> b"
  shows "agg (podStatsMap (stats_of m')) \<lparr>ep0 = a, ep1 = ''''\<rparr> =
      add_stats (agg (podStatsMap (stats_of m)) \<lparr>ep0 = a, ep1 = ''''\<rparr>)
        \<lparr>out_bytes = 2 * ucast (skb_len skb), out_packets = 2, in_bytes = 0, in_packets = 0\<rparr> \<and>
    agg (podStatsMap (stats_of m')) \<lparr>ep0 = b, ep1 = ''''\<rparr> =
      add_stats (agg (podStatsMap (stats_of m)) \<lparr>ep0 = b, ep1 = ''''\<rparr>)
        \<lparr>out_bytes = 0, out_packets = 0, in_bytes = 2 * ucast (skb_len skb), in_packets = 2\<rparr>"
proof -
  have "GetSrcIp k \<noteq> GetSrcIp (reverse_v4 k)" using assms(11,12,17) by auto
  then have ne: "k \<noteq> reverse_v4 k" by metis
  note entries = both_ends_entries [OF assms(1,2) ne assms(3-6)]
  have keys: "getPodStatsKey v4_FlowKey agent k = (\<lparr>ep0 = a, ep1 = b\<rparr>, 3)"
    "getPodStatsKey v4_FlowKey agent (reverse_v4 k) = (\<lparr>ep0 = b, ep1 = a\<rparr>, 3)"
    using assms(11-16) by (simp_all add: getPodStatsKey_def key_type_defs)
  have "distinct (map fst [(k, the (lookup_elem ops4 (v4_map s') k)),
      (reverse_v4 k, the (lookup_elem ops4 (v4_map s') (reverse_v4 k)))])"
    using ne by simp
  note charges = pods.update_charges [OF assms(7,8) this]
  show ?thesis
    using charges [of "\<lparr>ep0 = a, ep1 = ''''\<rparr>"] charges [of "\<lparr>ep0 = b, ep1 = ''''\<rparr>"] assms(9,10,17)
    by (simp add: entries keys pod_charges_def src_key_def dst_key_def packet_stats_def fs_swap_def
        add_stats_def)
qed

lemma sample_key_eq: "sample_key = web_to_db"
  by (simp add: sample_key_def web_to_db_def flow_between_def)

lemma both_ends_trace:
  "trace (state_after [(sample_request, CGROUP_EGRESS), (sample_request, CGROUP_INGRESS)] 4) = []"
  by code_simp

theorem local_traffic_counted_twice_witness:
  "\<exists>entries m'. UpdateStats sample_agent prom 1 (Some entries) NewInetV4FlowMetricsEntry = Finished m' \<and>
     agg (podStatsMap (stats_of m')) \<lparr>ep0 = ''shop/web'', ep1 = ''''\<rparr> =
       \<lparr>out_bytes = 120, out_packets = 2, in_bytes = 0, in_packets = 0\<rparr>"
proof -
  let ?s' = "state_after [(sample_request, CGROUP_EGRESS), (sample_request, CGROUP_INGRESS)] 4"
  let ?entries = "[(web_to_db, the (lookup_elem hash_ops (v4_map ?s') web_to_db)),
    (reverse_v4 web_to_db, the (lookup_elem hash_ops (v4_map ?s') (reverse_v4 web_to_db)))]"
  obtain m' where run: "UpdateStats sample_agent prom 1 (Some ?entries) NewInetV4FlowMetricsEntry = Finished m'"
    using update_possible [OF start_ok] by blast
  have empty: "lookup_elem hash_ops (v4_map (empty_state 4)) key = None" for key
    by (simp add: empty_state_def hash_ops_def hm_lookup_def)
  have quiet: "trace ?s' = trace (empty_state 4)" by (simp add: both_ends_trace empty_state_def)
  have "agg (podStatsMap (stats_of m')) \<lparr>ep0 = ''shop/web'', ep1 = ''''\<rparr> =
      add_stats (agg (podStatsMap (stats_of NewInetV4FlowMetricsEntry)) \<lparr>ep0 = ''shop/web'', ep1 = ''''\<rparr>)
        \<lparr>out_bytes = 2 * ucast (skb_len sample_request), out_packets = 2, in_bytes = 0, in_packets = 0\<rparr>"
    by (rule conjunct1 [OF local_traffic_counted_twice [OF hash_maps.flow_maps_axioms
          sample_request_flow [unfolded sample_key_eq] run_state_after quiet empty empty run
          new_metrics_wf, where b = "''shop/db''"]])
       (simp_all add: start_state sample_agent_eq sample_flow_text)
  then have "agg (podStatsMap (stats_of m')) \<lparr>ep0 = ''shop/web'', ep1 = ''''\<rparr> =
      \<lparr>out_bytes = 120, out_packets = 2, in_bytes = 0, in_packets = 0\<rparr>"
    by (simp add: start_state sample_request_def)
  with run show ?thesis by blast
qed

section \<open>From packets to pods\<close>

text \<open>
  C5: The two programs together count traffic by pod and by service. When the packet
  program has run on a sequence of packets from empty maps without a trace line, and the
  agent's first scan then reads the IPv4 map, every pod's aggregate holds the bytes and
  the number of the IPv4 packets with the pod's address as source in its "out" counters
  and of those with it as destination in its "in" counters, whichever hook saw them and
  however they were spread over flows; likewise for services.
\<close>

theorem first_update_shows_traffic:
  assumes "flow_maps ops4 ops6" and "run_reader ops4 ops6 ps s = Some s'" and "trace s' = trace s"
    and "\<And>k. lookup_elem ops4 (v4_map s) k = None"
    and "distinct (map fst entries)" and "map_of entries = lookup_elem ops4 (v4_map s')"
    and "UpdateStats agent subs t (Some entries) NewInetV4FlowMetricsEntry = Finished m'"
    and "well_named agent"
  shows "agg (podStatsMap (stats_of m')) \<lparr>ep0 = name, ep1 = ''''\<rparr> = traffic (podIpToName agent) name ps \<and>
    agg (svcStatsMap (stats_of m')) \<lparr>ep0 = name, ep1 = ''''\<rparr> = traffic (svc_at agent) name ps"
proof -
  have "agg [] k = zero_stats" for k by (simp add: agg_def)
  then show ?thesis
    using pod_ends.update_shows_traffic [OF assms(1-7) new_metrics_wf start_state(1) assms(8)]
      svc_ends.update_shows_traffic [OF assms(1-7) new_metrics_wf start_state(1) assms(8)]
    by (simp add: start_state NewInetV4FlowMetricsEntry_def no_maps_def)
qed

lemma sample_traffic:
  "traffic (podIpToName sample_agent) ''shop/web'' [(sample_request, CGROUP_INGRESS), (sample_reply, CGROUP_EGRESS)] =
     \<lparr>out_bytes = 60, out_packets = 1, in_bytes = 1500, in_packets = 1\<rparr>"
  by code_simp

theorem first_update_shows_traffic_witness:
  "\<exists>entries m'. UpdateStats sample_agent prom 1 (Some entries) NewInetV4FlowMetricsEntry = Finished m' \<and>
     agg (podStatsMap (stats_of m')) \<lparr>ep0 = ''shop/web'', ep1 = ''''\<rparr> =
       \<lparr>out_bytes = 60, out_packets = 1, in_bytes = 1500, in_packets = 1\<rparr>"
proof -
  let ?ps = "[(sample_request, CGROUP_INGRESS), (sample_reply, CGROUP_EGRESS)]"
  let ?entries = "hm_entries (v4_map (state_after ?ps 4))"
  obtain m' where run: "UpdateStats sample_agent prom 1 (Some ?entries) NewInetV4FlowMetricsEntry = Finished m'"
    using update_possible [OF start_ok] by blast
  have empty: "lookup_elem hash_ops (v4_map (empty_state 4)) key = None" for key
    by (simp add: empty_state_def hash_ops_def hm_lookup_def)
  have quiet: "trace (state_after ?ps 4) = trace (empty_state 4)"
    by (simp add: sample_trace empty_state_def)
  have once: "distinct (map fst ?entries)" by code_simp
  have all: "map_of ?entries = lookup_elem hash_ops (v4_map (state_after ?ps 4))"
    by (simp add: hash_ops_def hm_lookup_def fun_eq_iff)
  have "well_named sample_agent" by (simp add: well_named_def sample_agent_eq)
  with first_update_shows_traffic [OF hash_maps.flow_maps_axioms run_state_after quiet empty once all run]
    run sample_traffic show ?thesis by metis
qed


end
